(* ===== verification/Prelude.thy ===== *)
theory Prelude
  imports Main "HOL-Library.Sublist"
begin

text \<open>
  Shared vocabulary of the development: collections of rewrite rules, the result type of
  the fallible operations, and the generic facts on lists, maps over rows and sorted
  selections that the component theories use.
\<close>

named_theorems world_simps \<open>how an operation changes the clock, the script and the tables\<close>

section \<open>Errors as values\<close>

text \<open>
  Go reports a failure as a second result. A sentinel error of the package is
  \<open>Sentinel\<close>, a message built on the spot with \<open>errors.New\<close> is \<open>Msg\<close>, the
  \<open>sql.ErrNoRows\<close> of the standard library is \<open>NoRows\<close>, and anything that the
  database or the driver returns is \<open>Driver\<close>.
\<close>

datatype 'e fault = Driver | NoRows | Msg string | Sentinel 'e

type_synonym ('e, 'a) result = "'e fault + 'a"

text \<open>A check whose error is returned, and whose value the rest of the function uses.\<close>

definition and_then :: "'e + 'a \<Rightarrow> ('a \<Rightarrow> 'e + 'b) \<Rightarrow> 'e + 'b" where
  "and_then x k = (case x of Inl e \<Rightarrow> Inl e | Inr a \<Rightarrow> k a)"

lemma and_then_simps [simp]: "and_then (Inl e) k = Inl e" "and_then (Inr a) k = k a"
  by (simp_all add: and_then_def)

lemma and_then_InrE:
  assumes "and_then x k = Inr b"
  obtains a where "x = Inr a" "k a = Inr b"
  using assms by (cases x) auto

lemma if_InrE:
  assumes "(if b then Inl e else x) = Inr a"
  obtains "\<not> b" "x = Inr a"
  using assms by (auto split: if_splits)

section \<open>Rows selected, changed and counted by a predicate\<close>

definition update_where :: "('r \<Rightarrow> bool) \<Rightarrow> ('r \<Rightarrow> 'r) \<Rightarrow> 'r list \<Rightarrow> 'r list" where
  "update_where P f rs = map (\<lambda>r. if P r then f r else r) rs"

text \<open>
  The number an UPDATE reports. MySQL reports the rows it changed; with the driver option
  \<open>clientFoundRows=true\<close> it reports the rows that matched.
\<close>

definition affected_rows :: "bool \<Rightarrow> ('r \<Rightarrow> bool) \<Rightarrow> ('r \<Rightarrow> 'r) \<Rightarrow> 'r list \<Rightarrow> nat" where
  "affected_rows found P f rs =
     length (filter (\<lambda>r. P r \<and> (found \<or> f r \<noteq> r)) rs)"

lemma update_where_Nil [simp]: "update_where P f [] = []"
  by (simp add: update_where_def)

lemma update_where_Cons [simp]:
  "update_where P f (r # rs) = (if P r then f r else r) # update_where P f rs"
  by (simp add: update_where_def)

lemma length_update_where [simp]: "length (update_where P f rs) = length rs"
  by (simp add: update_where_def)

lemma map_update_where:
  assumes "\<And>r. P r \<Longrightarrow> g (f r) = g r"
  shows "map g (update_where P f rs) = map g rs"
  using assms by (simp add: update_where_def)

lemma set_update_where:
  "set (update_where P f rs) = f ` {r \<in> set rs. P r} \<union> {r \<in> set rs. \<not> P r}"
  by (induction rs) auto

lemma update_where_cases:
  assumes "r \<in> set (update_where P f rs)"
  obtains s where "s \<in> set rs" "P s" "r = f s" | "r \<in> set rs" "\<not> P r"
  using assms by (auto simp: set_update_where)

lemma update_where_none:
  assumes "\<And>r. r \<in> set rs \<Longrightarrow> \<not> P r"
  shows "update_where P f rs = rs"
  using assms by (induction rs) auto

lemma update_where_fix:
  assumes "\<And>r. r \<in> set rs \<Longrightarrow> P r \<Longrightarrow> f r = r"
  shows "update_where P f rs = rs"
  using assms by (induction rs) auto

lemma affected_rows_zero_iff:
  "affected_rows found P f rs = 0 \<longleftrightarrow> (\<forall>r\<in>set rs. \<not> (P r \<and> (found \<or> f r \<noteq> r)))"
  by (auto simp: affected_rows_def filter_empty_conv)

lemma affected_rows_zero_unchanged:
  "affected_rows found P f rs = 0 \<Longrightarrow> update_where P f rs = rs"
  by (rule update_where_fix) (auto simp: affected_rows_zero_iff)

lemma find_Some_set: "List.find P xs = Some x \<Longrightarrow> x \<in> set xs \<and> P x"
  by (auto simp: find_Some_iff)

lemma find_distinct_key:
  assumes "distinct (map k rs)" and "r \<in> set rs"
  shows "List.find (\<lambda>s. k s = k r) rs = Some r"
  using assms by (induction rs) (auto simp: image_iff)

lemma find_update_where_key:
  assumes "\<And>r. k (f r) = k r"
  shows "List.find (\<lambda>s. k s = i) (update_where (\<lambda>s. k s = i) f rs)
         = map_option f (List.find (\<lambda>s. k s = i) rs)"
  using assms by (induction rs) auto

lemma find_update_where_other:
  assumes "\<And>r. k (f r) = k r" and "\<And>r. P r \<Longrightarrow> k r \<noteq> i"
  shows "List.find (\<lambda>s. k s = i) (update_where P f rs) = List.find (\<lambda>s. k s = i) rs"
  using assms by (induction rs) auto

lemma find_update_where_guard:
  assumes "\<And>r. k (g r) = k r" and "List.find (\<lambda>s. k s = i) rs = Some r" and "P r"
  shows "List.find (\<lambda>s. k s = i) (update_where P g rs) = Some (g r)"
  using assms by (induction rs) (auto split: if_splits)

lemma distinct_map_eqD:
  "distinct (map k rs) \<Longrightarrow> r \<in> set rs \<Longrightarrow> s \<in> set rs \<Longrightarrow> k r = k s \<Longrightarrow> r = s"
  by (induction rs) (auto simp: image_iff)

lemma if_SomeD: "(if b then Some p else None) = Some q \<Longrightarrow> b \<and> q = p"
  by (simp split: if_splits)

section \<open>Lists of optional values\<close>

fun all_some :: "'a option list \<Rightarrow> 'a list option" where
  "all_some [] = Some []"
| "all_some (x # xs) = (case x of None \<Rightarrow> None | Some y \<Rightarrow> map_option ((#) y) (all_some xs))"

lemma all_some_map_Some [simp]: "all_some (map (\<lambda>x. Some (f x)) xs) = Some (map f xs)"
  by (induction xs) auto

section \<open>Newest-first selections\<close>

text \<open>\<open>ORDER BY id DESC LIMIT n\<close> and \<open>ORDER BY id ASC\<close> over a list of rows.\<close>

definition newest_first :: "('r \<Rightarrow> int) \<Rightarrow> 'r list \<Rightarrow> 'r list" where
  "newest_first k rs = sort_key (\<lambda>r. - k r) rs"

lemma set_newest_first [simp]: "set (newest_first k rs) = set rs"
  by (simp add: newest_first_def)

lemma length_newest_first [simp]: "length (newest_first k rs) = length rs"
  by (simp add: newest_first_def)

lemma sorted_newest_first: "sorted_wrt (\<lambda>a b. k b \<le> k a) (newest_first k rs)"
proof -
  have "sorted (map (\<lambda>r. - k r) (newest_first k rs))"
    by (simp add: newest_first_def)
  then show ?thesis
    by (simp add: sorted_wrt_map)
qed

lemma take_subset: "x \<in> set (take n xs) \<Longrightarrow> x \<in> set xs"
  by (rule in_set_takeD)

end
