(* ===== verification/Go_Strings.thy ===== *)
theory Go_Strings
  imports Prelude
begin

text \<open>
  The parts of Go's \<open>strings\<close>, \<open>strconv\<close> and \<open>encoding/hex\<close> packages that the
  program uses, on strings as byte lists. A Go string is a sequence of bytes, so
  \<open>length\<close> is Go's \<open>len\<close>. White space is Unicode white space in its UTF-8 encoding.
\<close>

section \<open>Trimming white space\<close>

definition space_seqs :: "string list" where
  "space_seqs = map (map char_of)
     [[9::nat], [10], [11], [12], [13], [32], [0xC2, 0x85], [0xC2, 0xA0],
      [0xE1, 0x9A, 0x80],
      [0xE2, 0x80, 0x80], [0xE2, 0x80, 0x81], [0xE2, 0x80, 0x82], [0xE2, 0x80, 0x83],
      [0xE2, 0x80, 0x84], [0xE2, 0x80, 0x85], [0xE2, 0x80, 0x86], [0xE2, 0x80, 0x87],
      [0xE2, 0x80, 0x88], [0xE2, 0x80, 0x89], [0xE2, 0x80, 0x8A],
      [0xE2, 0x80, 0xA8], [0xE2, 0x80, 0xA9], [0xE2, 0x80, 0xAF],
      [0xE2, 0x81, 0x9F], [0xE3, 0x80, 0x80]]"

definition starts_with_any :: "string list \<Rightarrow> string \<Rightarrow> string option" where
  "starts_with_any ps s = List.find (\<lambda>p. p \<noteq> [] \<and> take (length p) s = p) ps"

function strip_front :: "string list \<Rightarrow> string \<Rightarrow> string" where
  "strip_front ps s =
     (case starts_with_any ps s of None \<Rightarrow> s | Some p \<Rightarrow> strip_front ps (drop (length p) s))"
  by pat_completeness auto
termination
proof (relation "measure (\<lambda>(ps, s). length s)")
  show "wf (measure (\<lambda>(ps :: string list, s :: string). length s))"
    by simp
next
  fix ps :: "string list" and s p :: string
  assume "starts_with_any ps s = Some p"
  then have "p \<noteq> []" and "take (length p) s = p"
    by (auto simp: starts_with_any_def dest: find_Some_set)
  moreover from this have "s \<noteq> []" by auto
  ultimately show "((ps, drop (length p) s), ps, s) \<in> measure (\<lambda>(ps, s). length s)"
    by simp
qed

declare strip_front.simps [simp del]

definition TrimSpace :: "string \<Rightarrow> string" where
  "TrimSpace s = rev (strip_front (map rev space_seqs) (rev (strip_front space_seqs s)))"

lemma strip_front_fix: "starts_with_any ps (strip_front ps s) = None"
proof (induction ps s rule: strip_front.induct)
  case (1 ps s)
  show ?case
    by (cases "starts_with_any ps s") (use 1 in \<open>auto simp: strip_front.simps [of ps s]\<close>)
qed

lemma strip_front_id: "starts_with_any ps s = None \<Longrightarrow> strip_front ps s = s"
  by (simp add: strip_front.simps)

lemma strip_front_suffix: "suffix (strip_front ps s) s"
proof (induction ps s rule: strip_front.induct)
  case (1 ps s)
  show ?case
  proof (cases "starts_with_any ps s")
    case None
    then show ?thesis by (simp add: strip_front.simps)
  next
    case (Some p)
    with 1 have "suffix (strip_front ps (drop (length p) s)) (drop (length p) s)" by simp
    moreover have "suffix (drop (length p) s) s" by (rule suffix_drop)
    ultimately show ?thesis using Some by (simp add: strip_front.simps [of ps s])
  qed
qed

lemma starts_with_any_prefix:
  assumes "prefix t s" and "starts_with_any ps s = None"
  shows "starts_with_any ps t = None"
proof -
  from assms(1) obtain u where s: "s = t @ u" by (auto simp: prefix_def)
  have "take (length p) t \<noteq> p" if "p \<in> set ps" "p \<noteq> []" for p
  proof
    assume *: "take (length p) t = p"
    then have "length p \<le> length t" by (metis length_take min.absorb_iff2 nat_le_linear)
    with * s have "take (length p) s = p" by simp
    with assms(2) that show False by (auto simp: starts_with_any_def find_None_iff)
  qed
  then show ?thesis by (auto simp: starts_with_any_def find_None_iff)
qed

text \<open>Trimming twice is trimming once.\<close>

lemma TrimSpace_idem [simp]: "TrimSpace (TrimSpace s) = TrimSpace s"
proof -
  let ?l = "strip_front space_seqs s"
  let ?r = "strip_front (map rev space_seqs) (rev ?l)"
  have "prefix (rev ?r) ?l"
    using strip_front_suffix [of "map rev space_seqs" "rev ?l"] by (simp add: suffix_to_prefix)
  then have "starts_with_any space_seqs (rev ?r) = None"
    using strip_front_fix by (rule starts_with_any_prefix)
  then have "strip_front space_seqs (rev ?r) = rev ?r" by (rule strip_front_id)
  moreover have "strip_front (map rev space_seqs) ?r = ?r"
    by (rule strip_front_id) (rule strip_front_fix)
  ultimately show ?thesis by (simp add: TrimSpace_def)
qed

lemma length_TrimSpace: "length (TrimSpace s) \<le> length s"
proof -
  have "length (strip_front ps t) \<le> length t" for ps t
    using strip_front_suffix by (rule suffix_length_le)
  from this [of "map rev space_seqs" "rev (strip_front space_seqs s)"]
    this [of space_seqs s]
  show ?thesis by (simp add: TrimSpace_def)
qed

lemma TrimSpace_Nil [simp]: "TrimSpace [] = []"
  using length_TrimSpace [of "[]"] by simp

text \<open>A string that begins and ends with a visible ASCII byte is left alone.\<close>

definition visible :: "char \<Rightarrow> bool" where
  "visible c \<longleftrightarrow> 33 \<le> (of_char c :: nat) \<and> (of_char c :: nat) < 127"

lemma starts_with_visible:
  assumes "visible c"
  shows "starts_with_any space_seqs (c # cs) = None"
    and "starts_with_any (map rev space_seqs) (c # cs) = None"
proof -
  have ne: "c \<noteq> char_of n" if "n < 33 \<or> 127 \<le> n \<and> n < 256" for n :: nat
    using assms that by (auto simp: visible_def)
  show "starts_with_any space_seqs (c # cs) = None"
    unfolding starts_with_any_def find_None_iff space_seqs_def
    by (auto simp: ne)
  show "starts_with_any (map rev space_seqs) (c # cs) = None"
    unfolding starts_with_any_def find_None_iff space_seqs_def
    by (auto simp: ne)
qed

lemma TrimSpace_visible:
  assumes "s \<noteq> []" and "visible (hd s)" and "visible (last s)"
  shows "TrimSpace s = s"
proof -
  from assms(1,2) have "strip_front space_seqs s = s"
    by (cases s) (auto intro: strip_front_id simp: starts_with_visible)
  moreover have "strip_front (map rev space_seqs) (rev s) = rev s"
  proof (rule strip_front_id)
    from assms(1) have "rev s = last s # tl (rev s)" by (metis hd_Cons_tl hd_rev rev_is_Nil_conv)
    then show "starts_with_any (map rev space_seqs) (rev s) = None"
      using starts_with_visible(2) [OF assms(3)] by metis
  qed
  ultimately show ?thesis by (simp add: TrimSpace_def)
qed

text \<open>A visible byte is never trimmed away.\<close>

lemma strip_front_keeps:
  assumes "\<forall>p\<in>set ps. \<forall>x\<in>set p. \<not> visible x" and "c \<in> set s" and "visible c"
  shows "c \<in> set (strip_front ps s)"
  using assms
proof (induction ps s rule: strip_front.induct)
  case (1 ps s)
  show ?case
  proof (cases "starts_with_any ps s")
    case None
    with 1 show ?thesis by (simp add: strip_front.simps)
  next
    case (Some p)
    then have p: "p \<in> set ps" "take (length p) s = p" by (auto simp: starts_with_any_def find_Some_iff)
    with 1(2,4) have "c \<notin> set (take (length p) s)" by auto
    with 1(3) have "c \<in> set (drop (length p) s)" by (metis Un_iff append_take_drop_id set_append)
    with 1 Some show ?thesis by (simp add: strip_front.simps [of ps s])
  qed
qed

lemma TrimSpace_keeps_visible:
  assumes "c \<in> set s" and "visible c"
  shows "TrimSpace s \<noteq> []"
proof -
  have "\<forall>p\<in>set space_seqs. \<forall>x\<in>set p. \<not> visible x" by (auto simp: space_seqs_def visible_def)
  moreover from this assms have "c \<in> set (strip_front space_seqs s)" by (rule strip_front_keeps)
  ultimately have "c \<in> set (strip_front (map rev space_seqs) (rev (strip_front space_seqs s)))"
    using assms(2) by (intro strip_front_keeps) auto
  then show ?thesis by (auto simp: TrimSpace_def)
qed

section \<open>Prefixes, suffixes, case\<close>

definition HasPrefix :: "string \<Rightarrow> string \<Rightarrow> bool" where
  "HasPrefix s p \<longleftrightarrow> take (length p) s = p"

definition HasSuffix :: "string \<Rightarrow> string \<Rightarrow> bool" where
  "HasSuffix s p \<longleftrightarrow> length p \<le> length s \<and> drop (length s - length p) s = p"

definition TrimPrefix :: "string \<Rightarrow> string \<Rightarrow> string" where
  "TrimPrefix s p = (if HasPrefix s p then drop (length p) s else s)"

definition TrimSuffix :: "string \<Rightarrow> string \<Rightarrow> string" where
  "TrimSuffix s p = (if HasSuffix s p then take (length s - length p) s else s)"

lemma HasPrefix_append [simp]: "HasPrefix (p @ s) p"
  by (simp add: HasPrefix_def)

lemma HasPrefixD: "HasPrefix s p \<Longrightarrow> s = p @ drop (length p) s"
  by (metis HasPrefix_def append_take_drop_id)

lemma TrimPrefix_append [simp]: "TrimPrefix (p @ s) p = s"
  by (simp add: TrimPrefix_def)

definition lower_char :: "char \<Rightarrow> char" where
  "lower_char c = (let n = (of_char c :: nat) in
     if 65 \<le> n \<and> n \<le> 90 then char_of (n + 32) else c)"

definition ascii_lower :: "string \<Rightarrow> string" where
  "ascii_lower s = map lower_char s"

text \<open>
  \<open>strings.EqualFold\<close> against a literal whose letters have no non-ASCII case variant
  (such as \<open>Bearer\<close> and \<open>http\<close>) is equality up to ASCII case.
\<close>

definition EqualFold_ascii :: "string \<Rightarrow> string \<Rightarrow> bool" where
  "EqualFold_ascii s t \<longleftrightarrow> ascii_lower s = ascii_lower t"

lemma EqualFold_ascii_length: "EqualFold_ascii s t \<Longrightarrow> length s = length t"
  unfolding EqualFold_ascii_def ascii_lower_def by (rule map_eq_imp_length_eq)

text \<open>
  \<open>strings.ToLower\<close>, exact on ASCII; other letters are left as they are.
\<close>

abbreviation ToLower :: "string \<Rightarrow> string" where
  "ToLower \<equiv> ascii_lower"

section \<open>Splitting\<close>

text \<open>\<open>strings.Split\<close> with a separator of one byte.\<close>

fun Split :: "char \<Rightarrow> string \<Rightarrow> string list" where
  "Split sep [] = [[]]"
| "Split sep (c # cs) =
     (if c = sep then [] # Split sep cs
      else case Split sep cs of [] \<Rightarrow> [[c]] | f # fs \<Rightarrow> (c # f) # fs)"

lemma Split_ne [simp]: "Split sep s \<noteq> []"
  by (induction s) (auto split: list.split)

lemma Split_none: "sep \<notin> set s \<Longrightarrow> Split sep s = [s]"
  by (induction s) auto

lemma Split_append: "sep \<notin> set s \<Longrightarrow> Split sep (s @ sep # t) = s # Split sep t"
  by (induction s) auto

section \<open>Decimal numbers\<close>

definition digit_char :: "nat \<Rightarrow> char" where
  "digit_char d = char_of (48 + d)"

definition char_digit :: "char \<Rightarrow> nat option" where
  "char_digit c = (let n = (of_char c :: nat) in if 48 \<le> n \<and> n \<le> 57 then Some (n - 48) else None)"

fun nat_str :: "nat \<Rightarrow> string" where
  "nat_str n = (if n < 10 then [digit_char n] else nat_str (n div 10) @ [digit_char (n mod 10)])"

declare nat_str.simps [simp del]

definition Itoa :: "int \<Rightarrow> string" where
  "Itoa i = (if i < 0 then CHR ''-'' # nat_str (nat (- i)) else nat_str (nat i))"

fun digits_value :: "nat \<Rightarrow> string \<Rightarrow> nat option" where
  "digits_value acc [] = Some acc"
| "digits_value acc (c # cs) =
     (case char_digit c of None \<Rightarrow> None | Some d \<Rightarrow> digits_value (10 * acc + d) cs)"

text \<open>
  \<open>strconv.ParseInt(s, 10, 64)\<close> and, on a 64-bit platform, \<open>strconv.Atoi\<close>: an optional
  sign, at least one digit, nothing else, and a value that fits 64 bits.
\<close>

definition ParseInt :: "string \<Rightarrow> int option" where
  "ParseInt s =
     (let neg = (take 1 s = ''-'');
          ds = (if take 1 s = ''-'' \<or> take 1 s = ''+'' then drop 1 s else s)
      in if ds = [] then None
         else case digits_value 0 ds of
                None \<Rightarrow> None
              | Some n \<Rightarrow> (let v = (if neg then - int n else int n) in
                  if - (2 ^ 63) \<le> v \<and> v < 2 ^ 63 then Some v else None))"

abbreviation Atoi :: "string \<Rightarrow> int option" where
  "Atoi \<equiv> ParseInt"

lemma char_digit_digit_char [simp]: "d < 10 \<Longrightarrow> char_digit (digit_char d) = Some d"
  by (simp add: char_digit_def digit_char_def)

lemma digits_value_append:
  "digits_value acc (xs @ ys) = (case digits_value acc xs of None \<Rightarrow> None | Some n \<Rightarrow> digits_value n ys)"
  by (induction acc xs rule: digits_value.induct) (auto split: option.splits)

lemma nat_str_ne [simp]: "nat_str n \<noteq> []"
  by (subst nat_str.simps) simp

lemma digits_value_nat_str [simp]: "digits_value 0 (nat_str n) = Some n"
proof (induction n rule: nat_str.induct)
  case (1 n)
  show ?case
  proof (cases "n < 10")
    case True
    then show ?thesis by (simp add: nat_str.simps [of n])
  next
    case False
    with 1 have "digits_value 0 (nat_str (n div 10)) = Some (n div 10)" by simp
    with False show ?thesis by (simp add: nat_str.simps [of n] digits_value_append)
  qed
qed

lemma set_nat_str: "c \<in> set (nat_str n) \<Longrightarrow> \<exists>d<10. c = digit_char d"
proof (induction n rule: nat_str.induct)
  case (1 n)
  then show ?case
    by (cases "n < 10") (auto simp: nat_str.simps [of n] intro: exI [of _ "n mod 10"])
qed

lemma hd_nat_str: "\<exists>d<10. hd (nat_str n) = digit_char d"
  using set_nat_str [of "hd (nat_str n)" n] by simp

lemma digit_char_props:
  assumes "d < 10"
  shows "digit_char d \<noteq> CHR ''-''" and "digit_char d \<noteq> CHR ''+''" and "visible (digit_char d)"
proof -
  have n: "of_char (digit_char d) = 48 + d"
    using assms by (simp add: digit_char_def)
  show "visible (digit_char d)" using assms n by (simp add: visible_def)
  show "digit_char d \<noteq> CHR ''-''"
  proof
    assume "digit_char d = CHR ''-''"
    then have "of_char (digit_char d) = (45 :: nat)" by simp
    with n show False by simp
  qed
  show "digit_char d \<noteq> CHR ''+''"
  proof
    assume "digit_char d = CHR ''+''"
    then have "of_char (digit_char d) = (43 :: nat)" by simp
    with n show False by simp
  qed
qed

lemma take_one: "xs \<noteq> [] \<Longrightarrow> take 1 xs = [hd xs]"
  by (cases xs) auto

lemma ParseInt_nat_str: "n < 2 ^ 63 \<Longrightarrow> ParseInt (nat_str n) = Some (int n)"
proof -
  assume n: "n < 2 ^ 63"
  obtain d where d: "d < 10" "hd (nat_str n) = digit_char d" using hd_nat_str by blast
  have "take 1 (nat_str n) = [digit_char d]"
    using d by (simp only: take_one [OF nat_str_ne])
  moreover from n have "int n < 2 ^ 63" by (metis of_nat_less_iff of_nat_numeral of_nat_power)
  ultimately show ?thesis
    using digit_char_props [OF d(1)] by (auto simp: ParseInt_def)
qed

lemma ParseInt_Itoa: "0 \<le> i \<Longrightarrow> i < 2 ^ 63 \<Longrightarrow> ParseInt (Itoa i) = Some i"
  using ParseInt_nat_str [of "nat i"] by (simp add: Itoa_def nat_less_iff)

lemma TrimSpace_nat_str [simp]: "TrimSpace (nat_str n) = nat_str n"
proof (rule TrimSpace_visible)
  show "visible (hd (nat_str n))" using hd_nat_str digit_char_props(3) by metis
  have "last (nat_str n) \<in> set (nat_str n)" by simp
  then show "visible (last (nat_str n))" using set_nat_str digit_char_props(3) by metis
qed simp

section \<open>Hexadecimal\<close>

definition hex_digit :: "nat \<Rightarrow> char" where
  "hex_digit n = (if n < 10 then char_of (48 + n) else char_of (87 + n))"

definition hex_encode :: "string \<Rightarrow> string" where
  "hex_encode bs = concat (map (\<lambda>b. [hex_digit (of_char b div 16), hex_digit (of_char b mod 16)]) bs)"

lemma hex_encode_simps [simp]:
  "hex_encode [] = []"
  "hex_encode (b # bs) = hex_digit (of_char b div 16) # hex_digit (of_char b mod 16) # hex_encode bs"
  by (simp_all add: hex_encode_def)

lemma length_hex_encode [simp]: "length (hex_encode bs) = 2 * length bs"
  by (induction bs) auto

lemma hex_digit_inj: "m < 16 \<Longrightarrow> n < 16 \<Longrightarrow> hex_digit m = hex_digit n \<Longrightarrow> m = n"
proof -
  assume mn: "m < 16" "n < 16" and eq: "hex_digit m = hex_digit n"
  have v: "of_char (hex_digit k) = (if k < 10 then 48 + k else 87 + k)" if "k < 16" for k :: nat
    using that by (simp add: hex_digit_def)
  from eq have "(of_char (hex_digit m) :: nat) = of_char (hex_digit n)" by simp
  with v [OF mn(1)] v [OF mn(2)] show "m = n" by (auto split: if_splits)
qed

lemma char_div16 [simp]: "(of_char c :: nat) div 16 < 16"
proof -
  have "(of_char c :: nat) < 16 * 16" using nat_of_char_less_256 [of c] by simp
  then show ?thesis by (rule less_mult_imp_div_less)
qed

lemma hex_encode_inj: "hex_encode xs = hex_encode ys \<Longrightarrow> xs = ys"
proof (induction xs arbitrary: ys)
  case Nil
  then show ?case by (cases ys) auto
next
  case (Cons x xs)
  then obtain y ys' where ys: "ys = y # ys'" by (cases ys) auto
  from Cons.prems ys have d: "hex_digit (of_char x div 16) = hex_digit (of_char y div 16)"
    and m: "hex_digit (of_char x mod 16) = hex_digit (of_char y mod 16)"
    and r: "hex_encode xs = hex_encode ys'" by auto
  have "(of_char x :: nat) div 16 = of_char y div 16"
    by (rule hex_digit_inj) (use d in simp_all)
  moreover have "(of_char x :: nat) mod 16 = of_char y mod 16"
    by (rule hex_digit_inj) (use m in auto)
  ultimately have "(of_char x :: nat) = of_char y" by (metis div_mult_mod_eq)
  then have "x = y" by simp
  with Cons.IH [OF r] ys show ?case by simp
qed

lemma set_hex_encode:
  assumes "c \<in> set (hex_encode bs)"
  shows "48 \<le> (of_char c :: nat) \<and> (of_char c :: nat) \<le> 57 \<or> 97 \<le> (of_char c :: nat) \<and> (of_char c :: nat) \<le> 102"
proof -
  have h: "48 \<le> (of_char (hex_digit n) :: nat) \<and> (of_char (hex_digit n) :: nat) \<le> 57
      \<or> 97 \<le> (of_char (hex_digit n) :: nat) \<and> (of_char (hex_digit n) :: nat) \<le> 102" if "n < 16" for n
    using that by (auto simp: hex_digit_def)
  have m: "(of_char x :: nat) mod 16 < 16" for x :: char by simp
  from assms obtain b where "c = hex_digit (of_char b div 16) \<or> c = hex_digit (of_char b mod 16)"
    by (auto simp: hex_encode_def)
  then show ?thesis using h [OF char_div16 [of b]] h [OF m [of b]] by blast
qed

end
