(* ===== verification/Config.thy ===== *)
theory Config
  imports Go_Strings
begin

text \<open>
  config/config.go: the runtime configuration read from the environment. \<open>env\<close> is
  \<open>os.Getenv\<close> (an unset variable reads as the empty string), and whether a text is a
  network prefix is decided by \<open>netip.ParsePrefix\<close>, the parameter \<open>is_prefix\<close>.
  Durations are nanoseconds.
\<close>

datatype SameSite = SameSiteLaxMode | SameSiteStrictMode | SameSiteNoneMode

record config =
  APIPort :: string
  DBHost :: string
  DBPort :: string
  DBUser :: string
  DBPass :: string
  DBName :: string
  CORSAllowedOrigins :: "string list"
  JWTSecret :: string
  JWTIssuer :: string
  JWTAudience :: string
  JWTAccessTTL :: int
  OperatorInviteTTL :: int
  JoinTokenTTL :: int
  DesktopExchangeCodeTTL :: int
  DesktopExchangeCallbackHosts :: "string list"
  PlatformClientID :: string
  PlatformClientSecret :: string
  MigrationExpectedVersion :: int
  GinMode :: string
  SessionCookieName :: string
  SessionCookieSecure :: bool
  SessionSameSiteMode :: SameSite
  SessionIdleTTL :: int
  SessionAbsoluteTTL :: int
  AuthBootstrapEnabled :: bool
  AuthBootstrapAllowedCIDRs :: "string list"
  JWTActiveKeyID :: string
  JWTSecretPrevious :: string
  CSRFCookieName :: string
  CSRFHeaderName :: string
  OIDCIssuerURL :: string
  OIDCAudience :: string
  RedisURL :: string
  TrustedProxies :: "string list"

text \<open>\<open>errors.New(m)\<close>, and \<open>fmt.Errorf\<close> with a message and the quoted value.\<close>

datatype config_error = Error string | Errorf string string

definition envOrDefault :: "(string \<Rightarrow> string) \<Rightarrow> string \<Rightarrow> string \<Rightarrow> string" where
  "envOrDefault env key fallback = (let v = env key in if v \<noteq> '''' then v else fallback)"

definition truthy :: "string \<Rightarrow> bool" where
  "truthy raw = (let v = TrimSpace (ToLower raw) in v = ''1'' \<or> v = ''true'' \<or> v = ''yes'')"

definition parseEnvBoolDefaultTrue :: "(string \<Rightarrow> string) \<Rightarrow> string \<Rightarrow> bool" where
  "parseEnvBoolDefaultTrue env key =
     (let raw = env key in if TrimSpace raw = '''' then True else truthy raw)"

definition parseEnvBoolDefaultFalse :: "(string \<Rightarrow> string) \<Rightarrow> string \<Rightarrow> bool" where
  "parseEnvBoolDefaultFalse env key =
     (let raw = env key in if TrimSpace raw = '''' then False else truthy raw)"

definition parseSameSite :: "string \<Rightarrow> SameSite" where
  "parseSameSite s =
     (let v = TrimSpace (ToLower s) in
      if v = ''strict'' then SameSiteStrictMode
      else if v = ''none'' then SameSiteNoneMode
      else SameSiteLaxMode)"

text \<open>The checks of the six durations given in seconds have one shape.\<close>

definition load_seconds ::
    "(string \<Rightarrow> string) \<Rightarrow> string \<Rightarrow> string \<Rightarrow> int \<Rightarrow> int \<Rightarrow> config_error + int" where
  "load_seconds env key fallback lo hi =
     (let s = TrimSpace (envOrDefault env key fallback);
          bad = Inl (Errorf (key @ '' must be between '' @ Itoa lo @ '' and '' @ Itoa hi @ '', got'') s)
      in case Atoi s of
           None \<Rightarrow> bad
         | Some n \<Rightarrow> if n < lo \<or> n > hi then bad else Inr (n * 1000000000))"

text \<open>Comma-separated lists: the items are trimmed and the empty ones dropped.\<close>

definition comma_list :: "string \<Rightarrow> string list" where
  "comma_list raw = filter (\<lambda>p. p \<noteq> '''') (map TrimSpace (Split (CHR '','') raw))"

definition or_default :: "string \<Rightarrow> string \<Rightarrow> string" where
  "or_default s d = (if s = '''' then d else s)"

definition load_migration_version :: "(string \<Rightarrow> string) \<Rightarrow> config_error + int" where
  "load_migration_version env =
     (let v = TrimSpace (env ''MIGRATION_EXPECTED_VERSION'');
          bad = Inl (Errorf ''MIGRATION_EXPECTED_VERSION must be a non-negative integer, got'' v)
      in if v = '''' then Inr 0
         else (case Atoi v of None \<Rightarrow> bad | Some n \<Rightarrow> if n < 0 then bad else Inr n))"

definition load_cors_origins :: "(string \<Rightarrow> string) \<Rightarrow> string list" where
  "load_cors_origins env =
     (let raw = TrimSpace (env ''CORS_ALLOWED_ORIGINS'')
      in if raw \<noteq> '''' then comma_list raw else [''http://localhost:4200''])"

definition load_callback_hosts :: "(string \<Rightarrow> string) \<Rightarrow> string list" where
  "load_callback_hosts env =
     (let raw = TrimSpace (envOrDefault env ''DESKTOP_EXCHANGE_CALLBACK_HOSTS'' ''localhost,127.0.0.1,::1'')
      in if raw \<noteq> '''' then map ToLower (comma_list raw) else [])"

definition load_trusted_proxies :: "(string \<Rightarrow> string) \<Rightarrow> string list" where
  "load_trusted_proxies env =
     (let raw = TrimSpace (env ''TRUSTED_PROXIES'') in if raw \<noteq> '''' then comma_list raw else [])"

definition Load :: "(string \<Rightarrow> bool) \<Rightarrow> (string \<Rightarrow> string) \<Rightarrow> config_error + config" where
  "Load is_prefix env =
     and_then (load_seconds env ''SESSION_IDLE_TTL_SECONDS'' ''1800'' 60 604800) (\<lambda>idle.
     and_then (load_seconds env ''SESSION_ABSOLUTE_TTL_SECONDS'' ''86400'' 300 2592000) (\<lambda>absolute.
     if absolute < idle
     then Inl (Error ''SESSION_ABSOLUTE_TTL_SECONDS must be >= SESSION_IDLE_TTL_SECONDS'')
     else let cidrs = comma_list (TrimSpace (envOrDefault env ''AUTH_BOOTSTRAP_ALLOWED_CIDRS'' ''127.0.0.1/32,::1/128'')) in
     and_then (case List.find (\<lambda>p. \<not> is_prefix p) cidrs of
         Some p \<Rightarrow> Inl (Errorf ''AUTH_BOOTSTRAP_ALLOWED_CIDRS contains invalid CIDR'' p) | None \<Rightarrow> Inr cidrs) (\<lambda>cidrs.
     if cidrs = []
     then Inl (Error ''AUTH_BOOTSTRAP_ALLOWED_CIDRS must include at least one CIDR when bootstrap is in use'')
     else let host = TrimSpace (env ''DB_HOST''); user = TrimSpace (env ''DB_USER'') in
     if host = '''' then Inl (Error ''DB_HOST is required'')
     else if user = '''' then Inl (Error ''DB_USER is required'')
     else
     and_then (load_seconds env ''JWT_ACCESS_TTL_SECONDS'' ''900'' 60 86400) (\<lambda>access.
     and_then (load_seconds env ''OPERATOR_INVITE_TTL_SECONDS'' ''86400'' 300 2592000) (\<lambda>inviteTTL.
     and_then (load_seconds env ''JOIN_TOKEN_TTL_SECONDS'' ''120'' 30 1800) (\<lambda>joinTTL.
     and_then (load_seconds env ''DESKTOP_EXCHANGE_CODE_TTL_SECONDS'' ''120'' 30 900) (\<lambda>exchangeTTL.
     let hosts = load_callback_hosts env in
     if hosts = [] then Inl (Error ''DESKTOP_EXCHANGE_CALLBACK_HOSTS must include at least one host'')
     else let jwtSecret = TrimSpace (env ''JWT_SECRET''); previous = TrimSpace (env ''JWT_SECRET_PREVIOUS'') in
     if length jwtSecret < 32 then Inl (Error ''JWT_SECRET is required and must be at least 32 characters'')
     else if previous \<noteq> '''' \<and> length previous < 32
     then Inl (Error ''JWT_SECRET_PREVIOUS must be at least 32 characters when set'')
     else let clientID = TrimSpace (env ''PLATFORM_CLIENT_ID''); clientSecret = env ''PLATFORM_CLIENT_SECRET'' in
     if clientID = '''' \<or> clientSecret = ''''
     then Inl (Error ''PLATFORM_CLIENT_ID and PLATFORM_CLIENT_SECRET are required for token issuance'')
     else
     and_then (load_migration_version env) (\<lambda>migration.
     let oidcIss = TrimSpace (env ''OIDC_ISSUER_URL''); oidcAud = TrimSpace (env ''OIDC_AUDIENCE'') in
     if (oidcIss \<noteq> '''') \<noteq> (oidcAud \<noteq> '''')
     then Inl (Error ''OIDC_ISSUER_URL and OIDC_AUDIENCE must both be set or both empty'')
     else Inr
      \<lparr>APIPort = or_default (TrimSpace (env ''API_PORT'')) ''5000'',
       DBHost = host,
       DBPort = or_default (TrimSpace (env ''DB_PORT'')) ''3306'',
       DBUser = user,
       DBPass = env ''DB_PASS'',
       DBName = or_default (TrimSpace (env ''DB_NAME'')) ''suite_platform'',
       CORSAllowedOrigins = load_cors_origins env,
       JWTSecret = jwtSecret,
       JWTIssuer = TrimSpace (envOrDefault env ''JWT_ISSUER'' ''suite-platform''),
       JWTAudience = TrimSpace (envOrDefault env ''JWT_AUDIENCE'' ''suite-platform-api''),
       JWTAccessTTL = access,
       OperatorInviteTTL = inviteTTL,
       JoinTokenTTL = joinTTL,
       DesktopExchangeCodeTTL = exchangeTTL,
       DesktopExchangeCallbackHosts = hosts,
       PlatformClientID = clientID,
       PlatformClientSecret = clientSecret,
       MigrationExpectedVersion = migration,
       GinMode = TrimSpace (envOrDefault env ''GIN_MODE'' ''release''),
       SessionCookieName = or_default (TrimSpace (envOrDefault env ''SESSION_COOKIE_NAME'' ''gl_session'')) ''gl_session'',
       SessionCookieSecure = parseEnvBoolDefaultTrue env ''SESSION_COOKIE_SECURE'',
       SessionSameSiteMode = parseSameSite (envOrDefault env ''SESSION_SAMESITE'' ''Lax''),
       SessionIdleTTL = idle,
       SessionAbsoluteTTL = absolute,
       AuthBootstrapEnabled = parseEnvBoolDefaultFalse env ''AUTH_BOOTSTRAP_ENABLED'',
       AuthBootstrapAllowedCIDRs = cidrs,
       JWTActiveKeyID = TrimSpace (env ''JWT_ACTIVE_KEY_ID''),
       JWTSecretPrevious = previous,
       CSRFCookieName = or_default (TrimSpace (envOrDefault env ''CSRF_COOKIE_NAME'' ''gl_csrf'')) ''gl_csrf'',
       CSRFHeaderName = or_default (TrimSpace (envOrDefault env ''CSRF_HEADER_NAME'' ''X-CSRF-Token'')) ''X-CSRF-Token'',
       OIDCIssuerURL = oidcIss,
       OIDCAudience = oidcAud,
       RedisURL = TrimSpace (env ''REDIS_URL''),
       TrustedProxies = load_trusted_proxies env\<rparr>))))))))"

section \<open>What a loaded configuration guarantees\<close>

lemma load_seconds_bounds:
  "load_seconds env k d lo hi = Inr t \<Longrightarrow> lo * 1000000000 \<le> t \<and> t \<le> hi * 1000000000"
  by (auto simp: load_seconds_def Let_def split: option.splits if_splits)

lemma comma_list_items: "p \<in> set (comma_list raw) \<Longrightarrow> p \<noteq> [] \<and> TrimSpace p = p"
  by (auto simp: comma_list_def)

lemma or_default_ne: "d \<noteq> [] \<Longrightarrow> or_default s d \<noteq> []"
  by (simp add: or_default_def)

lemma cors_origins_ne: "[] \<notin> set (load_cors_origins env)"
  by (auto simp: load_cors_origins_def Let_def comma_list_def)

lemma load_migration_nonneg: "load_migration_version env = Inr n \<Longrightarrow> 0 \<le> n"
  by (auto simp: load_migration_version_def Let_def split: option.splits if_splits)

definition config_ok :: "(string \<Rightarrow> bool) \<Rightarrow> config \<Rightarrow> bool" where
  "config_ok is_prefix c \<longleftrightarrow>
     60 * 1000000000 \<le> SessionIdleTTL c \<and> SessionIdleTTL c \<le> 604800 * 1000000000 \<and>
     300 * 1000000000 \<le> SessionAbsoluteTTL c \<and> SessionAbsoluteTTL c \<le> 2592000 * 1000000000 \<and>
     SessionIdleTTL c \<le> SessionAbsoluteTTL c \<and>
     60 * 1000000000 \<le> JWTAccessTTL c \<and> JWTAccessTTL c \<le> 86400 * 1000000000 \<and>
     300 * 1000000000 \<le> OperatorInviteTTL c \<and> OperatorInviteTTL c \<le> 2592000 * 1000000000 \<and>
     30 * 1000000000 \<le> JoinTokenTTL c \<and> JoinTokenTTL c \<le> 1800 * 1000000000 \<and>
     30 * 1000000000 \<le> DesktopExchangeCodeTTL c \<and> DesktopExchangeCodeTTL c \<le> 900 * 1000000000 \<and>
     32 \<le> length (JWTSecret c) \<and> (JWTSecretPrevious c \<noteq> '''' \<longrightarrow> 32 \<le> length (JWTSecretPrevious c)) \<and>
     PlatformClientID c \<noteq> '''' \<and> PlatformClientSecret c \<noteq> '''' \<and> DBHost c \<noteq> '''' \<and> DBUser c \<noteq> '''' \<and>
     APIPort c \<noteq> '''' \<and> DBPort c \<noteq> '''' \<and> DBName c \<noteq> '''' \<and>
     SessionCookieName c \<noteq> '''' \<and> CSRFCookieName c \<noteq> '''' \<and> CSRFHeaderName c \<noteq> '''' \<and>
     AuthBootstrapAllowedCIDRs c \<noteq> [] \<and> (\<forall>p\<in>set (AuthBootstrapAllowedCIDRs c). is_prefix p) \<and>
     DesktopExchangeCallbackHosts c \<noteq> [] \<and> [] \<notin> set (CORSAllowedOrigins c) \<and>
     0 \<le> MigrationExpectedVersion c \<and> (OIDCIssuerURL c = '''' \<longleftrightarrow> OIDCAudience c = '''')"

text \<open>
  C25: Whatever the environment holds, a configuration that loads has each of the six durations
  within both of its documented bounds (idle 60 to 604800 s, absolute 300 to 2592000 s, access
  60 to 86400 s, invite 300 to 2592000 s, join 30 to 1800 s, exchange code 30 to 900 s), the
  idle limit of sessions not above the absolute one, JWT
  secrets of at least 32 bytes, the required credentials and names non-empty, only valid
  network prefixes, and OIDC either fully configured or off.
\<close>

theorem loaded_config_ok:
  assumes "Load is_prefix env = Inr c"
  shows "config_ok is_prefix c"
proof -
  have cidrs: "\<forall>p\<in>set cs'. is_prefix p"
    if "(case List.find (\<lambda>p. \<not> is_prefix p) cs of Some p \<Rightarrow> Inl (e p) | None \<Rightarrow> Inr cs) = Inr cs'" for cs cs' e
    using that by (auto simp: find_None_iff split: option.splits)
  show ?thesis
    using assms unfolding Load_def Let_def
    apply (elim and_then_InrE if_InrE)
    apply (drule load_seconds_bounds cidrs load_migration_nonneg)+
    apply (drule sum.inject(2) [THEN iffD1])
    apply (erule subst)
    apply (unfold config_ok_def config.simps)
    apply (intro conjI)
                        apply (simp_all add: cors_origins_ne or_default_ne)
    apply (simp add: not_less imp_conv_disj)
    done
qed

text \<open>An environment with the required variables only.\<close>

definition demo_env :: "string \<Rightarrow> string" where
  "demo_env k =
     (if k = ''DB_HOST'' then ''mysql''
      else if k = ''DB_USER'' then ''app''
      else if k = ''JWT_SECRET'' then ''0123456789abcdef0123456789abcdef''
      else if k = ''PLATFORM_CLIENT_ID'' then ''marble''
      else if k = ''PLATFORM_CLIENT_SECRET'' then ''s3cret''
      else '''')"

definition demo_config :: config where
  "demo_config =
     \<lparr>APIPort = ''5000'', DBHost = ''mysql'', DBPort = ''3306'', DBUser = ''app'', DBPass = '''', DBName = ''suite_platform'',
      CORSAllowedOrigins = [''http://localhost:4200''], JWTSecret = ''0123456789abcdef0123456789abcdef'',
      JWTIssuer = ''suite-platform'', JWTAudience = ''suite-platform-api'', JWTAccessTTL = 900000000000,
      OperatorInviteTTL = 86400000000000, JoinTokenTTL = 120000000000, DesktopExchangeCodeTTL = 120000000000,
      DesktopExchangeCallbackHosts = [''localhost'', ''127.0.0.1'', ''::1''], PlatformClientID = ''marble'',
      PlatformClientSecret = ''s3cret'', MigrationExpectedVersion = 0, GinMode = ''release'',
      SessionCookieName = ''gl_session'', SessionCookieSecure = True, SessionSameSiteMode = SameSiteLaxMode,
      SessionIdleTTL = 1800000000000, SessionAbsoluteTTL = 86400000000000, AuthBootstrapEnabled = False,
      AuthBootstrapAllowedCIDRs = [''127.0.0.1/32'', ''::1/128''], JWTActiveKeyID = '''', JWTSecretPrevious = '''',
      CSRFCookieName = ''gl_csrf'', CSRFHeaderName = ''X-CSRF-Token'', OIDCIssuerURL = '''', OIDCAudience = '''',
      RedisURL = '''', TrustedProxies = []\<rparr>"

lemma demo_loads: "Load (\<lambda>_. True) demo_env = Inr demo_config"
proof -
  have [simp]: "TrimSpace (c # cs) = c # cs" if "visible c" "visible (last (c # cs))" for c cs
    using that by (intro TrimSpace_visible) auto
  have s: "load_seconds demo_env ''SESSION_IDLE_TTL_SECONDS'' ''1800'' 60 604800 = Inr 1800000000000"
    "load_seconds demo_env ''SESSION_ABSOLUTE_TTL_SECONDS'' ''86400'' 300 2592000 = Inr 86400000000000"
    "load_seconds demo_env ''JWT_ACCESS_TTL_SECONDS'' ''900'' 60 86400 = Inr 900000000000"
    "load_seconds demo_env ''OPERATOR_INVITE_TTL_SECONDS'' ''86400'' 300 2592000 = Inr 86400000000000"
    "load_seconds demo_env ''JOIN_TOKEN_TTL_SECONDS'' ''120'' 30 1800 = Inr 120000000000"
    "load_seconds demo_env ''DESKTOP_EXCHANGE_CODE_TTL_SECONDS'' ''120'' 30 900 = Inr 120000000000"
    by (simp_all add: load_seconds_def envOrDefault_def demo_env_def visible_def ParseInt_def char_digit_def)
  have h: "load_callback_hosts demo_env = [''localhost'', ''127.0.0.1'', ''::1'']"
    by (simp add: load_callback_hosts_def envOrDefault_def demo_env_def visible_def comma_list_def ascii_lower_def
        lower_char_def)
  have m: "load_migration_version demo_env = Inr 0"
    by (simp add: load_migration_version_def demo_env_def)
  have o: "load_cors_origins demo_env = [''http://localhost:4200'']" "load_trusted_proxies demo_env = []"
    by (simp_all add: load_cors_origins_def load_trusted_proxies_def demo_env_def)
  have b: "parseEnvBoolDefaultTrue demo_env ''SESSION_COOKIE_SECURE'' = True"
    "parseEnvBoolDefaultFalse demo_env ''AUTH_BOOTSTRAP_ENABLED'' = False"
    "parseSameSite (envOrDefault demo_env ''SESSION_SAMESITE'' ''Lax'') = SameSiteLaxMode"
    by (simp_all add: parseEnvBoolDefaultTrue_def parseEnvBoolDefaultFalse_def parseSameSite_def envOrDefault_def
        demo_env_def visible_def ascii_lower_def lower_char_def)
  show ?thesis
    by (simp add: Load_def s Let_def)
      (simp add: s h m o b envOrDefault_def demo_env_def visible_def comma_list_def or_default_def demo_config_def
        parseSameSite_def ascii_lower_def lower_char_def)
qed

theorem loaded_config_ok_witness: "config_ok (\<lambda>_. True) demo_config"
  by (rule loaded_config_ok [OF demo_loads])

end
