(* ===== verification/Database.thy ===== *)
theory Database
  imports Go_Strings
begin

text \<open>
  The persistent state of the service and the way its code reaches it. The tables are
  those of migrations/*.sql, one record per row with the columns the code reads or writes;
  a NULL is \<open>None\<close>. Every statement the code sends is one \<open>exec\<close> or \<open>query\<close>:
  it takes the next entry of the script of outcomes, which says whether the statement
  succeeds and how much time passes, so a theorem about all worlds is a theorem about all
  patterns of database failures and delays. Time is an integer count of nanoseconds.
\<close>

section \<open>Rows (migrations/*.up.sql)\<close>

record user_row =
  us_id :: int
  us_name :: string
  us_pennies :: int
  us_deleted_at :: "int option"

record operator_account_row =
  oa_id :: int
  oa_linked_user_id :: int
  oa_email :: string
  oa_password_hash :: string
  oa_status :: string
  oa_invited_by :: "int option"
  oa_last_login_at :: "int option"

record role_row =
  ro_id :: int
  ro_name :: string

record account_role_row =
  ar_account_id :: int
  ar_role_id :: int

record user_role_row =
  ur_user_id :: int
  ur_role_id :: int

record invite_row =
  iv_id :: int
  iv_token_hash :: string
  iv_email :: string
  iv_display_name :: string
  iv_role_name :: string
  iv_linked_user_id :: "int option"
  iv_invited_by :: "int option"
  iv_expires_at :: int
  iv_consumed_at :: "int option"
  iv_meta :: "string option"

record identity_row =
  id_user_id :: int
  id_issuer :: string
  id_subject :: string

record session_row =
  se_id :: int
  se_user_id :: int
  se_token_hash :: string
  se_last_seen_at :: int
  se_expires_at :: int
  se_absolute_expires_at :: int
  se_revoked_at :: "int option"
  se_ip :: "string option"
  se_user_agent :: "string option"

record exchange_row =
  xc_id :: int
  xc_user_id :: int
  xc_code_hash :: string
  xc_code_challenge :: string
  xc_session_id :: string
  xc_callback_uri :: "string option"
  xc_expires_at :: int
  xc_consumed_at :: "int option"

record restore_row =
  br_id :: int
  br_created_at :: int
  br_updated_at :: int
  br_requested_by :: int
  br_scope :: string
  br_label :: string
  br_reason :: string
  br_status :: string
  br_rejection_reason :: "string option"
  br_approval1 :: "int option"
  br_approval1_at :: "int option"
  br_approval2 :: "int option"
  br_approval2_at :: "int option"
  br_fulfilled_at :: "int option"
  br_fulfilled_note :: "string option"
  br_request_id :: "string option"

record case_row =
  oc_id :: int
  oc_created_at :: int
  oc_updated_at :: int
  oc_status :: string
  oc_priority :: string
  oc_subject_user_id :: int
  oc_character_ref :: "string option"
  oc_title :: string
  oc_description :: "string option"
  oc_created_by :: int
  oc_assigned_to :: "int option"

record note_row =
  cn_id :: int
  cn_case_id :: int
  cn_created_at :: int
  cn_body :: string
  cn_created_by :: int

record action_row =
  ca_id :: int
  ca_case_id :: int
  ca_created_at :: int
  ca_action_kind :: string
  ca_payload :: "string option"
  ca_reason :: "string option"
  ca_actor :: int

record ledger_row =
  el_id :: int
  el_created_at :: int
  el_platform_user_id :: int
  el_event_type :: string
  el_amount_delta :: int
  el_currency_code :: string
  el_reference_type :: "string option"
  el_reference_id :: "string option"
  el_meta :: "string option"

record auth_audit_row =
  au_event_type :: string
  au_user_id :: "int option"
  au_ip :: "string option"
  au_user_agent :: "string option"
  au_subject_hint :: "string option"
  au_meta :: "string option"

record admin_audit_row =
  ad_id :: int
  ad_created_at :: int
  ad_actor :: "int option"
  ad_subject :: string
  ad_action :: string
  ad_resource_type :: string
  ad_resource_id :: "string option"
  ad_reason :: "string option"
  ad_request_id :: "string option"
  ad_ip :: "string option"
  ad_user_agent :: "string option"
  ad_meta :: "string option"

text \<open>
  \<open>operator_tables\<close>: migration 000009 has been applied. The code asks for MySQL's error
  1146 (no such table) in one place, the listing of an operator's roles.
\<close>

record database =
  operator_tables :: bool
  users :: "user_row list"
  accounts :: "operator_account_row list"
  roles :: "role_row list"
  account_roles :: "account_role_row list"
  user_roles :: "user_role_row list"
  invites :: "invite_row list"
  identities :: "identity_row list"
  sessions :: "session_row list"
  exchanges :: "exchange_row list"
  restores :: "restore_row list"
  op_cases :: "case_row list"
  case_notes :: "note_row list"
  case_actions :: "action_row list"
  ledger :: "ledger_row list"
  auth_audit :: "auth_audit_row list"
  admin_audit :: "admin_audit_row list"

text \<open>
  AUTO_INCREMENT: a fresh id above every id of the table. (InnoDB may leave larger gaps
  after a rollback; nothing below depends on the gaps.)
\<close>

definition next_id :: "('r \<Rightarrow> int) \<Rightarrow> 'r list \<Rightarrow> int" where
  "next_id k rs = 1 + fold max (map k rs) 0"

definition user_exists :: "database \<Rightarrow> int \<Rightarrow> bool" where
  "user_exists d i \<longleftrightarrow> i \<in> us_id ` set (users d)"

definition live_user :: "database \<Rightarrow> int \<Rightarrow> bool" where
  "live_user d i \<longleftrightarrow> (\<exists>u\<in>set (users d). us_id u = i \<and> us_deleted_at u = None)"

lemma fold_max_ge: "(a::int) \<le> fold max xs a" "x \<in> set xs \<Longrightarrow> x \<le> fold max xs (a::int)"
proof -
  have a: "(a::int) \<le> fold max xs a" for xs a
  proof (induction xs arbitrary: a)
    case (Cons x xs)
    from Cons.IH [of "max x a"] show ?case by simp
  qed simp
  then show "(a::int) \<le> fold max xs a" .
  show "x \<in> set xs \<Longrightarrow> x \<le> fold max xs (a::int)"
  proof (induction xs arbitrary: a)
    case (Cons y ys)
    then show ?case using a [of "max x a" ys] by (cases "x = y") simp_all
  qed simp
qed

lemma next_id_pos: "0 < next_id k rs"
  using fold_max_ge(1) [of 0 "map k rs"] by (simp add: next_id_def)

lemma next_id_above: "r \<in> set rs \<Longrightarrow> k r < next_id k rs"
  using fold_max_ge(2) [of "k r" "map k rs" 0] by (simp add: next_id_def)

lemma next_id_fresh [simp]: "next_id k rs \<notin> k ` set rs"
  by (metis imageE less_irrefl next_id_above)

text \<open>Names for the string arguments of the audit and credential operations.\<close>

type_synonym ip_addr = string
type_synonym user_agent = string
type_synonym request_ref = string
type_synonym json_text = string
type_synonym token_hash = string
type_synonym email_addr = string
type_synonym pw_hash = string

section \<open>The world\<close>

text \<open>
  \<open>outcomes\<close>: the script of the statements to come. \<open>entropy\<close>: the results of the
  coming reads of \<open>crypto/rand\<close>, \<open>None\<close> for an error (an exhausted list is an error).
\<close>

record world =
  db :: database
  clock :: int
  outcomes :: "(bool \<times> nat) list"
  entropy :: "string option list"

text \<open>
  Columns of type TIMESTAMP hold whole seconds: a value sent by the program is rounded to
  the nearest second, and the server's own CURRENT_TIMESTAMP and UTC_TIMESTAMP() are
  truncated.
\<close>

definition second :: int where
  "second = 1000000000"

definition TIMESTAMP :: "int \<Rightarrow> int" where
  "TIMESTAMP t = (t + 500000000) div 1000000000 * 1000000000"

definition CURRENT_TIMESTAMP :: "int \<Rightarrow> int" where
  "CURRENT_TIMESTAMP t = t div 1000000000 * 1000000000"

lemma TIMESTAMP_bounds: "TIMESTAMP t \<le> t + 500000000" "t - 500000000 < TIMESTAMP t"
  by (simp_all add: TIMESTAMP_def minus_mod_eq_div_mult [symmetric])

lemma TIMESTAMP_mono: "s \<le> t \<Longrightarrow> TIMESTAMP s \<le> TIMESTAMP t"
  by (simp add: TIMESTAMP_def zdiv_mono1)

lemma TIMESTAMP_idem [simp]: "TIMESTAMP (TIMESTAMP t) = TIMESTAMP t"
  by (simp add: TIMESTAMP_def)

lemma CURRENT_TIMESTAMP_bounds: "CURRENT_TIMESTAMP t \<le> t" "t - 1000000000 < CURRENT_TIMESTAMP t"
  by (simp_all add: CURRENT_TIMESTAMP_def minus_mod_eq_div_mult [symmetric])

definition db_call :: "world \<Rightarrow> bool \<times> world" where
  "db_call w = (case outcomes w of
     [] \<Rightarrow> (True, w)
   | (ok, d) # os \<Rightarrow> (ok, w\<lparr>outcomes := os, clock := clock w + int d\<rparr>))"

text \<open>
  A statement that changes tables. \<open>f\<close> gets CURRENT_TIMESTAMP and the tables, and is
  \<open>None\<close> where a constraint of the schema refuses the statement.
\<close>

definition exec :: "(int \<Rightarrow> database \<Rightarrow> (database \<times> 'a) option) \<Rightarrow> world \<Rightarrow> ('e, 'a) result \<times> world" where
  "exec f w = (case db_call w of
     (False, w1) \<Rightarrow> (Inl Driver, w1)
   | (True, w1) \<Rightarrow> (case f (CURRENT_TIMESTAMP (clock w1)) (db w1) of
       None \<Rightarrow> (Inl Driver, w1)
     | Some (d, a) \<Rightarrow> (Inr a, w1\<lparr>db := d\<rparr>)))"

definition query :: "(int \<Rightarrow> database \<Rightarrow> 'a) \<Rightarrow> world \<Rightarrow> ('e, 'a) result \<times> world" where
  "query q w = (case db_call w of
     (False, w1) \<Rightarrow> (Inl Driver, w1)
   | (True, w1) \<Rightarrow> (Inr (q (clock w1) (db w1)), w1))"

text \<open>
  \<open>BeginTx\<close>, the body, and then \<open>Commit\<close>, or the deferred \<open>Rollback\<close> on every
  other way out.
\<close>

definition in_tx_as ::
    "'e fault \<Rightarrow> 'e fault \<Rightarrow> (world \<Rightarrow> ('e, 'a) result \<times> world) \<Rightarrow> world \<Rightarrow> ('e, 'a) result \<times> world" where
  "in_tx_as begin_fault commit_fault body w = (case db_call w of
     (False, w1) \<Rightarrow> (Inl begin_fault, w1)
   | (True, w1) \<Rightarrow> (case body w1 of
       (Inl e, w2) \<Rightarrow> (Inl e, w2\<lparr>db := db w1\<rparr>)
     | (Inr a, w2) \<Rightarrow> (case db_call w2 of
         (False, w3) \<Rightarrow> (Inl commit_fault, w3\<lparr>db := db w1\<rparr>)
       | (True, w3) \<Rightarrow> (Inr a, w3))))"

definition in_tx :: "(world \<Rightarrow> ('e, 'a) result \<times> world) \<Rightarrow> world \<Rightarrow> ('e, 'a) result \<times> world" where
  "in_tx body w = in_tx_as Driver Driver body w"

text \<open>Go's error check after a call: the failure is returned, the value goes on.\<close>

definition bind_result ::
    "('e, 'a) result \<times> world \<Rightarrow> ('a \<Rightarrow> world \<Rightarrow> ('e, 'b) result \<times> world)
     \<Rightarrow> ('e, 'b) result \<times> world" where
  "bind_result p k = (case p of (Inl e, w) \<Rightarrow> (Inl e, w) | (Inr a, w) \<Rightarrow> k a w)"

definition read_entropy :: "world \<Rightarrow> string option \<times> world" where
  "read_entropy w = (case entropy w of [] \<Rightarrow> (None, w) | x # xs \<Rightarrow> (x, w\<lparr>entropy := xs\<rparr>))"

text \<open>\<open>rand.Read\<close> fills a buffer of \<open>n\<close> bytes or fails.\<close>

definition rand_Read :: "nat \<Rightarrow> world \<Rightarrow> string option \<times> world" where
  "rand_Read n w = (case read_entropy w of
     (None, w1) \<Rightarrow> (None, w1)
   | (Some bytes, w1) \<Rightarrow> (Some (take n (bytes @ replicate n (CHR 0x00))), w1))"

lemma rand_Read_world: "rand_Read n w = (r, w') \<Longrightarrow> db w' = db w \<and> clock w' = clock w \<and> outcomes w' = outcomes w"
  by (auto simp: rand_Read_def read_entropy_def split: list.splits option.splits)

lemma rand_Read_length: "rand_Read n w = (Some bs, w') \<Longrightarrow> length bs = n"
  by (auto simp: rand_Read_def split: prod.splits option.splits)

lemma db_call_snd [simp]: "db (snd (db_call w)) = db w" "clock w \<le> clock (snd (db_call w))"
  by (simp_all add: db_call_def split: list.split)

lemma db_call_db: "db_call w = (b, w') \<Longrightarrow> db w' = db w"
  using db_call_snd(1) [of w] by simp

lemma db_call_clock: "db_call w = (b, w') \<Longrightarrow> clock w \<le> clock w'"
  using db_call_snd(2) [of w] by simp

lemma db_call_no_script [world_simps]: "outcomes w = [] \<Longrightarrow> db_call w = (True, w)"
  by (simp add: db_call_def)

lemma exec_no_script [world_simps]:
  "outcomes w = [] \<Longrightarrow> exec f w =
     (case f (CURRENT_TIMESTAMP (clock w)) (db w) of None \<Rightarrow> (Inl Driver, w) | Some (d, a) \<Rightarrow> (Inr a, w\<lparr>db := d\<rparr>))"
  by (simp add: exec_def db_call_no_script)

lemma query_no_script [world_simps]:
  "outcomes w = [] \<Longrightarrow> query q w = (Inr (q (clock w) (db w)), w)"
  by (simp add: query_def db_call_no_script)

lemma in_tx_no_script [world_simps]:
  assumes "outcomes w = []" and "outcomes (snd (body w)) = []"
  shows "in_tx body w = (case body w of
      (Inl e, w2) \<Rightarrow> (Inl e, w2\<lparr>db := db w\<rparr>) | (Inr a, w2) \<Rightarrow> (Inr a, w2))"
  using assms by (cases "body w") (auto simp: in_tx_def in_tx_as_def db_call_def split: sum.splits)

lemma exec_cases:
  assumes "exec f w = (r, w')"
  obtains (fail) "r = Inl Driver" "db w' = db w" "clock w \<le> clock w'"
  | (ok) t d a where "f t (db w) = Some (d, a)" "r = Inr a" "db w' = d" "t = CURRENT_TIMESTAMP (clock w')" "clock w \<le> clock w'"
proof -
  obtain b w1 where b: "db_call w = (b, w1)" by (cases "db_call w") auto
  show thesis
  proof (cases b)
    case False
    with assms b have "r = Inl Driver" "w' = w1" by (auto simp: exec_def)
    with b show thesis by (intro fail) (auto dest: db_call_db db_call_clock)
  next
    case True
    show thesis
    proof (cases "f (CURRENT_TIMESTAMP (clock w1)) (db w1)")
      case None
      with assms b True have "r = Inl Driver" "w' = w1" by (auto simp: exec_def)
      with b show thesis by (intro fail) (auto dest: db_call_db db_call_clock)
    next
      case (Some p)
      obtain d a where p: "p = (d, a)" by (cases p)
      with assms b True Some have "r = Inr a" "w' = w1\<lparr>db := d\<rparr>" by (auto simp: exec_def)
      with b p Some show thesis
        by (intro ok [of "CURRENT_TIMESTAMP (clock w1)" d a]) (auto dest: db_call_db db_call_clock)
    qed
  qed
qed

lemma exec_result:
  assumes "exec (\<lambda>t d. Some (g t d, n t d)) w = (Inr m, w')"
  shows "db w' = g (CURRENT_TIMESTAMP (clock w')) (db w) \<and> m = n (CURRENT_TIMESTAMP (clock w')) (db w)"
  using assms
proof (cases rule: exec_cases)
  case (ok t d a)
  from ok(1) have "d = g t (db w)" "a = n t (db w)" by simp_all
  with ok(2-4) show ?thesis by simp
qed simp

lemma query_cases:
  assumes "query q w = (r, w')"
  obtains (fail) "r = Inl Driver" "db w' = db w" "clock w \<le> clock w'"
  | (ok) "r = Inr (q (clock w') (db w))" "db w' = db w" "clock w \<le> clock w'"
proof -
  obtain b w1 where b: "db_call w = (b, w1)" by (cases "db_call w") auto
  note facts = db_call_db [OF b] db_call_clock [OF b]
  from assms b have "w' = w1" "r = (if b then Inr (q (clock w1) (db w1)) else Inl Driver)"
    by (auto simp: query_def split: bool.splits)
  with facts show thesis using fail ok by (cases b) simp_all
qed

lemma query_db: "query q w = (r, w') \<Longrightarrow> db w' = db w"
  by (erule query_cases) auto

lemma in_tx_as_cases:
  assumes "in_tx_as f1 f2 body w = (r, w')"
  obtains (abort) e where "r = Inl e" "db w' = db w"
  | (commit) a w1 w2 where "db w1 = db w" "clock w \<le> clock w1" "body w1 = (Inr a, w2)" "r = Inr a"
      "db w' = db w2" "clock w2 \<le> clock w'"
proof -
  obtain b w1 where b: "db_call w = (b, w1)" by (cases "db_call w") auto
  show thesis
  proof (cases b)
    case False
    with assms b show thesis by (intro abort [of f1]) (auto simp: in_tx_as_def dest: db_call_db)
  next
    case True
    obtain r2 w2 where body: "body w1 = (r2, w2)" by (cases "body w1")
    show thesis
    proof (cases r2)
      case (Inl e)
      with assms b True body show thesis by (intro abort [of e]) (auto simp: in_tx_as_def dest: db_call_db)
    next
      case (Inr a)
      obtain c w3 where c: "db_call w2 = (c, w3)" by (cases "db_call w2") auto
      show thesis
      proof (cases c)
        case False
        with assms b True body Inr c show thesis
          by (intro abort [of f2]) (auto simp: in_tx_as_def dest: db_call_db)
      next
        case c': True
        with assms b True body Inr c have "r = Inr a" "w' = w3" by (auto simp: in_tx_as_def)
        with b body Inr c show thesis
          by (intro commit [of w1 a w2]) (auto dest: db_call_db db_call_clock)
      qed
    qed
  qed
qed

lemmas in_tx_cases = in_tx_as_cases [of Driver Driver, folded in_tx_def, consumes 1, case_names abort commit]

lemma bind_result_simps [simp]:
  "bind_result (Inl e, w) k = (Inl e, w)"
  "bind_result (Inr a, w) k = k a w"
  by (simp_all add: bind_result_def)

lemma bind_result_cases:
  assumes "bind_result p k = (r, w')"
  obtains (fail) e where "p = (Inl e, w')" "r = Inl e"
  | (ok) a w1 where "p = (Inr a, w1)" "k a w1 = (r, w')"
  using assms by (auto simp: bind_result_def split: prod.splits sum.splits)

section \<open>What an operation may do to the tables\<close>

text \<open>
  \<open>keeps R w p\<close>: the outcome \<open>p\<close> of an operation started in \<open>w\<close> relates the tables
  by \<open>R\<close>, whatever the script says. The rules follow the shape of the code: a guard, a
  statement, an error check, a transaction.
\<close>

named_theorems keeps_intro \<open>rules for the shape of persistence code\<close>

definition keeps :: "(database \<Rightarrow> database \<Rightarrow> bool) \<Rightarrow> world \<Rightarrow> 'x \<times> world \<Rightarrow> bool" where
  "keeps R w p \<longleftrightarrow> R (db w) (db (snd p))"

lemma keepsD: "keeps R w p \<Longrightarrow> p = (x, w') \<Longrightarrow> R (db w) (db w')"
  by (simp add: keeps_def)

lemma keepsI: "(\<And>x w'. p = (x, w') \<Longrightarrow> R (db w) (db w')) \<Longrightarrow> keeps R w p"
  by (cases p) (simp add: keeps_def)

lemma keeps_here [keeps_intro]: "reflp R \<Longrightarrow> keeps R w (x, w)"
  by (simp add: keeps_def reflp_def)

lemma keeps_if [keeps_intro]:
  "(b \<Longrightarrow> keeps R w p) \<Longrightarrow> (\<not> b \<Longrightarrow> keeps R w q) \<Longrightarrow> keeps R w (if b then p else q)"
  by simp

lemma keeps_option [keeps_intro]:
  "(x = None \<Longrightarrow> keeps R w p) \<Longrightarrow> (\<And>y. x = Some y \<Longrightarrow> keeps R w (q y)) \<Longrightarrow>
   keeps R w (case x of None \<Rightarrow> p | Some y \<Rightarrow> q y)"
  by (cases x) simp_all

lemma keeps_query [keeps_intro]: "reflp R \<Longrightarrow> keeps R w (query q w)"
  by (rule keepsI) (auto dest: query_db simp: reflp_def)

lemma keeps_exec:
  assumes "reflp R" and "\<And>t d a. f t (db w) = Some (d, a) \<Longrightarrow> R (db w) d"
  shows "keeps R w (exec f w)"
proof (rule keepsI)
  fix x w' assume "exec f w = (x, w')"
  then show "R (db w) (db w')"
    by (cases rule: exec_cases) (use assms in \<open>auto simp: reflp_def\<close>)
qed

lemma keeps_in_tx [keeps_intro]:
  assumes "reflp R" and "\<And>w1. db w1 = db w \<Longrightarrow> keeps R w1 (body w1)"
  shows "keeps R w (in_tx body w)"
proof (rule keepsI)
  fix x w' assume "in_tx body w = (x, w')"
  then show "R (db w) (db w')"
  proof (cases rule: in_tx_cases)
    case (abort e)
    then show ?thesis using assms(1) by (simp add: reflp_def)
  next
    case (commit a w1 w2)
    then show ?thesis using keepsD [OF assms(2) [OF commit(1)] commit(3)] by simp
  qed
qed

text \<open>A write followed by reads, and reads followed by anything.\<close>

lemma keeps_bind_reads:
  assumes "keeps R w p" and "\<And>a w1. keeps (=) w1 (k a w1)"
  shows "keeps R w (bind_result p k)"
proof -
  obtain y w1 where p: "p = (y, w1)" by (cases p)
  show ?thesis
  proof (cases y)
    case (Inl e)
    with assms(1) show ?thesis by (simp add: p keeps_def)
  next
    case (Inr a)
    with assms(1) assms(2) [where a = a and ?w1.0 = w1] show ?thesis by (simp add: p keeps_def)
  qed
qed

lemma keeps_read_bind:
  assumes "keeps (=) w p" and "\<And>a w1. p = (Inr a, w1) \<Longrightarrow> db w1 = db w \<Longrightarrow> keeps R w1 (k a w1)"
    and "reflp R"
  shows "keeps R w (bind_result p k)"
proof -
  obtain y w1 where p: "p = (y, w1)" by (cases p)
  show ?thesis using assms by (cases y) (auto simp: p keeps_def reflp_def)
qed

lemma keeps_query_bind [keeps_intro]:
  assumes "reflp R" and "\<And>w1. db w1 = db w \<Longrightarrow> keeps R w1 (k (q (clock w1) (db w)) w1)"
  shows "keeps R w (bind_result (query q w) k)"
proof (rule keeps_read_bind)
  show "keeps (=) w (query q w)" by (rule keepsI) (simp add: query_db)
  fix a w1 assume "query q w = (Inr a, w1)"
  then show "keeps R w1 (k a w1)"
    by (cases rule: query_cases) (use assms(2) in auto)
qed (rule assms(1))

lemma reflp_eq_db [simp, keeps_intro]: "reflp ((=) :: database \<Rightarrow> database \<Rightarrow> bool)"
  by (simp add: reflp_def)

text \<open>\<open>clean w p\<close>: if the outcome is an error, the tables are those of \<open>w\<close>.\<close>

definition clean :: "world \<Rightarrow> ('e + 'a) \<times> world \<Rightarrow> bool" where
  "clean w p \<longleftrightarrow> (\<forall>e. fst p = Inl e \<longrightarrow> db (snd p) = db w)"

named_theorems clean_intro \<open>rules for error paths\<close>

lemma clean_here [clean_intro]: "clean w (x, w)"
  by (simp add: clean_def)

lemma clean_ok [clean_intro]: "clean w (Inr a, w')"
  by (simp add: clean_def)

lemma clean_if [clean_intro]:
  "(b \<Longrightarrow> clean w p) \<Longrightarrow> (\<not> b \<Longrightarrow> clean w q) \<Longrightarrow> clean w (if b then p else q)"
  by simp

lemma cleanI: "(\<And>e w'. p = (Inl e, w') \<Longrightarrow> db w' = db w) \<Longrightarrow> clean w p"
  by (cases p) (simp add: clean_def)

lemma clean_exec [clean_intro]: "clean w (exec f w)"
  by (rule cleanI) (erule exec_cases; simp)

lemma clean_query [clean_intro]: "clean w (query q w)"
  by (rule cleanI) (erule query_db)

lemma clean_in_tx [clean_intro]: "clean w (in_tx body w)"
  by (rule cleanI) (erule in_tx_cases; simp)

lemma clean_reads: "keeps (=) w p \<Longrightarrow> clean w p"
  by (simp add: keeps_def clean_def)

lemma clean_bind:
  assumes "clean w p"
    and "\<And>a w1 e w2. p = (Inr a, w1) \<Longrightarrow> k a w1 = (Inl e, w2) \<Longrightarrow> db w2 = db w"
  shows "clean w (bind_result p k)"
proof -
  obtain y w1 where p: "p = (y, w1)" by (cases p)
  show ?thesis
  proof (cases y)
    case (Inl e)
    then show ?thesis using assms(1) by (simp add: p clean_def)
  next
    case (Inr a)
    then show ?thesis using assms(2) [of a w1] by (cases "k a w1") (simp add: p clean_def)
  qed
qed

section \<open>Operations that report errors without effect\<close>

text \<open>
  The contract of a persistence operation that the handlers and the workflow invariants
  rely on: an error leaves the tables as they were, and time does not go back.
\<close>

locale atomic_op =
  fixes op :: "world \<Rightarrow> ('e, 'a) result \<times> world"
  assumes op_clean: "clean w (op w)"
begin

lemma error_no_effect: "op w = (Inl e, w') \<Longrightarrow> db w' = db w"
  using op_clean [of w] by (simp add: clean_def)

lemma changed_means_ok: "op w = (r, w') \<Longrightarrow> db w' \<noteq> db w \<Longrightarrow> \<exists>a. r = Inr a"
  by (cases r) (auto dest: error_no_effect)

text \<open>A property of the tables kept by every success is kept by the operation.\<close>

lemma keeps_if_ok_keeps:
  assumes "\<And>a. op w = (Inr a, w') \<Longrightarrow> P (db w')"
    and "P (db w)" and "op w = (r, w')"
  shows "P (db w')"
  using assms by (cases r) (auto dest: error_no_effect)

end

section \<open>A small concrete state for the examples\<close>

definition empty_db :: database where
  "empty_db = \<lparr>operator_tables = True, users = [], accounts = [], roles = [], account_roles = [], user_roles = [],
     invites = [], identities = [], sessions = [], exchanges = [], restores = [], op_cases = [],
     case_notes = [], case_actions = [], ledger = [], auth_audit = [], admin_audit = []\<rparr>"

definition demo_user :: "int \<Rightarrow> user_row" where
  "demo_user i = \<lparr>us_id = i, us_name = ''user'', us_pennies = 0, us_deleted_at = None\<rparr>"

text \<open>Three users, no failures scripted, some random reads available.\<close>

definition demo_world :: world where
  "demo_world = \<lparr>db = empty_db\<lparr>users := map demo_user [1, 2, 3]\<rparr>, clock = 1000000000000,
     outcomes = [], entropy = [Some ''aaaa'', Some ''bbbb'', Some ''cccc'']\<rparr>"

text \<open>\<open>nullStr\<close> and \<open>nullBytes\<close>: an empty string or byte slice is stored as NULL.\<close>

definition nullStr :: "string \<Rightarrow> string option" where
  "nullStr s = (if s = '''' then None else Some s)"

definition nullBytes :: "string \<Rightarrow> string option" where
  "nullBytes b = (if length b = 0 then None else Some b)"

text \<open>
  The options of the data source name (\<open>dsnFromConfig\<close>). Without
  \<open>clientFoundRows=true\<close> the driver reports the rows an UPDATE changed, not the rows
  its WHERE clause matched.
\<close>

definition dsn_params :: string where
  "dsn_params = ''parseTime=true&loc=UTC&charset=utf8mb4''"

definition clientFoundRows :: bool where
  "clientFoundRows \<longleftrightarrow> sublist ''clientFoundRows=true'' dsn_params"

lemma clientFoundRows_False [simp]: "clientFoundRows = False"
  by code_simp

definition affected :: "('r \<Rightarrow> bool) \<Rightarrow> ('r \<Rightarrow> 'r) \<Rightarrow> 'r list \<Rightarrow> nat" where
  "affected P f rs = affected_rows clientFoundRows P f rs"

lemma affected_zero_iff: "affected P f rs = 0 \<longleftrightarrow> (\<forall>r\<in>set rs. P r \<longrightarrow> f r = r)"
  by (auto simp: affected_def affected_rows_zero_iff)

lemma affected_zero_unchanged: "affected P f rs = 0 \<Longrightarrow> update_where P f rs = rs"
  by (simp add: affected_def affected_rows_zero_unchanged)

section \<open>The store (authstore/store.go)\<close>

text \<open>
  \<open>db_set\<close> is \<open>s.db != nil\<close>. A method whose receiver may be the nil pointer takes a
  \<open>store option\<close>.
\<close>

record store =
  db_set :: bool
  idleTTL :: int
  absTTL :: int

definition New :: "bool \<Rightarrow> int \<Rightarrow> int \<Rightarrow> store" where
  "New d idle absolute = \<lparr>db_set = d, idleTTL = idle, absTTL = absolute\<rparr>"

definition nil_store :: "store option \<Rightarrow> bool" where
  "nil_store s = (case s of None \<Rightarrow> True | Some st \<Rightarrow> \<not> db_set st)"

definition demo_store :: store where
  "demo_store = \<lparr>db_set = True, idleTTL = 100000000000, absTTL = 1000000000000\<rparr>"

end
