(* ===== verification/Tables.thy ===== *)
theory Tables
  imports Database
begin

text \<open>
  How a table may change over time: rows are added with fresh ids and existing rows take
  allowed steps; no row disappears. The locale \<open>table_service\<close> is the contract between a
  set of operations and the table they keep; its client lemmas turn a step relation of
  rows into facts about whole runs. The components interpret it on their own operations.
\<close>

definition row_step :: "('r \<Rightarrow> int) \<Rightarrow> ('r \<Rightarrow> 'r \<Rightarrow> bool) \<Rightarrow> 'r \<Rightarrow> 'r \<Rightarrow> bool" where
  "row_step k step r r' \<longleftrightarrow> k r' = k r \<and> (r' = r \<or> step r r')"

definition evolves :: "('r \<Rightarrow> int) \<Rightarrow> ('r \<Rightarrow> bool) \<Rightarrow> ('r \<Rightarrow> 'r \<Rightarrow> bool) \<Rightarrow> 'r list \<Rightarrow> 'r list \<Rightarrow> bool" where
  "evolves k init step rs rs' \<longleftrightarrow>
     (\<exists>ms ns. rs' = ms @ ns \<and> list_all2 (row_step k step) rs ms \<and>
        (\<forall>n\<in>set ns. init n) \<and> distinct (map k ns) \<and> k ` set ns \<inter> k ` set rs = {})"

lemma row_step_refl [simp]: "row_step k step r r"
  by (simp add: row_step_def)

lemma evolves_refl [simp]: "evolves k init step rs rs"
  unfolding evolves_def
  by (rule exI [of _ rs], rule exI [of _ "[]"]) (simp add: list_all2_refl)

lemma evolves_update_where:
  assumes "\<And>r. r \<in> set rs \<Longrightarrow> P r \<Longrightarrow> k (f r) = k r \<and> (f r = r \<or> step r (f r))"
  shows "evolves k init step rs (update_where P f rs)"
proof -
  have "list_all2 (row_step k step) rs (update_where P f rs)"
    using assms unfolding update_where_def row_step_def
    by (auto simp: list_all2_conv_all_nth)
  then show ?thesis
    unfolding evolves_def by (intro exI [of _ "update_where P f rs"] exI [of _ "[]"]) simp
qed

lemma evolves_append:
  assumes "init r" and "k r \<notin> k ` set rs"
  shows "evolves k init step rs (rs @ [r])"
  unfolding evolves_def
  by (rule exI [of _ rs], rule exI [of _ "[r]"]) (use assms in \<open>simp add: list_all2_refl\<close>)

lemma evolves_keys:
  "evolves k init step rs rs' \<Longrightarrow> distinct (map k rs) \<Longrightarrow> distinct (map k rs')"
proof -
  assume "evolves k init step rs rs'" and d: "distinct (map k rs)"
  then obtain ms ns where ev: "rs' = ms @ ns" "list_all2 (row_step k step) rs ms"
      "distinct (map k ns)" "k ` set ns \<inter> k ` set rs = {}"
    by (auto simp: evolves_def)
  have "map k ms = map k rs"
    using ev(2) by (induction rule: list_all2_induct) (auto simp: row_step_def)
  then have "distinct (map k ms)" "k ` set ms = k ` set rs"
    using d by (simp_all flip: set_map)
  with ev show ?thesis by auto
qed

lemma evolves_inv:
  assumes ev: "evolves k init step rs rs'"
    and new: "\<And>r. init r \<Longrightarrow> I r" and old: "\<And>r r'. I r \<Longrightarrow> step r r' \<Longrightarrow> I r'"
    and all: "\<forall>r\<in>set rs. I r"
  shows "\<forall>r\<in>set rs'. I r"
proof -
  from ev obtain ms ns where e: "rs' = ms @ ns" "list_all2 (row_step k step) rs ms" "\<forall>n\<in>set ns. init n"
    by (auto simp: evolves_def)
  from e(2) all have "\<forall>r\<in>set ms. I r"
    by (induction rule: list_all2_induct) (auto simp: row_step_def dest: old)
  with e new show ?thesis by auto
qed

lemma list_all2_find:
  assumes "list_all2 (row_step k step) rs ms" and "List.find (\<lambda>r. k r = i) rs = Some r"
  shows "\<exists>r'. List.find (\<lambda>r. k r = i) ms = Some r' \<and> row_step k step r r'"
  using assms by (induction rule: list_all2_induct) (auto simp: row_step_def split: if_splits)

lemma find_append_Some:
  "List.find P xs = Some x \<Longrightarrow> List.find P (xs @ ys) = Some x"
  by (induction xs) auto

lemma evolves_find:
  assumes "evolves k init step rs rs'" and "List.find (\<lambda>r. k r = i) rs = Some r"
  shows "\<exists>r'. List.find (\<lambda>r. k r = i) rs' = Some r' \<and> row_step k step r r'"
  using assms by (auto simp: evolves_def dest!: list_all2_find intro: find_append_Some)

lemma evolves_length: "evolves k init step rs rs' \<Longrightarrow> length rs \<le> length rs'"
  by (auto simp: evolves_def dest: list_all2_lengthD)

lemma list_all2_find_by:
  assumes "list_all2 (row_step k step) rs ms" and "\<And>r r'. step r r' \<Longrightarrow> g r' = g r"
    and "List.find (\<lambda>r. g r = i) rs = Some r"
  shows "\<exists>r'. List.find (\<lambda>r. g r = i) ms = Some r' \<and> row_step k step r r'"
  using assms(1,3) by (induction rule: list_all2_induct)
    (use assms(2) in \<open>auto simp: row_step_def split: if_splits\<close>)

lemma evolves_find_by:
  assumes "evolves k init step rs rs'" and "\<And>r r'. step r r' \<Longrightarrow> g r' = g r"
    and "List.find (\<lambda>r. g r = i) rs = Some r"
  shows "\<exists>r'. List.find (\<lambda>r. g r = i) rs' = Some r' \<and> row_step k step r r'"
proof -
  from assms(1) obtain ms ns where "rs' = ms @ ns" "list_all2 (row_step k step) rs ms"
    by (auto simp: evolves_def)
  with list_all2_find_by [OF this(2) assms(2,3)] show ?thesis by (auto intro: find_append_Some)
qed

text \<open>The same as a relation of databases that hold a table \<open>tbl\<close> with primary key \<open>k\<close>.\<close>

definition tbl_evolves ::
    "(database \<Rightarrow> 'r list) \<Rightarrow> ('r \<Rightarrow> int) \<Rightarrow> ('r \<Rightarrow> bool) \<Rightarrow> ('r \<Rightarrow> 'r \<Rightarrow> bool) \<Rightarrow> database \<Rightarrow> database \<Rightarrow> bool" where
  "tbl_evolves tbl k init step d d' \<longleftrightarrow>
     distinct (map k (tbl d)) \<longrightarrow> evolves k init step (tbl d) (tbl d')"

lemma reflp_tbl_evolves [simp]: "reflp (tbl_evolves tbl k init step)"
  by (simp add: reflp_def tbl_evolves_def)

lemma tbl_evolves_same: "tbl d' = tbl d \<Longrightarrow> tbl_evolves tbl k init step d d'"
  by (simp add: tbl_evolves_def)

lemma tbl_evolves_insert:
  assumes "tbl d' = tbl d @ [r]" and "init r" and "k r = next_id k (tbl d)"
  shows "tbl_evolves tbl k init step d d'"
  unfolding tbl_evolves_def assms(1) by (intro impI evolves_append) (simp_all add: assms(2,3))

lemma tbl_evolves_update:
  assumes "tbl d' = update_where P f (tbl d)"
    and "\<And>r. P r \<Longrightarrow> r \<in> set (tbl d) \<Longrightarrow> k (f r) = k r \<and> (f r = r \<or> step r (f r))"
  shows "tbl_evolves tbl k init step d d'"
  unfolding tbl_evolves_def assms(1) by (intro impI evolves_update_where) (simp add: assms(2))

text \<open>A table that is only ever appended to.\<close>

definition appends :: "('r \<Rightarrow> bool) \<Rightarrow> 'r list \<Rightarrow> 'r list \<Rightarrow> bool" where
  "appends P rs rs' \<longleftrightarrow> (\<exists>ns. rs' = rs @ ns \<and> (\<forall>n\<in>set ns. P n))"

lemma appends_refl [simp]: "appends P rs rs"
  by (simp add: appends_def)

lemma appends_one: "P r \<Longrightarrow> appends P rs (rs @ [r])"
  by (auto simp: appends_def)

lemma appends_trans: "appends P a b \<Longrightarrow> appends P b c \<Longrightarrow> appends P a c"
  by (auto simp: appends_def)

section \<open>Histories of a table\<close>

text \<open>
  One step of the world as a table sees it: an operation of the component, or anything
  else (another component, the passing of time, a new script of outcomes) that does not
  write the table. A history is any number of such steps.
\<close>

inductive world_step :: "(database \<Rightarrow> 'r list) \<Rightarrow> ('op \<Rightarrow> world \<Rightarrow> world) \<Rightarrow> world \<Rightarrow> world \<Rightarrow> bool"
  for tbl act where
  own: "world_step tbl act w (act x w)"
| other: "tbl (db w') = tbl (db w) \<Longrightarrow> world_step tbl act w w'"

abbreviation history :: "(database \<Rightarrow> 'r list) \<Rightarrow> ('op \<Rightarrow> world \<Rightarrow> world) \<Rightarrow> world \<Rightarrow> world \<Rightarrow> bool" where
  "history tbl act \<equiv> (world_step tbl act)\<^sup>*\<^sup>*"

lemma history_own: "history tbl act w (act x w)"
  by (rule r_into_rtranclp) (rule world_step.own)

locale table_service =
  fixes tbl :: "database \<Rightarrow> 'r list"
    and key :: "'r \<Rightarrow> int"
    and init :: "'r \<Rightarrow> bool"
    and step :: "'r \<Rightarrow> 'r \<Rightarrow> bool"
    and act :: "'op \<Rightarrow> world \<Rightarrow> world"
  assumes act_evolves:
    "distinct (map key (tbl (db w))) \<Longrightarrow> evolves key init step (tbl (db w)) (tbl (db (act x w)))"
begin

lemma step_evolves:
  "world_step tbl act w w' \<Longrightarrow> distinct (map key (tbl (db w))) \<Longrightarrow>
   evolves key init step (tbl (db w)) (tbl (db w'))"
  by (erule world_step.cases) (simp_all add: act_evolves)

lemma history_keys:
  "history tbl act w w' \<Longrightarrow> distinct (map key (tbl (db w))) \<Longrightarrow> distinct (map key (tbl (db w')))"
proof (induction rule: rtranclp_induct)
  case (step w1 w2)
  from step_evolves [OF step(2) step.IH [OF step.prems]] step.IH [OF step.prems]
  show ?case by (rule evolves_keys)
qed simp

lemma history_inv:
  assumes "history tbl act w w'" and "distinct (map key (tbl (db w)))"
    and new: "\<And>r. init r \<Longrightarrow> I r" and old: "\<And>r r'. I r \<Longrightarrow> step r r' \<Longrightarrow> I r'"
    and "\<forall>r\<in>set (tbl (db w)). I r"
  shows "\<forall>r\<in>set (tbl (db w')). I r"
  using assms(1)
proof (induction rule: rtranclp_induct)
  case base
  then show ?case using assms(5) .
next
  case (step w1 w2)
  from step(1) assms(2) have "distinct (map key (tbl (db w1)))" by (rule history_keys)
  from step_evolves [OF step(2) this] new old step.IH show ?case by (rule evolves_inv)
qed

text \<open>A row keeps its id and moves along the step relation.\<close>

lemma history_find:
  assumes "history tbl act w w'" and "distinct (map key (tbl (db w)))"
    and "List.find (\<lambda>r. key r = i) (tbl (db w)) = Some r"
  shows "\<exists>r'. List.find (\<lambda>r. key r = i) (tbl (db w')) = Some r' \<and> step\<^sup>*\<^sup>* r r'"
  using assms(1)
proof (induction rule: rtranclp_induct)
  case base
  then show ?case using assms(3) by blast
next
  case (step w1 w2)
  then obtain r1 where r1: "List.find (\<lambda>r. key r = i) (tbl (db w1)) = Some r1" "step\<^sup>*\<^sup>* r r1"
    by blast
  from step(1) assms(2) have "distinct (map key (tbl (db w1)))" by (rule history_keys)
  from evolves_find [OF step_evolves [OF step(2) this] r1(1)] obtain r2 where
    "List.find (\<lambda>r. key r = i) (tbl (db w2)) = Some r2" "r2 = r1 \<or> step r1 r2"
    by (auto simp: row_step_def)
  with r1(2) show ?case by (auto intro: rtranclp.rtrancl_into_rtrancl)
qed

text \<open>The same for a row found by any column that no step changes.\<close>

lemma history_find_by:
  assumes "history tbl act w w'" and "distinct (map key (tbl (db w)))"
    and g: "\<And>r r'. step r r' \<Longrightarrow> g r' = g r"
    and "List.find (\<lambda>r. g r = i) (tbl (db w)) = Some r"
  shows "\<exists>r'. List.find (\<lambda>r. g r = i) (tbl (db w')) = Some r' \<and> step\<^sup>*\<^sup>* r r'"
  using assms(1)
proof (induction rule: rtranclp_induct)
  case base
  then show ?case using assms(4) by blast
next
  case (step w1 w2)
  then obtain r1 where r1: "List.find (\<lambda>r. g r = i) (tbl (db w1)) = Some r1" "step\<^sup>*\<^sup>* r r1"
    by blast
  from step(1) assms(2) have "distinct (map key (tbl (db w1)))" by (rule history_keys)
  from evolves_find_by [OF step_evolves [OF step(2) this] g r1(1)] obtain r2 where
    "List.find (\<lambda>r. g r = i) (tbl (db w2)) = Some r2" "r2 = r1 \<or> step r1 r2"
    by (auto simp: row_step_def)
  with r1(2) show ?case by (auto intro: rtranclp.rtrancl_into_rtrancl)
qed

text \<open>A row that no step leaves stays as it is.\<close>

lemma history_final:
  assumes "history tbl act w w'" and "distinct (map key (tbl (db w)))"
    and "List.find (\<lambda>r. key r = i) (tbl (db w)) = Some r" and "\<And>r'. \<not> step r r'"
  shows "List.find (\<lambda>r. key r = i) (tbl (db w')) = Some r"
proof -
  from history_find [OF assms(1-3)] obtain r' where
    "List.find (\<lambda>r. key r = i) (tbl (db w')) = Some r'" "step\<^sup>*\<^sup>* r r'" by blast
  moreover from this(2) assms(4) have "r' = r" by (auto elim: converse_rtranclpE)
  ultimately show ?thesis by simp
qed

end

section \<open>One-time credentials\<close>

text \<open>
  The contract shared by the desktop exchange codes and the operator invites: a table of
  credentials known by a hash, consumed by an operation that succeeds only on a credential
  that is not consumed, and leaves it consumed.
\<close>

locale one_time = table_service tbl key init step act
  for tbl :: "database \<Rightarrow> 'r list" and key init step
    and act :: "'op \<Rightarrow> world \<Rightarrow> world" +
  fixes code :: "'r \<Rightarrow> string"
    and consumed :: "'r \<Rightarrow> int option"
    and hash :: "'t \<Rightarrow> string"
    and redeem :: "'t \<Rightarrow> world \<Rightarrow> ('e, 'a) result \<times> world"
  assumes step_code: "step r r' \<Longrightarrow> code r' = code r"
    and step_consumed: "step r r' \<Longrightarrow> consumed r \<noteq> None \<Longrightarrow> consumed r' \<noteq> None"
    and redeem_open: "redeem t w = (Inr a, w') \<Longrightarrow>
      \<exists>r. List.find (\<lambda>r. code r = hash t) (tbl (db w)) = Some r \<and> consumed r = None"
    and redeem_closes: "distinct (map key (tbl (db w))) \<Longrightarrow> redeem t w = (Inr a, w') \<Longrightarrow>
      distinct (map key (tbl (db w'))) \<and>
      (\<exists>r. List.find (\<lambda>r. code r = hash t) (tbl (db w')) = Some r \<and> consumed r \<noteq> None)"
begin

lemma consumed_stays: "step\<^sup>*\<^sup>* r r' \<Longrightarrow> consumed r \<noteq> None \<Longrightarrow> consumed r' \<noteq> None"
  by (induction rule: rtranclp_induct) (use step_consumed in blast)+

text \<open>No credential is redeemed twice, whatever happens in between.\<close>

lemma at_most_once:
  assumes "distinct (map key (tbl (db w)))" and "redeem t w = (Inr a, w1)"
    and "history tbl act w1 w2" and "hash t' = hash t"
  shows "redeem t' w2 \<noteq> (Inr b, w3)"
proof
  assume again: "redeem t' w2 = (Inr b, w3)"
  from redeem_closes [OF assms(1,2)] obtain r where
    r: "distinct (map key (tbl (db w1)))" "List.find (\<lambda>r. code r = hash t) (tbl (db w1)) = Some r"
      "consumed r \<noteq> None" by blast
  from history_find_by [OF assms(3) r(1) step_code r(2)] obtain r' where
    "List.find (\<lambda>r. code r = hash t) (tbl (db w2)) = Some r'" "step\<^sup>*\<^sup>* r r'" by blast
  with consumed_stays [OF this(2) r(3)] redeem_open [OF again] assms(4) show False by auto
qed

end

section \<open>Paging by a descending key\<close>

text \<open>
  A client reads a list page by page, asking each time for rows below the last key it has
  seen. \<open>walk\<close> is that client, with the number of requests as fuel.
\<close>

fun walk :: "nat \<Rightarrow> ('r \<Rightarrow> int) \<Rightarrow> (int option \<Rightarrow> 'r list) \<Rightarrow> int option \<Rightarrow> 'r list" where
  "walk 0 k page b = []"
| "walk (Suc f) k page b =
     (case page b of [] \<Rightarrow> [] | r # rs \<Rightarrow> (r # rs) @ walk f k page (Some (k (last (r # rs)))))"

definition below :: "('r \<Rightarrow> int) \<Rightarrow> int option \<Rightarrow> 'r \<Rightarrow> bool" where
  "below k b r \<longleftrightarrow> (case b of None \<Rightarrow> True | Some i \<Rightarrow> k r < i)"

locale pager =
  fixes k :: "'r \<Rightarrow> int" and rows :: "'r list" and n :: nat and page :: "int option \<Rightarrow> 'r list"
  assumes page_rows: "page b = take n (filter (below k b) rows)"
    and n_pos: "0 < n"
begin

lemma filter_after_page:
  assumes "sorted_wrt (\<lambda>a b. k b < k a) rows" and "rows = xs @ ys @ z # zs"
  shows "filter (below k (Some (k z))) rows = zs"
proof -
  from assms have "\<forall>r\<in>set (xs @ ys). k z < k r" "\<forall>r\<in>set zs. k r < k z"
    by (auto simp: sorted_wrt_append)
  note sides = this
  have "filter (below k (Some (k z))) (xs @ ys) = []"
    unfolding filter_empty_conv below_def using sides(1) by (simp add: not_less ball_Un less_imp_le)
  moreover have "filter (below k (Some (k z))) zs = zs"
    by (rule filter_True) (use sides(2) in \<open>simp add: below_def\<close>)
  moreover have "rows = (xs @ ys) @ z # zs" using assms(2) by simp
  ultimately show ?thesis by (simp only: filter_append filter.simps) (simp add: below_def)
qed

lemma walk_suffix:
  assumes rows_sorted: "sorted_wrt (\<lambda>a b. k b < k a) rows"
    and "rows = xs @ ys" and "filter (below k b) rows = ys" and "length ys \<le> f"
  shows "walk f k page b = ys"
  using assms(2-)
proof (induction f arbitrary: xs ys b)
  case (Suc f)
  show ?case
  proof (cases "take n ys")
    case Nil
    with n_pos have "ys = []" by simp
    with Nil Suc.prems(2) show ?thesis by (simp add: page_rows)
  next
    case (Cons p ps)
    let ?t = "take n ys"
    from Cons have ne: "?t \<noteq> []" by simp
    have split: "rows = xs @ butlast ?t @ last ?t # drop n ys"
      using Suc.prems(1) append_butlast_last_id [OF ne] append_take_drop_id [of n ys]
      by (metis append_Cons append_Nil append_assoc)
    from filter_after_page [OF rows_sorted split] have rest: "filter (below k (Some (k (last ?t)))) rows = drop n ys" .
    have step: "walk f k page (Some (k (last ?t))) = drop n ys"
    proof (rule Suc.IH)
      show "rows = (xs @ ?t) @ drop n ys" by (simp add: Suc.prems(1))
      show "length (drop n ys) \<le> f" using Suc.prems(3) n_pos ne by (cases ys) auto
    qed (rule rest)
    have "page b = p # ps" using Suc.prems(2) Cons by (simp only: page_rows)
    then have "walk (Suc f) k page b = ?t @ drop n ys" using step by (simp only: walk.simps list.case Cons)
    then show ?thesis by (simp only: append_take_drop_id)
  qed
qed simp

text \<open>Reading all pages gives every row once, in order.\<close>

lemma walk_all:
  "sorted_wrt (\<lambda>a b. k b < k a) rows \<Longrightarrow> length rows \<le> f \<Longrightarrow> walk f k page None = rows"
  by (rule walk_suffix [of "[]"]) (simp_all add: below_def)

lemma page_length: "length (page b) \<le> n"
  by (simp add: page_rows)

end

lemma newest_first_strict:
  assumes "distinct (map k rs)"
  shows "sorted_wrt (\<lambda>a b. k b < k a) (newest_first k rs)"
proof -
  have "distinct (map k (newest_first k rs))"
    using assms unfolding newest_first_def
    by (metis distinct_map distinct_sort set_sort)
  moreover have "sorted_wrt (\<lambda>a b. k b < k a) xs"
    if "distinct (map k xs)" "sorted_wrt (\<lambda>a b. k b \<le> k a) xs" for xs
    using that
  proof (induction xs)
    case (Cons a xs)
    from Cons.prems have "k a \<notin> k ` set xs" "\<forall>b\<in>set xs. k b \<le> k a" by simp_all
    then have "\<forall>b\<in>set xs. k b < k a" by (metis image_eqI order_less_le)
    with Cons show ?case by simp
  qed simp
  ultimately show ?thesis using sorted_newest_first by blast
qed

end
