(* ===== verification/Go_Crypto.thy ===== *)
theory Go_Crypto
  imports Go_Strings "HOL-Library.Word"
begin

unbundle bit_operations_syntax

text \<open>
  The functions of \<open>crypto/sha256\<close> and \<open>encoding/base64\<close> that the program uses, on
  strings as byte lists.
\<close>

section \<open>SHA-256 (FIPS 180-4)\<close>

text \<open>
  The round constants and the initial value: the first 32 bits of the fractional parts of the
  cube roots of the first 64 primes, and of the square roots of the first eight.
\<close>

definition sha256_k :: "32 word list" where
  "sha256_k =
     [1116352408, 1899447441, 3049323471, 3921009573, 961987163, 1508970993, 2453635748, 2870763221,
      3624381080, 310598401, 607225278, 1426881987, 1925078388, 2162078206, 2614888103, 3248222580,
      3835390401, 4022224774, 264347078, 604807628, 770255983, 1249150122, 1555081692, 1996064986,
      2554220882, 2821834349, 2952996808, 3210313671, 3336571891, 3584528711, 113926993, 338241895,
      666307205, 773529912, 1294757372, 1396182291, 1695183700, 1986661051, 2177026350, 2456956037,
      2730485921, 2820302411, 3259730800, 3345764771, 3516065817, 3600352804, 4094571909, 275423344,
      430227734, 506948616, 659060556, 883997877, 958139571, 1322822218, 1537002063, 1747873779,
      1955562222, 2024104815, 2227730452, 2361852424, 2428436474, 2756734187, 3204031479, 3329325298]"

definition sha256_init :: "32 word list" where
  "sha256_init =
     [1779033703, 3144134277, 1013904242, 2773480762, 1359893119, 2600822924, 528734635, 1541459225]"

definition rotr :: "nat \<Rightarrow> 32 word \<Rightarrow> 32 word" where
  "rotr n x = drop_bit n x OR push_bit (32 - n) x"

definition sigma0 :: "32 word \<Rightarrow> 32 word" where
  "sigma0 x = rotr 7 x XOR rotr 18 x XOR drop_bit 3 x"

definition sigma1 :: "32 word \<Rightarrow> 32 word" where
  "sigma1 x = rotr 17 x XOR rotr 19 x XOR drop_bit 10 x"

fun be_words :: "string \<Rightarrow> 32 word list" where
  "be_words (a # b # c # d # cs) =
     of_nat (((of_char a * 256 + of_char b) * 256 + of_char c) * 256 + of_char d) # be_words cs"
| "be_words _ = []"

definition be_bytes :: "nat \<Rightarrow> nat \<Rightarrow> string" where
  "be_bytes n v = map (\<lambda>i. char_of (v div 256 ^ i mod 256)) (rev [0..<n])"

definition sha256_pad :: "string \<Rightarrow> string" where
  "sha256_pad m = m @ [char_of (128 :: nat)] @ replicate ((119 - length m mod 64) mod 64) (char_of (0 :: nat))
     @ be_bytes 8 (8 * length m)"

text \<open>The message schedule, newest word first.\<close>

fun sha256_schedule :: "nat \<Rightarrow> 32 word list \<Rightarrow> 32 word list" where
  "sha256_schedule 0 ws = rev ws"
| "sha256_schedule (Suc n) ws =
     sha256_schedule n ((sigma1 (ws ! 1) + ws ! 6 + sigma0 (ws ! 14) + ws ! 15) # ws)"

fun sha256_round :: "32 word \<times> 32 word \<Rightarrow> 32 word list \<Rightarrow> 32 word list" where
  "sha256_round (k, w) [a, b, c, d, e, f, g, h] =
     (let t1 = h + (rotr 6 e XOR rotr 11 e XOR rotr 25 e) + ((e AND f) XOR (NOT e AND g)) + k + w;
          t2 = (rotr 2 a XOR rotr 13 a XOR rotr 22 a) + ((a AND b) XOR (a AND c) XOR (b AND c))
      in [t1 + t2, a, b, c, d + t1, e, f, g])"
| "sha256_round _ hs = hs"

definition sha256_block :: "32 word list \<Rightarrow> 32 word list \<Rightarrow> 32 word list" where
  "sha256_block blk hs =
     map2 (+) hs (fold sha256_round (zip sha256_k (sha256_schedule 48 (rev blk))) hs)"

fun sha256_blocks :: "nat \<Rightarrow> 32 word list \<Rightarrow> 32 word list \<Rightarrow> 32 word list" where
  "sha256_blocks 0 _ hs = hs"
| "sha256_blocks (Suc n) ws hs = sha256_blocks n (drop 16 ws) (sha256_block (take 16 ws) hs)"

definition sha256 :: "string \<Rightarrow> string" where
  "sha256 m =
     (let p = sha256_pad m
      in concat (map (\<lambda>v. be_bytes 4 (unat v)) (sha256_blocks (length p div 64) (be_words p) sha256_init)))"

lemma length_be_bytes [simp]: "length (be_bytes n v) = n"
  by (simp add: be_bytes_def)

lemma length_sha256_round [simp]: "length (sha256_round kw hs) = length hs"
  by (cases "(kw, hs)" rule: sha256_round.cases) (simp_all add: Let_def)

lemma length_fold_round [simp]: "length (fold sha256_round kws hs) = length hs"
  by (induction kws arbitrary: hs) simp_all

lemma length_sha256_blocks [simp]: "length (sha256_blocks n ws hs) = length hs"
  by (induction n ws hs rule: sha256_blocks.induct) (simp_all add: sha256_block_def)

text \<open>A digest has 32 bytes.\<close>

lemma length_sha256 [simp]: "length (sha256 m) = 32"
  by (simp add: sha256_def Let_def length_concat comp_def sha256_init_def sum_list_triv)

section \<open>Base64 without padding\<close>

definition StdAlphabet :: string where
  "StdAlphabet = ''ABCDEFGHIJKLMNOPQRSTUVWXYZabcdefghijklmnopqrstuvwxyz0123456789+/''"

definition URLAlphabet :: string where
  "URLAlphabet = ''ABCDEFGHIJKLMNOPQRSTUVWXYZabcdefghijklmnopqrstuvwxyz0123456789-_''"

abbreviation byte :: "char \<Rightarrow> nat" where
  "byte c \<equiv> of_char c"

fun b64_digits :: "string \<Rightarrow> nat list" where
  "b64_digits (a # b # c # cs) =
     byte a div 4 # (byte a mod 4 * 16 + byte b div 16) # (byte b mod 16 * 4 + byte c div 64)
     # byte c mod 64 # b64_digits cs"
| "b64_digits [a, b] = [byte a div 4, byte a mod 4 * 16 + byte b div 16, byte b mod 16 * 4]"
| "b64_digits [a] = [byte a div 4, byte a mod 4 * 16]"
| "b64_digits [] = []"

definition b64_encode :: "string \<Rightarrow> string \<Rightarrow> string" where
  "b64_encode alph bs = map ((!) alph) (b64_digits bs)"

definition b64_value :: "string \<Rightarrow> char \<Rightarrow> nat option" where
  "b64_value alph c = map_of (zip alph [0..<64]) c"

fun b64_bytes :: "nat list \<Rightarrow> string option" where
  "b64_bytes (p # q # r # s # vs) =
     map_option ((@) (map char_of [p * 4 + q div 16, q mod 16 * 16 + r div 4, r mod 4 * 64 + s])) (b64_bytes vs)"
| "b64_bytes [p, q, r] = Some (map char_of [p * 4 + q div 16, q mod 16 * 16 + r div 4])"
| "b64_bytes [p, q] = Some (map char_of [p * 4 + q div 16])"
| "b64_bytes [p] = None"
| "b64_bytes [] = Some []"

text \<open>\<open>DecodeString\<close> skips line breaks and, outside strict mode, ignores unused bits.\<close>

definition b64_decode :: "string \<Rightarrow> string \<Rightarrow> string option" where
  "b64_decode alph s =
     (case all_some (map (b64_value alph) (filter (\<lambda>c. c \<noteq> CHR 0x0D \<and> c \<noteq> CHR 0x0A) s)) of
        None \<Rightarrow> None | Some vs \<Rightarrow> b64_bytes vs)"

lemma byte_less [simp]: "byte c < 256"
  using nat_of_char_less_256 [of c] by simp

lemma alphabets [simp]:
  "distinct StdAlphabet" "length StdAlphabet = 64" "distinct URLAlphabet" "length URLAlphabet = 64"
  by (simp_all add: StdAlphabet_def URLAlphabet_def)

lemma pack_less [simp]: "n < 16 \<Longrightarrow> a mod 4 * 16 + n < (64::nat)" "n < 4 \<Longrightarrow> b mod 16 * 4 + n < (64::nat)"
proof -
  have "a mod 4 < 4" "b mod 16 < 16" by simp_all
  then show "n < 16 \<Longrightarrow> a mod 4 * 16 + n < 64" "n < 4 \<Longrightarrow> b mod 16 * 4 + n < 64" by linarith+
qed

lemma b64_digits_less: "d \<in> set (b64_digits bs) \<Longrightarrow> d < 64"
proof (induction bs rule: b64_digits.induct)
  case (1 a b c cs)
  have "byte a div 4 < 64" "byte b div 16 < 16" "byte c div 64 < 4"
    by (simp_all add: less_mult_imp_div_less)
  with 1 show ?case by auto
next
  case (2 a b)
  have "byte a div 4 < 64" "byte b div 16 < 16"
    by (simp_all add: less_mult_imp_div_less)
  with 2 show ?case by auto
next
  case (3 a)
  have "byte a div 4 < 64"
    by (simp add: less_mult_imp_div_less)
  with 3 show ?case by auto
qed simp

lemma b64_byte_simps:
  "byte a div 4 * 4 + (byte a mod 4 * 16 + n) div 16 = byte a" if "n < 16" for n
proof -
  have "(byte a mod 4 * 16 + n) div 16 = byte a mod 4" using that by simp
  then show ?thesis by simp
qed

lemma b64_bytes_digits [simp]: "b64_bytes (b64_digits bs) = Some bs"
proof (induction bs rule: b64_digits.induct)
  case (1 a b c cs)
  have d: "byte b div 16 < 16" "byte c div 64 < 4"
    by (simp_all add: less_mult_imp_div_less)
  have "(byte a mod 4 * 16 + byte b div 16) mod 16 * 16 + (byte b mod 16 * 4 + byte c div 64) div 4 = byte b"
    using d by simp
  moreover have "(byte b mod 16 * 4 + byte c div 64) mod 4 * 64 + byte c mod 64 = byte c"
    using d by simp
  ultimately show ?case using 1 d by (simp add: b64_byte_simps)
next
  case (2 a b)
  have d: "byte b div 16 < 16" by (simp add: less_mult_imp_div_less)
  then show ?case by (simp add: b64_byte_simps)
qed simp_all

lemma b64_value_nth:
  "distinct alph \<Longrightarrow> length alph = 64 \<Longrightarrow> d < 64 \<Longrightarrow> b64_value alph (alph ! d) = Some d"
  unfolding b64_value_def by (subst map_of_zip_nth) auto

text \<open>Decoding undoes encoding.\<close>

lemma b64_decode_encode:
  assumes "distinct alph" "length alph = 64" "CHR 0x0D \<notin> set alph" "CHR 0x0A \<notin> set alph"
  shows "b64_decode alph (b64_encode alph bs) = Some bs"
proof -
  have "alph ! d \<in> set alph" if "d \<in> set (b64_digits bs)" for d
    using b64_digits_less [OF that] assms(2) by simp
  then have "filter (\<lambda>c. c \<noteq> CHR 0x0D \<and> c \<noteq> CHR 0x0A) (b64_encode alph bs) = b64_encode alph bs"
    using assms(3,4) by (auto simp: b64_encode_def intro!: filter_True)
  moreover have "map (b64_value alph) (b64_encode alph bs) = map (\<lambda>d. Some d) (b64_digits bs)"
    using b64_digits_less b64_value_nth [OF assms(1,2)] by (simp add: b64_encode_def)
  ultimately show ?thesis using all_some_map_Some [of "\<lambda>d. d"] by (simp add: b64_decode_def)
qed

lemma b64_std_roundtrip [simp]: "b64_decode StdAlphabet (b64_encode StdAlphabet bs) = Some bs"
  by (rule b64_decode_encode) (simp_all add: StdAlphabet_def)

lemma set_b64_encode: "length alph = 64 \<Longrightarrow> c \<in> set (b64_encode alph bs) \<Longrightarrow> c \<in> set alph"
  using b64_digits_less by (fastforce simp: b64_encode_def)

lemma length_b64_digits: "length (b64_digits bs) = (4 * length bs + 2) div 3"
  by (induction bs rule: b64_digits.induct) auto

lemma length_b64_encode: "length (b64_encode alph bs) = (4 * length bs + 2) div 3"
  by (simp add: b64_encode_def length_b64_digits)

end
