(* ===== verification/Sessions.thy ===== *)
theory Sessions
  imports Tables Go_Crypto
begin

text \<open>
  authstore/store.go and the session operation of authstore/user_auth.go: opaque session
  tokens kept as SHA-256 digests with a sliding and an absolute expiry, the audit trail of
  authentication, and the one-time codes that hand a browser login to a desktop client.
\<close>

section \<open>Operations\<close>

datatype session_error =
    ErrSessionNotFound
  | ErrSessionRevoked
  | ErrSessionExpired
  | ErrExchangeCodeNotFound
  | ErrExchangeCodeUsed
  | ErrExchangeCodeExpired

definition HashOpaqueToken :: "string \<Rightarrow> string" where
  "HashOpaqueToken raw = hex_encode (sha256 raw)"

definition NewOpaqueToken :: "world \<Rightarrow> string option \<times> world" where
  "NewOpaqueToken w = (case rand_Read 32 w of
     (None, w1) \<Rightarrow> (None, w1)
   | (Some b, w1) \<Rightarrow> (Some (hex_encode b), w1))"

definition new_session_row ::
    "int \<Rightarrow> int \<Rightarrow> int \<Rightarrow> string \<Rightarrow> int \<Rightarrow> int \<Rightarrow> string \<Rightarrow> string \<Rightarrow> session_row" where
  "new_session_row i t userID hash slide ab ip ua =
     \<lparr>se_id = i, se_user_id = userID, se_token_hash = hash, se_last_seen_at = t,
      se_expires_at = TIMESTAMP slide, se_absolute_expires_at = TIMESTAMP ab,
      se_revoked_at = None, se_ip = nullStr ip, se_user_agent = nullStr ua\<rparr>"

definition CreateSession ::
    "store \<Rightarrow> int \<Rightarrow> string \<Rightarrow> string \<Rightarrow> string \<Rightarrow> world \<Rightarrow> (session_error, unit) result \<times> world" where
  "CreateSession s userID rawToken ip ua w =
     (if \<not> db_set s then (Inl (Msg ''nil db''), w)
      else
        (let now = clock w;
             ab = now + absTTL s;
             slide = (if now + idleTTL s > ab then ab else now + idleTTL s);
             hash = HashOpaqueToken rawToken
         in exec (\<lambda>t d.
              if user_exists d userID \<and> hash \<notin> se_token_hash ` set (sessions d) then
                Some (d\<lparr>sessions := sessions d @
                   [new_session_row (next_id se_id (sessions d)) t userID hash slide ab ip ua]\<rparr>, ())
              else None) w))"

definition update_sessions ::
    "(session_row \<Rightarrow> bool) \<Rightarrow> (int \<Rightarrow> session_row \<Rightarrow> session_row) \<Rightarrow> int \<Rightarrow> database \<Rightarrow> (database \<times> nat) option" where
  "update_sessions P f t d =
     Some (d\<lparr>sessions := update_where P (f t) (sessions d)\<rparr>, affected P (f t) (sessions d))"

definition RevokeSessionByRawToken ::
    "store \<Rightarrow> string \<Rightarrow> world \<Rightarrow> (session_error, unit) result \<times> world" where
  "RevokeSessionByRawToken s rawToken w =
     (if \<not> db_set s then (Inl (Msg ''nil db''), w)
      else
        (let hash = HashOpaqueToken rawToken in
         bind_result
           (exec (update_sessions (\<lambda>r. se_token_hash r = hash \<and> se_revoked_at r = None)
                                  (\<lambda>t r. r\<lparr>se_revoked_at := Some t\<rparr>)) w)
           (\<lambda>_ w1. (Inr (), w1))))"

definition session_by_hash :: "string \<Rightarrow> database \<Rightarrow> session_row option" where
  "session_by_hash hash d =
     List.find (\<lambda>r. se_token_hash r = hash \<and> live_user d (se_user_id r)) (sessions d)"

definition ValidateSession ::
    "store \<Rightarrow> string \<Rightarrow> world \<Rightarrow> (session_error, int) result \<times> world" where
  "ValidateSession s rawToken w =
     (if \<not> db_set s then (Inl (Msg ''nil db''), w)
      else
        (let hash = HashOpaqueToken rawToken in
         bind_result (query (\<lambda>_. session_by_hash hash) w) (\<lambda>found w1.
           case found of
             None \<Rightarrow> (Inl (Sentinel ErrSessionNotFound), w1)
           | Some row \<Rightarrow>
               if se_revoked_at row \<noteq> None then (Inl (Sentinel ErrSessionRevoked), w1)
               else
                 (let now = clock w1 in
                  if \<not> now < se_absolute_expires_at row \<or> \<not> now < se_expires_at row
                  then (Inl (Sentinel ErrSessionExpired), w1)
                  else
                    (let slide = now + idleTTL s;
                         slide = (if slide > se_absolute_expires_at row
                                  then se_absolute_expires_at row else slide)
                     in bind_result
                          (exec (update_sessions
                             (\<lambda>r. se_id r = se_id row \<and> se_revoked_at r = None)
                             (\<lambda>t r. r\<lparr>se_last_seen_at := t, se_expires_at := TIMESTAMP slide\<rparr>)) w1)
                          (\<lambda>_ w2. (Inr (se_user_id row), w2)))))))"

definition RefreshSession ::
    "store \<Rightarrow> string \<Rightarrow> world \<Rightarrow> (session_error, int) result \<times> world" where
  "RefreshSession s rawToken w = ValidateSession s rawToken w"

definition RevokeAllSessionsForUser ::
    "int \<Rightarrow> world \<Rightarrow> (session_error, nat) result \<times> world" where
  "RevokeAllSessionsForUser userID w =
     exec (update_sessions (\<lambda>r. se_user_id r = userID \<and> se_revoked_at r = None)
                           (\<lambda>t r. r\<lparr>se_revoked_at := Some t\<rparr>)) w"

definition InsertAudit ::
    "store \<Rightarrow> string \<Rightarrow> int option \<Rightarrow> ip_addr \<Rightarrow> user_agent \<Rightarrow> string \<Rightarrow> json_text \<Rightarrow> world
     \<Rightarrow> (session_error, unit) result \<times> world" where
  "InsertAudit s eventType userID ip ua subjectHint metaJSON w =
     (if \<not> db_set s then (Inl (Msg ''nil db''), w)
      else exec (\<lambda>_ d. Some (d\<lparr>auth_audit := auth_audit d @
             [\<lparr>au_event_type = eventType, au_user_id = userID, au_ip = nullStr ip,
               au_user_agent = nullStr ua, au_subject_hint = nullStr subjectHint,
               au_meta = nullBytes metaJSON\<rparr>]\<rparr>, ())) w)"

record DesktopExchangeCode =
  dx_user_id :: int
  dx_session_id :: string
  dx_code_challenge :: string

definition new_exchange_row ::
    "int \<Rightarrow> int \<Rightarrow> string \<Rightarrow> string \<Rightarrow> string \<Rightarrow> string \<Rightarrow> int \<Rightarrow> exchange_row" where
  "new_exchange_row i userID hash codeChallenge sessionID callbackURI expiresAt =
     \<lparr>xc_id = i, xc_user_id = userID, xc_code_hash = hash, xc_code_challenge = codeChallenge,
      xc_session_id = sessionID, xc_callback_uri = nullStr callbackURI,
      xc_expires_at = TIMESTAMP expiresAt, xc_consumed_at = None\<rparr>"

definition CreateDesktopExchangeCode ::
    "store \<Rightarrow> int \<Rightarrow> string \<Rightarrow> string \<Rightarrow> string \<Rightarrow> string \<Rightarrow> int \<Rightarrow> world
     \<Rightarrow> (session_error, unit) result \<times> world" where
  "CreateDesktopExchangeCode s userID rawCode codeChallenge sessionID callbackURI ttl w =
     (if \<not> db_set s then (Inl (Msg ''nil db''), w)
      else if userID \<le> 0 then (Inl (Msg ''invalid user id''), w)
      else if ttl \<le> 0 then (Inl (Msg ''invalid ttl''), w)
      else
        (let hash = HashOpaqueToken rawCode; expiresAt = clock w + ttl in
         exec (\<lambda>_ d.
           if user_exists d userID \<and> hash \<notin> xc_code_hash ` set (exchanges d) then
             Some (d\<lparr>exchanges := exchanges d @
               [new_exchange_row (next_id xc_id (exchanges d)) userID hash codeChallenge sessionID
                  callbackURI expiresAt]\<rparr>, ())
           else None) w))"

definition exchange_by_hash :: "string \<Rightarrow> database \<Rightarrow> exchange_row option" where
  "exchange_by_hash hash d = List.find (\<lambda>r. xc_code_hash r = hash) (exchanges d)"

definition RedeemDesktopExchangeCode ::
    "store \<Rightarrow> string \<Rightarrow> world \<Rightarrow> (session_error, DesktopExchangeCode) result \<times> world" where
  "RedeemDesktopExchangeCode s rawCode w =
     (if \<not> db_set s then (Inl (Msg ''nil db''), w)
      else
        (let hash = HashOpaqueToken rawCode in
         in_tx (\<lambda>w0.
           bind_result (query (\<lambda>_. exchange_by_hash hash) w0) (\<lambda>found w1.
             case found of
               None \<Rightarrow> (Inl (Sentinel ErrExchangeCodeNotFound), w1)
             | Some row \<Rightarrow>
                 if xc_consumed_at row \<noteq> None then (Inl (Sentinel ErrExchangeCodeUsed), w1)
                 else if \<not> clock w1 < xc_expires_at row
                 then (Inl (Sentinel ErrExchangeCodeExpired), w1)
                 else bind_result
                   (exec (\<lambda>t d.
                      let P = (\<lambda>r. xc_id r = xc_id row \<and> xc_consumed_at r = None);
                          f = (\<lambda>r. r\<lparr>xc_consumed_at := Some t\<rparr>)
                      in Some (d\<lparr>exchanges := update_where P f (exchanges d)\<rparr>, affected P f (exchanges d))) w1)
                   (\<lambda>n w2.
                      if n \<noteq> 1 then (Inl (Sentinel ErrExchangeCodeUsed), w2)
                      else (Inr \<lparr>dx_user_id = xc_user_id row, dx_session_id = xc_session_id row,
                                 dx_code_challenge = xc_code_challenge row\<rparr>, w2)))) w))"

section \<open>How rows of the two tables move\<close>

text \<open>
  A session keeps its owner, token, absolute expiry and origin; a revoked session never
  changes again; the sliding expiry never passes the absolute one.
\<close>

definition session_step :: "session_row \<Rightarrow> session_row \<Rightarrow> bool" where
  "session_step r r' \<longleftrightarrow> se_user_id r' = se_user_id r \<and> se_token_hash r' = se_token_hash r \<and>
     se_absolute_expires_at r' = se_absolute_expires_at r \<and> se_ip r' = se_ip r \<and>
     se_user_agent r' = se_user_agent r \<and> se_revoked_at r = None \<and>
     (TIMESTAMP (se_absolute_expires_at r) = se_absolute_expires_at r \<longrightarrow>
      se_expires_at r \<le> se_absolute_expires_at r \<longrightarrow> se_expires_at r' \<le> se_absolute_expires_at r)"

definition session_init :: "session_row \<Rightarrow> bool" where
  "session_init r \<longleftrightarrow> se_revoked_at r = None \<and> se_expires_at r \<le> se_absolute_expires_at r \<and>
     TIMESTAMP (se_absolute_expires_at r) = se_absolute_expires_at r"

definition exchange_step :: "exchange_row \<Rightarrow> exchange_row \<Rightarrow> bool" where
  "exchange_step r r' \<longleftrightarrow> xc_consumed_at r = None \<and> (\<exists>t. r' = r\<lparr>xc_consumed_at := Some t\<rparr>)"

definition exchange_init :: "exchange_row \<Rightarrow> bool" where
  "exchange_init r \<longleftrightarrow> xc_consumed_at r = None \<and> 0 < xc_user_id r"

abbreviation sessions_evolve :: "database \<Rightarrow> database \<Rightarrow> bool" where
  "sessions_evolve \<equiv> tbl_evolves sessions se_id session_init session_step"

abbreviation exchanges_evolve :: "database \<Rightarrow> database \<Rightarrow> bool" where
  "exchanges_evolve \<equiv> tbl_evolves exchanges xc_id exchange_init exchange_step"

lemma new_session_row_init:
  "slide \<le> ab \<Longrightarrow> session_init (new_session_row i t u h slide ab ip ua)"
  by (simp add: new_session_row_def session_init_def TIMESTAMP_mono)

lemma new_session_row_id [simp]: "se_id (new_session_row i t u h slide ab ip ua) = i"
  by (simp add: new_session_row_def)

lemma CreateSession_evolves: "keeps sessions_evolve w (CreateSession s u tk ip ua w)"
  unfolding CreateSession_def Let_def
proof (intro keeps_intro keeps_exec reflp_tbl_evolves)
  fix t d a
  assume "(if user_exists (db w) u \<and> HashOpaqueToken tk \<notin> se_token_hash ` set (sessions (db w))
     then Some (db w\<lparr>sessions := sessions (db w) @ [new_session_row (next_id se_id (sessions (db w))) t u
        (HashOpaqueToken tk) (if clock w + absTTL s < clock w + idleTTL s then clock w + absTTL s
          else clock w + idleTTL s) (clock w + absTTL s) ip ua]\<rparr>, ())
     else None) = Some (d, a)"
  then have "sessions d = sessions (db w) @ [new_session_row (next_id se_id (sessions (db w))) t u
        (HashOpaqueToken tk) (if clock w + absTTL s < clock w + idleTTL s then clock w + absTTL s
          else clock w + idleTTL s) (clock w + absTTL s) ip ua]"
    by (simp split: if_splits) auto
  then show "sessions_evolve (db w) d"
    by (rule tbl_evolves_insert) (auto intro: new_session_row_init)
qed

lemma keeps_update_sessions:
  assumes "\<And>t r. r \<in> set (sessions (db w)) \<Longrightarrow> distinct (map se_id (sessions (db w))) \<Longrightarrow> P r \<Longrightarrow>
      se_id (f t r) = se_id r \<and> session_step r (f t r)"
  shows "keeps sessions_evolve w (exec (update_sessions P f) w)"
proof (rule keeps_exec)
  fix t d n assume "update_sessions P f t (db w) = Some (d, n)"
  then have d: "sessions d = update_where P (f t) (sessions (db w))"
    by (auto simp: update_sessions_def)
  show "sessions_evolve (db w) d"
    unfolding tbl_evolves_def d by (intro impI evolves_update_where) (use assms in auto)
qed simp

lemma Revoke_evolves: "keeps sessions_evolve w (RevokeSessionByRawToken s tk w)"
  unfolding RevokeSessionByRawToken_def Let_def
  by (intro keeps_intro keeps_bind_reads keeps_update_sessions) (simp_all add: session_step_def)

lemma RevokeAll_evolves: "keeps sessions_evolve w (RevokeAllSessionsForUser u w)"
  unfolding RevokeAllSessionsForUser_def
  by (intro keeps_update_sessions) (simp_all add: session_step_def)

lemma session_by_hashD:
  "session_by_hash h d = Some r \<Longrightarrow> r \<in> set (sessions d) \<and> se_token_hash r = h \<and> live_user d (se_user_id r)"
  unfolding session_by_hash_def by (auto dest!: find_Some_set)

lemma slide_step:
  assumes "se_revoked_at r = None" "e \<le> se_absolute_expires_at r"
  shows "session_step r (r\<lparr>se_last_seen_at := t, se_expires_at := TIMESTAMP e\<rparr>)"
  using assms TIMESTAMP_mono [OF assms(2)] by (auto simp: session_step_def)

lemma Validate_evolves: "keeps sessions_evolve w (ValidateSession s tk w)"
  unfolding ValidateSession_def Let_def
proof (intro keeps_intro keeps_bind_reads reflp_tbl_evolves)
  fix w1 :: world and row :: session_row
  assume row: "session_by_hash (HashOpaqueToken tk) (db w) = Some row" and w1: "db w1 = db w"
    and open_row: "\<not> se_revoked_at row \<noteq> None"
  show "keeps sessions_evolve w1
      (exec (update_sessions (\<lambda>r. se_id r = se_id row \<and> se_revoked_at r = None)
         (\<lambda>t r. r\<lparr>se_last_seen_at := t,
            se_expires_at := TIMESTAMP (if se_absolute_expires_at row < clock w1 + idleTTL s
              then se_absolute_expires_at row else clock w1 + idleTTL s)\<rparr>)) w1)"
  proof (rule keeps_update_sessions)
    fix t r
    assume "r \<in> set (sessions (db w1))" "distinct (map se_id (sessions (db w1)))"
      "se_id r = se_id row \<and> se_revoked_at r = None"
    then have "r = row" using session_by_hashD [OF row] w1 distinct_map_eqD by metis
    then show "se_id (r\<lparr>se_last_seen_at := t,
            se_expires_at := TIMESTAMP (if se_absolute_expires_at row < clock w1 + idleTTL s
              then se_absolute_expires_at row else clock w1 + idleTTL s)\<rparr>) = se_id r \<and>
        session_step r (r\<lparr>se_last_seen_at := t,
            se_expires_at := TIMESTAMP (if se_absolute_expires_at row < clock w1 + idleTTL s
              then se_absolute_expires_at row else clock w1 + idleTTL s)\<rparr>)"
      using open_row slide_step by simp
  qed
qed

section \<open>The sessions as a service\<close>

datatype session_op =
    SCreate int string string string
  | SRevoke string
  | SValidate string
  | SRevokeAll int

fun session_act :: "store \<Rightarrow> session_op \<Rightarrow> world \<Rightarrow> world" where
  "session_act s (SCreate u tk ip ua) w = snd (CreateSession s u tk ip ua w)"
| "session_act s (SRevoke tk) w = snd (RevokeSessionByRawToken s tk w)"
| "session_act s (SValidate tk) w = snd (ValidateSession s tk w)"
| "session_act s (SRevokeAll u) w = snd (RevokeAllSessionsForUser u w)"

lemma session_act_evolves: "sessions_evolve (db w) (db (session_act s x w))"
  using CreateSession_evolves Revoke_evolves Validate_evolves RevokeAll_evolves
  by (cases x) (simp_all add: keeps_def)

interpretation ss: table_service sessions se_id session_init session_step "session_act s" for s
  by unfold_locales (use session_act_evolves in \<open>auto simp: tbl_evolves_def\<close>)

lemma session_steps:
  assumes "session_step\<^sup>*\<^sup>* r r'"
  shows "se_user_id r' = se_user_id r \<and> se_token_hash r' = se_token_hash r \<and>
     se_absolute_expires_at r' = se_absolute_expires_at r \<and> (se_revoked_at r \<noteq> None \<longrightarrow> r' = r)"
  using assms by (induction rule: rtranclp_induct) (auto simp: session_step_def)

lemma session_valid_rows:
  assumes "history sessions (session_act s) w w'" and "distinct (map se_id (sessions (db w)))"
    and "\<forall>r\<in>set (sessions (db w)). se_expires_at r \<le> se_absolute_expires_at r \<and>
       TIMESTAMP (se_absolute_expires_at r) = se_absolute_expires_at r"
  shows "\<forall>r\<in>set (sessions (db w')). se_expires_at r \<le> se_absolute_expires_at r \<and>
       TIMESTAMP (se_absolute_expires_at r) = se_absolute_expires_at r"
  by (rule ss.history_inv [OF assms(1,2) _ _ assms(3)]) (auto simp: session_init_def session_step_def)

text \<open>Two rows never share a token.\<close>

definition unique_tokens :: "database \<Rightarrow> bool" where
  "unique_tokens d \<longleftrightarrow> distinct (map se_id (sessions d)) \<and> distinct (map se_token_hash (sessions d))"

definition keeps_tokens :: "database \<Rightarrow> database \<Rightarrow> bool" where
  "keeps_tokens d d' \<longleftrightarrow> distinct (map se_token_hash (sessions d)) \<longrightarrow> distinct (map se_token_hash (sessions d'))"

lemma reflp_keeps_tokens [simp, keeps_intro]: "reflp keeps_tokens"
  by (simp add: reflp_def keeps_tokens_def)

lemma keeps_tokens_update:
  assumes "\<And>t r. se_token_hash (f t r) = se_token_hash r"
  shows "keeps keeps_tokens w (exec (update_sessions P f) w)"
  by (rule keeps_exec) (auto simp: keeps_tokens_def update_sessions_def map_update_where assms)

lemma session_act_tokens: "keeps_tokens (db w) (db (session_act s x w))"
proof -
  have "keeps keeps_tokens w (CreateSession s u tk ip ua w)" for u tk ip ua
    unfolding CreateSession_def Let_def
    by (intro keeps_intro keeps_exec) (auto simp: keeps_tokens_def new_session_row_def split: if_splits)
  moreover have "keeps keeps_tokens w (RevokeSessionByRawToken s tk w)"
      "keeps keeps_tokens w (ValidateSession s tk w)" for tk
    unfolding RevokeSessionByRawToken_def ValidateSession_def Let_def
    by (intro keeps_intro keeps_bind_reads keeps_tokens_update; simp)+
  moreover have "keeps keeps_tokens w (RevokeAllSessionsForUser u w)" for u
    unfolding RevokeAllSessionsForUser_def by (intro keeps_tokens_update) simp
  ultimately show ?thesis by (cases x) (simp_all add: keeps_def)
qed

lemma unique_tokens_history:
  assumes "history sessions (session_act s) w w'" and "unique_tokens (db w)"
  shows "unique_tokens (db w')"
  using assms
proof (induction rule: rtranclp_induct)
  case (step w1 w2)
  then have u: "unique_tokens (db w1)" by simp
  from ss.step_evolves [OF step(2)] u have "distinct (map se_id (sessions (db w2)))"
    by (auto simp: unique_tokens_def intro: evolves_keys)
  moreover from step(2) u have "distinct (map se_token_hash (sessions (db w2)))"
    by cases (use session_act_tokens in \<open>auto simp: unique_tokens_def keeps_tokens_def\<close>)
  ultimately show ?case by (simp add: unique_tokens_def)
qed simp

lemma session_by_hash_unique:
  assumes "unique_tokens d" and "List.find (\<lambda>r. se_token_hash r = h) (sessions d) = Some r"
  shows "session_by_hash h d = (if live_user d (se_user_id r) then Some r else None)"
proof -
  from assms(2) have r: "r \<in> set (sessions d)" "se_token_hash r = h" by (auto dest: find_Some_set)
  have only: "q = r" if "q \<in> set (sessions d)" "se_token_hash q = h" for q
    using that r assms(1) distinct_map_eqD [of se_token_hash "sessions d"] by (auto simp: unique_tokens_def)
  show ?thesis
  proof (cases "session_by_hash h d")
    case None
    with r show ?thesis by (auto simp: session_by_hash_def find_None_iff)
  next
    case (Some q)
    with session_by_hashD [OF this] only show ?thesis by auto
  qed
qed

text \<open>What a successful validation says about the row it has found.\<close>

lemma Validate_ok:
  assumes "ValidateSession s tk w = (Inr u, w')"
  shows "\<exists>r. session_by_hash (HashOpaqueToken tk) (db w) = Some r \<and> se_user_id r = u \<and>
     se_revoked_at r = None \<and> clock w < se_absolute_expires_at r \<and> clock w < se_expires_at r"
  using assms unfolding ValidateSession_def Let_def
  by (auto split: if_splits option.splits elim!: bind_result_cases query_cases)

lemma update_sessions_result:
  assumes "exec (update_sessions P f) w = (Inr n, w')"
  shows "sessions (db w') = update_where P (f (CURRENT_TIMESTAMP (clock w'))) (sessions (db w))"
  using assms
proof (cases rule: exec_cases)
  case (ok t d a)
  from ok(1) have "sessions d = update_where P (f t) (sessions (db w))"
    unfolding update_sessions_def by auto
  with ok(3,4) show ?thesis by simp
qed simp

section \<open>What a session guarantees\<close>

definition slide_to :: "store \<Rightarrow> int \<Rightarrow> session_row \<Rightarrow> int" where
  "slide_to s now r = (if now + idleTTL s > se_absolute_expires_at r
     then se_absolute_expires_at r else now + idleTTL s)"

text \<open>
  Validation, every branch. Over a database that does not fail, validating a token finds
  the session of that token whose user is not deleted, and reports not found, revoked or
  expired (idle or absolute) without changing anything; otherwise it returns the owner and
  moves the sliding expiry of that one session to the idle time-out from now, capped by the
  absolute expiry.
\<close>

theorem validate_session_branches:
  assumes "outcomes w = []" and "db_set s" and "unique_tokens (db w)"
    and "List.find (\<lambda>r. se_token_hash r = HashOpaqueToken tk) (sessions (db w)) = Some r"
  shows "ValidateSession s tk w =
    (if \<not> live_user (db w) (se_user_id r) then (Inl (Sentinel ErrSessionNotFound), w)
     else if se_revoked_at r \<noteq> None then (Inl (Sentinel ErrSessionRevoked), w)
     else if se_absolute_expires_at r \<le> clock w \<or> se_expires_at r \<le> clock w
     then (Inl (Sentinel ErrSessionExpired), w)
     else (Inr (se_user_id r), w\<lparr>db := (db w)\<lparr>sessions :=
       update_where (\<lambda>q. se_id q = se_id r)
         (\<lambda>q. q\<lparr>se_last_seen_at := CURRENT_TIMESTAMP (clock w),
                se_expires_at := TIMESTAMP (slide_to s (clock w) r)\<rparr>) (sessions (db w))\<rparr>\<rparr>))"
proof -
  from assms(4) have r: "r \<in> set (sessions (db w))" by (auto dest: find_Some_set)
  have only: "update_where (\<lambda>q. se_id q = se_id r \<and> se_revoked_at q = None) f (sessions (db w))
      = update_where (\<lambda>q. se_id q = se_id r) f (sessions (db w))"
    if open_row: "se_revoked_at r = None" for f
  proof -
    have "q = r" if "q \<in> set (sessions (db w))" "se_id q = se_id r" for q
      using distinct_map_eqD [OF _ that(1) r that(2)] assms(3) by (simp add: unique_tokens_def)
    with open_row have "q \<in> set (sessions (db w)) \<Longrightarrow>
        (se_id q = se_id r \<and> se_revoked_at q = None) = (se_id q = se_id r)" for q by metis
    then show ?thesis unfolding update_where_def by (intro map_cong) simp_all
  qed
  show ?thesis
    using assms(1,2) only
    by (auto simp: ValidateSession_def session_by_hash_unique [OF assms(3,4)] world_simps Let_def
        update_sessions_def slide_to_def)
qed

text \<open>
  C3: A session ends. Take any session and let any session operations run, in any order and
  with any database failures, interleaved with steps that do not write the session table. If
  its token validates afterwards, then it validates for the user the session was created for,
  the session was not revoked to begin with, and the absolute expiry it was created with has
  not been reached: no number of refreshes extends a session beyond it.
\<close>

theorem session_ends:
  assumes "history sessions (session_act s) w w'" and "unique_tokens (db w)"
    and "List.find (\<lambda>r. se_token_hash r = HashOpaqueToken tk) (sessions (db w)) = Some r"
    and "ValidateSession s tk w' = (Inr u, w'')"
  shows "u = se_user_id r \<and> se_revoked_at r = None \<and> clock w' < se_absolute_expires_at r \<and>
         live_user (db w') u"
proof -
  from unique_tokens_history [OF assms(1,2)] have ut: "unique_tokens (db w')" .
  from assms(2) have "distinct (map se_id (sessions (db w)))" by (simp add: unique_tokens_def)
  from ss.history_find_by [OF assms(1) this _ assms(3)] obtain r' where
    r': "List.find (\<lambda>r. se_token_hash r = HashOpaqueToken tk) (sessions (db w')) = Some r'" "session_step\<^sup>*\<^sup>* r r'"
    by (auto simp: session_step_def)
  from Validate_ok [OF assms(4)] session_by_hash_unique [OF ut r'(1)]
  have "live_user (db w') (se_user_id r') \<and> se_user_id r' = u \<and> se_revoked_at r' = None \<and>
      clock w' < se_absolute_expires_at r'"
    by (auto split: if_splits)
  with session_steps [OF r'(2)] show ?thesis by (cases "se_revoked_at r = None") auto
qed

lemma revoke_outcome:
  assumes "RevokeSessionByRawToken s tk w = (Inr x, w')"
    and "List.find (\<lambda>r. se_token_hash r = HashOpaqueToken tk) (sessions (db w)) = Some r"
  shows "\<exists>r'. List.find (\<lambda>r. se_token_hash r = HashOpaqueToken tk) (sessions (db w')) = Some r' \<and>
    se_revoked_at r' \<noteq> None"
proof -
  from assms(1) obtain t where
    "sessions (db w') = update_where (\<lambda>r. se_token_hash r = HashOpaqueToken tk \<and> se_revoked_at r = None)
       (\<lambda>r. r\<lparr>se_revoked_at := Some t\<rparr>) (sessions (db w))"
    unfolding RevokeSessionByRawToken_def Let_def
    by (auto split: if_splits elim!: bind_result_cases dest: update_sessions_result)
  moreover have "\<exists>r'. List.find (\<lambda>r. se_token_hash r = h)
      (update_where (\<lambda>r. se_token_hash r = h \<and> se_revoked_at r = None) (\<lambda>r. r\<lparr>se_revoked_at := Some t\<rparr>) rs)
      = Some r' \<and> se_revoked_at r' \<noteq> None"
    if "List.find (\<lambda>r. se_token_hash r = h) rs = Some r" for h rs
    using that by (induction rs) (auto split: if_splits)
  ultimately show ?thesis using assms(2) by auto
qed

lemma unique_tokens_act: "unique_tokens (db w) \<Longrightarrow> unique_tokens (db (session_act s x w))"
  by (rule unique_tokens_history [OF history_own])

text \<open>
  C26: Logging out is final. Once revoking a session's token has returned without an error, no
  later validation of that token succeeds, whatever happens in between.
\<close>

theorem revoked_session_stays_out:
  assumes "unique_tokens (db w)"
    and "List.find (\<lambda>r. se_token_hash r = HashOpaqueToken tk) (sessions (db w)) = Some r"
    and "RevokeSessionByRawToken s tk w = (Inr x, w1)"
    and "history sessions (session_act s') w1 w2"
  shows "ValidateSession s' tk w2 \<noteq> (Inr u, w3)"
proof
  assume ok: "ValidateSession s' tk w2 = (Inr u, w3)"
  from revoke_outcome [OF assms(3,2)] obtain r1 where
    r1: "List.find (\<lambda>r. se_token_hash r = HashOpaqueToken tk) (sessions (db w1)) = Some r1" "se_revoked_at r1 \<noteq> None"
    by blast
  from unique_tokens_act [OF assms(1), of s "SRevoke tk"] assms(3) have ut: "unique_tokens (db w1)" by simp
  then have "distinct (map se_id (sessions (db w1)))" by (simp add: unique_tokens_def)
  from ss.history_find_by [OF assms(4) this _ r1(1)] obtain r2 where
    r2: "List.find (\<lambda>r. se_token_hash r = HashOpaqueToken tk) (sessions (db w2)) = Some r2" "session_step\<^sup>*\<^sup>* r1 r2"
    by (auto simp: session_step_def)
  from session_steps [OF r2(2)] r1(2) have "r2 = r1" by simp
  with Validate_ok [OF ok] session_by_hash_unique [OF unique_tokens_history [OF assms(4) ut] r2(1)] r1(2)
  show False by (auto split: if_splits)
qed

text \<open>
  C27: A password change logs out everywhere. After all sessions of a user have been revoked
  without an error, no session that existed then validates for this user again.
\<close>

theorem revoke_all_ends_every_session:
  assumes "unique_tokens (db w)" and "RevokeAllSessionsForUser u w = (Inr n, w1)"
    and "List.find (\<lambda>r. se_token_hash r = HashOpaqueToken tk) (sessions (db w)) = Some r" and "se_user_id r = u"
    and "history sessions (session_act s) w1 w2"
  shows "ValidateSession s tk w2 \<noteq> (Inr v, w3)"
proof
  assume ok: "ValidateSession s tk w2 = (Inr v, w3)"
  from assms(2) obtain t where upd:
    "sessions (db w1) = update_where (\<lambda>r. se_user_id r = u \<and> se_revoked_at r = None)
       (\<lambda>r. r\<lparr>se_revoked_at := Some t\<rparr>) (sessions (db w))"
    unfolding RevokeAllSessionsForUser_def by (auto dest: update_sessions_result)
  have "\<exists>r'. List.find (\<lambda>r. se_token_hash r = h)
      (update_where (\<lambda>r. se_user_id r = u \<and> se_revoked_at r = None) (\<lambda>r. r\<lparr>se_revoked_at := Some t\<rparr>) rs)
      = Some r' \<and> se_revoked_at r' \<noteq> None"
    if "List.find (\<lambda>r. se_token_hash r = h) rs = Some r" for h rs
    using that assms(4) by (induction rs) (auto split: if_splits)
  from this [OF assms(3)] upd obtain r1 where
    r1: "List.find (\<lambda>r. se_token_hash r = HashOpaqueToken tk) (sessions (db w1)) = Some r1" "se_revoked_at r1 \<noteq> None"
    by auto
  from unique_tokens_act [OF assms(1), of s "SRevokeAll u"] assms(2) have ut: "unique_tokens (db w1)" by simp
  then have "distinct (map se_id (sessions (db w1)))" by (simp add: unique_tokens_def)
  from ss.history_find_by [OF assms(5) this _ r1(1)] obtain r2 where
    r2: "List.find (\<lambda>r. se_token_hash r = HashOpaqueToken tk) (sessions (db w2)) = Some r2" "session_step\<^sup>*\<^sup>* r1 r2"
    by (auto simp: session_step_def)
  from session_steps [OF r2(2)] r1(2) have "r2 = r1" by simp
  with Validate_ok [OF ok] session_by_hash_unique [OF unique_tokens_history [OF assms(5) ut] r2(1)] r1(2)
  show False by (auto split: if_splits)
qed

section \<open>One-time codes for the desktop client\<close>

lemma exchange_row_step:
  "xc_consumed_at r = None \<Longrightarrow> exchange_step r (r\<lparr>xc_consumed_at := Some t\<rparr>)"
  by (auto simp: exchange_step_def)

lemma CreateDesktop_evolves:
  "keeps exchanges_evolve w (CreateDesktopExchangeCode s u c ch si cb ttl w)"
  unfolding CreateDesktopExchangeCode_def Let_def
proof (intro keeps_intro keeps_exec reflp_tbl_evolves)
  fix t d a
  assume u: "\<not> u \<le> 0" and "(if user_exists (db w) u \<and> HashOpaqueToken c \<notin> xc_code_hash ` set (exchanges (db w))
     then Some (db w\<lparr>exchanges := exchanges (db w) @ [new_exchange_row (next_id xc_id (exchanges (db w)))
        u (HashOpaqueToken c) ch si cb (clock w + ttl)]\<rparr>, ())
     else None) = Some (d, a)"
  then have "exchanges d = exchanges (db w) @ [new_exchange_row (next_id xc_id (exchanges (db w)))
        u (HashOpaqueToken c) ch si cb (clock w + ttl)]"
    by (simp split: if_splits) auto
  then show "exchanges_evolve (db w) d"
    by (rule tbl_evolves_insert) (use u in \<open>simp_all add: new_exchange_row_def exchange_init_def\<close>)
qed

lemma Redeem_evolves: "keeps exchanges_evolve w (RedeemDesktopExchangeCode s c w)"
  unfolding RedeemDesktopExchangeCode_def Let_def
  by (intro keeps_intro keeps_bind_reads keeps_exec reflp_tbl_evolves)
    (auto intro!: tbl_evolves_update exchange_row_step)

datatype exchange_op = XCreate int string string string string int | XRedeem string

fun exchange_act :: "store \<Rightarrow> exchange_op \<Rightarrow> world \<Rightarrow> world" where
  "exchange_act s (XCreate u c ch si cb ttl) w = snd (CreateDesktopExchangeCode s u c ch si cb ttl w)"
| "exchange_act s (XRedeem c) w = snd (RedeemDesktopExchangeCode s c w)"

lemma exchange_act_evolves: "exchanges_evolve (db w) (db (exchange_act s x w))"
  using CreateDesktop_evolves Redeem_evolves by (cases x) (simp_all add: keeps_def)

lemma Redeem_ok:
  assumes "RedeemDesktopExchangeCode s c w = (Inr x, w')"
  shows "\<exists>r t. exchange_by_hash (HashOpaqueToken c) (db w) = Some r \<and> xc_consumed_at r = None \<and>
    clock w < xc_expires_at r \<and>
    x = \<lparr>dx_user_id = xc_user_id r, dx_session_id = xc_session_id r, dx_code_challenge = xc_code_challenge r\<rparr> \<and>
    exchanges (db w') = update_where (\<lambda>q. xc_id q = xc_id r \<and> xc_consumed_at q = None)
      (\<lambda>q. q\<lparr>xc_consumed_at := Some t\<rparr>) (exchanges (db w))"
proof -
  from assms show ?thesis
    unfolding RedeemDesktopExchangeCode_def Let_def
    by (auto split: if_splits option.splits elim!: in_tx_cases bind_result_cases query_cases
        dest!: exec_result) (rule exI, rule refl)
qed

lemma Redeem_closes:
  assumes "RedeemDesktopExchangeCode s c w = (Inr x, w')"
  shows "\<exists>r. List.find (\<lambda>r. xc_code_hash r = HashOpaqueToken c) (exchanges (db w')) = Some r \<and>
    xc_consumed_at r \<noteq> None"
proof -
  from Redeem_ok [OF assms] obtain r t where
    r: "List.find (\<lambda>r. xc_code_hash r = HashOpaqueToken c) (exchanges (db w)) = Some r" "xc_consumed_at r = None"
    and upd: "exchanges (db w') = update_where (\<lambda>q. xc_id q = xc_id r \<and> xc_consumed_at q = None)
      (\<lambda>q. q\<lparr>xc_consumed_at := Some t\<rparr>) (exchanges (db w))"
    by (auto simp: exchange_by_hash_def)
  have "\<exists>r'. List.find (\<lambda>q. xc_code_hash q = h)
      (update_where (\<lambda>q. xc_id q = xc_id r \<and> xc_consumed_at q = None) (\<lambda>q. q\<lparr>xc_consumed_at := Some t\<rparr>) rs)
      = Some r' \<and> xc_consumed_at r' \<noteq> None"
    if "List.find (\<lambda>q. xc_code_hash q = h) rs = Some r" for h rs
    using that r(2) by (induction rs) (auto split: if_splits)
  with r(1) upd show ?thesis by auto
qed

interpretation xs: one_time exchanges xc_id exchange_init exchange_step "exchange_act s"
    xc_code_hash xc_consumed_at HashOpaqueToken "RedeemDesktopExchangeCode s" for s
proof unfold_locales
  fix w x
  show ev: "distinct (map xc_id (exchanges (db w))) \<Longrightarrow>
      evolves xc_id exchange_init exchange_step (exchanges (db w)) (exchanges (db (exchange_act s x w)))" for w x
    using exchange_act_evolves by (simp add: tbl_evolves_def)
  show "\<And>t w a w'. distinct (map xc_id (exchanges (db w))) \<Longrightarrow> RedeemDesktopExchangeCode s t w = (Inr a, w') \<Longrightarrow>
      distinct (map xc_id (exchanges (db w'))) \<and>
      (\<exists>r. List.find (\<lambda>r. xc_code_hash r = HashOpaqueToken t) (exchanges (db w')) = Some r \<and> xc_consumed_at r \<noteq> None)"
    using Redeem_closes evolves_keys [OF ev [where x = "XRedeem _"]] by (metis exchange_act.simps(2) snd_conv)
qed (auto simp: exchange_step_def exchange_by_hash_def dest!: Redeem_ok)

interpretation redeem: atomic_op "RedeemDesktopExchangeCode s c" for s c
  by unfold_locales (auto simp: RedeemDesktopExchangeCode_def Let_def intro!: clean_intro)

lemma CreateDesktop_ok:
  assumes "CreateDesktopExchangeCode s u c ch si cb ttl w = (Inr (), w')"
  shows "0 < ttl \<and> HashOpaqueToken c \<notin> xc_code_hash ` set (exchanges (db w)) \<and>
    exchanges (db w') = exchanges (db w) @ [new_exchange_row (next_id xc_id (exchanges (db w))) u
      (HashOpaqueToken c) ch si cb (clock w + ttl)]"
  using assms unfolding CreateDesktopExchangeCode_def Let_def
  by (simp split: if_splits) (erule exec_cases, auto split: if_splits dest: sym)

lemma find_append_fresh: "\<forall>r\<in>set rs. \<not> P r \<Longrightarrow> P r \<Longrightarrow> List.find P (rs @ [r]) = Some r"
  by (induction rs) auto

lemma exchange_steps:
  assumes "exchange_step\<^sup>*\<^sup>* r r'"
  shows "xc_user_id r' = xc_user_id r \<and> xc_session_id r' = xc_session_id r \<and>
     xc_code_challenge r' = xc_code_challenge r \<and> xc_expires_at r' = xc_expires_at r"
  using assms by (induction rule: rtranclp_induct) (auto simp: exchange_step_def)

text \<open>What a code was created with is what its row holds at any later time.\<close>

lemma created_code_stays:
  assumes "distinct (map xc_id (exchanges (db w)))"
    and "CreateDesktopExchangeCode s u c ch si cb ttl w = (Inr (), w1)"
    and "history exchanges (exchange_act s) w1 w2"
  shows "distinct (map xc_id (exchanges (db w2))) \<and>
    (\<exists>r. exchange_by_hash (HashOpaqueToken c) (db w2) = Some r \<and> xc_user_id r = u \<and> xc_session_id r = si \<and>
       xc_code_challenge r = ch \<and> xc_expires_at r = TIMESTAMP (clock w + ttl))"
proof -
  note created = CreateDesktop_ok [OF assms(2)]
  have "exchange_act s (XCreate u c ch si cb ttl) w = w1" using assms(2) by simp
  then have d: "distinct (map xc_id (exchanges (db w1)))"
    using xs.history_keys [OF history_own assms(1)] by metis
  have "List.find (\<lambda>r. xc_code_hash r = HashOpaqueToken c) (exchanges (db w1))
    = Some (new_exchange_row (next_id xc_id (exchanges (db w))) u (HashOpaqueToken c) ch si cb (clock w + ttl))"
    using created by (auto simp: new_exchange_row_def intro!: find_append_fresh intro: image_eqI [OF sym])
  from xs.history_find_by [OF assms(3) d xs.step_code this] obtain r where
    "exchange_by_hash (HashOpaqueToken c) (db w2) = Some r"
    "exchange_step\<^sup>*\<^sup>* (new_exchange_row (next_id xc_id (exchanges (db w))) u (HashOpaqueToken c) ch si cb (clock w + ttl)) r"
    by (auto simp: exchange_by_hash_def)
  with exchange_steps [OF this(2)] xs.history_keys [OF assms(3) d] show ?thesis
    by (simp add: new_exchange_row_def)
qed

text \<open>
  C14: A desktop code works once, for what it was created with. Take a code that was stored
  for a user, a session and a PKCE challenge with a time to live, and any later state reached by
  exchange operations and foreign steps. If it is redeemed there, then before the expiry the
  creation fixed (its time plus the time to live, as a TIMESTAMP column rounds it), and the
  redemption returns that user, session and challenge; and after any further history redeeming
  it again fails.
\<close>

theorem exchange_code_works_once:
  assumes "distinct (map xc_id (exchanges (db w)))"
    and "CreateDesktopExchangeCode s u c ch si cb ttl w = (Inr (), w1)"
    and "history exchanges (exchange_act s) w1 w2"
    and "RedeemDesktopExchangeCode s c w2 = (Inr x, w3)"
    and "history exchanges (exchange_act s) w3 w4"
  shows "x = \<lparr>dx_user_id = u, dx_session_id = si, dx_code_challenge = ch\<rparr> \<and>
    clock w2 < TIMESTAMP (clock w + ttl) \<and> RedeemDesktopExchangeCode s c w4 \<noteq> (Inr y, w5)"
proof -
  from created_code_stays [OF assms(1-3)] have "distinct (map xc_id (exchanges (db w2)))" ..
  from xs.at_most_once [OF this assms(4,5) refl] created_code_stays [OF assms(1-3)] Redeem_ok [OF assms(4)]
  show ?thesis by auto
qed

lemma live_user_exists: "live_user d u \<Longrightarrow> user_exists d u"
  by (auto simp: live_user_def user_exists_def)

text \<open>
  Over a database that does not fail, a session created for a user that
  is not deleted, with a token that is not in use and time-outs of at least a second, is
  validated at once for the same user.
\<close>

theorem session_roundtrip:
  assumes "outcomes w = []" and "db_set s" and "live_user (db w) u"
    and "HashOpaqueToken tk \<notin> se_token_hash ` set (sessions (db w))"
    and "second \<le> idleTTL s" and "second \<le> absTTL s"
  shows "\<exists>w1 w2. CreateSession s u tk ip ua w = (Inr (), w1) \<and> ValidateSession s tk w1 = (Inr u, w2)"
proof -
  define row where "row = new_session_row (next_id se_id (sessions (db w))) (CURRENT_TIMESTAMP (clock w)) u
    (HashOpaqueToken tk) (if clock w + absTTL s < clock w + idleTTL s then clock w + absTTL s
      else clock w + idleTTL s) (clock w + absTTL s) ip ua"
  let ?w = "w\<lparr>db := (db w)\<lparr>sessions := sessions (db w) @ [row]\<rparr>\<rparr>"
  have create: "CreateSession s u tk ip ua w = (Inr (), ?w)"
    using assms live_user_exists [OF assms(3)] by (simp add: CreateSession_def Let_def world_simps row_def)
  have found: "session_by_hash (HashOpaqueToken tk) (db ?w) = Some row"
    unfolding session_by_hash_def using assms(3,4)
    by (auto intro!: find_append_fresh intro: image_eqI [OF sym] simp: live_user_def row_def new_session_row_def)
  have "clock w < TIMESTAMP (clock w + n)" if "second \<le> n" for n
    using TIMESTAMP_bounds(2) [of "clock w + n"] that by (simp add: second_def)
  then have "se_revoked_at row = None" "clock w < se_absolute_expires_at row" "clock w < se_expires_at row"
    "se_user_id row = u"
    using assms(5,6) by (simp_all add: row_def new_session_row_def)
  then have "\<exists>w2. ValidateSession s tk ?w = (Inr u, w2)"
    using assms(1,2) found by (simp add: ValidateSession_def Let_def world_simps update_sessions_def)
  with create show ?thesis by blast
qed

text \<open>
  Over a database that does not fail, a code stored for an
  existing user, not in use before and valid for at least a second, is redeemed for that user,
  with the session and the PKCE challenge it was stored with.
\<close>

theorem exchange_roundtrip:
  assumes "outcomes w = []" and "db_set s" and "0 < u" and "user_exists (db w) u"
    and "HashOpaqueToken c \<notin> xc_code_hash ` set (exchanges (db w))"
    and "distinct (map xc_id (exchanges (db w)))" and "second \<le> ttl"
  shows "\<exists>w1 w2. CreateDesktopExchangeCode s u c ch si cb ttl w = (Inr (), w1) \<and>
    RedeemDesktopExchangeCode s c w1
      = (Inr \<lparr>dx_user_id = u, dx_session_id = si, dx_code_challenge = ch\<rparr>, w2)"
proof -
  define row where "row = new_exchange_row (next_id xc_id (exchanges (db w))) u (HashOpaqueToken c) ch si cb
    (clock w + ttl)"
  let ?w = "w\<lparr>db := (db w)\<lparr>exchanges := exchanges (db w) @ [row]\<rparr>\<rparr>"
  have create: "CreateDesktopExchangeCode s u c ch si cb ttl w = (Inr (), ?w)"
    using assms by (simp add: CreateDesktopExchangeCode_def Let_def world_simps row_def second_def)
  have found: "exchange_by_hash (HashOpaqueToken c) (db ?w) = Some row"
    unfolding exchange_by_hash_def using assms(5)
    by (auto intro!: find_append_fresh intro: image_eqI [OF sym] simp: row_def new_exchange_row_def)
  have row: "xc_consumed_at row = None" "clock w < xc_expires_at row" "xc_user_id row = u"
    "xc_session_id row = si" "xc_code_challenge row = ch" "xc_id row = next_id xc_id (exchanges (db w))"
    using TIMESTAMP_bounds(2) [of "clock w + ttl"] assms(7)
    by (simp_all add: row_def new_exchange_row_def second_def)
  have "filter (\<lambda>r. xc_id r = xc_id row \<and> xc_consumed_at r = None \<and> r\<lparr>xc_consumed_at := Some t\<rparr> \<noteq> r)
      (exchanges (db w)) = []" for t
    using next_id_above [of _ "exchanges (db w)" xc_id] by (fastforce simp: filter_empty_conv row(6))
  moreover have "row\<lparr>xc_consumed_at := Some t\<rparr> \<noteq> row" for t
  proof
    assume "row\<lparr>xc_consumed_at := Some t\<rparr> = row"
    then have "xc_consumed_at (row\<lparr>xc_consumed_at := Some t\<rparr>) = xc_consumed_at row" by simp
    with row(1) show False by simp
  qed
  ultimately have one: "affected (\<lambda>r. xc_id r = xc_id row \<and> xc_consumed_at r = None)
      (\<lambda>r. r\<lparr>xc_consumed_at := Some t\<rparr>) (exchanges (db w) @ [row]) = 1" for t
    using row(1) by (simp add: affected_def affected_rows_def)
  have "\<exists>w2. RedeemDesktopExchangeCode s c ?w
      = (Inr \<lparr>dx_user_id = u, dx_session_id = si, dx_code_challenge = ch\<rparr>, w2)"
    using assms(1,2) found row(1-5) one
    by (simp add: RedeemDesktopExchangeCode_def Let_def world_simps)
  with create show ?thesis by blast
qed

section \<open>A concrete run\<close>

text \<open>User 1 logs in with the token tok, and hands a code to a desktop client.\<close>

definition demo_session :: session_row where
  "demo_session = new_session_row 1 1000000000000 1 (HashOpaqueToken ''tok'') 1100000000000
     2000000000000 ''10.0.0.1'' ''browser''"

definition demo_code :: exchange_row where
  "demo_code = new_exchange_row 1 1 (HashOpaqueToken ''code'') ''challenge'' ''sess'' '''' 1060000000000"

definition demo_login :: world where
  "demo_login = demo_world\<lparr>db := (db demo_world)\<lparr>sessions := [demo_session], exchanges := [demo_code]\<rparr>\<rparr>"

text \<open>The state between the two.\<close>

definition demo_opened :: world where
  "demo_opened = demo_world\<lparr>db := (db demo_world)\<lparr>sessions := [demo_session]\<rparr>\<rparr>"

lemma demo_session_created:
  "CreateSession demo_store 1 ''tok'' ''10.0.0.1'' ''browser'' demo_world = (Inr (), demo_opened)"
  by (simp add: CreateSession_def Let_def world_simps demo_world_def demo_store_def user_exists_def empty_db_def
      demo_user_def next_id_def CURRENT_TIMESTAMP_def demo_opened_def demo_session_def)

lemma demo_code_created:
  "CreateDesktopExchangeCode demo_store 1 ''code'' ''challenge'' ''sess'' '''' 60000000000 demo_opened
     = (Inr (), demo_login)"
  by (simp add: CreateDesktopExchangeCode_def Let_def world_simps demo_world_def demo_store_def user_exists_def
      empty_db_def demo_user_def next_id_def demo_opened_def demo_login_def demo_code_def)

lemma demo_login_facts:
  "outcomes demo_login = []" "db_set demo_store" "unique_tokens (db demo_login)"
  "List.find (\<lambda>r. se_token_hash r = HashOpaqueToken ''tok'') (sessions (db demo_login)) = Some demo_session"
  "se_user_id demo_session = 1" "se_revoked_at demo_session = None"
  "se_absolute_expires_at demo_session = 2000000000000" "se_expires_at demo_session = 1100000000000"
  "live_user (db demo_login) 1" "clock demo_login = 1000000000000"
  "distinct (map xc_id (exchanges (db demo_login)))"
  by (simp_all add: demo_login_def demo_world_def demo_session_def demo_store_def new_session_row_def
      unique_tokens_def live_user_def empty_db_def demo_user_def TIMESTAMP_def)

theorem validate_session_branches_witness:
  "fst (ValidateSession demo_store ''tok'' demo_login) = Inr 1"
  using validate_session_branches [OF demo_login_facts(1-4)] demo_login_facts by simp

lemma demo_validates: "\<exists>w. ValidateSession demo_store ''tok'' demo_login = (Inr 1, w)"
  by (simp add: ValidateSession_def session_by_hash_unique [OF demo_login_facts(3,4)] world_simps
      demo_login_facts update_sessions_def)

theorem session_ends_witness:
  "\<exists>u w. ValidateSession demo_store ''tok'' demo_login = (Inr u, w) \<and> u = 1 \<and>
     clock demo_login < 2000000000000"
proof -
  from demo_validates obtain w where v: "ValidateSession demo_store ''tok'' demo_login = (Inr 1, w)" by blast
  from session_ends [OF rtranclp.rtrancl_refl demo_login_facts(3,4) v] v show ?thesis
    by (auto simp: demo_login_facts)
qed

theorem revoked_session_stays_out_witness:
  "\<exists>x w. RevokeSessionByRawToken demo_store ''tok'' demo_login = (Inr x, w) \<and>
     (\<forall>u w'. ValidateSession demo_store ''tok'' w \<noteq> (Inr u, w'))"
proof -
  have "\<exists>w. RevokeSessionByRawToken demo_store ''tok'' demo_login = (Inr (), w)"
    by (simp add: RevokeSessionByRawToken_def Let_def world_simps demo_login_facts update_sessions_def)
  with revoked_session_stays_out [OF demo_login_facts(3,4) _ rtranclp.rtrancl_refl]
  show ?thesis by blast
qed

theorem revoke_all_ends_every_session_witness:
  "\<exists>n w. RevokeAllSessionsForUser 1 demo_login = (Inr n, w) \<and>
     (\<forall>u w'. ValidateSession demo_store ''tok'' w \<noteq> (Inr u, w'))"
proof -
  have "\<exists>n w. RevokeAllSessionsForUser 1 demo_login = (Inr n, w)"
    by (simp add: RevokeAllSessionsForUser_def world_simps demo_login_facts update_sessions_def)
  with revoke_all_ends_every_session [OF demo_login_facts(3) _ demo_login_facts(4,5) rtranclp.rtrancl_refl]
  show ?thesis by blast
qed

lemma demo_redeems: "\<exists>w. RedeemDesktopExchangeCode demo_store ''code'' demo_login
   = (Inr \<lparr>dx_user_id = 1, dx_session_id = ''sess'', dx_code_challenge = ''challenge''\<rparr>, w)"
  by (simp add: RedeemDesktopExchangeCode_def Let_def world_simps exchange_by_hash_def
      demo_login_def demo_world_def demo_store_def demo_code_def new_exchange_row_def TIMESTAMP_def
      affected_def affected_rows_def)

theorem exchange_code_works_once_witness:
  "\<exists>w1 w2 x w3. CreateDesktopExchangeCode demo_store 1 ''code'' ''challenge'' ''sess'' '''' 60000000000 demo_opened
       = (Inr (), w1) \<and>
     history exchanges (exchange_act demo_store) w1 w2 \<and>
     RedeemDesktopExchangeCode demo_store ''code'' w2 = (Inr x, w3) \<and>
     x = \<lparr>dx_user_id = 1, dx_session_id = ''sess'', dx_code_challenge = ''challenge''\<rparr> \<and>
     clock w2 < 1060000000000 \<and>
     (\<forall>y w'. RedeemDesktopExchangeCode demo_store ''code'' w3 \<noteq> (Inr y, w'))"
proof -
  have c: "CreateDesktopExchangeCode demo_store 1 ''code'' ''challenge'' ''sess'' '''' 60000000000 demo_opened
      = (Inr (), demo_login)"
    using demo_code_created by simp
  have d: "distinct (map xc_id (exchanges (db demo_opened)))" "TIMESTAMP (clock demo_opened + 60000000000) = 1060000000000"
    by (simp_all add: demo_opened_def demo_world_def empty_db_def TIMESTAMP_def)
  from demo_redeems obtain w where r: "RedeemDesktopExchangeCode demo_store ''code'' demo_login
    = (Inr \<lparr>dx_user_id = 1, dx_session_id = ''sess'', dx_code_challenge = ''challenge''\<rparr>, w)" by blast
  from exchange_code_works_once [OF d(1) c rtranclp.rtrancl_refl r rtranclp.rtrancl_refl] c r d(2)
  show ?thesis by auto
qed

theorem session_roundtrip_witness:
  "\<exists>w1 w2. CreateSession demo_store 1 ''tok'' '''' '''' demo_world = (Inr (), w1) \<and>
     ValidateSession demo_store ''tok'' w1 = (Inr 1, w2)"
  by (rule session_roundtrip)
    (simp_all add: demo_world_def demo_store_def live_user_def empty_db_def demo_user_def second_def)

theorem exchange_roundtrip_witness:
  "\<exists>w1 w2. CreateDesktopExchangeCode demo_store 1 ''code'' ''ch'' ''si'' '''' 60000000000 demo_world = (Inr (), w1) \<and>
     RedeemDesktopExchangeCode demo_store ''code'' w1
       = (Inr \<lparr>dx_user_id = 1, dx_session_id = ''si'', dx_code_challenge = ''ch''\<rparr>, w2)"
  by (rule exchange_roundtrip)
    (simp_all add: demo_world_def demo_store_def user_exists_def empty_db_def demo_user_def second_def)

end
