(* ===== verification/Operators.thy ===== *)
theory Operators
  imports Sessions "HOL-Library.Char_ord" "HOL-Library.List_Lexorder"
begin

text \<open>
  authstore/user_auth.go, identity.go, operator_identity.go, platform_rbac.go and
  admin_audit.go: operator accounts with their credentials and roles, invitations to become
  an operator, the local users behind OIDC subjects, and the control-plane audit trail.
\<close>

section \<open>Credentials (user_auth.go)\<close>

definition account_joined :: "(operator_account_row \<Rightarrow> bool) \<Rightarrow> database \<Rightarrow> operator_account_row option" where
  "account_joined P d =
     List.find (\<lambda>a. P a \<and> oa_status a = ''active'' \<and> live_user d (oa_linked_user_id a)) (accounts d)"

definition GetUserPasswordHashByID :: "int \<Rightarrow> world \<Rightarrow> ('e, string) result \<times> world" where
  "GetUserPasswordHashByID userID w =
     bind_result (query (\<lambda>_. account_joined (\<lambda>a. oa_linked_user_id a = userID)) w)
       (\<lambda>row w1. case row of None \<Rightarrow> (Inl NoRows, w1) | Some a \<Rightarrow> (Inr (oa_password_hash a), w1))"

definition GetUserAuthByEmail :: "string \<Rightarrow> world \<Rightarrow> ('e, int \<times> string) result \<times> world" where
  "GetUserAuthByEmail email w =
     bind_result (query (\<lambda>_. account_joined (\<lambda>a. oa_email a = email)) w)
       (\<lambda>row w1. case row of None \<Rightarrow> (Inl NoRows, w1)
                  | Some a \<Rightarrow> (Inr (oa_linked_user_id a, oa_password_hash a), w1))"

text \<open>\<open>INSERT INTO users\<close>, returning the new id.\<close>

definition insert_user :: "string \<Rightarrow> int \<Rightarrow> database \<Rightarrow> database \<times> int" where
  "insert_user name pennies d =
     (let i = next_id us_id (users d) in
      (d\<lparr>users := users d @ [\<lparr>us_id = i, us_name = name, us_pennies = pennies, us_deleted_at = None\<rparr>]\<rparr>, i))"

text \<open>
  \<open>INSERT INTO operator_accounts\<close>: the linked user must exist, and neither the user nor
  the e-mail may have an account yet.
\<close>

definition insert_account ::
    "int \<Rightarrow> string \<Rightarrow> string \<Rightarrow> int option \<Rightarrow> database \<Rightarrow> (database \<times> int) option" where
  "insert_account uid email passwordHash invitedBy d =
     (if user_exists d uid \<and> uid \<notin> oa_linked_user_id ` set (accounts d) \<and> email \<notin> oa_email ` set (accounts d)
      then
        (let i = next_id oa_id (accounts d) in
         Some (d\<lparr>accounts := accounts d @
           [\<lparr>oa_id = i, oa_linked_user_id = uid, oa_email = email, oa_password_hash = passwordHash,
             oa_status = ''active'', oa_invited_by = invitedBy, oa_last_login_at = None\<rparr>]\<rparr>, i))
      else None)"

definition CreateRegisteredUser :: "string \<Rightarrow> string \<Rightarrow> string \<Rightarrow> world \<Rightarrow> ('e, int) result \<times> world" where
  "CreateRegisteredUser email name passwordHash w =
     in_tx (\<lambda>w0.
       bind_result (exec (\<lambda>_ d. Some (insert_user name 0 d)) w0) (\<lambda>uid w1.
       bind_result (exec (\<lambda>_. insert_account uid email passwordHash None) w1) (\<lambda>_ w2.
         (Inr uid, w2)))) w"

definition UpdateUserPasswordHash :: "int \<Rightarrow> string \<Rightarrow> world \<Rightarrow> ('e, unit) result \<times> world" where
  "UpdateUserPasswordHash userID passwordHash w =
     bind_result
       (exec (\<lambda>_ d.
          let P = (\<lambda>a. oa_linked_user_id a = userID \<and> live_user d userID);
              f = (\<lambda>a. a\<lparr>oa_password_hash := passwordHash\<rparr>)
          in Some (d\<lparr>accounts := update_where P f (accounts d)\<rparr>, affected P f (accounts d))) w)
       (\<lambda>n w1. if n = 0 then (Inl NoRows, w1) else (Inr (), w1))"

section \<open>OIDC identities (identity.go)\<close>

definition identity_of :: "string \<Rightarrow> string \<Rightarrow> database \<Rightarrow> int option" where
  "identity_of issuer subject d =
     map_option id_user_id (List.find (\<lambda>i. id_issuer i = issuer \<and> id_subject i = subject) (identities d))"

definition LocalUserIDForIdentity ::
    "store \<Rightarrow> string \<Rightarrow> string \<Rightarrow> world \<Rightarrow> ('e, int option) result \<times> world" where
  "LocalUserIDForIdentity s issuer subject w =
     (if \<not> db_set s then (Inl (Msg ''nil db''), w)
      else query (\<lambda>_. identity_of issuer subject) w)"

text \<open>
  The unique key of the table is on the first 255 characters of the two columns, which are
  UTF-8: a character is a byte that does not continue another, with those that continue it.
\<close>

fun char_prefix :: "nat \<Rightarrow> string \<Rightarrow> string" where
  "char_prefix n [] = []"
| "char_prefix n (c # cs) =
     (if (of_char c :: nat) div 64 = 2 then c # char_prefix n cs
      else (case n of 0 \<Rightarrow> [] | Suc m \<Rightarrow> c # char_prefix m cs))"

definition insert_identity :: "int \<Rightarrow> string \<Rightarrow> string \<Rightarrow> database \<Rightarrow> (database \<times> unit) option" where
  "insert_identity uid issuer subject d =
     (if user_exists d uid \<and>
         (char_prefix 255 issuer, char_prefix 255 subject)
           \<notin> (\<lambda>i. (char_prefix 255 (id_issuer i), char_prefix 255 (id_subject i))) ` set (identities d)
      then Some (d\<lparr>identities := identities d @
             [\<lparr>id_user_id = uid, id_issuer = issuer, id_subject = subject\<rparr>]\<rparr>, ())
      else None)"

definition EnsureOIDCUser ::
    "store \<Rightarrow> string \<Rightarrow> string \<Rightarrow> string \<Rightarrow> world \<Rightarrow> ('e, int) result \<times> world" where
  "EnsureOIDCUser s issuer subject displayName w =
     (if \<not> db_set s then (Inl (Msg ''nil db''), w)
      else if issuer = '''' \<or> subject = '''' then (Inl (Msg ''issuer and subject required''), w)
      else
        (let name = (if displayName = '''' then ''OIDC user'' else displayName);
             name = (if length name > 100 then take 100 name else name)
         in in_tx (\<lambda>w0.
              bind_result (query (\<lambda>_. identity_of issuer subject) w0) (\<lambda>found w1.
                case found of
                  Some uid \<Rightarrow> (Inr uid, w1)
                | None \<Rightarrow>
                    bind_result (exec (\<lambda>_ d. Some (insert_user name 0 d)) w1) (\<lambda>i w2.
                    bind_result (exec (\<lambda>_. insert_identity i issuer subject) w2) (\<lambda>_ w3.
                      (Inr i, w3))))) w))"

section \<open>Invitations (operator_identity.go)\<close>

datatype invite_error =
    ErrOperatorInviteNotFound
  | ErrOperatorInviteUsed
  | ErrOperatorInviteExpired
  | ErrOperatorInviteEmailMismatch
  | ErrOperatorRoleNotFound
  | ErrOperatorEmailExists

record OperatorInviteResult =
  ir_LinkedUserID :: int
  ir_Email :: string
  ir_RoleName :: string

definition user_ref :: "database \<Rightarrow> int option \<Rightarrow> bool" where
  "user_ref d u \<longleftrightarrow> (case u of None \<Rightarrow> True | Some i \<Rightarrow> user_exists d i)"

definition CreateOperatorInvite ::
    "store option \<Rightarrow> token_hash \<Rightarrow> email_addr \<Rightarrow> string \<Rightarrow> string \<Rightarrow> int option \<Rightarrow> int option \<Rightarrow> int \<Rightarrow> json_text
     \<Rightarrow> world \<Rightarrow> (invite_error, unit) result \<times> world" where
  "CreateOperatorInvite s tokenHash email displayName roleName linkedUserID invitedByUserID expiresAt metaJSON w =
     (if nil_store s then (Inl (Msg ''nil db''), w)
      else exec (\<lambda>_ d.
        if tokenHash \<notin> iv_token_hash ` set (invites d) \<and> user_ref d linkedUserID \<and> user_ref d invitedByUserID
        then Some (d\<lparr>invites := invites d @
          [\<lparr>iv_id = next_id iv_id (invites d), iv_token_hash = tokenHash, iv_email = email,
            iv_display_name = displayName, iv_role_name = roleName, iv_linked_user_id = linkedUserID,
            iv_invited_by = invitedByUserID, iv_expires_at = TIMESTAMP expiresAt, iv_consumed_at = None,
            iv_meta = nullBytes metaJSON\<rparr>]\<rparr>, ())
        else None) w)"

definition invite_by_hash :: "string \<Rightarrow> database \<Rightarrow> invite_row option" where
  "invite_by_hash h d = List.find (\<lambda>r. iv_token_hash r = h) (invites d)"

definition invite_display_name :: "string \<Rightarrow> string \<Rightarrow> string" where
  "invite_display_name overrideName invitedName =
     (let n = TrimSpace overrideName;
          n = (if n = '''' then TrimSpace invitedName else n);
          n = (if n = '''' then ''Operator'' else n)
      in if length n > 100 then take 100 n else n)"

text \<open>\<open>v.Valid && v.Int64 > 0\<close>, as a filter.\<close>

definition positive_ref :: "int option \<Rightarrow> int option" where
  "positive_ref v = (case v of None \<Rightarrow> None | Some i \<Rightarrow> if i > 0 then Some i else None)"

definition insert_account_role :: "int \<Rightarrow> int \<Rightarrow> database \<Rightarrow> (database \<times> unit) option" where
  "insert_account_role acc rid d =
     (if \<lparr>ar_account_id = acc, ar_role_id = rid\<rparr> \<notin> set (account_roles d) \<and>
         acc \<in> oa_id ` set (accounts d) \<and> rid \<in> ro_id ` set (roles d)
      then Some (d\<lparr>account_roles := account_roles d @ [\<lparr>ar_account_id = acc, ar_role_id = rid\<rparr>]\<rparr>, ())
      else None)"

definition consume_invite :: "int \<Rightarrow> int \<Rightarrow> database \<Rightarrow> database" where
  "consume_invite i t d = d\<lparr>invites :=
     update_where (\<lambda>r. iv_id r = i \<and> iv_consumed_at r = None) (\<lambda>r. r\<lparr>iv_consumed_at := Some t\<rparr>) (invites d)\<rparr>"

definition AcceptOperatorInvite ::
    "store option \<Rightarrow> token_hash \<Rightarrow> email_addr \<Rightarrow> pw_hash \<Rightarrow> string \<Rightarrow> world
     \<Rightarrow> (invite_error, OperatorInviteResult) result \<times> world" where
  "AcceptOperatorInvite s tokenHash inputEmail passwordHash overrideDisplayName w =
     (if nil_store s then (Inl (Msg ''nil db''), w)
      else in_tx (\<lambda>w0.
        bind_result (query (\<lambda>_. invite_by_hash tokenHash) w0) (\<lambda>found w1.
        case found of
          None \<Rightarrow> (Inl (Sentinel ErrOperatorInviteNotFound), w1)
        | Some ivt \<Rightarrow>
          if iv_consumed_at ivt \<noteq> None then (Inl (Sentinel ErrOperatorInviteUsed), w1)
          else if \<not> clock w1 < iv_expires_at ivt then (Inl (Sentinel ErrOperatorInviteExpired), w1)
          else if \<not> EqualFold_ascii (TrimSpace (iv_email ivt)) (TrimSpace inputEmail)
          then (Inl (Sentinel ErrOperatorInviteEmailMismatch), w1)
          else
            bind_result (query (\<lambda>_ d. List.find (\<lambda>r. ro_name r = iv_role_name ivt) (roles d)) w1) (\<lambda>role w2.
            case role of
              None \<Rightarrow> (Inl (Sentinel ErrOperatorRoleNotFound), w2)
            | Some r \<Rightarrow>
              bind_result
                (case positive_ref (iv_linked_user_id ivt) of
                   Some u \<Rightarrow> (Inr u, w2)
                 | None \<Rightarrow> exec (\<lambda>_ d. Some (insert_user
                        (invite_display_name overrideDisplayName (iv_display_name ivt)) 0 d)) w2)
                (\<lambda>linkedUserID w3.
              bind_result (query (\<lambda>_ d. List.find
                  (\<lambda>a. oa_email a = iv_email ivt \<or> oa_linked_user_id a = linkedUserID) (accounts d)) w3)
                (\<lambda>existing w4.
              if existing \<noteq> None then (Inl (Sentinel ErrOperatorEmailExists), w4)
              else
                bind_result (exec (\<lambda>_. insert_account linkedUserID (iv_email ivt) passwordHash
                    (positive_ref (iv_invited_by ivt))) w4) (\<lambda>operatorAccountID w5.
                bind_result (exec (\<lambda>_. insert_account_role operatorAccountID (ro_id r)) w5) (\<lambda>_ w6.
                bind_result (exec (\<lambda>t d. Some (consume_invite (iv_id ivt) t d, ())) w6) (\<lambda>_ w7.
                  (Inr \<lparr>ir_LinkedUserID = linkedUserID, ir_Email = iv_email ivt,
                        ir_RoleName = iv_role_name ivt\<rparr>, w7))))))))) w)"

definition TouchOperatorLoginByEmail :: "store option \<Rightarrow> string \<Rightarrow> world \<Rightarrow> ('e, unit) result \<times> world" where
  "TouchOperatorLoginByEmail s email w =
     (if nil_store s then (Inl (Msg ''nil db''), w)
      else exec (\<lambda>t d. Some (d\<lparr>accounts := update_where (\<lambda>a. oa_email a = email)
             (\<lambda>a. a\<lparr>oa_last_login_at := Some t\<rparr>) (accounts d)\<rparr>, ())) w)"

section \<open>Roles (platform_rbac.go) and the admin audit trail (admin_audit.go)\<close>

definition account_role_names :: "int \<Rightarrow> database \<Rightarrow> string list" where
  "account_role_names userID d = sort (remdups
     [ro_name r. r \<leftarrow> roles d, ar \<leftarrow> account_roles d, ar_role_id ar = ro_id r, a \<leftarrow> accounts d,
        oa_id a = ar_account_id ar \<and> oa_linked_user_id a = userID \<and> oa_status a = ''active'' \<and> live_user d userID])"

definition legacy_role_names :: "int \<Rightarrow> database \<Rightarrow> string list" where
  "legacy_role_names userID d = sort (remdups
     [ro_name r. r \<leftarrow> roles d, ur \<leftarrow> user_roles d, ur_role_id ur = ro_id r \<and> ur_user_id ur = userID])"

definition ListPlatformRoleNamesForUser ::
    "store option \<Rightarrow> int \<Rightarrow> world \<Rightarrow> ('e, string list) result \<times> world" where
  "ListPlatformRoleNamesForUser s userID w =
     (if nil_store s then (Inl (Msg ''nil db''), w)
      else if userID \<le> 0 then (Inl (Msg ''invalid user id''), w)
      else bind_result
        (query (\<lambda>_ d. if operator_tables d then Some (account_role_names userID d) else None) w)
        (\<lambda>names w1. case names of
           Some ns \<Rightarrow> (Inr ns, w1)
         | None \<Rightarrow> query (\<lambda>_. legacy_role_names userID) w1))"

definition InsertAdminAuditEvent ::
    "store option \<Rightarrow> int option \<Rightarrow> string \<Rightarrow> string \<Rightarrow> string \<Rightarrow> string \<Rightarrow> string
     \<Rightarrow> request_ref \<Rightarrow> ip_addr \<Rightarrow> user_agent \<Rightarrow> json_text \<Rightarrow> world \<Rightarrow> ('e, unit) result \<times> world" where
  "InsertAdminAuditEvent s actorUserID authSubject action resourceType resourceID reason requestID ip ua metaJSON w =
     (if nil_store s then (Inl (Msg ''nil db''), w)
      else exec (\<lambda>t d.
        if user_ref d actorUserID then
          Some (d\<lparr>admin_audit := admin_audit d @
            [\<lparr>ad_id = next_id ad_id (admin_audit d), ad_created_at = t, ad_actor = actorUserID,
              ad_subject = authSubject, ad_action = action, ad_resource_type = resourceType,
              ad_resource_id = nullStr resourceID, ad_reason = nullStr reason,
              ad_request_id = nullStr requestID, ad_ip = nullStr ip, ad_user_agent = nullStr ua,
              ad_meta = nullBytes metaJSON\<rparr>]\<rparr>, ())
        else None) w)"

section \<open>An invitation is a one-time credential\<close>

definition invite_step :: "invite_row \<Rightarrow> invite_row \<Rightarrow> bool" where
  "invite_step r r' \<longleftrightarrow> iv_consumed_at r = None \<and> (\<exists>t. r' = r\<lparr>iv_consumed_at := Some t\<rparr>)"

definition invite_init :: "invite_row \<Rightarrow> bool" where
  "invite_init r \<longleftrightarrow> iv_consumed_at r = None"

abbreviation invites_evolve :: "database \<Rightarrow> database \<Rightarrow> bool" where
  "invites_evolve \<equiv> tbl_evolves invites iv_id invite_init invite_step"

lemma CreateInvite_evolves: "keeps invites_evolve w (CreateOperatorInvite s h e n r l b x m w)"
  unfolding CreateOperatorInvite_def
  by (intro keeps_intro keeps_exec reflp_tbl_evolves)
    (auto intro!: tbl_evolves_insert simp: invite_init_def split: if_splits)

lemma insert_user_tables [simp]:
  "invites (fst (insert_user n p d)) = invites d" "accounts (fst (insert_user n p d)) = accounts d"
  "account_roles (fst (insert_user n p d)) = account_roles d" "roles (fst (insert_user n p d)) = roles d"
  "identities (fst (insert_user n p d)) = identities d"
  by (simp_all add: insert_user_def Let_def)

lemma insert_user_db: "insert_user n p d = (d', i) \<Longrightarrow>
    d' = d\<lparr>users := users d @ [\<lparr>us_id = i, us_name = n, us_pennies = p, us_deleted_at = None\<rparr>]\<rparr> \<and>
    i = next_id us_id (users d)"
  by (auto simp: insert_user_def Let_def)

lemma insert_account_db: "insert_account u e h b d = Some (d', i) \<Longrightarrow>
    d' = d\<lparr>accounts := accounts d @
           [\<lparr>oa_id = i, oa_linked_user_id = u, oa_email = e, oa_password_hash = h,
             oa_status = ''active'', oa_invited_by = b, oa_last_login_at = None\<rparr>]\<rparr> \<and> user_exists d u"
  by (auto simp: insert_account_def Let_def split: if_splits)

lemma insert_account_role_db: "insert_account_role a r d = Some (d', u) \<Longrightarrow>
    d' = d\<lparr>account_roles := account_roles d @ [\<lparr>ar_account_id = a, ar_role_id = r\<rparr>]\<rparr>"
  by (auto simp: insert_account_role_def split: if_splits)

text \<open>The tables a successful statement of each kind leaves.\<close>

lemma exec_insert_user:
  assumes "exec (\<lambda>_ d. Some (insert_user n p d)) w = (Inr i, w')"
  shows "db w' = (db w)\<lparr>users := users (db w) @ [\<lparr>us_id = i, us_name = n, us_pennies = p, us_deleted_at = None\<rparr>]\<rparr> \<and>
    i = next_id us_id (users (db w))"
  using assms by (cases rule: exec_cases) (auto dest: insert_user_db)

lemma exec_insert_account:
  assumes "exec (\<lambda>_. insert_account u e h b) w = (Inr i, w')"
  shows "db w' = (db w)\<lparr>accounts := accounts (db w) @
           [\<lparr>oa_id = i, oa_linked_user_id = u, oa_email = e, oa_password_hash = h,
             oa_status = ''active'', oa_invited_by = b, oa_last_login_at = None\<rparr>]\<rparr> \<and> user_exists (db w) u"
  using assms by (cases rule: exec_cases) (auto dest: insert_account_db)

lemma exec_insert_account_role:
  assumes "exec (\<lambda>_. insert_account_role a r) w = (Inr i, w')"
  shows "db w' = (db w)\<lparr>account_roles := account_roles (db w) @ [\<lparr>ar_account_id = a, ar_role_id = r\<rparr>]\<rparr>"
  using assms by (cases rule: exec_cases) (auto dest: insert_account_role_db)

text \<open>What accepting an invitation leaves behind.\<close>

definition invite_usable :: "invite_row \<Rightarrow> int \<Rightarrow> string \<Rightarrow> bool" where
  "invite_usable r now email \<longleftrightarrow> iv_consumed_at r = None \<and> now < iv_expires_at r \<and>
     EqualFold_ascii (TrimSpace (iv_email r)) (TrimSpace email)"

definition invite_accepted ::
    "invite_row \<Rightarrow> string \<Rightarrow> OperatorInviteResult \<Rightarrow> database \<Rightarrow> database \<Rightarrow> bool" where
  "invite_accepted r passwordHash res d d' \<longleftrightarrow>
     (\<exists>a role t us. role \<in> set (roles d) \<and> ro_name role = iv_role_name r \<and>
        oa_linked_user_id a = ir_LinkedUserID res \<and> oa_email a = iv_email r \<and>
        oa_password_hash a = passwordHash \<and> oa_status a = ''active'' \<and>
        (\<forall>b\<in>set (accounts d). oa_email b \<noteq> iv_email r \<and> oa_linked_user_id b \<noteq> ir_LinkedUserID res) \<and>
        (case positive_ref (iv_linked_user_id r) of
           Some u \<Rightarrow> ir_LinkedUserID res = u \<and> us = []
         | None \<Rightarrow> ir_LinkedUserID res = next_id us_id (users d) \<and> map us_id us = [ir_LinkedUserID res]) \<and>
        ir_Email res = iv_email r \<and> ir_RoleName res = iv_role_name r \<and>
        d' = consume_invite (iv_id r) t (d\<lparr>users := users d @ us, accounts := accounts d @ [a],
          account_roles := account_roles d @ [\<lparr>ar_account_id = oa_id a, ar_role_id = ro_id role\<rparr>]\<rparr>))"

lemma accepted_linked:
  assumes "positive_ref (iv_linked_user_id r) = Some u"
    and "List.find (\<lambda>q. ro_name q = iv_role_name r) (roles d) = Some role"
    and "\<forall>b. b \<in> set (accounts d) \<longrightarrow> oa_email b \<noteq> iv_email r \<and> oa_linked_user_id b \<noteq> u"
    and "a = \<lparr>oa_id = i, oa_linked_user_id = u, oa_email = iv_email r, oa_password_hash = pw,
           oa_status = ''active'', oa_invited_by = b, oa_last_login_at = None\<rparr>"
    and "d' = consume_invite (iv_id r) t (d\<lparr>accounts := accounts d @ [a],
          account_roles := account_roles d @ [\<lparr>ar_account_id = i, ar_role_id = ro_id role\<rparr>]\<rparr>)"
  shows "invite_accepted r pw \<lparr>ir_LinkedUserID = u, ir_Email = iv_email r, ir_RoleName = iv_role_name r\<rparr> d d'"
  unfolding invite_accepted_def
  by (rule exI [of _ a], rule exI [of _ role], rule exI [of _ t], rule exI [of _ "[]"])
    (use assms find_Some_set [OF assms(2)] in simp)

lemma accepted_new:
  assumes "positive_ref (iv_linked_user_id r) = None"
    and "List.find (\<lambda>q. ro_name q = iv_role_name r) (roles d) = Some role"
    and "\<forall>b. b \<in> set (accounts d) \<longrightarrow> oa_email b \<noteq> iv_email r \<and> oa_linked_user_id b \<noteq> next_id us_id (users d)"
    and "a = \<lparr>oa_id = i, oa_linked_user_id = next_id us_id (users d), oa_email = iv_email r, oa_password_hash = pw,
           oa_status = ''active'', oa_invited_by = b, oa_last_login_at = None\<rparr>"
    and "us_id u = next_id us_id (users d)"
    and "d' = consume_invite (iv_id r) t (d\<lparr>users := users d @ [u], accounts := accounts d @ [a],
          account_roles := account_roles d @ [\<lparr>ar_account_id = i, ar_role_id = ro_id role\<rparr>]\<rparr>)"
  shows "invite_accepted r pw \<lparr>ir_LinkedUserID = next_id us_id (users d), ir_Email = iv_email r,
    ir_RoleName = iv_role_name r\<rparr> d d'"
  unfolding invite_accepted_def
  by (rule exI [of _ a], rule exI [of _ role], rule exI [of _ t], rule exI [of _ "[u]"])
    (use assms find_Some_set [OF assms(2)] in simp)

lemma Accept_ok:
  assumes "AcceptOperatorInvite s h e pw n w = (Inr res, w')"
  shows "\<exists>r. invite_by_hash h (db w) = Some r \<and> invite_usable r (clock w) e \<and>
    invite_accepted r pw res (db w) (db w')"
  using assms unfolding AcceptOperatorInvite_def
  by (auto split: if_splits option.splits elim!: in_tx_cases bind_result_cases query_cases
      dest!: exec_insert_user exec_insert_account exec_insert_account_role exec_result
      simp: find_None_iff invite_usable_def intro!: accepted_linked [OF _ _ _ refl refl]
      accepted_new [OF _ _ _ refl _ refl])

interpretation accept: atomic_op "AcceptOperatorInvite s h e pw n" for s h e pw n
  by unfold_locales (auto simp: AcceptOperatorInvite_def intro!: clean_intro)

interpretation register: atomic_op "CreateRegisteredUser e n pw" for e n pw
  by unfold_locales (auto simp: CreateRegisteredUser_def intro!: clean_intro)

interpretation ensure: atomic_op "EnsureOIDCUser s i sub n" for s i sub n
  by unfold_locales (auto simp: EnsureOIDCUser_def Let_def intro!: clean_intro)

lemma accepted_invites:
  "invite_accepted r pw res d d' \<Longrightarrow> \<exists>t. invites d' =
     update_where (\<lambda>q. iv_id q = iv_id r \<and> iv_consumed_at q = None) (\<lambda>q. q\<lparr>iv_consumed_at := Some t\<rparr>) (invites d)"
  by (auto simp: invite_accepted_def consume_invite_def)

lemma Accept_evolves: "keeps invites_evolve w (AcceptOperatorInvite s h e pw n w)"
proof (rule keepsI)
  fix x w' assume run: "AcceptOperatorInvite s h e pw n w = (x, w')"
  show "invites_evolve (db w) (db w')"
  proof (cases x)
    case (Inl err)
    with run show ?thesis by (simp add: accept.error_no_effect tbl_evolves_same)
  next
    case (Inr res)
    with run Accept_ok obtain r where "invite_accepted r pw res (db w) (db w')" by metis
    from accepted_invites [OF this] obtain t where "invites (db w') =
      update_where (\<lambda>q. iv_id q = iv_id r \<and> iv_consumed_at q = None) (\<lambda>q. q\<lparr>iv_consumed_at := Some t\<rparr>) (invites (db w))"
      by blast
    then show ?thesis by (rule tbl_evolves_update) (auto simp: invite_step_def)
  qed
qed

datatype invite_op =
    ICreate string string string string "int option" "int option" int string
  | IAccept string string string string

fun invite_act :: "store option \<Rightarrow> invite_op \<Rightarrow> world \<Rightarrow> world" where
  "invite_act s (ICreate h e n r l b x m) w = snd (CreateOperatorInvite s h e n r l b x m w)"
| "invite_act s (IAccept h e pw n) w = snd (AcceptOperatorInvite s h e pw n w)"

lemma invite_act_evolves: "invites_evolve (db w) (db (invite_act s x w))"
  using CreateInvite_evolves Accept_evolves by (cases x) (simp_all add: keeps_def)

text \<open>The arguments of one attempt: token hash, e-mail, password hash, display name.\<close>

fun accept_call :: "store option \<Rightarrow> string \<times> string \<times> string \<times> string \<Rightarrow> world
    \<Rightarrow> (invite_error, OperatorInviteResult) result \<times> world" where
  "accept_call s (h, e, pw, n) w = AcceptOperatorInvite s h e pw n w"

lemma Accept_closes:
  assumes "AcceptOperatorInvite s h e pw n w = (Inr res, w')"
  shows "\<exists>r. List.find (\<lambda>r. iv_token_hash r = h) (invites (db w')) = Some r \<and> iv_consumed_at r \<noteq> None"
proof -
  from Accept_ok [OF assms] obtain r where
    r: "List.find (\<lambda>r. iv_token_hash r = h) (invites (db w)) = Some r" "iv_consumed_at r = None"
    and "invite_accepted r pw res (db w) (db w')"
    by (auto simp: invite_by_hash_def invite_usable_def)
  from accepted_invites [OF this(3)] obtain t where upd: "invites (db w') =
     update_where (\<lambda>q. iv_id q = iv_id r \<and> iv_consumed_at q = None) (\<lambda>q. q\<lparr>iv_consumed_at := Some t\<rparr>) (invites (db w))"
    by blast
  have "\<exists>r'. List.find (\<lambda>q. iv_token_hash q = h)
      (update_where (\<lambda>q. iv_id q = iv_id r \<and> iv_consumed_at q = None) (\<lambda>q. q\<lparr>iv_consumed_at := Some t\<rparr>) rs)
      = Some r' \<and> iv_consumed_at r' \<noteq> None"
    if "List.find (\<lambda>q. iv_token_hash q = h) rs = Some r" for rs
    using that r(2) by (induction rs) (auto split: if_splits)
  with r(1) upd show ?thesis by auto
qed

interpretation iv: one_time invites iv_id invite_init invite_step "invite_act s"
    iv_token_hash iv_consumed_at fst "accept_call s" for s
proof unfold_locales
  show ev: "distinct (map iv_id (invites (db w))) \<Longrightarrow>
      evolves iv_id invite_init invite_step (invites (db w)) (invites (db (invite_act s x w)))" for w x
    using invite_act_evolves by (simp add: tbl_evolves_def)
  fix t w a w'
  assume "distinct (map iv_id (invites (db w)))" and run: "accept_call s t w = (Inr a, w')"
  obtain h e pw n where t: "t = (h, e, pw, n)" by (cases t)
  have "w' = invite_act s (IAccept h e pw n) w" using run t by simp
  with ev [OF \<open>distinct _\<close>] \<open>distinct _\<close> have "distinct (map iv_id (invites (db w')))"
    by (metis evolves_keys)
  with Accept_closes run t
  show "distinct (map iv_id (invites (db w'))) \<and>
      (\<exists>r. List.find (\<lambda>r. iv_token_hash r = fst t) (invites (db w')) = Some r \<and> iv_consumed_at r \<noteq> None)"
    by simp
next
  fix t w a w'
  assume run: "accept_call s t w = (Inr a, w')"
  obtain h e pw n where "t = (h, e, pw, n)" by (cases t)
  with run show "\<exists>r. List.find (\<lambda>r. iv_token_hash r = fst t) (invites (db w)) = Some r \<and> iv_consumed_at r = None"
    by (auto simp: invite_by_hash_def invite_usable_def dest!: Accept_ok)
qed (auto simp: invite_step_def)

text \<open>
  C15: An invitation makes one operator. A successful acceptance uses an invitation that is
  neither consumed nor expired and whose e-mail is the given one, and does exactly this: one
  new active account with the invited e-mail and the given password hash, linked to the
  invited user or to one new user, no other account having had that e-mail or user; exactly
  the invited role for it; and the invitation marked as consumed.
\<close>

theorem accept_invite_effect:
  assumes "AcceptOperatorInvite s h e pw n w = (Inr res, w')"
  shows "\<exists>r. invite_by_hash h (db w) = Some r \<and> invite_usable r (clock w) e \<and>
    invite_accepted r pw res (db w) (db w')"
  using assms by (rule Accept_ok)

text \<open>
  C28: An invitation is used at most once: after one success no later attempt with the same
  token succeeds, whatever invitations are made or accepted and whatever else happens in
  between.
\<close>

theorem invite_accepted_once:
  assumes "distinct (map iv_id (invites (db w)))"
    and "AcceptOperatorInvite s h e pw n w = (Inr res, w1)"
    and "history invites (invite_act s) w1 w2"
  shows "AcceptOperatorInvite s h e' pw' n' w2 \<noteq> (Inr res', w3)"
  using iv.at_most_once [of w s "(h, e, pw, n)" res w1 w2 "(h, e', pw', n')"] assms by simp

text \<open>
  C29: No half-made operator. Accepting an invitation, registering a user and making a user
  for an OIDC subject write several tables; if any statement or the commit fails, and on every
  refusal, no table is changed.
\<close>

theorem account_creation_is_atomic:
  assumes "AcceptOperatorInvite s h e pw n w = (Inl e1, w') \<or>
      CreateRegisteredUser e n pw w = (Inl e2, w') \<or> EnsureOIDCUser st i sub n w = (Inl e3, w')"
  shows "db w' = db w"
  using assms by (auto dest: accept.error_no_effect register.error_no_effect ensure.error_no_effect)

section \<open>OIDC subjects\<close>

lemma exec_insert_identity:
  assumes "exec (\<lambda>_. insert_identity u i sub) w = (Inr x, w')"
  shows "db w' = (db w)\<lparr>identities := identities (db w) @
    [\<lparr>id_user_id = u, id_issuer = i, id_subject = sub\<rparr>]\<rparr>"
  using assms by (cases rule: exec_cases) (auto simp: insert_identity_def split: if_splits)

lemma Ensure_ok:
  assumes "EnsureOIDCUser s i sub n w = (Inr u, w')"
  shows "identity_of i sub (db w') = Some u \<and>
    (identity_of i sub (db w) = Some u \<and> db w' = db w \<or>
     identity_of i sub (db w) = None \<and> u = next_id us_id (users (db w)) \<and>
       identities (db w') = identities (db w) @ [\<lparr>id_user_id = u, id_issuer = i, id_subject = sub\<rparr>] \<and>
       users (db w') = users (db w) @
          [\<lparr>us_id = u, us_name = take 100 (if n = '''' then ''OIDC user'' else n), us_pennies = 0, us_deleted_at = None\<rparr>])"
proof -
  have new: "List.find P (xs @ [x]) = Some x" if "List.find P xs = None" "P x" for P and xs :: "identity_row list" and x
    using that by (induction xs) (auto split: if_splits)
  from assms show ?thesis unfolding EnsureOIDCUser_def Let_def
    by (auto split: if_splits option.splits elim!: in_tx_cases bind_result_cases query_cases
        dest!: exec_insert_user exec_insert_identity simp: identity_of_def new)
qed

text \<open>
  C35: An OIDC subject is one local user. Once a user has been found or made for an issuer and
  a subject, every later success for the same pair returns the same user and changes nothing,
  as long as identities are only ever added (no operation removes them).
\<close>

theorem oidc_subject_is_stable:
  assumes "EnsureOIDCUser s i sub n w = (Inr u, w1)"
    and "appends (\<lambda>_. True) (identities (db w1)) (identities (db w2))"
    and "EnsureOIDCUser s' i sub n' w2 = (Inr v, w3)"
  shows "v = u \<and> db w3 = db w2"
proof -
  from Ensure_ok [OF assms(1)] have "identity_of i sub (db w1) = Some u" by simp
  moreover obtain ns where "identities (db w2) = identities (db w1) @ ns"
    using assms(2) by (auto simp: appends_def)
  ultimately have "identity_of i sub (db w2) = Some u"
    by (auto simp: identity_of_def intro: find_append_Some)
  with Ensure_ok [OF assms(3)] show ?thesis by auto
qed

text \<open>
  The lookup reads the identity table alone: a user that has been deleted is still returned.
\<close>

lemma deleted_oidc_user_resolves:
  assumes "outcomes w = []" and "db_set s" and "i \<noteq> ''''" and "sub \<noteq> ''''"
    and "identity_of i sub (db w) = Some u"
  shows "EnsureOIDCUser s i sub n w = (Inr u, w)"
  using assms by (simp add: EnsureOIDCUser_def Let_def world_simps)

section \<open>A concrete run\<close>

definition demo_operators :: world where
  "demo_operators = demo_world\<lparr>db := (db demo_world)\<lparr>roles :=
     [\<lparr>ro_id = 1, ro_name = ''operator''\<rparr>, \<lparr>ro_id = 2, ro_name = ''support''\<rparr>,
      \<lparr>ro_id = 3, ro_name = ''security_admin''\<rparr>]\<rparr>\<rparr>"

text \<open>User 1 invites a support operator; the invitation is accepted.\<close>

definition demo_invited :: world where
  "demo_invited = snd (CreateOperatorInvite (Some demo_store) ''hash'' ''ann@x.org'' ''Ann'' ''support''
     None (Some 1) 2000000000000 '''' demo_operators)"

definition demo_result :: OperatorInviteResult where
  "demo_result = \<lparr>ir_LinkedUserID = 4, ir_Email = ''ann@x.org'', ir_RoleName = ''support''\<rparr>"

definition demo_accepted :: world where
  "demo_accepted = snd (AcceptOperatorInvite (Some demo_store) ''hash'' ''Ann@x.org'' ''pw'' '''' demo_invited)"

lemma demo_strings:
  "TrimSpace ''ann@x.org'' = ''ann@x.org''" "TrimSpace ''Ann@x.org'' = ''Ann@x.org''"
  "TrimSpace ''bob@x.org'' = ''bob@x.org''" "TrimSpace ''Ann'' = ''Ann''"
  by (rule TrimSpace_visible; simp add: visible_def)+

lemma demo_emails:
  "EqualFold_ascii ''ann@x.org'' ''Ann@x.org''" "\<not> EqualFold_ascii ''ann@x.org'' ''bob@x.org''"
  by code_simp+

lemmas demo_invite_defs = demo_invited_def CreateOperatorInvite_def demo_operators_def demo_world_def
  demo_store_def empty_db_def demo_user_def world_simps nil_store_def user_ref_def user_exists_def
  next_id_def TIMESTAMP_def CURRENT_TIMESTAMP_def AcceptOperatorInvite_def invite_by_hash_def demo_strings
  demo_emails positive_ref_def insert_user_def insert_account_def insert_account_role_def Let_def
  invite_display_name_def consume_invite_def

lemma demo_accepts:
  "AcceptOperatorInvite (Some demo_store) ''hash'' ''Ann@x.org'' ''pw'' '''' demo_invited = (Inr demo_result, demo_accepted)"
proof -
  have "fst (AcceptOperatorInvite (Some demo_store) ''hash'' ''Ann@x.org'' ''pw'' '''' demo_invited) = Inr demo_result"
    by (simp add: demo_invite_defs demo_result_def)
  then show ?thesis by (simp add: demo_accepted_def prod_eq_iff)
qed

theorem accept_invite_effect_witness:
  "\<exists>r. invite_by_hash ''hash'' (db demo_invited) = Some r \<and>
     invite_accepted r ''pw'' demo_result (db demo_invited) (db demo_accepted)"
  using accept_invite_effect [OF demo_accepts] by blast

theorem invite_accepted_once_witness:
  "\<forall>e pw n res w. AcceptOperatorInvite (Some demo_store) ''hash'' e pw n demo_accepted \<noteq> (Inr res, w)"
proof -
  have "distinct (map iv_id (invites (db demo_invited)))" by code_simp
  from invite_accepted_once [OF this demo_accepts rtranclp.rtrancl_refl] show ?thesis by blast
qed

theorem account_creation_is_atomic_witness:
  "\<exists>e w. AcceptOperatorInvite (Some demo_store) ''hash'' ''bob@x.org'' ''pw'' '''' demo_invited = (Inl e, w) \<and>
     db w = db demo_invited"
proof -
  have "fst (AcceptOperatorInvite (Some demo_store) ''hash'' ''bob@x.org'' ''pw'' '''' demo_invited)
      = Inl (Sentinel ErrOperatorInviteEmailMismatch)" by (simp add: demo_invite_defs)
  then obtain w where "AcceptOperatorInvite (Some demo_store) ''hash'' ''bob@x.org'' ''pw'' '''' demo_invited
      = (Inl (Sentinel ErrOperatorInviteEmailMismatch), w)" by (metis prod.collapse)
  with account_creation_is_atomic show ?thesis by blast
qed

theorem oidc_subject_is_stable_witness:
  "\<exists>w1 w2. EnsureOIDCUser demo_store ''iss'' ''sub'' ''Bob'' demo_world = ((Inr 4 :: (unit, int) result), w1) \<and>
     EnsureOIDCUser demo_store ''iss'' ''sub'' ''Rob'' w1 = ((Inr 4 :: (unit, int) result), w2) \<and> db w2 = db w1"
proof -
  define w1 where "w1 = snd (EnsureOIDCUser demo_store ''iss'' ''sub'' ''Bob'' demo_world :: (unit, int) result \<times> world)"
  have "fst (EnsureOIDCUser demo_store ''iss'' ''sub'' ''Bob'' demo_world) = (Inr 4 :: (unit, int) result)"
    "fst (EnsureOIDCUser demo_store ''iss'' ''sub'' ''Rob'' w1) = (Inr 4 :: (unit, int) result)"
    unfolding w1_def by code_simp+
  then obtain w2 where "EnsureOIDCUser demo_store ''iss'' ''sub'' ''Bob'' demo_world = ((Inr 4 :: (unit, int) result), w1)"
    "EnsureOIDCUser demo_store ''iss'' ''sub'' ''Rob'' w1 = ((Inr 4 :: (unit, int) result), w2)"
    by (metis prod.collapse w1_def)
  with oidc_subject_is_stable [OF this(1) appends_refl this(2)] show ?thesis by blast
qed

end
