(* ===== verification/Token.thy ===== *)
theory Token
  imports Operators
begin

text \<open>
  auth/token.go and auth/oidc.go: access tokens of the platform and bearer tokens of an
  external issuer. The JWT library (golang-jwt/jwt v5) and the OIDC verifier (coreos/go-oidc)
  are not part of the repository: they are the records \<open>jwt_lib\<close> and \<open>verifier\<close> of
  functions, and \<open>jwt_law\<close> states what the code relies on.
\<close>

section \<open>Claims and the library\<close>

record Claims =
  cl_Issuer :: string
  cl_Subject :: string
  cl_Audience :: "string list"
  cl_ExpiresAt :: "int option"
  cl_IssuedAt :: "int option"
  cl_NotBefore :: "int option"
  cl_ID :: string
  cl_TokenUse :: string
  cl_JoinSessionID :: string
  cl_SessionID :: string

text \<open>
  \<open>SignedString alg key claims\<close>; \<open>ParseWithClaims keyfunc issuer audience methods now token\<close>
  with the options \<open>WithIssuer\<close>, \<open>WithAudience\<close> and \<open>WithValidMethods\<close>, giving the
  claims and the flag \<open>Valid\<close>; \<open>ParseUnverified\<close> decodes a token without checking it,
  and \<open>Verify alg key token\<close> checks its signature.
\<close>

record jwt_lib =
  SignedString :: "string \<Rightarrow> string \<Rightarrow> Claims \<Rightarrow> string option"
  ParseWithClaims :: "(string \<Rightarrow> string option) \<Rightarrow> string \<Rightarrow> string \<Rightarrow> string list \<Rightarrow> int \<Rightarrow> string \<Rightarrow> (Claims \<times> bool) option"
  ParseUnverified :: "string \<Rightarrow> (string \<times> Claims) option"
  Verify :: "string \<Rightarrow> string \<Rightarrow> string \<Rightarrow> bool"

text \<open>\<open>jwt.NewNumericDate\<close> truncates to whole seconds.\<close>

definition NewNumericDate :: "int \<Rightarrow> int" where
  "NewNumericDate t = t div 1000000000 * 1000000000"

definition claims_valid :: "string \<Rightarrow> string \<Rightarrow> int \<Rightarrow> Claims \<Rightarrow> bool" where
  "claims_valid issuer audience now cl \<longleftrightarrow>
     cl_Issuer cl = issuer \<and> audience \<in> set (cl_Audience cl) \<and>
     (case cl_ExpiresAt cl of None \<Rightarrow> True | Some e \<Rightarrow> now < e) \<and>
     (case cl_NotBefore cl of None \<Rightarrow> True | Some b \<Rightarrow> b \<le> now)"

definition whole_seconds :: "Claims \<Rightarrow> bool" where
  "whole_seconds cl \<longleftrightarrow> (\<forall>t. t \<in> set_option (cl_ExpiresAt cl) \<union> set_option (cl_IssuedAt cl) \<union>
     set_option (cl_NotBefore cl) \<longrightarrow> NewNumericDate t = t)"

definition jwt_law :: "jwt_lib \<Rightarrow> bool" where
  "jwt_law L \<longleftrightarrow>
     (\<forall>alg key cl t. SignedString L alg key cl = Some t \<longrightarrow> whole_seconds cl \<longrightarrow>
        ParseUnverified L t = Some (alg, cl) \<and> Verify L alg key t) \<and>
     (\<forall>keyfunc issuer audience methods now t cl valid.
        ParseWithClaims L keyfunc issuer audience methods now t = Some (cl, valid) \<longleftrightarrow>
        valid \<and> (\<exists>alg key. ParseUnverified L t = Some (alg, cl) \<and> alg \<in> set methods \<and>
          keyfunc alg = Some key \<and> Verify L alg key t \<and> claims_valid issuer audience now cl))"

section \<open>The token service (auth/token.go)\<close>

record TokenService =
  ts_secret :: string
  ts_prevSecret :: string
  ts_issuer :: string
  ts_audience :: string
  ts_ttl :: int

datatype token_error = Token_error string | Jwt_error | Rand_error

definition NewTokenService :: "string \<Rightarrow> string \<Rightarrow> string \<Rightarrow> string \<Rightarrow> int \<Rightarrow> token_error + TokenService" where
  "NewTokenService secret previousSecret issuer audience ttl =
     (if length secret < 32 then Inl (Token_error ''JWT secret too short'')
      else if issuer = '''' \<or> audience = '''' then Inl (Token_error ''issuer and audience required'')
      else if TrimSpace previousSecret \<noteq> '''' \<and> length previousSecret < 32
      then Inl (Token_error ''previous JWT secret too short'')
      else Inr \<lparr>ts_secret = secret,
                ts_prevSecret = (if TrimSpace previousSecret \<noteq> '''' then previousSecret else ''''),
                ts_issuer = issuer, ts_audience = audience, ts_ttl = ttl\<rparr>)"

definition HS256 :: string where "HS256 = ''HS256''"

definition randomJTI :: "world \<Rightarrow> string option \<times> world" where
  "randomJTI w = (case rand_Read 16 w of
     (None, w1) \<Rightarrow> (None, w1) | (Some b, w1) \<Rightarrow> (Some (hex_encode b), w1))"

text \<open>The claims all three mints share.\<close>

definition registered_claims :: "TokenService \<Rightarrow> string \<Rightarrow> int \<Rightarrow> int \<Rightarrow> string \<Rightarrow> Claims" where
  "registered_claims s subject now expires jti =
     \<lparr>cl_Issuer = ts_issuer s, cl_Subject = subject, cl_Audience = [ts_audience s],
      cl_ExpiresAt = Some (NewNumericDate expires), cl_IssuedAt = Some (NewNumericDate now),
      cl_NotBefore = Some (NewNumericDate now), cl_ID = jti,
      cl_TokenUse = '''', cl_JoinSessionID = '''', cl_SessionID = ''''\<rparr>"

definition sign_claims :: "jwt_lib \<Rightarrow> TokenService \<Rightarrow> Claims \<Rightarrow> int \<Rightarrow> token_error + (string \<times> int)" where
  "sign_claims L s cl expires = (case SignedString L HS256 (ts_secret s) cl of
     None \<Rightarrow> Inl Jwt_error | Some text \<Rightarrow> Inr (text, expires))"

definition MintAccessToken ::
    "jwt_lib \<Rightarrow> TokenService \<Rightarrow> string \<Rightarrow> world \<Rightarrow> (token_error + (string \<times> int)) \<times> world" where
  "MintAccessToken L s subject w =
     (if subject = '''' then (Inl (Token_error ''subject required''), w)
      else let now = clock w; expires = now + ts_ttl s in
        (case randomJTI w of
           (None, w1) \<Rightarrow> (Inl Rand_error, w1)
         | (Some jti, w1) \<Rightarrow>
             (sign_claims L s (registered_claims s subject now expires jti) expires, w1)))"

definition MintJoinToken ::
    "jwt_lib \<Rightarrow> TokenService \<Rightarrow> string \<Rightarrow> string \<Rightarrow> int \<Rightarrow> world \<Rightarrow> (token_error + (string \<times> int)) \<times> world" where
  "MintJoinToken L s subject joinSessionID ttl w =
     (if subject = '''' then (Inl (Token_error ''subject required''), w)
      else let joinSessionID = TrimSpace joinSessionID in
        if joinSessionID = '''' then (Inl (Token_error ''join session id required''), w)
        else if ttl \<le> 0 then (Inl (Token_error ''join token ttl must be positive''), w)
        else let now = clock w; expires = now + ttl in
          (case randomJTI w of
             (None, w1) \<Rightarrow> (Inl Rand_error, w1)
           | (Some jti, w1) \<Rightarrow>
               (sign_claims L s ((registered_claims s subject now expires jti)
                  \<lparr>cl_TokenUse := ''join'', cl_JoinSessionID := joinSessionID\<rparr>) expires, w1)))"

definition MintDesktopAccessToken ::
    "jwt_lib \<Rightarrow> TokenService \<Rightarrow> string \<Rightarrow> string \<Rightarrow> world \<Rightarrow> (token_error + (string \<times> int)) \<times> world" where
  "MintDesktopAccessToken L s subject sessionID w =
     (if subject = '''' then (Inl (Token_error ''subject required''), w)
      else let sessionID = TrimSpace sessionID in
        if sessionID = '''' then (Inl (Token_error ''session id required''), w)
        else let now = clock w; expires = now + ts_ttl s in
          (case randomJTI w of
             (None, w1) \<Rightarrow> (Inl Rand_error, w1)
           | (Some jti, w1) \<Rightarrow>
               (sign_claims L s ((registered_claims s subject now expires jti)
                  \<lparr>cl_TokenUse := ''desktop_access'', cl_SessionID := sessionID\<rparr>) expires, w1)))"

definition parseAccessTokenWithSecret ::
    "jwt_lib \<Rightarrow> TokenService \<Rightarrow> string \<Rightarrow> string \<Rightarrow> int \<Rightarrow> token_error + Claims" where
  "parseAccessTokenWithSecret L s tokenString secret now =
     (case ParseWithClaims L (\<lambda>alg. if alg \<noteq> HS256 then None else Some secret)
             (ts_issuer s) (ts_audience s) [HS256] now tokenString of
        None \<Rightarrow> Inl Jwt_error
      | Some (cl, valid) \<Rightarrow> if \<not> valid then Inl (Token_error ''invalid token claims'') else Inr cl)"

definition ParseAccessToken :: "jwt_lib \<Rightarrow> TokenService \<Rightarrow> string \<Rightarrow> int \<Rightarrow> token_error + Claims" where
  "ParseAccessToken L s tokenString now =
     (case parseAccessTokenWithSecret L s tokenString (ts_secret s) now of
        Inr cl \<Rightarrow> Inr cl
      | Inl e \<Rightarrow>
          if length (ts_prevSecret s) > 0
          then (case parseAccessTokenWithSecret L s tokenString (ts_prevSecret s) now of
                  Inr cl \<Rightarrow> Inr cl | Inl _ \<Rightarrow> Inl e)
          else Inl e)"

section \<open>What is accepted\<close>

lemma parse_with_secret:
  assumes "jwt_law L"
  shows "parseAccessTokenWithSecret L s t key now = Inr cl \<longleftrightarrow>
    ParseUnverified L t = Some (HS256, cl) \<and> Verify L HS256 key t \<and>
    claims_valid (ts_issuer s) (ts_audience s) now cl"
proof -
  have "ParseWithClaims L (\<lambda>alg. if alg \<noteq> HS256 then None else Some key) (ts_issuer s) (ts_audience s) [HS256] now t
      = Some (cl, v) \<longleftrightarrow> v \<and> ParseUnverified L t = Some (HS256, cl) \<and> Verify L HS256 key t \<and>
        claims_valid (ts_issuer s) (ts_audience s) now cl" for v
  proof -
    from assms have law: "ParseWithClaims L kf i a m n t = Some (cl, v) \<longleftrightarrow>
        v \<and> (\<exists>alg key. ParseUnverified L t = Some (alg, cl) \<and> alg \<in> set m \<and> kf alg = Some key \<and>
          Verify L alg key t \<and> claims_valid i a n cl)" for kf i a m n t cl v
      unfolding jwt_law_def by blast
    show ?thesis by (subst law) auto
  qed
  from this [of True]
  have "ParseWithClaims L (\<lambda>alg. if alg \<noteq> HS256 then None else Some key) (ts_issuer s) (ts_audience s) [HS256] now t
      = Some (cl, True) \<longleftrightarrow> ParseUnverified L t = Some (HS256, cl) \<and> Verify L HS256 key t \<and>
        claims_valid (ts_issuer s) (ts_audience s) now cl" by argo
  moreover have "parseAccessTokenWithSecret L s t key now = Inr cl \<longleftrightarrow>
      ParseWithClaims L (\<lambda>alg. if alg \<noteq> HS256 then None else Some key) (ts_issuer s) (ts_audience s) [HS256] now t
      = Some (cl, True)"
    unfolding parseAccessTokenWithSecret_def by (simp split: option.split)
  ultimately show ?thesis by argo
qed

text \<open>The secrets of a service: the current one and, during a rotation, the previous one.\<close>

definition secrets :: "TokenService \<Rightarrow> string set" where
  "secrets s = insert (ts_secret s) (if ts_prevSecret s = '''' then {} else {ts_prevSecret s})"

lemma parse_access_token:
  assumes "jwt_law L"
  shows "ParseAccessToken L s t now = Inr cl \<longleftrightarrow>
    ParseUnverified L t = Some (HS256, cl) \<and> (\<exists>key\<in>secrets s. Verify L HS256 key t) \<and>
    claims_valid (ts_issuer s) (ts_audience s) now cl"
  using parse_with_secret [OF assms, of s t "ts_secret s" now]
    parse_with_secret [OF assms, of s t "ts_prevSecret s" now]
  by (auto simp: ParseAccessToken_def secrets_def split: sum.splits)

text \<open>
  C22: Which bearer tokens of the platform are accepted. A token is accepted exactly when it
  is an HS256 token whose signature verifies under the current secret or, while one is
  configured, the previous secret, and its claims name this issuer and audience and are in
  their validity period. Nothing else, in particular no other algorithm and no value of
  token_use, decides.
\<close>

theorem accepted_tokens:
  assumes "jwt_law L"
  shows "(\<exists>cl. ParseAccessToken L s t now = Inr cl) \<longleftrightarrow>
    (\<exists>cl. ParseUnverified L t = Some (HS256, cl) \<and>
      (Verify L HS256 (ts_secret s) t \<or> ts_prevSecret s \<noteq> '''' \<and> Verify L HS256 (ts_prevSecret s) t) \<and>
      cl_Issuer cl = ts_issuer s \<and> ts_audience s \<in> set (cl_Audience cl) \<and>
      (\<forall>e. cl_ExpiresAt cl = Some e \<longrightarrow> now < e) \<and> (\<forall>b. cl_NotBefore cl = Some b \<longrightarrow> b \<le> now))"
  by (simp add: parse_access_token [OF assms] secrets_def claims_valid_def split: option.splits)
    (auto split: option.splits)

section \<open>Mint and parse\<close>

datatype token_kind = Access | Join string int | Desktop string

fun mint ::
    "token_kind \<Rightarrow> jwt_lib \<Rightarrow> TokenService \<Rightarrow> string \<Rightarrow> world \<Rightarrow> (token_error + (string \<times> int)) \<times> world" where
  "mint Access L s subject w = MintAccessToken L s subject w"
| "mint (Join sid ttl) L s subject w = MintJoinToken L s subject sid ttl w"
| "mint (Desktop sid) L s subject w = MintDesktopAccessToken L s subject sid w"

fun kind_claims :: "token_kind \<Rightarrow> Claims \<Rightarrow> bool" where
  "kind_claims Access cl \<longleftrightarrow> cl_TokenUse cl = '''' \<and> cl_JoinSessionID cl = '''' \<and> cl_SessionID cl = ''''"
| "kind_claims (Join sid ttl) cl \<longleftrightarrow>
     cl_TokenUse cl = ''join'' \<and> cl_JoinSessionID cl = TrimSpace sid \<and> cl_SessionID cl = ''''"
| "kind_claims (Desktop sid) cl \<longleftrightarrow>
     cl_TokenUse cl = ''desktop_access'' \<and> cl_JoinSessionID cl = '''' \<and> cl_SessionID cl = TrimSpace sid"

fun lifetime :: "token_kind \<Rightarrow> TokenService \<Rightarrow> int" where
  "lifetime (Join sid ttl) s = ttl"
| "lifetime _ s = ts_ttl s"

lemma numeric_date_idem [simp]: "NewNumericDate (NewNumericDate t) = NewNumericDate t"
  by (simp add: NewNumericDate_def)

lemma mint_ok:
  assumes "mint k L s subject w = (Inr (t, expires), w')"
  shows "\<exists>cl. SignedString L HS256 (ts_secret s) cl = Some t \<and> whole_seconds cl \<and> cl_Subject cl = subject \<and>
    cl_Issuer cl = ts_issuer s \<and> cl_Audience cl = [ts_audience s] \<and> kind_claims k cl \<and>
    cl_ExpiresAt cl = Some (NewNumericDate expires) \<and> cl_NotBefore cl = Some (NewNumericDate (clock w)) \<and>
    expires = clock w + lifetime k s \<and> subject \<noteq> '''' \<and> db w' = db w \<and> clock w' = clock w"
proof -
  have r: "db w1 = db w \<and> clock w1 = clock w" if "randomJTI w = (x, w1)" for x w1
    using that rand_Read_world [of 16 w] by (auto simp: randomJTI_def split: prod.splits option.splits)
  show ?thesis using assms r
    by (cases k)
      (auto simp: MintAccessToken_def MintJoinToken_def MintDesktopAccessToken_def Let_def sign_claims_def
        registered_claims_def split: if_splits prod.splits option.splits;
       intro exI conjI, assumption, auto simp: whole_seconds_def)+
qed

text \<open>
  C23: Token round trip through a secret rotation. A token minted for a subject, of whichever
  kind, is accepted by every service with the same issuer and audience that holds the minting
  secret as its current or as its previous secret, exactly from the second it was minted in
  until its lifetime is over, and gives back its subject and session.
\<close>

theorem token_roundtrip:
  assumes "jwt_law L" and "mint k L s subject w = (Inr (t, expires), w')"
    and "ts_issuer s' = ts_issuer s" and "ts_audience s' = ts_audience s"
    and "ts_secret s \<in> secrets s'"
  shows "expires = clock w + lifetime k s \<and>
    (\<exists>cl. cl_Subject cl = subject \<and> kind_claims k cl \<and>
      (\<forall>now. ParseAccessToken L s' t now = Inr cl \<longleftrightarrow>
         NewNumericDate (clock w) \<le> now \<and> now < NewNumericDate expires) \<and>
      (\<forall>now cl'. ParseAccessToken L s' t now = Inr cl' \<longrightarrow> cl' = cl))"
proof -
  from mint_ok [OF assms(2)] obtain cl where
    cl: "SignedString L HS256 (ts_secret s) cl = Some t" "whole_seconds cl" "cl_Subject cl = subject"
      "cl_Issuer cl = ts_issuer s" "cl_Audience cl = [ts_audience s]" "kind_claims k cl"
      "cl_ExpiresAt cl = Some (NewNumericDate expires)" "cl_NotBefore cl = Some (NewNumericDate (clock w))"
      "expires = clock w + lifetime k s"
    by blast
  have d: "ParseUnverified L t = Some (HS256, cl)" "Verify L HS256 (ts_secret s) t"
    using assms(1) cl(1,2) unfolding jwt_law_def by blast+
  have "ParseAccessToken L s' t now = Inr cl' \<longleftrightarrow>
      cl' = cl \<and> NewNumericDate (clock w) \<le> now \<and> now < NewNumericDate expires" for now cl'
    using d assms(3,4,5) cl(4,5,7,8)
    by (auto simp: parse_access_token [OF assms(1)] claims_valid_def)
  with cl(3,6,9) show ?thesis by blast
qed

section \<open>Bearer tokens of an external issuer (auth/oidc.go)\<close>

text \<open>
  What the verifier gives for a token it accepts: issuer, subject, and the members
  \<open>email\<close> and \<open>name\<close> of its claims (empty where they cannot be read).
\<close>

record id_token =
  idt_Issuer :: string
  idt_Subject :: string
  idt_Email :: string
  idt_Name :: string

type_synonym verifier = "int \<Rightarrow> string \<Rightarrow> id_token option"

record OIDC =
  oi_verifier :: "verifier option"
  oi_issuerURL :: string
  oi_store :: "store option"
  oi_audience :: string

datatype oidc_error = Oidc_error string | Verify_error | Store_error

definition NewOIDC ::
    "(string \<Rightarrow> string \<Rightarrow> verifier option) \<Rightarrow> string \<Rightarrow> string \<Rightarrow> store option \<Rightarrow> oidc_error + OIDC" where
  "NewOIDC discover issuerURL audience s =
     (let issuerURL = TrimSpace issuerURL; audience = TrimSpace audience in
      if issuerURL = '''' \<or> audience = '''' then Inl (Oidc_error ''oidc: issuer and audience required'')
      else (case discover issuerURL audience of
          None \<Rightarrow> Inl (Oidc_error ''oidc provider'')
        | Some v \<Rightarrow> Inr \<lparr>oi_verifier = Some v, oi_issuerURL = issuerURL, oi_store = s, oi_audience = audience\<rparr>))"

definition user_subject :: "int \<Rightarrow> string" where
  "user_subject uid = ''user:'' @ Itoa uid"

definition TryResolveAuthSubject :: "OIDC option \<Rightarrow> string \<Rightarrow> world \<Rightarrow> (oidc_error + string) \<times> world" where
  "TryResolveAuthSubject oidc rawToken w =
     (case oidc of
        None \<Rightarrow> (Inl (Oidc_error ''oidc not configured''), w)
      | Some oi \<Rightarrow>
     (case oi_verifier oi of
        None \<Rightarrow> (Inl (Oidc_error ''oidc not configured''), w)
      | Some verify \<Rightarrow>
     (case verify (clock w) rawToken of
        None \<Rightarrow> (Inl Verify_error, w)
      | Some idt \<Rightarrow>
          let sub = TrimSpace (idt_Subject idt) in
          if sub = '''' then (Inl (Oidc_error ''empty sub''), w)
          else if HasSuffix sub ''@clients''
          then let cid = TrimSuffix sub ''@clients'' in
               if cid = '''' then (Inl (Oidc_error ''empty client id in m2m sub''), w)
               else (Inr (''client:'' @ cid), w)
          else (case oi_store oi of
             None \<Rightarrow> (Inl (Oidc_error ''auth store required for user OIDC mapping''), w)
           | Some s \<Rightarrow>
               let display = TrimSpace (idt_Name idt);
                   display = (if display = '''' then TrimSpace (idt_Email idt) else display);
                   iss = TrimSpace (idt_Issuer idt);
                   iss = (if iss = '''' then oi_issuerURL oi else iss)
               in (case EnsureOIDCUser s iss sub display w of
                     (Inl (_ :: unit fault), w1) \<Rightarrow> (Inl Store_error, w1)
                   | (Inr uid, w1) \<Rightarrow> (Inr (user_subject uid), w1))))))"

text \<open>The issuer and the name of a token, with the values the code falls back to.\<close>

definition token_issuer :: "OIDC \<Rightarrow> id_token \<Rightarrow> string" where
  "token_issuer oi idt = (if TrimSpace (idt_Issuer idt) = '''' then oi_issuerURL oi else TrimSpace (idt_Issuer idt))"

definition token_name :: "id_token \<Rightarrow> string" where
  "token_name idt = (if TrimSpace (idt_Name idt) = '''' then TrimSpace (idt_Email idt) else TrimSpace (idt_Name idt))"

lemma resolve_user:
  assumes "TryResolveAuthSubject (Some oi) raw w = (Inr s, w')"
    and "oi_verifier oi = Some verify" and "verify (clock w) raw = Some idt"
    and "\<not> HasSuffix (TrimSpace (idt_Subject idt)) ''@clients''"
  shows "TrimSpace (idt_Subject idt) \<noteq> '''' \<and> (\<exists>st uid. s = user_subject uid \<and>
    EnsureOIDCUser st (token_issuer oi idt) (TrimSpace (idt_Subject idt)) (token_name idt) w = ((Inr uid :: (unit, int) result), w'))"
proof -
  have "TrimSpace (idt_Subject idt) \<noteq> ''''"
    using assms(1-3) by (auto simp: TryResolveAuthSubject_def Let_def)
  moreover from this assms(1) have "\<exists>st uid. s = user_subject uid \<and>
    EnsureOIDCUser st (token_issuer oi idt) (TrimSpace (idt_Subject idt)) (token_name idt) w = ((Inr uid :: (unit, int) result), w')"
    unfolding TryResolveAuthSubject_def Let_def token_issuer_def [symmetric] token_name_def [symmetric]
    by (simp add: assms(2-4) split: option.splits prod.splits sum.splits) blast
  ultimately show ?thesis by blast
qed

text \<open>
  C36: What a bearer token of the external issuer stands for. It resolves only if the
  verifier accepts it and its subject is not blank. A subject ending in @clients becomes that
  machine client and touches nothing. Any other subject becomes the local user that the identity
  table holds for its issuer (the configured one if the token names none) and subject: the one
  found there, and then nothing is written, or else a new user with the name, or the email, or
  "OIDC user", cut to 100 bytes.
\<close>

theorem oidc_subject:
  assumes "TryResolveAuthSubject (Some oi) raw w = (Inr s, w')"
  shows "\<exists>verify idt sub. oi_verifier oi = Some verify \<and> verify (clock w) raw = Some idt \<and>
    sub = TrimSpace (idt_Subject idt) \<and> sub \<noteq> '''' \<and>
    (if HasSuffix sub ''@clients''
     then s = ''client:'' @ TrimSuffix sub ''@clients'' \<and> TrimSuffix sub ''@clients'' \<noteq> '''' \<and> w' = w
     else \<exists>iss uid display. s = user_subject uid \<and> identity_of iss sub (db w') = Some uid \<and>
       iss = (if TrimSpace (idt_Issuer idt) = '''' then oi_issuerURL oi else TrimSpace (idt_Issuer idt)) \<and>
       display = (if TrimSpace (idt_Name idt) \<noteq> '''' then TrimSpace (idt_Name idt)
                  else if TrimSpace (idt_Email idt) \<noteq> '''' then TrimSpace (idt_Email idt) else ''OIDC user'') \<and>
       (identity_of iss sub (db w) = Some uid \<and> db w' = db w \<or>
        identity_of iss sub (db w) = None \<and> users (db w') = users (db w) @
          [\<lparr>us_id = uid, us_name = take 100 display, us_pennies = 0, us_deleted_at = None\<rparr>]))"
proof -
  from assms obtain verify idt where v: "oi_verifier oi = Some verify" "verify (clock w) raw = Some idt"
    by (auto simp: TryResolveAuthSubject_def split: option.splits)
  show ?thesis
  proof (cases "HasSuffix (TrimSpace (idt_Subject idt)) ''@clients''")
    case True
    with assms v show ?thesis by (auto simp: TryResolveAuthSubject_def Let_def split: if_splits)
  next
    case False
    from resolve_user [OF assms v False] obtain st uid where "TrimSpace (idt_Subject idt) \<noteq> ''''" "s = user_subject uid"
      "EnsureOIDCUser st (token_issuer oi idt) (TrimSpace (idt_Subject idt)) (token_name idt) w = ((Inr uid :: (unit, int) result), w')"
      by blast
    with Ensure_ok [OF this(3)] v False show ?thesis by (auto simp: token_issuer_def token_name_def)
  qed
qed

section \<open>A concrete library\<close>

text \<open>
  A stand-in for the JWT library that knows a single token, with its algorithm, key and claims.
\<close>

definition demo_service :: TokenService where
  "demo_service = \<lparr>ts_secret = ''0123456789abcdef0123456789abcdef'', ts_prevSecret = '''',
     ts_issuer = ''suite-platform'', ts_audience = ''suite-platform-api'', ts_ttl = 900000000000\<rparr>"

definition demo_claims :: Claims where
  "demo_claims = registered_claims demo_service ''user:1'' 1000000000000 1900000000000
     (hex_encode (take 16 (''aaaa'' @ replicate 16 (CHR 0x00))))"

definition demo_jwt :: jwt_lib where
  "demo_jwt =
     \<lparr>SignedString = (\<lambda>alg key cl. if alg = HS256 \<and> key = ts_secret demo_service \<and> cl = demo_claims then Some ''tok'' else None),
      ParseWithClaims = (\<lambda>keyfunc issuer audience methods now t.
        if t = ''tok'' \<and> HS256 \<in> set methods \<and> keyfunc HS256 = Some (ts_secret demo_service) \<and>
           claims_valid issuer audience now demo_claims
        then Some (demo_claims, True) else None),
      ParseUnverified = (\<lambda>t. if t = ''tok'' then Some (HS256, demo_claims) else None),
      Verify = (\<lambda>alg key t. alg = HS256 \<and> key = ts_secret demo_service \<and> t = ''tok'')\<rparr>"

lemma demo_jwt_law: "jwt_law demo_jwt"
  by (auto simp: jwt_law_def demo_jwt_def)

theorem accepted_tokens_witness:
  "(\<exists>cl. ParseAccessToken demo_jwt demo_service ''tok'' 1000000000000 = Inr cl) \<and>
   \<not> (\<exists>cl. ParseAccessToken demo_jwt demo_service ''tok'' 1900000000000 = Inr cl)"
  unfolding accepted_tokens [OF demo_jwt_law]
  by (simp add: demo_jwt_def demo_claims_def registered_claims_def NewNumericDate_def demo_service_def)

lemma demo_mint: "\<exists>w. MintAccessToken demo_jwt demo_service ''user:1'' demo_world = (Inr (''tok'', 1900000000000), w)"
  by (simp add: MintAccessToken_def Let_def randomJTI_def rand_Read_def read_entropy_def demo_world_def sign_claims_def
      demo_jwt_def demo_claims_def demo_service_def registered_claims_def)

text \<open>The token is still accepted after its secret has become the previous one.\<close>

theorem token_roundtrip_witness:
  "\<exists>cl. cl_Subject cl = ''user:1'' \<and>
     ParseAccessToken demo_jwt (demo_service\<lparr>ts_secret := ''new'', ts_prevSecret := ts_secret demo_service\<rparr>)
       ''tok'' 1500000000000 = Inr cl"
proof -
  obtain w where w: "mint Access demo_jwt demo_service ''user:1'' demo_world = (Inr (''tok'', 1900000000000), w)"
    using demo_mint by auto
  have "ts_secret demo_service \<in> secrets (demo_service\<lparr>ts_secret := ''new'', ts_prevSecret := ts_secret demo_service\<rparr>)"
    by (simp add: secrets_def demo_service_def)
  from token_roundtrip [OF demo_jwt_law w _ _ this]
  show ?thesis by (auto simp: demo_world_def NewNumericDate_def)
qed

text \<open>A verifier that knows the token of a machine client and that of a person.\<close>

definition demo_oidc :: OIDC where
  "demo_oidc = \<lparr>oi_verifier = Some (\<lambda>_ t.
       if t = ''m2m'' then Some \<lparr>idt_Issuer = ''https://i'', idt_Subject = ''marble@clients'', idt_Email = '''', idt_Name = ''''\<rparr>
       else if t = ''kim'' then Some \<lparr>idt_Issuer = '''', idt_Subject = ''auth0|kim'', idt_Email = ''kim@x.org'', idt_Name = ''''\<rparr>
       else None), oi_issuerURL = ''https://i'', oi_store = Some demo_store, oi_audience = ''api''\<rparr>"

lemma demo_oidc_strings:
  "TrimSpace ''marble@clients'' = ''marble@clients''" "TrimSpace ''auth0|kim'' = ''auth0|kim''"
  "TrimSpace ''kim@x.org'' = ''kim@x.org''"
  by (rule TrimSpace_visible; simp add: visible_def)+

lemma demo_oidc_result: "TryResolveAuthSubject (Some demo_oidc) ''m2m'' demo_world = (Inr ''client:marble'', demo_world)"
  by (simp add: TryResolveAuthSubject_def demo_oidc_def HasSuffix_def TrimSuffix_def suffix_def demo_oidc_strings)

lemma demo_oidc_user: "\<exists>w. TryResolveAuthSubject (Some demo_oidc) ''kim'' demo_world = (Inr ''user:4'', w)"
proof -
  have "fst (EnsureOIDCUser demo_store ''https://i'' ''auth0|kim'' ''kim@x.org'' demo_world) = (Inr 4 :: (unit, int) result)"
    by code_simp
  then obtain w where "EnsureOIDCUser demo_store ''https://i'' ''auth0|kim'' ''kim@x.org'' demo_world = ((Inr 4 :: (unit, int) result), w)"
    by (metis prod.collapse)
  moreover have "user_subject 4 = ''user:4''" by code_simp
  ultimately show ?thesis
    by (simp add: TryResolveAuthSubject_def demo_oidc_def HasSuffix_def suffix_def demo_oidc_strings)
qed

theorem oidc_subject_witness:
  "(\<exists>w. TryResolveAuthSubject (Some demo_oidc) ''m2m'' demo_world = (Inr ''client:marble'', w) \<and> w = demo_world) \<and>
   (\<exists>w. TryResolveAuthSubject (Some demo_oidc) ''kim'' demo_world = (Inr ''user:4'', w) \<and>
      (\<exists>uid. user_subject uid = ''user:4'' \<and> identity_of ''https://i'' ''auth0|kim'' (db w) = Some uid \<and>
        users (db w) = users (db demo_world) @
          [\<lparr>us_id = uid, us_name = ''kim@x.org'', us_pennies = 0, us_deleted_at = None\<rparr>]))"
proof
  from demo_oidc_user obtain w where w: "TryResolveAuthSubject (Some demo_oidc) ''kim'' demo_world = (Inr ''user:4'', w)" by blast
  have "identity_of ''https://i'' ''auth0|kim'' (db demo_world) = None"
    by (simp add: identity_of_def demo_world_def empty_db_def)
  with oidc_subject [OF w] w show "\<exists>w. TryResolveAuthSubject (Some demo_oidc) ''kim'' demo_world = (Inr ''user:4'', w) \<and>
      (\<exists>uid. user_subject uid = ''user:4'' \<and> identity_of ''https://i'' ''auth0|kim'' (db w) = Some uid \<and>
        users (db w) = users (db demo_world) @
          [\<lparr>us_id = uid, us_name = ''kim@x.org'', us_pennies = 0, us_deleted_at = None\<rparr>])"
    by (intro exI [of _ w]) (auto simp: demo_oidc_def demo_oidc_strings HasSuffix_def suffix_def)
qed (use oidc_subject [OF demo_oidc_result] demo_oidc_result in \<open>auto simp: demo_oidc_def demo_oidc_strings HasSuffix_def suffix_def\<close>)

end
