(* ===== verification/Password.thy ===== *)
theory Password
  imports Sessions
begin

text \<open>
  auth/password.go: Argon2id password hashes in their encoded form. The key derivation of
  \<open>golang.org/x/crypto/argon2\<close> is the parameter \<open>idkey\<close> of the definitions: password,
  salt, passes, memory in KiB, lanes and key length to key.
\<close>

type_synonym argon2 = "string \<Rightarrow> string \<Rightarrow> nat \<Rightarrow> nat \<Rightarrow> nat \<Rightarrow> nat \<Rightarrow> string"

definition argon2Time :: nat where "argon2Time = 3"
definition argon2MemoryKiB :: nat where "argon2MemoryKiB = 64 * 1024"
definition argon2Threads :: nat where "argon2Threads = 2"
definition argon2KeyLen :: nat where "argon2KeyLen = 32"
definition argon2SaltLen :: nat where "argon2SaltLen = 16"
definition passwordMinLen :: nat where "passwordMinLen = 8"
definition passwordMaxLen :: nat where "passwordMaxLen = 200"

lemmas argon2_consts = argon2Time_def argon2MemoryKiB_def argon2Threads_def argon2KeyLen_def
  argon2SaltLen_def passwordMinLen_def passwordMaxLen_def

datatype password_error = ErrPasswordTooShort | ErrPasswordTooLong | ErrInvalidHash | ErrRandom

text \<open>\<open>fmt.Sprintf("$argon2id$v=19$m=%d,t=%d,p=%d$%s$%s", ...)\<close>\<close>

definition argon2_params :: string where
  "argon2_params = ''m='' @ nat_str argon2MemoryKiB @ '',t='' @ nat_str argon2Time @ '',p='' @ nat_str argon2Threads"

definition argon2_encode :: "string \<Rightarrow> string \<Rightarrow> string" where
  "argon2_encode salt hash =
     ''$argon2id$v=19$'' @ argon2_params @ ''$'' @ b64_encode StdAlphabet salt @ ''$'' @ b64_encode StdAlphabet hash"

definition HashPassword :: "argon2 \<Rightarrow> string \<Rightarrow> world \<Rightarrow> (password_error + string) \<times> world" where
  "HashPassword idkey password w =
     (if length password < passwordMinLen then (Inl ErrPasswordTooShort, w)
      else if length password > passwordMaxLen then (Inl ErrPasswordTooLong, w)
      else (case rand_Read argon2SaltLen w of
          (None, w1) \<Rightarrow> (Inl ErrRandom, w1)
        | (Some salt, w1) \<Rightarrow>
            (Inr (argon2_encode salt
               (idkey password salt argon2Time argon2MemoryKiB argon2Threads argon2KeyLen)), w1)))"

text \<open>
  \<open>fmt.Sscanf\<close> with the format \<open>m=%d,t=%d,p=%d\<close>: literals must match, \<open>%d\<close> skips
  spaces (a line break is an error), takes an optional sign and decimal digits that fit 64
  bits, and what follows the last number is not looked at.
\<close>

definition scan_literal :: "string \<Rightarrow> string \<Rightarrow> string option" where
  "scan_literal lit s = (if HasPrefix s lit then Some (drop (length lit) s) else None)"

definition scan_spaces :: "string list" where
  "scan_spaces = filter (\<lambda>p. p \<noteq> [CHR 0x0A]) space_seqs"

definition scan_int :: "string \<Rightarrow> (int \<times> string) option" where
  "scan_int s =
     (let s1 = strip_front scan_spaces s;
          sign = (if take 1 s1 = ''-'' \<or> take 1 s1 = ''+'' then take 1 s1 else '''');
          s2 = drop (length sign) s1;
          ds = takeWhile (\<lambda>c. char_digit c \<noteq> None) s2
      in if ds = [] then None
         else map_option (\<lambda>v. (v, drop (length ds) s2)) (ParseInt (sign @ ds)))"

definition scan_field :: "string \<Rightarrow> string \<Rightarrow> (int \<times> string) option" where
  "scan_field lit s = (case scan_literal lit s of None \<Rightarrow> None | Some s1 \<Rightarrow> scan_int s1)"

definition scan_params :: "string \<Rightarrow> (int \<times> int \<times> int) option" where
  "scan_params s =
     (case scan_field ''m='' s of
        None \<Rightarrow> None
      | Some (m, s1) \<Rightarrow>
          (case scan_field '',t='' s1 of
             None \<Rightarrow> None
           | Some (t, s2) \<Rightarrow> map_option (\<lambda>(p, s3). (m, t, p)) (scan_field '',p='' s2)))"

definition parseArgon2IDEncoded :: "string \<Rightarrow> password_error + (string \<times> string)" where
  "parseArgon2IDEncoded encoded =
     (let parts = Split (CHR ''$'') encoded in
      if length parts \<noteq> 6 \<or> parts ! 1 \<noteq> ''argon2id'' \<or> parts ! 2 \<noteq> ''v=19'' then Inl ErrInvalidHash
      else (case scan_params (parts ! 3) of
        None \<Rightarrow> Inl ErrInvalidHash
      | Some (mem, timeN, threads) \<Rightarrow>
          if mem \<noteq> int argon2MemoryKiB \<or> timeN \<noteq> int argon2Time \<or> threads \<noteq> int argon2Threads
          then Inl ErrInvalidHash
          else (case b64_decode StdAlphabet (parts ! 4) of
              None \<Rightarrow> Inl ErrInvalidHash
            | Some salt \<Rightarrow>
                if length salt \<noteq> argon2SaltLen then Inl ErrInvalidHash
                else (case b64_decode StdAlphabet (parts ! 5) of
                    None \<Rightarrow> Inl ErrInvalidHash
                  | Some hash \<Rightarrow>
                      if length hash \<noteq> argon2KeyLen then Inl ErrInvalidHash else Inr (salt, hash)))))"

definition VerifyPassword :: "argon2 \<Rightarrow> string \<Rightarrow> string \<Rightarrow> password_error + bool" where
  "VerifyPassword idkey password encoded =
     (if encoded = '''' then Inr False
      else case parseArgon2IDEncoded encoded of
        Inl e \<Rightarrow> Inl e
      | Inr (salt, hash) \<Rightarrow>
          if length password > passwordMaxLen then Inr False
          else Inr (idkey password salt argon2Time argon2MemoryKiB argon2Threads (length hash) = hash))"

definition PasswordPolicySummary :: string where
  "PasswordPolicySummary =
     ''argon2id m='' @ nat_str (argon2MemoryKiB div 1024) @ ''KiB t='' @ nat_str argon2Time @ '' p='' @ nat_str argon2Threads
     @ '' key='' @ nat_str argon2KeyLen @ ''B salt='' @ nat_str argon2SaltLen @ ''B minLen='' @ nat_str passwordMinLen"

definition ValidatePasswordLength :: "string \<Rightarrow> password_error option" where
  "ValidatePasswordLength password =
     (if length password < passwordMinLen then Some ErrPasswordTooShort
      else if length password > passwordMaxLen then Some ErrPasswordTooLong
      else None)"

definition Argon2ParamsForTests :: "nat \<times> nat \<times> nat \<times> nat" where
  "Argon2ParamsForTests = (argon2MemoryKiB, argon2Time, argon2Threads, argon2KeyLen)"

definition ParseArgon2MemoryFromEncoded :: "string \<Rightarrow> int" where
  "ParseArgon2MemoryFromEncoded encoded =
     (let parts = Split (CHR ''$'') encoded in
      if length parts \<noteq> 6 then 0
      else case scan_params (parts ! 3) of None \<Rightarrow> 0 | Some (mem, _, _) \<Rightarrow> mem)"

section \<open>Encoding and parsing\<close>

lemma dollar_free: "CHR ''$'' \<notin> set (b64_encode StdAlphabet bs)"
  using set_b64_encode [of StdAlphabet "CHR ''$''" bs] by (auto simp: StdAlphabet_def)

lemma argon2_params_text: "argon2_params = ''m=65536,t=3,p=2''"
proof -
  have "char_of (54::nat) = CHR ''6''" "char_of (53::nat) = CHR ''5''" "char_of (51::nat) = CHR ''3''"
    "char_of (50::nat) = CHR ''2''" by code_simp+
  then show ?thesis
    by (simp add: argon2_params_def argon2_consts nat_str.simps digit_char_def)
qed

lemma scan_spaces_visible: "visible c \<Longrightarrow> strip_front scan_spaces (c # cs) = c # cs"
  using starts_with_visible(1) [of c cs]
  by (intro strip_front_id)
    (auto simp: starts_with_any_def find_None_iff scan_spaces_def)

lemma scan_int_digits:
  assumes "ds \<noteq> []" and "\<forall>c \<in> set ds. char_digit c \<noteq> None"
    and "rest = [] \<or> char_digit (hd rest) = None"
    and "strip_front scan_spaces (ds @ rest) = ds @ rest"
    and "hd ds \<noteq> CHR ''-''" and "hd ds \<noteq> CHR ''+''"
  shows "scan_int (ds @ rest) = map_option (\<lambda>v. (v, rest)) (ParseInt ds)"
proof -
  have "takeWhile (\<lambda>c. char_digit c \<noteq> None) (ds @ rest) = ds"
    using assms(2,3) by (cases rest) (auto simp: takeWhile_append2)
  moreover have "take 1 (ds @ rest) = [hd ds]" using assms(1) by (cases ds) auto
  ultimately show ?thesis using assms by (simp add: scan_int_def Let_def)
qed

lemma scan_argon2_params: "scan_params argon2_params = Some (65536, 3, 2)"
proof -
  have v: "visible (CHR ''6'')" "visible (CHR ''3'')" "visible (CHR ''2'')" by (simp_all add: visible_def)
  have m: "scan_int (''65536'' @ '',t=3,p=2'') = Some (65536, '',t=3,p=2'')"
    and t: "scan_int (''3'' @ '',p=2'') = Some (3, '',p=2'')"
    and p: "scan_int (''2'' @ []) = Some (2, [])"
    using v by (subst scan_int_digits;
        simp add: scan_spaces_visible char_digit_def ParseInt_def Let_def)+
  show ?thesis
    using m t p
    by (simp add: argon2_params_text scan_params_def scan_field_def scan_literal_def HasPrefix_def)
qed

lemma split_argon2:
  "Split (CHR ''$'') (argon2_encode salt hash) =
     ['''', ''argon2id'', ''v=19'', argon2_params, b64_encode StdAlphabet salt, b64_encode StdAlphabet hash]"
  using dollar_free [of salt] dollar_free [of hash]
  by (simp add: argon2_encode_def argon2_params_text Split_append Split_none)

lemma parse_encode:
  assumes "length salt = argon2SaltLen" and "length hash = argon2KeyLen"
  shows "parseArgon2IDEncoded (argon2_encode salt hash) = Inr (salt, hash)"
  using assms by (simp add: parseArgon2IDEncoded_def split_argon2 scan_argon2_params argon2MemoryKiB_def
      argon2Time_def argon2Threads_def)

text \<open>The documented length of a derived key.\<close>

definition key_length_law :: "argon2 \<Rightarrow> bool" where
  "key_length_law idkey \<longleftrightarrow> (\<forall>p s t m n k. length (idkey p s t m n k) = k)"

lemma HashPassword_ok:
  assumes "HashPassword idkey p w = (Inr e, w')"
  shows "\<exists>salt. length salt = argon2SaltLen \<and> 8 \<le> length p \<and> length p \<le> 200 \<and>
    e = argon2_encode salt (idkey p salt argon2Time argon2MemoryKiB argon2Threads argon2KeyLen) \<and>
    db w' = db w \<and> clock w' = clock w \<and> outcomes w' = outcomes w"
  using assms rand_Read_length rand_Read_world
  by (fastforce simp: HashPassword_def passwordMinLen_def passwordMaxLen_def split: if_splits prod.splits option.splits)

lemma verify_encoded:
  assumes "key_length_law idkey" and "length salt = argon2SaltLen"
  shows "VerifyPassword idkey q (argon2_encode salt (idkey p salt argon2Time argon2MemoryKiB argon2Threads argon2KeyLen)) =
    Inr (length q \<le> 200 \<and> idkey q salt argon2Time argon2MemoryKiB argon2Threads argon2KeyLen =
      idkey p salt argon2Time argon2MemoryKiB argon2Threads argon2KeyLen)"
proof -
  have "argon2_encode salt h \<noteq> []" for h by (simp add: argon2_encode_def)
  then show ?thesis
    using assms by (simp add: VerifyPassword_def parse_encode key_length_law_def passwordMaxLen_def)
qed

text \<open>
  C24: Password round trip. A password is hashed only if it has 8 to 200 bytes; the stored
  form is then accepted for this password, and for another password exactly when it is not too
  long and derives the same key under the stored salt.
\<close>

theorem password_roundtrip:
  assumes "key_length_law idkey" and "HashPassword idkey p w = (Inr e, w')"
  shows "8 \<le> length p \<and> length p \<le> 200 \<and> VerifyPassword idkey p e = Inr True \<and>
    (\<exists>salt. \<forall>q. VerifyPassword idkey q e = Inr (length q \<le> 200 \<and>
       idkey q salt argon2Time argon2MemoryKiB argon2Threads argon2KeyLen =
       idkey p salt argon2Time argon2MemoryKiB argon2Threads argon2KeyLen))"
proof -
  from HashPassword_ok [OF assms(2)] obtain salt where
    s: "length salt = argon2SaltLen" "8 \<le> length p" "length p \<le> 200"
      "e = argon2_encode salt (idkey p salt argon2Time argon2MemoryKiB argon2Threads argon2KeyLen)" by blast
  then show ?thesis using verify_encoded [OF assms(1) s(1)] by auto
qed

text \<open>A stand-in for the key derivation: the password cut or filled to the key length.\<close>

definition demo_argon2 :: argon2 where
  "demo_argon2 p s t m n k = take k p @ replicate (k - length p) (CHR 0x00)"

lemma demo_argon2_law: "key_length_law demo_argon2"
  by (auto simp: key_length_law_def demo_argon2_def min_def)

theorem password_roundtrip_witness:
  "\<exists>e w. HashPassword demo_argon2 ''correct horse'' demo_world = (Inr e, w) \<and>
     VerifyPassword demo_argon2 ''correct horse'' e = Inr True"
proof -
  have "\<exists>e w. HashPassword demo_argon2 ''correct horse'' demo_world = (Inr e, w)"
    by (simp add: HashPassword_def argon2_consts rand_Read_def read_entropy_def demo_world_def)
  with password_roundtrip [OF demo_argon2_law] show ?thesis by blast
qed

end
