(* ===== verification/Json.thy ===== *)
theory Json
  imports Go_Strings
begin

text \<open>
  The JSON values the program builds, and \<open>encoding/json\<close>'s \<open>Marshal\<close> on those it stores.
  A Go map is a list of members in any order; \<open>Marshal\<close> writes them in the order of their
  keys. Strings are taken to be valid UTF-8.
\<close>

datatype json =
    JNull
  | JBool bool
  | JInt int
  | JStr string
  | JTime int
  | JArr "json list"
  | JObj "(string \<times> json) list"
  | JRaw string

text \<open>The escapes of \<open>Marshal\<close>: quotes, control characters, and the HTML characters.\<close>

definition json_escape_char :: "char \<Rightarrow> string" where
  "json_escape_char c =
     (let n = (of_char c :: nat) in
      if c = CHR 0x22 then [CHR 0x5C, CHR 0x22]
      else if c = CHR 0x5C then [CHR 0x5C, CHR 0x5C]
      else if n = 8 then [CHR 0x5C, CHR ''b'']
      else if n = 12 then [CHR 0x5C, CHR ''f'']
      else if n = 10 then [CHR 0x5C, CHR ''n'']
      else if n = 13 then [CHR 0x5C, CHR ''r'']
      else if n = 9 then [CHR 0x5C, CHR ''t'']
      else if n < 32 \<or> c = CHR ''<'' \<or> c = CHR ''>'' \<or> c = CHR ''&''
      then CHR 0x5C # ''u00'' @ hex_encode [c]
      else [c])"

fun json_escape :: "string \<Rightarrow> string" where
  "json_escape [] = []"
| "json_escape (c # cs) =
     (if c = CHR 0xE2 \<and> take 2 cs = [CHR 0x80, CHR 0xA8] then CHR 0x5C # ''u2028'' @ json_escape (drop 2 cs)
      else if c = CHR 0xE2 \<and> take 2 cs = [CHR 0x80, CHR 0xA9] then CHR 0x5C # ''u2029'' @ json_escape (drop 2 cs)
      else json_escape_char c @ json_escape cs)"

definition json_quote :: "string \<Rightarrow> string" where
  "json_quote s = CHR 0x22 # json_escape s @ [CHR 0x22]"

fun join_with :: "string \<Rightarrow> string list \<Rightarrow> string" where
  "join_with sep [] = []"
| "join_with sep [x] = x"
| "join_with sep (x # y # xs) = x @ sep @ join_with sep (y # xs)"

text \<open>Byte-wise order of keys.\<close>

fun string_le :: "string \<Rightarrow> string \<Rightarrow> bool" where
  "string_le [] _ = True"
| "string_le (_ # _) [] = False"
| "string_le (c # cs) (d # ds) =
     ((of_char c :: nat) < of_char d \<or> c = d \<and> string_le cs ds)"

fun insert_member :: "string \<times> 'v \<Rightarrow> (string \<times> 'v) list \<Rightarrow> (string \<times> 'v) list" where
  "insert_member m [] = [m]"
| "insert_member m (x # xs) = (if string_le (fst m) (fst x) then m # x # xs else x # insert_member m xs)"

definition sort_members :: "(string \<times> 'v) list \<Rightarrow> (string \<times> 'v) list" where
  "sort_members ms = foldr insert_member ms []"

text \<open>
  Times occur in responses but in nothing the program stores, and their text is not
  modelled: \<open>Marshal\<close> is \<open>None\<close> on them.
\<close>

fun Marshal :: "json \<Rightarrow> string option" where
  "Marshal JNull = Some ''null''"
| "Marshal (JBool b) = Some (if b then ''true'' else ''false'')"
| "Marshal (JInt i) = Some (Itoa i)"
| "Marshal (JStr s) = Some (json_quote s)"
| "Marshal (JTime t) = None"
| "Marshal (JArr xs) = map_option (\<lambda>ts. ''['' @ join_with '','' ts @ '']'') (all_some (map Marshal xs))"
| "Marshal (JObj ms) = map_option
     (\<lambda>ts. CHR ''{'' # join_with '',''
        (map (\<lambda>(k, t). json_quote k @ '':'' @ t) (sort_members (zip (map fst ms) ts))) @ ''}'')
     (all_some (map (\<lambda>(k, v). Marshal v) ms))"
| "Marshal (JRaw s) = Some s"

lemma set_insert_member [simp]: "set (insert_member m xs) = insert m (set xs)"
  by (induction xs) auto

lemma set_sort_members [simp]: "set (sort_members ms) = set ms"
  by (induction ms) (auto simp: sort_members_def)

lemma Marshal_JObj_ne: "Marshal (JObj ms) = Some s \<Longrightarrow> s \<noteq> []"
  by auto

text \<open>A flat object of strings and integers always has a text.\<close>

definition flat :: "json \<Rightarrow> bool" where
  "flat v \<longleftrightarrow> (case v of JStr _ \<Rightarrow> True | JInt _ \<Rightarrow> True | _ \<Rightarrow> False)"

lemma all_some_Some: "(\<And>x. x \<in> set xs \<Longrightarrow> \<exists>y. x = Some y) \<Longrightarrow> \<exists>ys. all_some xs = Some ys"
proof (induction xs)
  case (Cons a xs)
  then have "\<exists>ys. all_some xs = Some ys" "\<exists>y. a = Some y" by auto
  then show ?case by auto
qed simp

lemma Marshal_flat:
  assumes "\<And>k v. (k, v) \<in> set ms \<Longrightarrow> flat v"
  shows "\<exists>s. Marshal (JObj ms) = Some s"
proof -
  have "\<exists>ts. all_some (map (\<lambda>(k, v). Marshal v) ms) = Some ts"
  proof (rule all_some_Some)
    fix t assume "t \<in> set (map (\<lambda>(k, v). Marshal v) ms)"
    then obtain k v where "(k, v) \<in> set ms" "t = Marshal v" by auto
    with assms [of k v] show "\<exists>y. t = Some y" by (cases v) (auto simp: flat_def)
  qed
  then show ?thesis by auto
qed

end
