(* ===== verification/Rbac.thy ===== *)
theory Rbac
  imports Prelude
begin

text \<open>platformrbac/permissions.go: the permissions of the operator roles.\<close>

definition PermPlayersRead :: string where "PermPlayersRead = ''players.read''"
definition PermCharactersRead :: string where "PermCharactersRead = ''characters.read''"
definition PermBackupsRead :: string where "PermBackupsRead = ''backups.read''"
definition PermBackupsRestoreRequest :: string where "PermBackupsRestoreRequest = ''backups.restore.request''"
definition PermBackupsRestoreApprove :: string where "PermBackupsRestoreApprove = ''backups.restore.approve''"
definition PermBackupsRestoreFulfill :: string where "PermBackupsRestoreFulfill = ''backups.restore.fulfill''"
definition PermSecurityRead :: string where "PermSecurityRead = ''security.read''"
definition PermSecurityWrite :: string where "PermSecurityWrite = ''security.write''"
definition PermAuditRead :: string where "PermAuditRead = ''audit.read''"
definition PermAuditWrite :: string where "PermAuditWrite = ''audit.write''"
definition PermSupportAck :: string where "PermSupportAck = ''platform.support.ack''"
definition PermEconomyRead :: string where "PermEconomyRead = ''economy.read''"
definition PermUsersDelete :: string where "PermUsersDelete = ''users.delete''"
definition PermCasesRead :: string where "PermCasesRead = ''cases.read''"
definition PermCasesWrite :: string where "PermCasesWrite = ''cases.write''"
definition PermSanctionsWrite :: string where "PermSanctionsWrite = ''sanctions.write''"
definition PermRecoveryWrite :: string where "PermRecoveryWrite = ''recovery.write''"
definition PermAppealsResolve :: string where "PermAppealsResolve = ''appeals.resolve''"

lemmas perm_defs = PermPlayersRead_def PermCharactersRead_def PermBackupsRead_def
  PermBackupsRestoreRequest_def PermBackupsRestoreApprove_def PermBackupsRestoreFulfill_def
  PermSecurityRead_def PermSecurityWrite_def PermAuditRead_def PermAuditWrite_def PermSupportAck_def
  PermEconomyRead_def PermUsersDelete_def PermCasesRead_def PermCasesWrite_def PermSanctionsWrite_def
  PermRecoveryWrite_def PermAppealsResolve_def

definition rolePermissions :: "string \<Rightarrow> string list option" where
  "rolePermissions =
     [''operator'' \<mapsto> [''*''],
      ''support'' \<mapsto>
        [PermPlayersRead, PermCharactersRead, PermBackupsRead, PermBackupsRestoreRequest,
         PermEconomyRead, PermAuditRead, PermSupportAck, PermSecurityRead,
         PermCasesRead, PermCasesWrite, PermRecoveryWrite, PermAppealsResolve],
      ''security_admin'' \<mapsto>
        [PermSecurityRead, PermSecurityWrite, PermAuditRead, PermAuditWrite,
         PermPlayersRead, PermEconomyRead, PermBackupsRead,
         PermBackupsRestoreApprove, PermBackupsRestoreFulfill,
         PermCasesRead, PermSanctionsWrite, PermAppealsResolve, PermUsersDelete],
      ''gm_liveops'' \<mapsto>
        [PermPlayersRead, PermCharactersRead,
         PermCasesRead, PermCasesWrite, PermSanctionsWrite, PermRecoveryWrite, PermAppealsResolve,
         PermAuditRead, PermSupportAck, PermSecurityRead, PermEconomyRead]]"

definition PermissionsForRole :: "string \<Rightarrow> string list" where
  "PermissionsForRole role = (case rolePermissions role of None \<Rightarrow> [] | Some ps \<Rightarrow> ps)"

definition HasPermission :: "string list \<Rightarrow> string \<Rightarrow> bool" where
  "HasPermission roles required =
     list_ex (\<lambda>r. list_ex (\<lambda>p. p = ''*'' \<or> p = required) (PermissionsForRole r)) roles"

lemma HasPermission_mono: "set rs \<subseteq> set rs' \<Longrightarrow> HasPermission rs p \<Longrightarrow> HasPermission rs' p"
  by (auto simp: HasPermission_def list_ex_iff)

lemma HasPermission_Nil [simp]: "\<not> HasPermission [] p"
  by (simp add: HasPermission_def)

lemma HasPermission_iff: "HasPermission rs p \<longleftrightarrow> (\<exists>r\<in>set rs. HasPermission [r] p)"
  by (simp add: HasPermission_def list_ex_iff)

lemma PermissionsForRole_operator [simp]: "PermissionsForRole ''operator'' = [''*'']"
  by (simp add: PermissionsForRole_def rolePermissions_def)

lemma HasPermission_operator: "''operator'' \<in> set rs \<Longrightarrow> HasPermission rs p"
proof -
  assume "''operator'' \<in> set rs"
  moreover have "HasPermission [''operator''] p" by (simp add: HasPermission_def)
  ultimately show ?thesis by (subst HasPermission_iff) (rule bexI)
qed

lemma role_known: "HasPermission [r] p \<Longrightarrow> r \<in> {''operator'', ''support'', ''security_admin'', ''gm_liveops''}"
proof (rule ccontr)
  assume "HasPermission [r] p" and "r \<notin> {''operator'', ''support'', ''security_admin'', ''gm_liveops''}"
  then have "rolePermissions r = None" by (simp add: rolePermissions_def)
  with \<open>HasPermission [r] p\<close> show False by (simp add: HasPermission_def PermissionsForRole_def)
qed

text \<open>The roles that grant the permissions of the restore workflow.\<close>

lemma restore_roles:
  "HasPermission [''operator''] p" "HasPermission [''support''] PermBackupsRestoreRequest"
  "\<not> HasPermission [''support''] PermBackupsRestoreApprove"
  "\<not> HasPermission [''security_admin''] PermBackupsRestoreRequest"
  "HasPermission [''security_admin''] PermBackupsRestoreApprove"
  "\<not> HasPermission [''gm_liveops''] PermBackupsRestoreRequest"
  "\<not> HasPermission [''gm_liveops''] PermBackupsRestoreApprove"
  by (simp add: HasPermission_def) code_simp+

lemma restore_request_role:
  "HasPermission [r] PermBackupsRestoreRequest \<longleftrightarrow> r = ''operator'' \<or> r = ''support''"
  using role_known [of r PermBackupsRestoreRequest] restore_roles by blast

lemma restore_approve_role:
  "HasPermission [r] PermBackupsRestoreApprove \<longleftrightarrow> r = ''operator'' \<or> r = ''security_admin''"
  using role_known [of r PermBackupsRestoreApprove] restore_roles by blast

text \<open>
  Separation of duties. A user without the operator role can both ask for and approve a
  backup restore only by holding two different roles: no single role other than operator
  grants both permissions, and operator grants every permission.
\<close>

theorem restore_duties_separated:
  "(HasPermission rs PermBackupsRestoreRequest \<and> HasPermission rs PermBackupsRestoreApprove) \<longleftrightarrow>
   (''operator'' \<in> set rs \<or> ''support'' \<in> set rs \<and> ''security_admin'' \<in> set rs)"
proof -
  have "HasPermission rs PermBackupsRestoreRequest \<longleftrightarrow> ''operator'' \<in> set rs \<or> ''support'' \<in> set rs"
    by (subst HasPermission_iff) (unfold restore_request_role, blast)
  moreover have "HasPermission rs PermBackupsRestoreApprove \<longleftrightarrow> ''operator'' \<in> set rs \<or> ''security_admin'' \<in> set rs"
    by (subst HasPermission_iff) (unfold restore_approve_role, blast)
  ultimately show ?thesis by blast
qed

end
