(* ===== verification/Cases.thy ===== *)
theory Cases
  imports Tables Json
begin

text \<open>
  authstore/operator_cases.go and economy_ledger.go: operator cases with their notes and
  privileged actions, and the read side of the economy ledger.
\<close>

section \<open>Operations on cases\<close>

datatype case_error = ErrInvalidCaseStatus | ErrInvalidCasePriority

definition CaseStatusOpen :: string where "CaseStatusOpen = ''open''"
definition CaseStatusInProgress :: string where "CaseStatusInProgress = ''in_progress''"
definition CaseStatusResolved :: string where "CaseStatusResolved = ''resolved''"
definition CaseStatusClosed :: string where "CaseStatusClosed = ''closed''"
definition CasePriorityLow :: string where "CasePriorityLow = ''low''"
definition CasePriorityNormal :: string where "CasePriorityNormal = ''normal''"
definition CasePriorityHigh :: string where "CasePriorityHigh = ''high''"
definition CasePriorityUrgent :: string where "CasePriorityUrgent = ''urgent''"
definition CaseActionSanction :: string where "CaseActionSanction = ''sanction''"
definition CaseActionRecoveryRequest :: string where "CaseActionRecoveryRequest = ''recovery_request''"
definition CaseActionAppealResolve :: string where "CaseActionAppealResolve = ''appeal_resolve''"

lemmas case_consts = CaseStatusOpen_def CaseStatusInProgress_def CaseStatusResolved_def CaseStatusClosed_def
  CasePriorityLow_def CasePriorityNormal_def CasePriorityHigh_def CasePriorityUrgent_def

definition isValidCaseStatus :: "string \<Rightarrow> bool" where
  "isValidCaseStatus v \<longleftrightarrow> v = CaseStatusOpen \<or> v = CaseStatusInProgress \<or> v = CaseStatusResolved \<or> v = CaseStatusClosed"

definition isValidCasePriority :: "string \<Rightarrow> bool" where
  "isValidCasePriority v \<longleftrightarrow> v = CasePriorityLow \<or> v = CasePriorityNormal \<or> v = CasePriorityHigh \<or> v = CasePriorityUrgent"

definition new_case_row ::
    "int \<Rightarrow> int \<Rightarrow> string \<Rightarrow> int \<Rightarrow> string option \<Rightarrow> string \<Rightarrow> string option \<Rightarrow> int \<Rightarrow> case_row" where
  "new_case_row i t priority subject cref title desc createdBy =
     \<lparr>oc_id = i, oc_created_at = t, oc_updated_at = t, oc_status = CaseStatusOpen, oc_priority = priority,
      oc_subject_user_id = subject, oc_character_ref = cref, oc_title = title, oc_description = desc,
      oc_created_by = createdBy, oc_assigned_to = None\<rparr>"

definition CreateOperatorCase ::
    "store option \<Rightarrow> int \<Rightarrow> string option \<Rightarrow> string \<Rightarrow> string \<Rightarrow> string \<Rightarrow> int \<Rightarrow> world
     \<Rightarrow> (case_error, int) result \<times> world" where
  "CreateOperatorCase s subjectUserID characterRef title description priority createdBy w =
     (if nil_store s then (Inl (Msg ''nil db''), w)
      else
        (let title = TrimSpace title in
         if subjectUserID \<le> 0 \<or> title = '''' \<or> createdBy \<le> 0
         then (Inl (Msg ''invalid operator case fields''), w)
         else
           (let priority = (if priority = '''' then CasePriorityNormal else priority) in
            if \<not> isValidCasePriority priority then (Inl (Sentinel ErrInvalidCasePriority), w)
            else
              (let desc = (if TrimSpace description \<noteq> '''' then Some description else None);
                   cref = (case characterRef of
                             None \<Rightarrow> None
                           | Some r \<Rightarrow> if TrimSpace r \<noteq> '''' then Some (TrimSpace r) else None)
               in exec (\<lambda>t d.
                    if user_exists d subjectUserID \<and> user_exists d createdBy then
                      (let i = next_id oc_id (op_cases d) in
                       Some (d\<lparr>op_cases := op_cases d @
                               [new_case_row i t priority subjectUserID cref title desc createdBy]\<rparr>, i))
                    else None) w))))"

definition case_by_id :: "int \<Rightarrow> database \<Rightarrow> case_row option" where
  "case_by_id i d = List.find (\<lambda>r. oc_id r = i) (op_cases d)"

definition GetOperatorCase :: "store option \<Rightarrow> int \<Rightarrow> world \<Rightarrow> (case_error, case_row) result \<times> world" where
  "GetOperatorCase s i w =
     (if nil_store s then (Inl (Msg ''nil db''), w)
      else bind_result (query (\<lambda>_. case_by_id i) w) (\<lambda>row w1.
        case row of None \<Rightarrow> (Inl NoRows, w1) | Some r \<Rightarrow> (Inr r, w1)))"

record ListOperatorCasesQuery =
  lq_Limit :: int
  lq_Status :: string
  lq_SubjectUserID :: "int option"
  lq_BeforeID :: "int option"

definition case_matches :: "ListOperatorCasesQuery \<Rightarrow> case_row \<Rightarrow> bool" where
  "case_matches q r \<longleftrightarrow>
     (lq_Status q \<noteq> '''' \<longrightarrow> oc_status r = lq_Status q) \<and>
     (lq_SubjectUserID q \<noteq> None \<longrightarrow> oc_subject_user_id r = the (lq_SubjectUserID q))"

definition case_limit :: "int \<Rightarrow> int" where
  "case_limit n = (let l = (if n < 1 then 50 else n) in if l > 200 then 200 else l)"

definition select_cases :: "ListOperatorCasesQuery \<Rightarrow> database \<Rightarrow> case_row list" where
  "select_cases q d = take (nat (case_limit (lq_Limit q)))
     (newest_first oc_id (filter (\<lambda>r. case_matches q r \<and> below oc_id (lq_BeforeID q) r) (op_cases d)))"

definition ListOperatorCases ::
    "store option \<Rightarrow> ListOperatorCasesQuery \<Rightarrow> world \<Rightarrow> (case_error, case_row list) result \<times> world" where
  "ListOperatorCases s q w =
     (if nil_store s then (Inl (Msg ''nil db''), w) else query (\<lambda>_. select_cases q) w)"

text \<open>The SET list that the update builds from its arguments.\<close>

definition trimmed_arg :: "string option \<Rightarrow> string option" where
  "trimmed_arg x = (case x of None \<Rightarrow> None | Some v \<Rightarrow> if TrimSpace v \<noteq> '''' then Some (TrimSpace v) else None)"

definition set_case ::
    "string option \<Rightarrow> string option \<Rightarrow> int option \<Rightarrow> case_row \<Rightarrow> case_row" where
  "set_case status priority assigned r =
     (let r1 = (case status of None \<Rightarrow> r | Some v \<Rightarrow> r\<lparr>oc_status := v\<rparr>);
          r2 = (case priority of None \<Rightarrow> r1 | Some v \<Rightarrow> r1\<lparr>oc_priority := v\<rparr>)
      in case assigned of None \<Rightarrow> r2
         | Some u \<Rightarrow> r2\<lparr>oc_assigned_to := (if u \<le> 0 then None else Some u)\<rparr>)"

definition touch_case :: "int \<Rightarrow> (case_row \<Rightarrow> case_row) \<Rightarrow> case_row \<Rightarrow> case_row" where
  "touch_case t f r = (let r' = f r in if r' = r then r else r'\<lparr>oc_updated_at := t\<rparr>)"

text \<open>The foreign key on the assignee is checked only where a row is written.\<close>

definition assignee_ok :: "database \<Rightarrow> int \<Rightarrow> int option \<Rightarrow> bool" where
  "assignee_ok d i a \<longleftrightarrow> (case a of
     None \<Rightarrow> True | Some u \<Rightarrow> u \<le> 0 \<or> user_exists d u \<or> i \<notin> oc_id ` set (op_cases d))"

definition UpdateOperatorCase ::
    "store option \<Rightarrow> int \<Rightarrow> string option \<Rightarrow> string option \<Rightarrow> int option \<Rightarrow> world
     \<Rightarrow> (case_error, unit) result \<times> world" where
  "UpdateOperatorCase s i status priority assignedToUserID w =
     (if nil_store s then (Inl (Msg ''nil db''), w)
      else if i < 1 then (Inl (Msg ''invalid case id''), w)
      else
        (let st = trimmed_arg status; pr = trimmed_arg priority in
         if st \<noteq> None \<and> \<not> isValidCaseStatus (the st) then (Inl (Sentinel ErrInvalidCaseStatus), w)
         else if pr \<noteq> None \<and> \<not> isValidCasePriority (the pr) then (Inl (Sentinel ErrInvalidCasePriority), w)
         else if st = None \<and> pr = None \<and> assignedToUserID = None then (Inl (Msg ''no fields to update''), w)
         else bind_result
           (exec (\<lambda>t d.
              if assignee_ok d i assignedToUserID then
                (let P = (\<lambda>r. oc_id r = i); f = touch_case t (set_case st pr assignedToUserID)
                 in Some (d\<lparr>op_cases := update_where P f (op_cases d)\<rparr>, affected P f (op_cases d)))
              else None) w)
           (\<lambda>n w1. if n = 0 then (Inl NoRows, w1) else (Inr (), w1))))"

definition InsertOperatorCaseNote ::
    "store option \<Rightarrow> int \<Rightarrow> string \<Rightarrow> int \<Rightarrow> world \<Rightarrow> (case_error, int) result \<times> world" where
  "InsertOperatorCaseNote s caseID body createdBy w =
     (if nil_store s then (Inl (Msg ''nil db''), w)
      else
        (let body = TrimSpace body in
         if caseID < 1 \<or> body = '''' \<or> createdBy \<le> 0 then (Inl (Msg ''invalid note''), w)
         else exec (\<lambda>t d.
           if caseID \<in> oc_id ` set (op_cases d) \<and> user_exists d createdBy then
             (let i = next_id cn_id (case_notes d) in
              Some (d\<lparr>case_notes := case_notes d @
                [\<lparr>cn_id = i, cn_case_id = caseID, cn_created_at = t, cn_body = body, cn_created_by = createdBy\<rparr>]\<rparr>, i))
           else None) w))"

definition ListOperatorCaseNotes ::
    "store option \<Rightarrow> int \<Rightarrow> world \<Rightarrow> (case_error, note_row list) result \<times> world" where
  "ListOperatorCaseNotes s caseID w =
     (if nil_store s then (Inl (Msg ''nil db''), w)
      else query (\<lambda>_ d. sort_key cn_id (filter (\<lambda>n. cn_case_id n = caseID) (case_notes d))) w)"

definition InsertOperatorCaseAction ::
    "store option \<Rightarrow> int \<Rightarrow> string \<Rightarrow> json option \<Rightarrow> string \<Rightarrow> int \<Rightarrow> world
     \<Rightarrow> (case_error, int) result \<times> world" where
  "InsertOperatorCaseAction s caseID kind payload reason actorUserID w =
     (if nil_store s then (Inl (Msg ''nil db''), w)
      else if caseID < 1 \<or> TrimSpace kind = '''' \<or> actorUserID \<le> 0 then (Inl (Msg ''invalid case action''), w)
      else
        (case (case payload of None \<Rightarrow> Some '''' | Some v \<Rightarrow> Marshal v) of
           None \<Rightarrow> (Inl (Msg ''json: unsupported value''), w)
         | Some meta \<Rightarrow>
             exec (\<lambda>t d.
               if caseID \<in> oc_id ` set (op_cases d) \<and> user_exists d actorUserID then
                 (let i = next_id ca_id (case_actions d) in
                  Some (d\<lparr>case_actions := case_actions d @
                    [\<lparr>ca_id = i, ca_case_id = caseID, ca_created_at = t, ca_action_kind = TrimSpace kind,
                      ca_payload = nullBytes meta, ca_reason = nullStr reason, ca_actor = actorUserID\<rparr>]\<rparr>, i))
               else None) w))"

definition action_limit :: "int \<Rightarrow> int" where
  "action_limit n = (let l = (if n < 1 then 100 else n) in if l > 200 then 200 else l)"

definition ListOperatorCaseActions ::
    "store option \<Rightarrow> int \<Rightarrow> int \<Rightarrow> world \<Rightarrow> (case_error, action_row list) result \<times> world" where
  "ListOperatorCaseActions s caseID limit w =
     (if nil_store s then (Inl (Msg ''nil db''), w)
      else query (\<lambda>_ d. take (nat (action_limit limit))
        (newest_first ca_id (filter (\<lambda>a. ca_case_id a = caseID) (case_actions d)))) w)"

section \<open>The economy ledger\<close>

record EconomyLedgerQuery =
  el_q_Limit :: int
  el_q_BeforeID :: "int option"
  el_q_PlatformUserID :: "int option"
  el_q_EventType :: string
  el_q_FromTime :: "int option"
  el_q_ToTime :: "int option"

definition ledger_limit :: "int \<Rightarrow> int" where
  "ledger_limit n = (let l = (if n \<le> 0 then 50 else n) in if l > 100 then 100 else l)"

definition ledger_matches :: "EconomyLedgerQuery \<Rightarrow> ledger_row \<Rightarrow> bool" where
  "ledger_matches q r \<longleftrightarrow>
     (el_q_PlatformUserID q \<noteq> None \<longrightarrow> el_platform_user_id r = the (el_q_PlatformUserID q)) \<and>
     (el_q_EventType q \<noteq> '''' \<longrightarrow> el_event_type r = el_q_EventType q) \<and>
     (el_q_FromTime q \<noteq> None \<longrightarrow> the (el_q_FromTime q) \<le> el_created_at r) \<and>
     (el_q_ToTime q \<noteq> None \<longrightarrow> el_created_at r \<le> the (el_q_ToTime q))"

definition select_ledger :: "EconomyLedgerQuery \<Rightarrow> database \<Rightarrow> ledger_row list" where
  "select_ledger q d = take (nat (ledger_limit (el_q_Limit q)))
     (newest_first el_id (filter (\<lambda>r. ledger_matches q r \<and> below el_id (el_q_BeforeID q) r) (ledger d)))"

definition ListEconomyLedgerEvents ::
    "store option \<Rightarrow> EconomyLedgerQuery \<Rightarrow> world \<Rightarrow> ('e, ledger_row list) result \<times> world" where
  "ListEconomyLedgerEvents s q w =
     (if nil_store s then (Inl (Msg ''nil db''), w) else query (\<lambda>_. select_ledger q) w)"

section \<open>How a case may change\<close>

definition case_ok :: "case_row \<Rightarrow> bool" where
  "case_ok r \<longleftrightarrow> isValidCaseStatus (oc_status r) \<and> isValidCasePriority (oc_priority r) \<and>
     oc_title r \<noteq> '''' \<and> TrimSpace (oc_title r) = oc_title r \<and> 0 < oc_subject_user_id r \<and> 0 < oc_created_by r \<and>
     (\<forall>u. oc_assigned_to r = Some u \<longrightarrow> 0 < u)"

definition case_step :: "case_row \<Rightarrow> case_row \<Rightarrow> bool" where
  "case_step r r' \<longleftrightarrow> (case_ok r \<longrightarrow> case_ok r') \<and>
     oc_created_at r' = oc_created_at r \<and> oc_subject_user_id r' = oc_subject_user_id r \<and>
     oc_character_ref r' = oc_character_ref r \<and> oc_title r' = oc_title r \<and>
     oc_description r' = oc_description r \<and> oc_created_by r' = oc_created_by r"

definition case_init :: "case_row \<Rightarrow> bool" where
  "case_init r \<longleftrightarrow> case_ok r \<and> oc_status r = CaseStatusOpen \<and> oc_assigned_to r = None"

abbreviation cases_evolve :: "database \<Rightarrow> database \<Rightarrow> bool" where
  "cases_evolve \<equiv> tbl_evolves op_cases oc_id case_init case_step"

lemma new_case_row_init:
  assumes "0 < u" "TrimSpace t \<noteq> ''''" "0 < b" "isValidCasePriority p"
  shows "case_init (new_case_row i now p u c (TrimSpace t) d b)"
  using assms by (simp add: new_case_row_def case_init_def case_ok_def isValidCaseStatus_def)

lemma new_case_row_id [simp]: "oc_id (new_case_row i now p u c t d b) = i"
  by (simp add: new_case_row_def)

lemma CreateCase_evolves: "keeps cases_evolve w (CreateOperatorCase s u c t d p b w)"
  unfolding CreateOperatorCase_def Let_def
proof (intro keeps_intro keeps_exec reflp_tbl_evolves, goal_cases)
  case (1 now db' a)
  note new = if_SomeD [OF 1(4)]
  from 1(2) have g: "0 < u" "TrimSpace t \<noteq> ''''" "0 < b" by simp_all
  from 1(3) have p: "isValidCasePriority (if p = '''' then CasePriorityNormal else p)" by blast
  show ?case
  proof (rule tbl_evolves_insert)
    from new show "op_cases db' = op_cases (db w) @ [new_case_row (next_id oc_id (op_cases (db w))) now
          (if p = '''' then CasePriorityNormal else p) u
          (case c of None \<Rightarrow> None | Some r \<Rightarrow> if TrimSpace r \<noteq> '''' then Some (TrimSpace r) else None)
          (TrimSpace t) (if TrimSpace d \<noteq> '''' then Some d else None) b]" by simp
    show "case_init (new_case_row (next_id oc_id (op_cases (db w))) now
          (if p = '''' then CasePriorityNormal else p) u
          (case c of None \<Rightarrow> None | Some r \<Rightarrow> if TrimSpace r \<noteq> '''' then Some (TrimSpace r) else None)
          (TrimSpace t) (if TrimSpace d \<noteq> '''' then Some d else None) b)"
      by (rule new_case_row_init [OF g p])
  qed (rule new_case_row_id)
qed

lemma set_case_step:
  assumes "st = None \<or> isValidCaseStatus (the st)" "pr = None \<or> isValidCasePriority (the pr)"
  shows "touch_case t (set_case st pr a) r = r \<or> case_step r (touch_case t (set_case st pr a) r)"
    and "oc_id (touch_case t (set_case st pr a) r) = oc_id r"
  using assms
  by (auto simp: touch_case_def set_case_def Let_def case_step_def case_ok_def split: option.splits)

lemma UpdateCase_evolves: "keeps cases_evolve w (UpdateOperatorCase s i st pr a w)"
  unfolding UpdateOperatorCase_def Let_def
proof (intro keeps_intro keeps_bind_reads keeps_exec reflp_tbl_evolves, goal_cases)
  case (1 t d n)
  note upd = if_SomeD [OF 1(6)]
  from 1(3) have st: "trimmed_arg st = None \<or> isValidCaseStatus (the (trimmed_arg st))" by blast
  from 1(4) have pr: "trimmed_arg pr = None \<or> isValidCasePriority (the (trimmed_arg pr))" by blast
  show ?case
  proof (rule tbl_evolves_update)
    from upd show "op_cases d = update_where (\<lambda>r. oc_id r = i)
      (touch_case t (set_case (trimmed_arg st) (trimmed_arg pr) a)) (op_cases (db w))" by simp
  qed (use set_case_step [OF st pr] in blast)
qed

datatype case_op =
    CCreate int "string option" string string string int
  | CUpdate int "string option" "string option" "int option"
  | CNote int string int
  | CAction int string "json option" string int

fun case_act :: "store option \<Rightarrow> case_op \<Rightarrow> world \<Rightarrow> world" where
  "case_act s (CCreate u c t d p b) w = snd (CreateOperatorCase s u c t d p b w)"
| "case_act s (CUpdate i st pr a) w = snd (UpdateOperatorCase s i st pr a w)"
| "case_act s (CNote i b u) w = snd (InsertOperatorCaseNote s i b u w)"
| "case_act s (CAction i k p r u) w = snd (InsertOperatorCaseAction s i k p r u w)"

lemma Note_evolves: "keeps cases_evolve w (InsertOperatorCaseNote s i b u w)"
  unfolding InsertOperatorCaseNote_def Let_def
  by (intro keeps_intro keeps_exec reflp_tbl_evolves) (auto intro!: tbl_evolves_same split: if_splits)

lemma Action_evolves: "keeps cases_evolve w (InsertOperatorCaseAction s i k p r u w)"
  unfolding InsertOperatorCaseAction_def Let_def
  by (intro keeps_intro keeps_exec reflp_tbl_evolves) (auto intro!: tbl_evolves_same split: if_splits)

lemma case_act_evolves: "cases_evolve (db w) (db (case_act s x w))"
  using CreateCase_evolves UpdateCase_evolves Note_evolves Action_evolves
  by (cases x) (simp_all add: keeps_def)

interpretation cs: table_service op_cases oc_id case_init case_step "case_act s" for s
  by unfold_locales (use case_act_evolves in \<open>auto simp: tbl_evolves_def\<close>)

definition valid_cases :: "database \<Rightarrow> bool" where
  "valid_cases d \<longleftrightarrow> distinct (map oc_id (op_cases d)) \<and> (\<forall>r\<in>set (op_cases d). case_ok r)"

text \<open>
  C30: The vocabulary of cases. Start from valid cases (or none) and let any case operations
  run with any arguments and any database failures, interleaved with steps that do not write
  the table: every case still has one of the four statuses and one of the four priorities, a
  trimmed title that is not empty, a positive subject and author, and no assignee or a
  positive one, and ids are unique.
\<close>

theorem cases_stay_valid:
  assumes "history op_cases (case_act s) w w'" and "valid_cases (db w)"
  shows "valid_cases (db w')"
proof -
  from assms(2) have v: "distinct (map oc_id (op_cases (db w)))" "\<forall>r\<in>set (op_cases (db w)). case_ok r"
    by (simp_all add: valid_cases_def)
  have "\<forall>r\<in>set (op_cases (db w')). case_ok r"
    by (rule cs.history_inv [OF assms(1) v(1) _ _ v(2)]) (auto simp: case_init_def case_step_def)
  with cs.history_keys [OF assms(1) v(1)] show ?thesis by (simp add: valid_cases_def)
qed

lemma case_steps:
  "case_step\<^sup>*\<^sup>* r r' \<Longrightarrow> oc_created_at r' = oc_created_at r \<and> oc_subject_user_id r' = oc_subject_user_id r \<and>
     oc_character_ref r' = oc_character_ref r \<and> oc_title r' = oc_title r \<and>
     oc_description r' = oc_description r \<and> oc_created_by r' = oc_created_by r"
  by (induction rule: rtranclp_induct) (auto simp: case_step_def)

text \<open>
  C31: A case is a record. No history of case operations loses a case or changes its subject,
  character, title, description, author or creation time.
\<close>

theorem case_record_stays:
  assumes "history op_cases (case_act s) w w'" and "distinct (map oc_id (op_cases (db w)))"
    and "case_by_id i (db w) = Some r"
  shows "\<exists>r'. case_by_id i (db w') = Some r' \<and> oc_subject_user_id r' = oc_subject_user_id r \<and>
    oc_character_ref r' = oc_character_ref r \<and> oc_title r' = oc_title r \<and>
    oc_description r' = oc_description r \<and> oc_created_by r' = oc_created_by r \<and>
    oc_created_at r' = oc_created_at r"
  using cs.history_find [OF assms(1,2) assms(3) [unfolded case_by_id_def]]
  by (auto simp: case_by_id_def dest!: case_steps)

section \<open>Notes and actions are appended\<close>

definition note_ok :: "database \<Rightarrow> note_row \<Rightarrow> bool" where
  "note_ok d n \<longleftrightarrow> cn_case_id n \<in> oc_id ` set (op_cases d) \<and> cn_body n \<noteq> '''' \<and>
     TrimSpace (cn_body n) = cn_body n \<and> user_exists d (cn_created_by n)"

definition action_ok :: "database \<Rightarrow> action_row \<Rightarrow> bool" where
  "action_ok d a \<longleftrightarrow> ca_case_id a \<in> oc_id ` set (op_cases d) \<and> ca_action_kind a \<noteq> '''' \<and>
     user_exists d (ca_actor a)"

definition trail :: "database \<Rightarrow> database \<Rightarrow> bool" where
  "trail d d' \<longleftrightarrow> appends (note_ok d) (case_notes d) (case_notes d') \<and>
     appends (action_ok d) (case_actions d) (case_actions d')"

lemma reflp_trail [simp, keeps_intro]: "reflp trail"
  by (simp add: reflp_def trail_def)

lemma case_act_trail: "trail (db w) (db (case_act s x w))"
proof -
  have "keeps trail w (CreateOperatorCase s u c t d p b w)" for u c t d p b
    unfolding CreateOperatorCase_def Let_def
    by (intro keeps_intro keeps_exec) (auto simp: trail_def split: if_splits)
  moreover have "keeps trail w (UpdateOperatorCase s i st pr a w)" for i st pr a
    unfolding UpdateOperatorCase_def Let_def
    by (intro keeps_intro keeps_bind_reads keeps_exec) (auto simp: trail_def split: if_splits)
  moreover have "keeps trail w (InsertOperatorCaseNote s i b u w)" for i b u
    unfolding InsertOperatorCaseNote_def Let_def
    by (intro keeps_intro keeps_exec) (auto simp: trail_def note_ok_def intro!: appends_one split: if_splits)
  moreover have "keeps trail w (InsertOperatorCaseAction s i k p r u w)" for i k p r u
    unfolding InsertOperatorCaseAction_def Let_def
    by (intro keeps_intro keeps_exec) (auto simp: trail_def action_ok_def intro!: appends_one split: if_splits)
  ultimately show ?thesis by (cases x) (simp_all add: keeps_def)
qed

text \<open>
  C32: The trail of a case is append-only. Whatever a case operation does, and however it
  fails, the notes and the privileged actions recorded before it are all still there,
  unchanged and in order; what it adds refers to an existing case and an existing user, with
  a trimmed body or a kind that is not empty.
\<close>

theorem case_trail_append_only:
  "appends (note_ok (db w)) (case_notes (db w)) (case_notes (db (case_act s x w))) \<and>
   appends (action_ok (db w)) (case_actions (db w)) (case_actions (db (case_act s x w)))"
  using case_act_trail by (simp add: trail_def)

section \<open>Updates on every branch\<close>

lemma update_where_one:
  assumes "distinct (map k rs)" and "r \<in> set rs" and "k r = i" and "f r = r"
  shows "update_where (\<lambda>q. k q = i) f rs = rs"
proof (rule update_where_fix)
  fix q assume "q \<in> set rs" "k q = i"
  then have "q = r" using assms distinct_map_eqD [OF assms(1)] by metis
  then show "f q = q" using assms(4) by simp
qed

lemma touch_case_same_iff: "touch_case t f r = r \<longleftrightarrow> f r = r \<or> (f r)\<lparr>oc_updated_at := t\<rparr> = r"
  by (simp add: touch_case_def Let_def)

text \<open>The row an update means to leave: the given fields, and the others as they are.\<close>

definition updated_case :: "string option \<Rightarrow> string option \<Rightarrow> int option \<Rightarrow> case_row \<Rightarrow> case_row" where
  "updated_case st pr a r =
     r\<lparr>oc_status := case_option (oc_status r) id st, oc_priority := case_option (oc_priority r) id pr,
       oc_assigned_to := (case a of None \<Rightarrow> oc_assigned_to r | Some u \<Rightarrow> if u \<le> 0 then None else Some u)\<rparr>"

lemma set_case_updated: "set_case st pr a r = updated_case st pr a r"
  by (simp add: set_case_def updated_case_def Let_def split: option.split)

lemma updated_case_id: "oc_id (updated_case st pr a r) = oc_id r" "oc_updated_at (updated_case st pr a r) = oc_updated_at r"
  by (simp_all add: updated_case_def)

lemma touch_updated_same: "touch_case t (set_case st pr a) r = r \<longleftrightarrow> updated_case st pr a r = r"
proof -
  have "updated_case st pr a r = r" if "(updated_case st pr a r)\<lparr>oc_updated_at := t\<rparr> = r"
  proof -
    from that have "oc_updated_at r = t" by (metis case_row.select_convs(3) case_row.surjective case_row.update_convs(3))
    then have "(updated_case st pr a r)\<lparr>oc_updated_at := t\<rparr> = updated_case st pr a r" by (simp add: updated_case_def)
    with that show ?thesis by simp
  qed
  then show ?thesis by (auto simp: touch_case_same_iff set_case_updated)
qed

text \<open>The statement of the update on a table where ids are unique.\<close>

lemma update_statement:
  fixes st pr :: "string option" and a :: "int option"
  assumes "distinct (map oc_id rs)"
  defines "f \<equiv> \<lambda>t. touch_case t (set_case st pr a)"
  shows "List.find (\<lambda>r. oc_id r = i) rs = None \<Longrightarrow>
      affected (\<lambda>r. oc_id r = i) (f t) rs = 0 \<and> update_where (\<lambda>r. oc_id r = i) (f t) rs = rs"
    and "List.find (\<lambda>r. oc_id r = i) rs = Some r \<Longrightarrow> updated_case st pr a r = r \<Longrightarrow>
      affected (\<lambda>r. oc_id r = i) (f t) rs = 0 \<and> update_where (\<lambda>r. oc_id r = i) (f t) rs = rs"
    and "List.find (\<lambda>r. oc_id r = i) rs = Some r \<Longrightarrow> updated_case st pr a r \<noteq> r \<Longrightarrow>
      affected (\<lambda>r. oc_id r = i) (f t) rs \<noteq> 0 \<and>
      update_where (\<lambda>r. oc_id r = i) (f t) rs = map (\<lambda>q. if oc_id q = i then (updated_case st pr a r)\<lparr>oc_updated_at := t\<rparr> else q) rs"
proof -
  have only: "q = r" if "List.find (\<lambda>r. oc_id r = i) rs = Some r" "q \<in> set rs" "oc_id q = i" for q r
    using find_Some_set [OF that(1)] distinct_map_eqD [OF assms(1)] that(2,3) by metis
  show "affected (\<lambda>r. oc_id r = i) (f t) rs = 0 \<and> update_where (\<lambda>r. oc_id r = i) (f t) rs = rs"
    if "List.find (\<lambda>r. oc_id r = i) rs = None"
    using that by (auto simp: affected_zero_iff find_None_iff intro!: update_where_fix)
  show "affected (\<lambda>r. oc_id r = i) (f t) rs = 0 \<and> update_where (\<lambda>r. oc_id r = i) (f t) rs = rs"
    if "List.find (\<lambda>r. oc_id r = i) rs = Some r" "updated_case st pr a r = r"
    using only [OF that(1)] that(2) touch_updated_same
    by (auto simp: affected_zero_iff f_def intro!: update_where_fix)
  show "affected (\<lambda>r. oc_id r = i) (f t) rs \<noteq> 0 \<and>
      update_where (\<lambda>r. oc_id r = i) (f t) rs = map (\<lambda>q. if oc_id q = i then (updated_case st pr a r)\<lparr>oc_updated_at := t\<rparr> else q) rs"
    if r: "List.find (\<lambda>r. oc_id r = i) rs = Some r" and ne: "updated_case st pr a r \<noteq> r"
  proof
    from find_Some_set [OF r] have mem: "r \<in> set rs" "oc_id r = i" by auto
    have "f t r \<noteq> r" using ne touch_updated_same by (simp add: f_def)
    with mem show "affected (\<lambda>r. oc_id r = i) (f t) rs \<noteq> 0" unfolding affected_zero_iff by blast
    have "f t q = (updated_case st pr a r)\<lparr>oc_updated_at := t\<rparr>" if "q \<in> set rs" "oc_id q = i" for q
      using only [OF r that] ne by (simp add: f_def touch_case_def set_case_updated)
    then show "update_where (\<lambda>r. oc_id r = i) (f t) rs =
        map (\<lambda>q. if oc_id q = i then (updated_case st pr a r)\<lparr>oc_updated_at := t\<rparr> else q) rs"
      by (auto simp: update_where_def)
  qed
qed

text \<open>
  C33: Updating a case, every branch. Over a database that does not fail and whose cases have
  distinct ids, an update is refused, in this order and with its own error, without a store, for
  an id below 1, for a status or a priority that is given, not blank and not one of the four,
  and when no field is given; each of these writes nothing. Otherwise, if there is no such case
  the answer is that there is no row, and if the assignee does not exist the database refuses.
  Then exactly the given fields of exactly that case are written, with its update time, and an
  assignee of 0 or less clears the assignment; except that when every given value is the one the
  case already has nothing is written and the update reports that there is no such row, because
  the data source name does not ask for matched instead of changed rows.
\<close>

theorem update_case_branches:
  assumes "outcomes w = []" and "distinct (map oc_id (op_cases (db w)))"
  shows "UpdateOperatorCase s i st pr a w =
    (if nil_store s then (Inl (Msg ''nil db''), w)
     else if i < 1 then (Inl (Msg ''invalid case id''), w)
     else if trimmed_arg st \<notin> {None, Some ''open'', Some ''in_progress'', Some ''resolved'', Some ''closed''}
       then (Inl (Sentinel ErrInvalidCaseStatus), w)
     else if trimmed_arg pr \<notin> {None, Some ''low'', Some ''normal'', Some ''high'', Some ''urgent''}
       then (Inl (Sentinel ErrInvalidCasePriority), w)
     else if trimmed_arg st = None \<and> trimmed_arg pr = None \<and> a = None then (Inl (Msg ''no fields to update''), w)
     else (case case_by_id i (db w) of
         None \<Rightarrow> (Inl NoRows, w)
       | Some r \<Rightarrow>
           if \<exists>u. a = Some u \<and> 0 < u \<and> \<not> user_exists (db w) u then (Inl Driver, w)
           else let r' = updated_case (trimmed_arg st) (trimmed_arg pr) a r in
             if r' = r then (Inl NoRows, w)
             else (Inr (), w\<lparr>db := (db w)\<lparr>op_cases :=
               map (\<lambda>q. if oc_id q = i then r'\<lparr>oc_updated_at := CURRENT_TIMESTAMP (clock w)\<rparr> else q) (op_cases (db w))\<rparr>\<rparr>)))"
proof -
  let ?f = "touch_case (CURRENT_TIMESTAMP (clock w)) (set_case (trimmed_arg st) (trimmed_arg pr) a)"
  have st: "trimmed_arg st \<notin> {None, Some ''open'', Some ''in_progress'', Some ''resolved'', Some ''closed''} \<longleftrightarrow>
      trimmed_arg st \<noteq> None \<and> \<not> isValidCaseStatus (the (trimmed_arg st))"
    by (cases "trimmed_arg st") (simp_all add: isValidCaseStatus_def case_consts)
  have pr: "trimmed_arg pr \<notin> {None, Some ''low'', Some ''normal'', Some ''high'', Some ''urgent''} \<longleftrightarrow>
      trimmed_arg pr \<noteq> None \<and> \<not> isValidCasePriority (the (trimmed_arg pr))"
    by (cases "trimmed_arg pr") (simp_all add: isValidCasePriority_def case_consts)
  have ok: "assignee_ok (db w) i a \<longleftrightarrow>
      case_by_id i (db w) = None \<or> \<not> (\<exists>u. a = Some u \<and> 0 < u \<and> \<not> user_exists (db w) u)"
    by (auto simp: assignee_ok_def case_by_id_def find_None_iff not_less split: option.splits dest!: find_Some_set)
  have stmt: "bind_result
      (exec (\<lambda>t d. if assignee_ok d i a then
           (let P = (\<lambda>r. oc_id r = i); f = touch_case t (set_case (trimmed_arg st) (trimmed_arg pr) a)
            in Some (d\<lparr>op_cases := update_where P f (op_cases d)\<rparr>, affected P f (op_cases d)))
         else None) w)
      (\<lambda>n w1. if n = 0 then (Inl NoRows, w1) else (Inr (), w1)) =
    (case case_by_id i (db w) of
       None \<Rightarrow> (Inl NoRows, w)
     | Some r \<Rightarrow>
         if \<exists>u. a = Some u \<and> 0 < u \<and> \<not> user_exists (db w) u then (Inl Driver, w)
         else let r' = updated_case (trimmed_arg st) (trimmed_arg pr) a r in
           if r' = r then (Inl NoRows, w)
           else (Inr (), w\<lparr>db := (db w)\<lparr>op_cases :=
             map (\<lambda>q. if oc_id q = i then r'\<lparr>oc_updated_at := CURRENT_TIMESTAMP (clock w)\<rparr> else q) (op_cases (db w))\<rparr>\<rparr>))"
  proof (cases "case_by_id i (db w)")
    case None
    with update_statement(1) [OF assms(2)] ok show ?thesis
      by (simp add: exec_no_script [OF assms(1)] case_by_id_def Let_def)
  next
    case (Some r)
    note cases = update_statement(2,3) [OF assms(2) Some [unfolded case_by_id_def],
        where st = "trimmed_arg st" and pr = "trimmed_arg pr" and a = a and t = "CURRENT_TIMESTAMP (clock w)"]
    show ?thesis
    proof (cases "updated_case (trimmed_arg st) (trimmed_arg pr) a r = r")
      case True
      with cases(1) ok Some show ?thesis by (simp add: exec_no_script [OF assms(1)] Let_def)
    next
      case False
      with cases(2) ok Some show ?thesis by (simp add: exec_no_script [OF assms(1)] Let_def)
    qed
  qed
  show ?thesis
    unfolding UpdateOperatorCase_def st pr by (simp only: Let_def stmt [unfolded Let_def])
qed

section \<open>Reading page by page\<close>

definition case_page :: "store option \<Rightarrow> ListOperatorCasesQuery \<Rightarrow> world \<Rightarrow> int option \<Rightarrow> case_row list" where
  "case_page s q w b =
     (case fst (ListOperatorCases s (q\<lparr>lq_BeforeID := b\<rparr>) w) of Inl _ \<Rightarrow> [] | Inr rs \<Rightarrow> rs)"

definition ledger_page :: "store option \<Rightarrow> EconomyLedgerQuery \<Rightarrow> world \<Rightarrow> int option \<Rightarrow> ledger_row list" where
  "ledger_page s q w b =
     (case fst (ListEconomyLedgerEvents s (q\<lparr>el_q_BeforeID := b\<rparr>) w :: (unit, ledger_row list) result \<times> world) of
        Inl _ \<Rightarrow> [] | Inr rs \<Rightarrow> rs)"

lemma filter_newest_first: "filter P (newest_first k rs) = newest_first k (filter P rs)"
  by (simp add: newest_first_def filter_sort)

lemma limits: "0 < case_limit n" "case_limit n \<le> 200" "0 < ledger_limit n" "ledger_limit n \<le> 100"
  by (simp_all add: case_limit_def ledger_limit_def Let_def)

lemma matches_before [simp]:
  "case_matches (q\<lparr>lq_BeforeID := b\<rparr>) = case_matches q" "ledger_matches (p\<lparr>el_q_BeforeID := b\<rparr>) = ledger_matches p"
  by (simp_all add: fun_eq_iff case_matches_def ledger_matches_def)

interpretation cp: pager oc_id "newest_first oc_id (filter (case_matches q) (op_cases d))"
    "nat (case_limit (lq_Limit q))" "\<lambda>b. select_cases (q\<lparr>lq_BeforeID := b\<rparr>) d" for q d
  by unfold_locales (simp_all add: select_cases_def filter_newest_first limits conj_commute)

interpretation lp: pager el_id "newest_first el_id (filter (ledger_matches q) (ledger d))"
    "nat (ledger_limit (el_q_Limit q))" "\<lambda>b. select_ledger (q\<lparr>el_q_BeforeID := b\<rparr>) d" for q d
  by unfold_locales (simp_all add: select_ledger_def filter_newest_first limits conj_commute)

lemma pages_quiet:
  assumes "outcomes w = []" and "\<not> nil_store s"
  shows "case_page s q w = (\<lambda>b. select_cases (q\<lparr>lq_BeforeID := b\<rparr>) (db w))"
    and "ledger_page s p w = (\<lambda>b. select_ledger (p\<lparr>el_q_BeforeID := b\<rparr>) (db w))"
  using assms by (simp_all add: fun_eq_iff case_page_def ledger_page_def ListOperatorCases_def
      ListEconomyLedgerEvents_def world_simps)

lemma page_sizes:
  "length (select_cases q d) \<le> 200" "length (select_ledger p d) \<le> 100"
  using limits(2) [of "lq_Limit q"] limits(4) [of "el_q_Limit p"]
  by (simp_all add: select_cases_def select_ledger_def)

lemma filter_fuel: "length rs \<le> fuel \<Longrightarrow> length (newest_first k (filter P rs)) \<le> fuel"
  using order_trans [OF length_filter_le [of P rs]] by simp

text \<open>
  C34: Paging finds everything once. A client that lists cases or ledger events with any filter
  and any limit, and asks each time for rows below the last id it has seen, gets after enough
  requests exactly the matching rows, each once, newest first; no page has more than 200
  cases or 100 events.
\<close>

theorem paging_is_complete:
  assumes "outcomes w = []" and "\<not> nil_store s"
    and "distinct (map oc_id (op_cases (db w)))" and "distinct (map el_id (ledger (db w)))"
    and "length (op_cases (db w)) \<le> fuel" and "length (ledger (db w)) \<le> fuel"
  shows "walk fuel oc_id (case_page s q w) None = newest_first oc_id (filter (case_matches q) (op_cases (db w))) \<and>
    walk fuel el_id (ledger_page s p w) None = newest_first el_id (filter (ledger_matches p) (ledger (db w))) \<and>
    length (case_page s q w b) \<le> 200 \<and> length (ledger_page s p w b) \<le> 100"
  using cp.walk_all [OF newest_first_strict [OF distinct_map_filter [OF assms(3)]] filter_fuel [OF assms(5)]]
    lp.walk_all [OF newest_first_strict [OF distinct_map_filter [OF assms(4)]] filter_fuel [OF assms(6)]]
  by (simp add: pages_quiet [OF assms(1,2)] page_sizes)

section \<open>A concrete run\<close>

text \<open>User 1 opens a case on user 2 and adds a note.\<close>

definition demo_case :: case_row where
  "demo_case = new_case_row 1 1000000000000 ''high'' 2 None ''stolen'' None 1"

definition demo_cases :: world where
  "demo_cases = demo_world\<lparr>db := (db demo_world)\<lparr>op_cases := [demo_case]\<rparr>\<rparr>"

lemma demo_cases_facts:
  "outcomes demo_cases = []" "\<not> nil_store (Some demo_store)" "op_cases (db demo_cases) = [demo_case]"
  "ledger (db demo_cases) = []" "oc_id demo_case = 1" "case_by_id 1 (db demo_cases) = Some demo_case"
  "oc_title demo_case = ''stolen''" "clock demo_cases = 1000000000000"
  by (simp_all add: demo_cases_def demo_world_def nil_store_def demo_store_def case_by_id_def demo_case_def
      new_case_row_def empty_db_def)

lemma demo_case_strings:
  "TrimSpace ''stolen'' = ''stolen''" "TrimSpace ''high'' = ''high''" "TrimSpace ''low'' = ''low''" "TrimSpace ''dire'' = ''dire''"
  by (rule TrimSpace_visible; simp add: visible_def)+

lemma demo_valid_cases: "valid_cases (db demo_cases)"
  by (simp add: valid_cases_def demo_cases_facts case_ok_def demo_case_def new_case_row_def demo_case_strings
      isValidCaseStatus_def isValidCasePriority_def case_consts)

lemma demo_case_history:
  "history op_cases (case_act (Some demo_store)) demo_cases
     (case_act (Some demo_store) (CUpdate 1 (Some ''closed'') None None) demo_cases)"
  by (rule history_own)

theorem cases_stay_valid_witness:
  "valid_cases (db (case_act (Some demo_store) (CUpdate 1 (Some ''closed'') None None) demo_cases))"
  by (rule cases_stay_valid [OF demo_case_history demo_valid_cases])

theorem case_record_stays_witness:
  "\<exists>r. case_by_id 1 (db (case_act (Some demo_store) (CUpdate 1 (Some ''closed'') None None) demo_cases)) = Some r \<and>
     oc_title r = ''stolen''"
  using case_record_stays [OF demo_case_history _ demo_cases_facts(6)]
  by (auto simp: demo_cases_facts)

theorem update_case_branches_witness:
  "UpdateOperatorCase (Some demo_store) 1 None (Some ''high'') None demo_cases = (Inl NoRows, demo_cases) \<and>
   UpdateOperatorCase (Some demo_store) 1 None (Some ''dire'') None demo_cases = (Inl (Sentinel ErrInvalidCasePriority), demo_cases) \<and>
   UpdateOperatorCase (Some demo_store) 2 None (Some ''low'') None demo_cases = (Inl NoRows, demo_cases) \<and>
   (\<exists>w'. UpdateOperatorCase (Some demo_store) 1 None (Some ''low'') None demo_cases = (Inr (), w') \<and>
      op_cases (db w') = [demo_case\<lparr>oc_priority := ''low'', oc_updated_at := 1000000000000\<rparr>])"
proof -
  have t: "trimmed_arg None = None" "trimmed_arg (Some ''high'') = Some ''high''" "trimmed_arg (Some ''low'') = Some ''low''"
    "trimmed_arg (Some ''dire'') = Some ''dire''"
    by (simp_all add: trimmed_arg_def demo_case_strings)
  have "updated_case None (Some ''high'') None demo_case = demo_case"
    "updated_case None (Some ''low'') None demo_case \<noteq> demo_case"
    "updated_case None (Some ''low'') None demo_case = demo_case\<lparr>oc_priority := ''low''\<rparr>"
    by (simp_all add: updated_case_def demo_case_def new_case_row_def)
  moreover have "case_by_id 2 (db demo_cases) = None" "distinct (map oc_id (op_cases (db demo_cases)))"
    by (simp_all add: case_by_id_def demo_cases_facts)
  ultimately show ?thesis
    by (simp add: update_case_branches demo_cases_facts t CURRENT_TIMESTAMP_def)
qed

theorem paging_is_complete_witness:
  "walk 1 oc_id (case_page (Some demo_store)
     \<lparr>lq_Limit = 10, lq_Status = ''open'', lq_SubjectUserID = None, lq_BeforeID = None\<rparr> demo_cases) None = [demo_case]"
proof -
  have "filter (case_matches \<lparr>lq_Limit = 10, lq_Status = ''open'', lq_SubjectUserID = None, lq_BeforeID = None\<rparr>)
      [demo_case] = [demo_case]"
    by (simp add: case_matches_def demo_case_def new_case_row_def CaseStatusOpen_def)
  with paging_is_complete [OF demo_cases_facts(1,2), of 1] show ?thesis
    by (simp add: demo_cases_facts newest_first_def)
qed

end
