(* ===== verification/Backup_Restore.thy ===== *)
theory Backup_Restore
  imports Tables
begin

text \<open>
  authstore/backup_restore.go: the workflow of backup restore requests. A request is
  created pending, takes up to two approvals, and ends approved and then fulfilled, or
  rejected, or cancelled. The first part translates the operations of the store, the second
  gives the abstract workflow and shows that every operation is a step of it.
\<close>

section \<open>Operations\<close>

definition BackupRestoreStatusPending :: string where
  "BackupRestoreStatusPending = ''pending''"
definition BackupRestoreStatusApproved :: string where
  "BackupRestoreStatusApproved = ''approved''"
definition BackupRestoreStatusRejected :: string where
  "BackupRestoreStatusRejected = ''rejected''"
definition BackupRestoreStatusFulfilled :: string where
  "BackupRestoreStatusFulfilled = ''fulfilled''"
definition BackupRestoreStatusCancelled :: string where
  "BackupRestoreStatusCancelled = ''cancelled''"

lemmas restore_status_defs =
  BackupRestoreStatusPending_def BackupRestoreStatusApproved_def BackupRestoreStatusRejected_def
  BackupRestoreStatusFulfilled_def BackupRestoreStatusCancelled_def

datatype restore_error =
    ErrBackupRestoreNotFound
  | ErrBackupRestoreInvalidState
  | ErrBackupRestoreCannotApprove
  | ErrBackupRestoreDuplicateSlot
  | ErrBackupRestoreAlreadyFilled
  | ErrBackupRestoreNotRequester

definition BackupRestoreStatusCounts ::
    "store option \<Rightarrow> world \<Rightarrow> (restore_error, (string \<times> nat) list) result \<times> world" where
  "BackupRestoreStatusCounts s w =
     (if nil_store s then (Inl (Msg ''nil db''), w)
      else query (\<lambda>_ d. map (\<lambda>st. (st, length (filter (\<lambda>r. br_status r = st) (restores d))))
             (remdups (map br_status (restores d)))) w)"

definition new_restore_row ::
    "int \<Rightarrow> int \<Rightarrow> int \<Rightarrow> string \<Rightarrow> string \<Rightarrow> string \<Rightarrow> string \<Rightarrow> restore_row" where
  "new_restore_row i t by scope label reason reqID =
     \<lparr>br_id = i, br_created_at = t, br_updated_at = t, br_requested_by = by, br_scope = scope,
      br_label = label, br_reason = reason, br_status = BackupRestoreStatusPending,
      br_rejection_reason = None, br_approval1 = None, br_approval1_at = None,
      br_approval2 = None, br_approval2_at = None, br_fulfilled_at = None,
      br_fulfilled_note = None, br_request_id = nullStr reqID\<rparr>"

definition CreateBackupRestoreRequest ::
    "store option \<Rightarrow> int \<Rightarrow> string \<Rightarrow> string \<Rightarrow> string \<Rightarrow> string \<Rightarrow> world
     \<Rightarrow> (restore_error, int) result \<times> world" where
  "CreateBackupRestoreRequest s requestedByUserID scope restorePointLabel reason reqID w =
     (if nil_store s then (Inl (Msg ''nil db''), w)
      else if requestedByUserID \<le> 0 \<or> scope = '''' \<or> restorePointLabel = '''' \<or> reason = ''''
      then (Inl (Msg ''invalid backup restore request fields''), w)
      else exec (\<lambda>t d.
        if user_exists d requestedByUserID then
          (let i = next_id br_id (restores d) in
           Some (d\<lparr>restores := restores d @
                   [new_restore_row i t requestedByUserID scope restorePointLabel reason reqID]\<rparr>, i))
        else None) w)"

definition clamp_limit :: "int \<Rightarrow> int \<Rightarrow> int \<Rightarrow> int" where
  "clamp_limit dflt mx n = (let n = (if n < 1 then dflt else n) in if n > mx then mx else n)"

definition ListBackupRestoreRequests ::
    "store option \<Rightarrow> int \<Rightarrow> string \<Rightarrow> world \<Rightarrow> (restore_error, restore_row list) result \<times> world" where
  "ListBackupRestoreRequests s limit statusFilter w =
     (if nil_store s then (Inl (Msg ''nil db''), w)
      else query (\<lambda>_ d. take (nat (clamp_limit 50 200 limit))
        (newest_first br_id
          (filter (\<lambda>r. statusFilter = '''' \<or> br_status r = statusFilter) (restores d)))) w)"

definition restore_by_id :: "int \<Rightarrow> database \<Rightarrow> restore_row option" where
  "restore_by_id i d = List.find (\<lambda>r. br_id r = i) (restores d)"

definition GetBackupRestoreRequest ::
    "store option \<Rightarrow> int \<Rightarrow> world \<Rightarrow> (restore_error, restore_row) result \<times> world" where
  "GetBackupRestoreRequest s i w =
     (if nil_store s then (Inl (Msg ''nil db''), w)
      else bind_result (query (\<lambda>_. restore_by_id i) w) (\<lambda>row w1.
        case row of
          None \<Rightarrow> (Inl (Sentinel ErrBackupRestoreNotFound), w1)
        | Some r \<Rightarrow> (Inr r, w1)))"

text \<open>
  An UPDATE of one statement: the rows where \<open>P\<close> holds are set by \<open>f\<close>, and the column
  \<open>updated_at\<close> (ON UPDATE CURRENT_TIMESTAMP) follows where something changed.
\<close>

definition touch_restore :: "int \<Rightarrow> (restore_row \<Rightarrow> restore_row) \<Rightarrow> restore_row \<Rightarrow> restore_row" where
  "touch_restore t f r = (let r' = f r in if r' = r then r else r'\<lparr>br_updated_at := t\<rparr>)"

definition update_restores ::
    "(restore_row \<Rightarrow> bool) \<Rightarrow> (int \<Rightarrow> restore_row \<Rightarrow> restore_row) \<Rightarrow> int \<Rightarrow> database \<Rightarrow> (database \<times> nat) option" where
  "update_restores P f t d =
     Some (d\<lparr>restores := update_where P (touch_restore t (f t)) (restores d)\<rparr>,
           affected P (touch_restore t (f t)) (restores d))"

definition ApproveBackupRestoreRequest ::
    "store option \<Rightarrow> int \<Rightarrow> int \<Rightarrow> world \<Rightarrow> (restore_error, unit) result \<times> world" where
  "ApproveBackupRestoreRequest s i approverUserID w =
     (if nil_store s then (Inl (Msg ''nil db''), w)
      else if approverUserID \<le> 0 then (Inl (Msg ''invalid approver''), w)
      else in_tx (\<lambda>w0.
        bind_result (query (\<lambda>_. restore_by_id i) w0) (\<lambda>row w1.
          case row of
            None \<Rightarrow> (Inl (Sentinel ErrBackupRestoreNotFound), w1)
          | Some r \<Rightarrow>
              if br_status r \<noteq> BackupRestoreStatusPending
              then (Inl (Sentinel ErrBackupRestoreInvalidState), w1)
              else if br_requested_by r = approverUserID
              then (Inl (Sentinel ErrBackupRestoreCannotApprove), w1)
              else
                (let now = clock w1;
                     pend = (\<lambda>q. br_id q = i \<and> br_status q = BackupRestoreStatusPending);
                     guarded = (\<lambda>f t d. if user_exists d approverUserID
                                        then update_restores pend f t d else None)
                 in case br_approval1 r of
                      None \<Rightarrow> bind_result
                        (exec (guarded (\<lambda>_ q. q\<lparr>br_approval1 := Some approverUserID,
                                                 br_approval1_at := Some (TIMESTAMP now)\<rparr>)) w1)
                        (\<lambda>_ w2. (Inr (), w2))
                    | Some a1 \<Rightarrow>
                        if a1 = approverUserID
                        then (Inl (Sentinel ErrBackupRestoreDuplicateSlot), w1)
                        else (case br_approval2 r of
                          None \<Rightarrow> bind_result
                            (exec (guarded (\<lambda>_ q. q\<lparr>br_approval2 := Some approverUserID,
                                                     br_approval2_at := Some (TIMESTAMP now),
                                                     br_status := BackupRestoreStatusApproved\<rparr>)) w1)
                            (\<lambda>_ w2. (Inr (), w2))
                        | Some _ \<Rightarrow> (Inl (Sentinel ErrBackupRestoreAlreadyFilled), w1))))) w)"

definition RejectBackupRestoreRequest ::
    "store option \<Rightarrow> int \<Rightarrow> int \<Rightarrow> string \<Rightarrow> world \<Rightarrow> (restore_error, unit) result \<times> world" where
  "RejectBackupRestoreRequest s i actorUserID rejectionReason w =
     (if nil_store s then (Inl (Msg ''nil db''), w)
      else if actorUserID \<le> 0 then (Inl (Msg ''invalid actor''), w)
      else bind_result
        (exec (update_restores
           (\<lambda>q. br_id q = i \<and> br_status q = BackupRestoreStatusPending \<and> br_requested_by q \<noteq> actorUserID)
           (\<lambda>_ q. q\<lparr>br_status := BackupRestoreStatusRejected,
                    br_rejection_reason := Some rejectionReason\<rparr>)) w)
        (\<lambda>n w1. if n = 0 then
           bind_result (GetBackupRestoreRequest s i w1) (\<lambda>row w2.
             if br_requested_by row = actorUserID
             then (Inl (Sentinel ErrBackupRestoreCannotApprove), w2)
             else (Inl (Sentinel ErrBackupRestoreInvalidState), w2))
         else (Inr (), w1)))"

definition CancelBackupRestoreRequest ::
    "store option \<Rightarrow> int \<Rightarrow> int \<Rightarrow> world \<Rightarrow> (restore_error, unit) result \<times> world" where
  "CancelBackupRestoreRequest s i requesterUserID w =
     (if nil_store s then (Inl (Msg ''nil db''), w)
      else bind_result
        (exec (update_restores
           (\<lambda>q. br_id q = i \<and> br_status q = BackupRestoreStatusPending \<and> br_requested_by q = requesterUserID)
           (\<lambda>_ q. q\<lparr>br_status := BackupRestoreStatusCancelled\<rparr>)) w)
        (\<lambda>n w1. if n = 0 then
           bind_result (GetBackupRestoreRequest s i w1) (\<lambda>row w2.
             if br_requested_by row \<noteq> requesterUserID
             then (Inl (Sentinel ErrBackupRestoreNotRequester), w2)
             else (Inl (Sentinel ErrBackupRestoreInvalidState), w2))
         else (Inr (), w1)))"

definition FulfillBackupRestoreRequest ::
    "store option \<Rightarrow> int \<Rightarrow> int \<Rightarrow> string \<Rightarrow> world \<Rightarrow> (restore_error, unit) result \<times> world" where
  "FulfillBackupRestoreRequest s i actorUserID note w =
     (if nil_store s then (Inl (Msg ''nil db''), w)
      else bind_result
        (exec (update_restores
           (\<lambda>q. br_id q = i \<and> br_status q = BackupRestoreStatusApproved)
           (\<lambda>t q. q\<lparr>br_status := BackupRestoreStatusFulfilled, br_fulfilled_at := Some t,
                    br_fulfilled_note := Some note\<rparr>)) w)
        (\<lambda>n w1. if n = 0 then (Inl (Sentinel ErrBackupRestoreInvalidState), w1) else (Inr (), w1)))"

section \<open>The abstract workflow\<close>

text \<open>
  What the package promises: \<open>two distinct approvers, neither the requester\<close>. The phase
  of a request and its moves, with the requester as the parameter of the relation.
\<close>

datatype phase =
    PPending
  | PHalf int
  | PApproved int int
  | PRejected
  | PFulfilled int int
  | PCancelled

inductive moves :: "int \<Rightarrow> phase \<Rightarrow> phase \<Rightarrow> bool" for requester where
  approve1: "a \<noteq> requester \<Longrightarrow> moves requester PPending (PHalf a)"
| approve2: "b \<noteq> requester \<Longrightarrow> b \<noteq> a \<Longrightarrow> moves requester (PHalf a) (PApproved a b)"
| reject0: "moves requester PPending PRejected"
| reject1: "moves requester (PHalf a) PRejected"
| cancel0: "moves requester PPending PCancelled"
| cancel1: "moves requester (PHalf a) PCancelled"
| fulfill: "moves requester (PApproved a b) (PFulfilled a b)"

inductive_simps moves_simps [simp]:
  "moves u PPending p" "moves u (PHalf a) p" "moves u (PApproved a b) p"
  "moves u PRejected p" "moves u (PFulfilled a b) p" "moves u PCancelled p"
  "moves u p (PFulfilled a b)" "moves u p (PApproved a b)"

text \<open>
  The workflow never goes round: the phases are ordered by what a request can still become, and
  every move is a step upwards.
\<close>

fun overtakes :: "phase \<Rightarrow> phase \<Rightarrow> bool" where
  "overtakes q PPending = (q \<noteq> PPending)"
| "overtakes q (PHalf a) =
     (case q of PApproved a' b \<Rightarrow> a' = a | PFulfilled a' b \<Rightarrow> a' = a | PRejected \<Rightarrow> True | PCancelled \<Rightarrow> True
      | _ \<Rightarrow> False)"
| "overtakes q (PApproved a b) = (q = PFulfilled a b)"
| "overtakes q _ = False"

instantiation phase :: order
begin

definition less_phase :: "phase \<Rightarrow> phase \<Rightarrow> bool" where
  "less_phase p q \<longleftrightarrow> overtakes q p"

definition less_eq_phase :: "phase \<Rightarrow> phase \<Rightarrow> bool" where
  "less_eq_phase p q \<longleftrightarrow> p = q \<or> overtakes q p"

instance
proof
  fix p q r :: phase
  show "p < q \<longleftrightarrow> p \<le> q \<and> \<not> q \<le> p"
    by (cases p; cases q) (auto simp: less_phase_def less_eq_phase_def)
  show "p \<le> p" by (simp add: less_eq_phase_def)
  show "p \<le> q \<Longrightarrow> q \<le> r \<Longrightarrow> p \<le> r"
    by (cases p; cases q) (auto simp: less_eq_phase_def split: phase.splits)
  show "p \<le> q \<Longrightarrow> q \<le> p \<Longrightarrow> p = q"
    by (cases p; cases q) (auto simp: less_eq_phase_def)
qed

end

lemma moves_less: "moves u p q \<Longrightarrow> p < q"
  by (auto simp: less_phase_def elim: moves.cases)

lemma moves_le: "(moves u)\<^sup>*\<^sup>* p q \<Longrightarrow> p \<le> q"
  by (induction rule: rtranclp_induct) (auto dest: moves_less)

definition phase_of :: "restore_row \<Rightarrow> phase option" where
  "phase_of r =
     (if br_status r = BackupRestoreStatusPending then
        (case (br_approval1 r, br_approval2 r) of
           (None, None) \<Rightarrow> Some PPending
         | (Some a, None) \<Rightarrow> Some (PHalf a)
         | _ \<Rightarrow> None)
      else if br_status r = BackupRestoreStatusApproved then
        (case (br_approval1 r, br_approval2 r) of (Some a, Some b) \<Rightarrow> Some (PApproved a b) | _ \<Rightarrow> None)
      else if br_status r = BackupRestoreStatusFulfilled then
        (case (br_approval1 r, br_approval2 r) of (Some a, Some b) \<Rightarrow> Some (PFulfilled a b) | _ \<Rightarrow> None)
      else if br_status r = BackupRestoreStatusRejected then Some PRejected
      else if br_status r = BackupRestoreStatusCancelled then Some PCancelled
      else None)"

text \<open>The phases of a request whose approvals respect the two-approver rule.\<close>

fun phase_ok :: "int \<Rightarrow> phase \<Rightarrow> bool" where
  "phase_ok u (PHalf a) = (a \<noteq> u)"
| "phase_ok u (PApproved a b) = (a \<noteq> u \<and> b \<noteq> u \<and> a \<noteq> b)"
| "phase_ok u (PFulfilled a b) = (a \<noteq> u \<and> b \<noteq> u \<and> a \<noteq> b)"
| "phase_ok u _ = True"

lemma moves_phase_ok: "moves u p q \<Longrightarrow> phase_ok u p \<Longrightarrow> phase_ok u q"
  by (erule moves.cases) auto

definition row_ok :: "restore_row \<Rightarrow> bool" where
  "row_ok r \<longleftrightarrow> (case phase_of r of None \<Rightarrow> False | Some p \<Rightarrow> phase_ok (br_requested_by r) p)"

text \<open>A step of a row: its phase moves, and what the request asked for stays.\<close>

definition restore_step :: "restore_row \<Rightarrow> restore_row \<Rightarrow> bool" where
  "restore_step r r' \<longleftrightarrow>
     (phase_of r = None \<or> (\<exists>p q. phase_of r = Some p \<and> phase_of r' = Some q \<and> moves (br_requested_by r) p q)) \<and>
     br_requested_by r' = br_requested_by r \<and> br_scope r' = br_scope r \<and>
     br_label r' = br_label r \<and> br_reason r' = br_reason r \<and> br_created_at r' = br_created_at r"

definition restore_init :: "restore_row \<Rightarrow> bool" where
  "restore_init r \<longleftrightarrow> phase_of r = Some PPending \<and> 0 < br_requested_by r"

lemma restore_step_row_ok: "row_ok r \<Longrightarrow> restore_step r r' \<Longrightarrow> row_ok r'"
  by (auto simp: row_ok_def restore_step_def split: option.splits dest: moves_phase_ok)

lemma restore_init_row_ok: "restore_init r \<Longrightarrow> row_ok r"
  by (simp add: restore_init_def row_ok_def)

lemma phase_of_touch [simp]: "phase_of (r\<lparr>br_updated_at := t\<rparr>) = phase_of r"
  by (simp add: phase_of_def)

lemma touch_restore_id [simp]: "(\<And>q. br_id (f q) = br_id q) \<Longrightarrow> br_id (touch_restore t f r) = br_id r"
  by (simp add: touch_restore_def Let_def)

lemma touch_restore_step:
  assumes "restore_step r (f r)"
  shows "touch_restore t f r = r \<or> restore_step r (touch_restore t f r)"
  using assms by (auto simp: touch_restore_def Let_def restore_step_def)

section \<open>The operations refine the workflow\<close>

text \<open>How one operation may change the table of requests, given its primary key.\<close>

definition restores_evolve :: "database \<Rightarrow> database \<Rightarrow> bool" where
  "restores_evolve d d' \<longleftrightarrow> distinct (map br_id (restores d)) \<longrightarrow>
     evolves br_id restore_init restore_step (restores d) (restores d')"

lemma restores_evolve_refl [simp]: "restores_evolve d d"
  by (simp add: restores_evolve_def)

lemma update_restores_evolve:
  assumes "update_restores P f t d = Some (d', n)"
    and "\<And>r. r \<in> set (restores d) \<Longrightarrow> P r \<Longrightarrow> restore_step r (f t r)"
    and "\<And>q. br_id (f t q) = br_id q"
  shows "restores_evolve d d'"
proof -
  from assms(1) have d': "restores d' = update_where P (touch_restore t (f t)) (restores d)"
    by (auto simp: update_restores_def)
  show ?thesis
    unfolding restores_evolve_def d'
    by (intro impI evolves_update_where) (use assms(2,3) touch_restore_step in auto)
qed

lemma reflp_restores_evolve [simp]: "reflp restores_evolve"
  by (simp add: reflp_def)

lemma keeps_update_restores:
  assumes "\<And>t r. r \<in> set (restores (db w)) \<Longrightarrow> P r \<Longrightarrow> restore_step r (f t r)"
    and "\<And>t q. br_id (f t q) = br_id q"
  shows "keeps restores_evolve w (exec (update_restores P f) w)"
  by (rule keeps_exec) (use assms in \<open>auto intro: update_restores_evolve\<close>)

lemma keeps_Get [keeps_intro]: "keeps (=) w (GetBackupRestoreRequest s i w)"
  unfolding GetBackupRestoreRequest_def
  by (intro keeps_intro keeps_bind_reads)

lemma reject_row_step:
  assumes "br_status q = BackupRestoreStatusPending"
  shows "restore_step q (q\<lparr>br_status := BackupRestoreStatusRejected, br_rejection_reason := x\<rparr>)"
  using assms by (auto simp: restore_step_def phase_of_def restore_status_defs split: option.splits)

lemma cancel_row_step:
  assumes "br_status q = BackupRestoreStatusPending"
  shows "restore_step q (q\<lparr>br_status := BackupRestoreStatusCancelled\<rparr>)"
  using assms by (auto simp: restore_step_def phase_of_def restore_status_defs split: option.splits)

lemma fulfill_row_step:
  assumes "br_status q = BackupRestoreStatusApproved"
  shows "restore_step q (q\<lparr>br_status := BackupRestoreStatusFulfilled, br_fulfilled_at := x,
            br_fulfilled_note := y\<rparr>)"
  using assms by (auto simp: restore_step_def phase_of_def restore_status_defs split: option.splits)

lemma approve1_row_step:
  assumes "br_status q = BackupRestoreStatusPending" "br_approval1 q = None" "br_requested_by q \<noteq> u"
  shows "restore_step q (q\<lparr>br_approval1 := Some u, br_approval1_at := x\<rparr>)"
  using assms by (auto simp: restore_step_def phase_of_def restore_status_defs split: option.splits)

lemma approve2_row_step:
  assumes "br_status q = BackupRestoreStatusPending" "br_approval1 q \<noteq> None" "br_approval2 q = None"
    "br_approval1 q \<noteq> Some u" "br_requested_by q \<noteq> u"
  shows "restore_step q (q\<lparr>br_approval2 := Some u, br_approval2_at := x,
            br_status := BackupRestoreStatusApproved\<rparr>)"
  using assms by (auto simp: restore_step_def phase_of_def restore_status_defs split: option.splits)

lemma Create_evolves: "keeps restores_evolve w (CreateBackupRestoreRequest s u sc lb re rq w)"
  unfolding CreateBackupRestoreRequest_def
proof (intro keeps_intro keeps_exec reflp_restores_evolve)
  fix t d a
  assume ok: "\<not> (u \<le> 0 \<or> sc = '''' \<or> lb = '''' \<or> re = '''')"
    and "(if user_exists (db w) u then
          (let i = next_id br_id (restores (db w)) in
           Some ((db w)\<lparr>restores := restores (db w) @ [new_restore_row i t u sc lb re rq]\<rparr>, i))
        else None) = Some (d, a)"
  then have "restores d = restores (db w) @
      [new_restore_row (next_id br_id (restores (db w))) t u sc lb re rq]"
    by (auto simp: Let_def split: if_splits)
  moreover have "restore_init (new_restore_row i t u sc lb re rq)" for i
    using ok by (simp add: restore_init_def phase_of_def new_restore_row_def)
  moreover have "br_id (new_restore_row i t u sc lb re rq) = i" for i
    by (simp add: new_restore_row_def)
  ultimately show "restores_evolve (db w) d"
    by (simp add: restores_evolve_def evolves_append)
qed

lemma Reject_evolves: "keeps restores_evolve w (RejectBackupRestoreRequest s i u re w)"
  unfolding RejectBackupRestoreRequest_def
  by (intro keeps_intro keeps_bind_reads keeps_update_restores reject_row_step) simp_all

lemma Cancel_evolves: "keeps restores_evolve w (CancelBackupRestoreRequest s i u w)"
  unfolding CancelBackupRestoreRequest_def
  by (intro keeps_intro keeps_bind_reads keeps_update_restores cancel_row_step) simp_all

lemma Fulfill_evolves: "keeps restores_evolve w (FulfillBackupRestoreRequest s i u nt w)"
  unfolding FulfillBackupRestoreRequest_def
  by (intro keeps_intro keeps_bind_reads keeps_update_restores fulfill_row_step) simp_all

text \<open>
  The approval reads the row under a lock and updates the rows with its id: by the
  primary key that is the row it has read.
\<close>

lemma approve_update:
  assumes step: "\<And>t r. restore_by_id i (db w) = Some r \<Longrightarrow> restore_step r (f t r)"
    and key: "\<And>t q. br_id (f t q) = br_id q"
  shows "keeps restores_evolve w
    (exec (\<lambda>t d. if user_exists d u then
       update_restores (\<lambda>q. br_id q = i \<and> br_status q = BackupRestoreStatusPending) f t d else None) w)"
proof (rule keeps_exec)
  fix t d a
  assume "(if user_exists (db w) u then
       update_restores (\<lambda>q. br_id q = i \<and> br_status q = BackupRestoreStatusPending) f t (db w)
       else None) = Some (d, a)"
  then have d: "restores d = update_where (\<lambda>q. br_id q = i \<and> br_status q = BackupRestoreStatusPending)
      (touch_restore t (f t)) (restores (db w))"
    by (auto simp: update_restores_def split: if_splits)
  show "restores_evolve (db w) d"
    unfolding restores_evolve_def d
  proof (intro impI evolves_update_where conjI)
    fix q assume dist: "distinct (map br_id (restores (db w)))"
      and q: "q \<in> set (restores (db w))" "br_id q = i \<and> br_status q = BackupRestoreStatusPending"
    then have "restore_by_id i (db w) = Some q"
      using find_distinct_key [OF dist q(1)] by (simp add: restore_by_id_def)
    then show "touch_restore t (f t) q = q \<or> restore_step q (touch_restore t (f t) q)"
      using touch_restore_step step by blast
    show "br_id (touch_restore t (f t) q) = br_id q" using key by simp
  qed
qed simp

lemma Approve_evolves: "keeps restores_evolve w (ApproveBackupRestoreRequest s i u w)"
  unfolding ApproveBackupRestoreRequest_def Let_def
  by (intro keeps_intro keeps_bind_reads approve_update
        approve1_row_step approve2_row_step reflp_restores_evolve) simp_all

section \<open>The operations as a service\<close>

datatype restore_op =
    RCreate int string string string string
  | RApprove int int
  | RReject int int string
  | RCancel int int
  | RFulfill int int string

fun restore_act :: "store option \<Rightarrow> restore_op \<Rightarrow> world \<Rightarrow> world" where
  "restore_act s (RCreate u sc lb re rq) w = snd (CreateBackupRestoreRequest s u sc lb re rq w)"
| "restore_act s (RApprove i u) w = snd (ApproveBackupRestoreRequest s i u w)"
| "restore_act s (RReject i u re) w = snd (RejectBackupRestoreRequest s i u re w)"
| "restore_act s (RCancel i u) w = snd (CancelBackupRestoreRequest s i u w)"
| "restore_act s (RFulfill i u nt) w = snd (FulfillBackupRestoreRequest s i u nt w)"

lemma restore_act_evolves: "restores_evolve (db w) (db (restore_act s x w))"
  using Create_evolves Approve_evolves Reject_evolves Cancel_evolves Fulfill_evolves
  by (cases x) (simp_all add: keeps_def)

interpretation rq: table_service restores br_id restore_init restore_step "restore_act s" for s
  by unfold_locales (use restore_act_evolves in \<open>auto simp: restores_evolve_def\<close>)

text \<open>Every mutation reports an error only if it has changed nothing.\<close>

lemma update_restores_zero: "update_restores P f t d = Some (d', 0) \<Longrightarrow> d' = d"
  by (auto simp: update_restores_def affected_zero_unchanged)

lemma clean_update_then_read:
  assumes "\<And>a w1. keeps (=) w1 (k a w1)"
    and "\<And>a w1 b w2. a \<noteq> 0 \<Longrightarrow> k a w1 = (b, w2) \<Longrightarrow> \<exists>y. b = Inr y"
  shows "clean w (bind_result (exec (update_restores P f) w) k)"
proof (rule clean_bind)
  fix a w1 e w2
  assume *: "exec (update_restores P f) w = (Inr a, w1)" "k a w1 = (Inl e, w2)"
  then have "a = 0" using assms(2) by fastforce
  with *(1) have "db w1 = db w"
    by (auto elim!: exec_cases dest: update_restores_zero)
  moreover have "db w2 = db w1" using keepsD [OF assms(1) *(2)] by simp
  ultimately show "db w2 = db w" by simp
qed (rule clean_exec)

interpretation create: atomic_op "CreateBackupRestoreRequest s u sc lb re rq" for s u sc lb re rq
  by unfold_locales (auto simp: CreateBackupRestoreRequest_def intro!: clean_intro)

interpretation approve: atomic_op "ApproveBackupRestoreRequest s i u" for s i u
  by unfold_locales (auto simp: ApproveBackupRestoreRequest_def intro!: clean_intro)

interpretation reject: atomic_op "RejectBackupRestoreRequest s i u re" for s i u re
  by unfold_locales
    (auto simp: RejectBackupRestoreRequest_def intro!: clean_intro clean_update_then_read keeps_intro keeps_bind_reads)

interpretation cancel: atomic_op "CancelBackupRestoreRequest s i u" for s i u
  by unfold_locales
    (auto simp: CancelBackupRestoreRequest_def intro!: clean_intro clean_update_then_read keeps_intro keeps_bind_reads)

interpretation fulfill: atomic_op "FulfillBackupRestoreRequest s i u nt" for s i u nt
  by unfold_locales
    (auto simp: FulfillBackupRestoreRequest_def intro!: clean_intro clean_update_then_read keeps_intro keeps_bind_reads)

section \<open>What the workflow guarantees\<close>

definition valid_restores :: "database \<Rightarrow> bool" where
  "valid_restores d \<longleftrightarrow> distinct (map br_id (restores d)) \<and> (\<forall>r\<in>set (restores d). row_ok r)"

lemma valid_restores_history:
  assumes "history restores (restore_act s) w w'" and "valid_restores (db w)"
  shows "valid_restores (db w')"
proof -
  from assms(2) have v: "distinct (map br_id (restores (db w)))" "\<forall>r\<in>set (restores (db w)). row_ok r"
    by (simp_all add: valid_restores_def)
  have "\<forall>r\<in>set (restores (db w')). row_ok r"
    by (rule rq.history_inv [OF assms(1) v(1)])
      (use restore_init_row_ok restore_step_row_ok v(2) in auto)
  with rq.history_keys [OF assms(1) v(1)] show ?thesis by (simp add: valid_restores_def)
qed

text \<open>
  C2: Two-approver rule. Start from a table of valid requests (for example an empty one) and
  let any operations of the workflow run, by any users, with any pattern of database
  failures, interleaved with anything that does not write this table. Every request that is
  approved or fulfilled then carries two approvals, by different users, neither of them the
  requester.
\<close>

theorem two_approvers:
  assumes "history restores (restore_act s) w w'" and "valid_restores (db w)"
    and "r \<in> set (restores (db w'))"
    and "br_status r = BackupRestoreStatusApproved \<or> br_status r = BackupRestoreStatusFulfilled"
  shows "\<exists>a b. br_approval1 r = Some a \<and> br_approval2 r = Some b \<and> a \<noteq> b \<and>
           a \<noteq> br_requested_by r \<and> b \<noteq> br_requested_by r"
proof -
  from valid_restores_history [OF assms(1,2)] assms(3) have "row_ok r"
    by (simp add: valid_restores_def)
  with assms(4) show ?thesis
    by (auto simp: row_ok_def phase_of_def restore_status_defs split: option.splits)
qed

text \<open>
  C16: The life of a request. In every history a request is never lost, it keeps its requester,
  scope, restore point, reason and creation time, and its phase moves only along the abstract
  workflow (pending, one approval, approved, fulfilled; or from pending to rejected or
  cancelled), so upwards in the order of phases: a phase once left never comes back.
\<close>

theorem request_life:
  assumes h: "history restores (restore_act s) w w'" and v: "valid_restores (db w)"
    and r: "restore_by_id i (db w) = Some r" and p: "phase_of r = Some p"
  shows "\<exists>r' p'. restore_by_id i (db w') = Some r' \<and> phase_of r' = Some p' \<and>
           (moves (br_requested_by r))\<^sup>*\<^sup>* p p' \<and> p \<le> p' \<and> br_requested_by r' = br_requested_by r \<and>
           br_scope r' = br_scope r \<and> br_label r' = br_label r \<and> br_reason r' = br_reason r \<and>
           br_created_at r' = br_created_at r"
proof -
  from v have "distinct (map br_id (restores (db w)))" by (simp add: valid_restores_def)
  from rq.history_find [OF h this r [unfolded restore_by_id_def]] obtain r' where
    r': "restore_by_id i (db w') = Some r'" and st: "restore_step\<^sup>*\<^sup>* r r'"
    by (auto simp: restore_by_id_def)
  from st have "\<exists>p'. phase_of r' = Some p' \<and> (moves (br_requested_by r))\<^sup>*\<^sup>* p p' \<and>
      br_requested_by r' = br_requested_by r \<and> br_scope r' = br_scope r \<and> br_label r' = br_label r \<and>
      br_reason r' = br_reason r \<and> br_created_at r' = br_created_at r"
  proof (induction rule: rtranclp_induct)
    case base
    then show ?case using p by simp
  next
    case (step y z)
    then show ?case by (auto simp: restore_step_def intro: rtranclp.rtrancl_into_rtrancl)
  qed
  with r' show ?thesis by (blast intro: moves_le)
qed

text \<open>
  C37: Rejected, cancelled and fulfilled requests are final: no history changes such a row in
  any column.
\<close>

theorem closed_requests_final:
  assumes "history restores (restore_act s) w w'" and "valid_restores (db w)"
    and "restore_by_id i (db w) = Some r"
    and "br_status r \<in> {BackupRestoreStatusRejected, BackupRestoreStatusCancelled, BackupRestoreStatusFulfilled}"
  shows "restore_by_id i (db w') = Some r"
proof -
  have r: "r \<in> set (restores (db w))" using assms(3) by (auto simp: restore_by_id_def dest: find_Some_set)
  with assms(2) have "row_ok r" by (simp add: valid_restores_def)
  then obtain p where "phase_of r = Some p" by (auto simp: row_ok_def split: option.splits)
  moreover from this assms(4) have "p \<in> {PRejected, PCancelled} \<or> (\<exists>a b. p = PFulfilled a b)"
    by (auto simp: phase_of_def restore_status_defs split: option.splits if_splits)
  ultimately have "\<not> restore_step r r'" for r' by (auto simp: restore_step_def)
  with rq.history_final [OF assms(1)] assms(2,3) show ?thesis
    by (simp add: valid_restores_def restore_by_id_def)
qed

section \<open>Each operation on every branch\<close>

text \<open>Without failures an approval is decided by the row alone.\<close>

definition approvable :: "int \<Rightarrow> restore_row \<Rightarrow> bool" where
  "approvable u r \<longleftrightarrow> br_status r = BackupRestoreStatusPending \<and> u \<noteq> br_requested_by r \<and>
     (br_approval1 r = None \<or> br_approval1 r \<noteq> Some u \<and> br_approval2 r = None)"

definition approved_row :: "int \<Rightarrow> int \<Rightarrow> restore_row \<Rightarrow> restore_row" where
  "approved_row t u r = (case br_approval1 r of
     None \<Rightarrow> r\<lparr>br_approval1 := Some u, br_approval1_at := Some (TIMESTAMP t), br_updated_at := CURRENT_TIMESTAMP t\<rparr>
   | Some _ \<Rightarrow> r\<lparr>br_approval2 := Some u, br_approval2_at := Some (TIMESTAMP t),
                br_status := BackupRestoreStatusApproved, br_updated_at := CURRENT_TIMESTAMP t\<rparr>)"

definition approve_error :: "int \<Rightarrow> restore_row \<Rightarrow> restore_error" where
  "approve_error u r =
     (if br_status r \<noteq> BackupRestoreStatusPending then ErrBackupRestoreInvalidState
      else if br_requested_by r = u then ErrBackupRestoreCannotApprove
      else if br_approval1 r = Some u then ErrBackupRestoreDuplicateSlot
      else ErrBackupRestoreAlreadyFilled)"

lemma update_where_only:
  assumes "distinct (map k rs)" "r \<in> set rs" "P r" "\<And>q. P q \<Longrightarrow> k q = k r" "g r = h r"
  shows "update_where P g rs = update_where (\<lambda>q. k q = k r) h rs"
proof -
  have "(if P q then g q else q) = (if k q = k r then h q else q)" if "q \<in> set rs" for q
    using that assms distinct_map_eqD [OF assms(1)] by metis
  then show ?thesis by (simp add: update_where_def)
qed

lemma approve_update_row:
  assumes "distinct (map br_id (restores d))" "restore_by_id i d = Some r"
    and "br_status r = BackupRestoreStatusPending" and "touch_restore t (f t) r = approved_row c u r"
  shows "\<exists>n. update_restores (\<lambda>q. br_id q = i \<and> br_status q = BackupRestoreStatusPending) f t d
    = Some (d\<lparr>restores := update_where (\<lambda>q. br_id q = i) (approved_row c u) (restores d)\<rparr>, n)"
proof -
  from assms(2) have r: "r \<in> set (restores d)" "br_id r = i"
    by (auto simp: restore_by_id_def dest: find_Some_set)
  from update_where_only [OF assms(1) r(1), of "\<lambda>q. br_id q = i \<and> br_status q = BackupRestoreStatusPending"
      "touch_restore t (f t)" "approved_row c u"] assms(3,4) r(2)
  show ?thesis by (simp add: update_restores_def)
qed

lemma touch_approve1:
  "br_approval1 r = None \<Longrightarrow>
   touch_restore (CURRENT_TIMESTAMP c) (\<lambda>q. q\<lparr>br_approval1 := Some u, br_approval1_at := Some (TIMESTAMP c)\<rparr>) r = approved_row c u r"
proof -
  assume n: "br_approval1 r = None"
  have "r\<lparr>br_approval1 := Some u, br_approval1_at := Some (TIMESTAMP c)\<rparr> \<noteq> r"
  proof
    assume "r\<lparr>br_approval1 := Some u, br_approval1_at := Some (TIMESTAMP c)\<rparr> = r"
    then have "br_approval1 (r\<lparr>br_approval1 := Some u, br_approval1_at := Some (TIMESTAMP c)\<rparr>) = br_approval1 r" by simp
    with n show False by simp
  qed
  with n show ?thesis by (simp add: touch_restore_def approved_row_def)
qed

lemma touch_approve2:
  "br_approval1 r = Some a \<Longrightarrow> br_approval2 r = None \<Longrightarrow>
   touch_restore (CURRENT_TIMESTAMP c) (\<lambda>q. q\<lparr>br_approval2 := Some u, br_approval2_at := Some (TIMESTAMP c),
                          br_status := BackupRestoreStatusApproved\<rparr>) r = approved_row c u r"
proof -
  assume n: "br_approval1 r = Some a" "br_approval2 r = None"
  let ?q = "r\<lparr>br_approval2 := Some u, br_approval2_at := Some (TIMESTAMP c), br_status := BackupRestoreStatusApproved\<rparr>"
  have "?q \<noteq> r"
  proof
    assume "?q = r"
    then have "br_approval2 ?q = br_approval2 r" by simp
    with n show False by simp
  qed
  with n show ?thesis by (simp add: touch_restore_def approved_row_def)
qed

lemma approve_quiet:
  assumes quiet: "outcomes w = []" and st: "\<not> nil_store s" and u: "0 < u" "user_exists (db w) u"
    and key: "distinct (map br_id (restores (db w)))"
  shows "ApproveBackupRestoreRequest s i u w =
    (case restore_by_id i (db w) of
       None \<Rightarrow> (Inl (Sentinel ErrBackupRestoreNotFound), w)
     | Some r \<Rightarrow>
         if approvable u r then
           (Inr (), w\<lparr>db := (db w)\<lparr>restores :=
              update_where (\<lambda>q. br_id q = i) (approved_row (clock w) u) (restores (db w))\<rparr>\<rparr>)
         else (Inl (Sentinel (approve_error u r)), w))"
proof (cases "restore_by_id i (db w)")
  case None
  then show ?thesis
    using quiet st u by (simp add: ApproveBackupRestoreRequest_def world_simps)
next
  case (Some r)
  note run = ApproveBackupRestoreRequest_def world_simps Let_def
  show ?thesis
  proof (cases "br_status r = BackupRestoreStatusPending \<and> u \<noteq> br_requested_by r")
    case False
    then show ?thesis
      using quiet st u Some by (auto simp: run approvable_def approve_error_def)
  next
    case True
    show ?thesis
    proof (cases "br_approval1 r")
      case None
      obtain n where "update_restores (\<lambda>q. br_id q = i \<and> br_status q = BackupRestoreStatusPending)
          (\<lambda>_ q. q\<lparr>br_approval1 := Some u, br_approval1_at := Some (TIMESTAMP (clock w))\<rparr>) (CURRENT_TIMESTAMP (clock w)) (db w)
        = Some ((db w)\<lparr>restores := update_where (\<lambda>q. br_id q = i) (approved_row (clock w) u) (restores (db w))\<rparr>, n)"
        using approve_update_row [OF key Some, of "CURRENT_TIMESTAMP (clock w)"
            "\<lambda>_ q. q\<lparr>br_approval1 := Some u, br_approval1_at := Some (TIMESTAMP (clock w))\<rparr>" "clock w" u]
          True touch_approve1 [OF None] by auto
      then show ?thesis
        using True None quiet st u Some by (simp add: run approvable_def)
    next
      case a1: (Some a)
      show ?thesis
      proof (cases "a = u \<or> br_approval2 r \<noteq> None")
        case True
        then show ?thesis
          using \<open>br_status r = _ \<and> _\<close> a1 quiet st u Some
          by (auto simp: run approvable_def approve_error_def)
      next
        case False
        obtain n where "update_restores (\<lambda>q. br_id q = i \<and> br_status q = BackupRestoreStatusPending)
          (\<lambda>_ q. q\<lparr>br_approval2 := Some u, br_approval2_at := Some (TIMESTAMP (clock w)),
                   br_status := BackupRestoreStatusApproved\<rparr>) (CURRENT_TIMESTAMP (clock w)) (db w)
        = Some ((db w)\<lparr>restores := update_where (\<lambda>q. br_id q = i) (approved_row (clock w) u) (restores (db w))\<rparr>, n)"
          using approve_update_row [OF key Some, of "CURRENT_TIMESTAMP (clock w)"
              "\<lambda>_ q. q\<lparr>br_approval2 := Some u, br_approval2_at := Some (TIMESTAMP (clock w)),
                   br_status := BackupRestoreStatusApproved\<rparr>" "clock w" u]
            True touch_approve2 [OF a1] False by auto
        then show ?thesis
          using True False a1 quiet st u Some by (simp add: run approvable_def)
      qed
    qed
  qed
qed

text \<open>
  C38: Approval, every branch. With a database that does not fail, approving request i by a
  positive, existing user either reports that there is no such request, or reports the error
  of the first failing check (not pending, own request, same approver again, both slots taken)
  and changes nothing, or fills exactly one approval of exactly that row, the second approval
  also setting the status to approved.
\<close>

theorem approve_branches:
  assumes quiet: "outcomes w = []" and st: "\<not> nil_store s" and u: "0 < u" "user_exists (db w) u"
    and key: "distinct (map br_id (restores (db w)))"
  shows "ApproveBackupRestoreRequest s i u w =
    (case restore_by_id i (db w) of
       None \<Rightarrow> (Inl (Sentinel ErrBackupRestoreNotFound), w)
     | Some r \<Rightarrow>
         if approvable u r then
           (Inr (), w\<lparr>db := (db w)\<lparr>restores :=
              update_where (\<lambda>q. br_id q = i) (approved_row (clock w) u) (restores (db w))\<rparr>\<rparr>)
         else (Inl (Sentinel (approve_error u r)), w))"
  using assms by (rule approve_quiet)

text \<open>
  C39: Nothing is done on an error. Create, approve, reject, cancel and fulfill leave every
  table as it was whenever they return an error, whatever statement, constraint or commit
  failed.
\<close>

theorem restore_errors_change_nothing:
  assumes "CreateBackupRestoreRequest s u sc lb re rq w = (Inl e1, w') \<or>
      ApproveBackupRestoreRequest s i u w = (Inl e2, w') \<or>
      RejectBackupRestoreRequest s i u re w = (Inl e2, w') \<or>
      CancelBackupRestoreRequest s i u w = (Inl e2, w') \<or>
      FulfillBackupRestoreRequest s i u re w = (Inl e2, w')"
  shows "db w' = db w"
  using assms by (auto dest: create.error_no_effect approve.error_no_effect
      reject.error_no_effect cancel.error_no_effect fulfill.error_no_effect)

lemma find_update_where_id:
  assumes "\<And>q. br_id (g q) = br_id q"
  shows "restore_by_id i (d\<lparr>restores := update_where (\<lambda>q. br_id q = i) g (restores d)\<rparr>)
    = map_option g (restore_by_id i d)"
  using assms by (simp add: restore_by_id_def find_update_where_key)

lemma approved_row_simps [simp]:
  "br_id (approved_row t u r) = br_id r"
  "br_requested_by (approved_row t u r) = br_requested_by r"
  by (simp_all add: approved_row_def split: option.split)

lemma distinct_update_where_id:
  assumes "\<And>q. br_id (g q) = br_id q"
  shows "map br_id (update_where P g rs) = map br_id rs"
  using assms by (simp add: map_update_where)

lemma fulfill_quiet:
  assumes "outcomes w = []" "\<not> nil_store s" "restore_by_id i (db w) = Some r"
    and "br_status r = BackupRestoreStatusApproved"
  shows "\<exists>w'. FulfillBackupRestoreRequest s i u nt w = (Inr (), w') \<and>
    restore_by_id i (db w') = Some (r\<lparr>br_status := BackupRestoreStatusFulfilled,
      br_fulfilled_at := Some (CURRENT_TIMESTAMP (clock w)), br_fulfilled_note := Some nt, br_updated_at := CURRENT_TIMESTAMP (clock w)\<rparr>)"
proof -
  let ?P = "\<lambda>q. br_id q = i \<and> br_status q = BackupRestoreStatusApproved"
  let ?f = "\<lambda>q. q\<lparr>br_status := BackupRestoreStatusFulfilled, br_fulfilled_at := Some (CURRENT_TIMESTAMP (clock w)),
                    br_fulfilled_note := Some nt\<rparr>"
  have ne: "?f q \<noteq> q" if "?P q" for q
  proof
    assume "?f q = q"
    then have "br_status (?f q) = br_status q" by simp
    with that show False by (simp add: restore_status_defs)
  qed
  from assms(3) have r: "r \<in> set (restores (db w))" "br_id r = i"
    by (auto simp: restore_by_id_def dest: find_Some_set)
  have t: "touch_restore (CURRENT_TIMESTAMP (clock w)) ?f r = (?f r)\<lparr>br_updated_at := CURRENT_TIMESTAMP (clock w)\<rparr>"
    using ne [of r] r(2) assms(4) by (simp add: touch_restore_def)
  have "touch_restore (CURRENT_TIMESTAMP (clock w)) ?f r \<noteq> r"
  proof
    assume "touch_restore (CURRENT_TIMESTAMP (clock w)) ?f r = r"
    then have "br_status (touch_restore (CURRENT_TIMESTAMP (clock w)) ?f r) = br_status r" by simp
    with t assms(4) show False by (simp add: restore_status_defs)
  qed
  with r assms(4) have "affected ?P (touch_restore (CURRENT_TIMESTAMP (clock w)) ?f) (restores (db w)) \<noteq> 0"
    by (auto simp: affected_zero_iff)
  moreover have "restore_by_id i (db w\<lparr>restores := update_where ?P (touch_restore (CURRENT_TIMESTAMP (clock w)) ?f) (restores (db w))\<rparr>)
      = Some (touch_restore (CURRENT_TIMESTAMP (clock w)) ?f r)"
    using assms(3,4) r(2) unfolding restore_by_id_def
    by (simp add: find_update_where_guard)
  ultimately show ?thesis
    using assms(1,2) t by (simp add: FulfillBackupRestoreRequest_def world_simps update_restores_def)
qed

text \<open>
  C40: Two approvals are enough. With a database that does not fail, a pending request without
  approvals is approved by any two different existing users other than the requester, in two
  calls, and can then be marked fulfilled; it ends fulfilled with exactly these two approvals.
\<close>

theorem two_approvals_suffice:
  assumes "outcomes w = []" and "\<not> nil_store s" and "distinct (map br_id (restores (db w)))"
    and "restore_by_id i (db w) = Some r" and "phase_of r = Some PPending"
    and "0 < a" "user_exists (db w) a" "0 < b" "user_exists (db w) b"
    and "a \<noteq> b" "a \<noteq> br_requested_by r" "b \<noteq> br_requested_by r"
  shows "\<exists>w1 w2 w3 r3. ApproveBackupRestoreRequest s i a w = (Inr (), w1) \<and>
     ApproveBackupRestoreRequest s i b w1 = (Inr (), w2) \<and>
     FulfillBackupRestoreRequest s i u nt w2 = (Inr (), w3) \<and>
     restore_by_id i (db w3) = Some r3 \<and> phase_of r3 = Some (PFulfilled a b)"
proof -
  have r: "br_status r = BackupRestoreStatusPending" "br_approval1 r = None" "br_approval2 r = None"
    using assms(5) by (auto simp: phase_of_def split: option.splits if_splits)
  define d1 where "d1 = (db w)\<lparr>restores := update_where (\<lambda>q. br_id q = i) (approved_row (clock w) a) (restores (db w))\<rparr>"
  define r1 where "r1 = approved_row (clock w) a r"
  have s1: "ApproveBackupRestoreRequest s i a w = (Inr (), w\<lparr>db := d1\<rparr>)"
    using approve_quiet [of w s a i] assms r by (simp add: approvable_def d1_def)
  have d1: "restore_by_id i d1 = Some r1" "distinct (map br_id (restores d1))"
      "user_exists d1 b"
    using assms by (simp_all add: d1_def r1_def find_update_where_id distinct_update_where_id user_exists_def)
  have r1: "br_status r1 = BackupRestoreStatusPending" "br_approval1 r1 = Some a" "br_approval2 r1 = None"
    using r by (simp_all add: r1_def approved_row_def)
  define d2 where "d2 = d1\<lparr>restores := update_where (\<lambda>q. br_id q = i) (approved_row (clock w) b) (restores d1)\<rparr>"
  define r2 where "r2 = approved_row (clock w) b r1"
  have s2: "ApproveBackupRestoreRequest s i b (w\<lparr>db := d1\<rparr>) = (Inr (), w\<lparr>db := d2\<rparr>)"
    using approve_quiet [of "w\<lparr>db := d1\<rparr>" s b i] assms d1 r1
    by (simp add: approvable_def d2_def r1_def)
  have d2: "restore_by_id i d2 = Some r2"
    using d1 by (simp add: d2_def r2_def find_update_where_id)
  have r2: "br_status r2 = BackupRestoreStatusApproved" "br_approval1 r2 = Some a" "br_approval2 r2 = Some b"
    using r1 by (simp_all add: r2_def approved_row_def)
  obtain w3 where s3: "FulfillBackupRestoreRequest s i u nt (w\<lparr>db := d2\<rparr>) = (Inr (), w3)"
    "restore_by_id i (db w3) = Some (r2\<lparr>br_status := BackupRestoreStatusFulfilled,
      br_fulfilled_at := Some (CURRENT_TIMESTAMP (clock w)), br_fulfilled_note := Some nt, br_updated_at := CURRENT_TIMESTAMP (clock w)\<rparr>)"
    using fulfill_quiet [of "w\<lparr>db := d2\<rparr>" s i r2 u nt] assms(1,2) d2 r2 by auto
  have "phase_of (r2\<lparr>br_status := BackupRestoreStatusFulfilled, br_fulfilled_at := x,
      br_fulfilled_note := y, br_updated_at := z\<rparr>) = Some (PFulfilled a b)" for x y z
    using r2 by (simp add: phase_of_def restore_status_defs)
  with s1 s2 s3 show ?thesis by blast
qed

section \<open>A concrete run\<close>

text \<open>User 1 asks for a restore, users 2 and 3 approve it, and it is fulfilled.\<close>

definition demo_created :: world where
  "demo_created = restore_act (Some demo_store) (RCreate 1 ''db'' ''nightly'' ''data loss seen'' ''rid'') demo_world"

definition demo_approved :: world where
  "demo_approved = restore_act (Some demo_store) (RApprove 1 3)
     (restore_act (Some demo_store) (RApprove 1 2) demo_created)"

definition demo_fulfilled :: world where
  "demo_fulfilled = restore_act (Some demo_store) (RFulfill 1 2 ''done out of band'') demo_approved"

definition demo_row :: restore_row where
  "demo_row = new_restore_row 1 1000000000000 1 ''db'' ''nightly'' ''data loss seen'' ''rid''"

lemma demo_created_rows: "restores (db demo_created) = [demo_row]"
  by code_simp

lemma demo_approved_rows: "restores (db demo_approved) =
    [demo_row\<lparr>br_status := BackupRestoreStatusApproved, br_approval1 := Some 2, br_approval1_at := Some 1000000000000,
       br_approval2 := Some 3, br_approval2_at := Some 1000000000000\<rparr>]"
  by code_simp

lemma demo_history: "history restores (restore_act (Some demo_store)) demo_created demo_approved"
  unfolding demo_approved_def by (rule rtranclp_trans) (rule history_own)+

lemma demo_history2: "history restores (restore_act (Some demo_store)) demo_fulfilled
    (restore_act (Some demo_store) (RCancel 1 1) demo_fulfilled)"
  by (rule history_own)

lemma demo_created_valid: "valid_restores (db demo_created)"
  by (simp add: valid_restores_def demo_created_rows row_ok_def phase_of_def demo_row_def new_restore_row_def)

theorem two_approvers_witness:
  "\<exists>r\<in>set (restores (db demo_approved)). \<exists>a b. br_approval1 r = Some a \<and> br_approval2 r = Some b \<and>
     a \<noteq> b \<and> a \<noteq> br_requested_by r \<and> b \<noteq> br_requested_by r"
  using two_approvers [OF demo_history demo_created_valid] by (auto simp: demo_approved_rows)

theorem request_life_witness:
  "\<exists>r' p'. restore_by_id 1 (db demo_approved) = Some r' \<and> phase_of r' = Some p' \<and>
     (moves 1)\<^sup>*\<^sup>* PPending p' \<and> PPending \<le> p' \<and> br_scope r' = ''db''"
proof -
  have "restore_by_id 1 (db demo_created) = Some demo_row" "phase_of demo_row = Some PPending"
    "br_requested_by demo_row = 1" "br_scope demo_row = ''db''"
    by code_simp+
  with request_life [OF demo_history demo_created_valid] show ?thesis by fastforce
qed

theorem closed_requests_final_witness:
  "\<exists>r. restore_by_id 1 (db demo_fulfilled) = Some r \<and> br_status r = ''fulfilled'' \<and>
     restore_by_id 1 (db (restore_act (Some demo_store) (RCancel 1 1) demo_fulfilled)) = Some r"
proof -
  define r where "r = demo_row\<lparr>br_status := BackupRestoreStatusFulfilled, br_approval1 := Some 2,
    br_approval1_at := Some 1000000000000, br_approval2 := Some 3, br_approval2_at := Some 1000000000000,
    br_fulfilled_at := Some 1000000000000, br_fulfilled_note := Some ''done out of band''\<rparr>"
  have rows: "restores (db demo_fulfilled) = [r]"
    unfolding r_def by code_simp
  have "valid_restores (db demo_fulfilled)"
    by (simp add: valid_restores_def rows row_ok_def phase_of_def r_def demo_row_def new_restore_row_def
        restore_status_defs)
  moreover have "restore_by_id 1 (db demo_fulfilled) = Some r"
    by (simp add: restore_by_id_def rows r_def demo_row_def new_restore_row_def)
  moreover have "br_status r = BackupRestoreStatusFulfilled" by (simp add: r_def)
  ultimately show ?thesis
    using closed_requests_final [OF demo_history2] by (simp add: restore_status_defs)
qed

theorem approve_branches_witness:
  "fst (ApproveBackupRestoreRequest (Some demo_store) 1 1 demo_created)
     = Inl (Sentinel ErrBackupRestoreCannotApprove)
   \<and> fst (ApproveBackupRestoreRequest (Some demo_store) 1 2 demo_created) = Inr ()"
proof -
  have "outcomes demo_created = []" "\<not> nil_store (Some demo_store)"
    "user_exists (db demo_created) 1" "user_exists (db demo_created) 2"
    "distinct (map br_id (restores (db demo_created)))"
    "restore_by_id 1 (db demo_created) = Some demo_row"
    "\<not> approvable 1 demo_row" "approvable 2 demo_row"
    "approve_error 1 demo_row = ErrBackupRestoreCannotApprove"
    by code_simp+
  with approve_branches [of demo_created "Some demo_store" 1 1]
    approve_branches [of demo_created "Some demo_store" 2 1] show ?thesis by simp
qed

theorem restore_errors_change_nothing_witness:
  "\<exists>e w'. ApproveBackupRestoreRequest (Some demo_store) 1 1 demo_created = (Inl e, w') \<and>
     db w' = db demo_created"
proof -
  have "fst (ApproveBackupRestoreRequest (Some demo_store) 1 1 demo_created)
      = Inl (Sentinel ErrBackupRestoreCannotApprove)"
    by code_simp
  then obtain w' where "ApproveBackupRestoreRequest (Some demo_store) 1 1 demo_created
      = (Inl (Sentinel ErrBackupRestoreCannotApprove), w')"
    by (metis prod.collapse)
  with restore_errors_change_nothing show ?thesis by blast
qed

theorem two_approvals_suffice_witness:
  "\<exists>w1 w2 w3 r3. ApproveBackupRestoreRequest (Some demo_store) 1 2 demo_created = (Inr (), w1) \<and>
     ApproveBackupRestoreRequest (Some demo_store) 1 3 w1 = (Inr (), w2) \<and>
     FulfillBackupRestoreRequest (Some demo_store) 1 2 ''ok'' w2 = (Inr (), w3) \<and>
     restore_by_id 1 (db w3) = Some r3 \<and> phase_of r3 = Some (PFulfilled 2 3)"
proof -
  have "outcomes demo_created = []" "\<not> nil_store (Some demo_store)"
    "user_exists (db demo_created) 2" "user_exists (db demo_created) 3"
    "distinct (map br_id (restores (db demo_created)))"
    "restore_by_id 1 (db demo_created) = Some demo_row" "phase_of demo_row = Some PPending"
    "2 \<noteq> br_requested_by demo_row" "3 \<noteq> br_requested_by demo_row"
    by code_simp+
  with two_approvals_suffice [of demo_created "Some demo_store" 1 demo_row 2 3] show ?thesis by simp
qed

end
