(* ===== verification/Http.thy ===== *)
theory Http
  imports Config Token Password Json Rbac Cases Backup_Restore
begin

text \<open>
  Requests, the state a request runs in, and responses: what the code uses of the web
  framework gin, the envelopes of api/response.go, respond/gin.go and requestid/requestid.go,
  and the decoding of JSON bodies into structs with their \<open>binding\<close> tags.
\<close>

section \<open>Requests\<close>

text \<open>
  \<open>rq_header\<close>, \<open>rq_cookie\<close>, \<open>rq_param\<close> and \<open>rq_query\<close> are gin's \<open>GetHeader\<close>,
  \<open>Cookie\<close>, \<open>Param\<close> and \<open>Query\<close>; \<open>rq_client_ip\<close> is \<open>ClientIP()\<close>, which follows
  the trusted proxies; \<open>rq_body\<close> is the body as a JSON value, \<open>None\<close> if it is not one.
\<close>

record request =
  rq_method :: string
  rq_path :: string
  rq_header :: "string \<Rightarrow> string"
  rq_cookie :: "string \<Rightarrow> string option"
  rq_param :: "string \<Rightarrow> string"
  rq_query :: "string \<Rightarrow> string"
  rq_client_ip :: string
  rq_content_length :: int
  rq_body :: "json option"

definition UserAgent :: "request \<Rightarrow> string" where
  "UserAgent r = rq_header r ''User-Agent''"

definition clientIP :: "request \<Rightarrow> string" where
  "clientIP r = TrimSpace (rq_client_ip r)"

section \<open>State\<close>

text \<open>
  The state that outlives a request: the world, the windows of the rate limiters (by scope),
  the failure counters of the login throttle, and the link to Redis. A Redis command takes the
  next reply of a script, \<open>None\<close> for an error; the commands sent are recorded.
\<close>

record ipWindow =
  windowStart :: int
  win_count :: int

record limiter =
  lastSweep :: int
  byIP :: "string \<Rightarrow> ipWindow option"

record loginEmailState =
  failures :: int
  lockedUntil :: int

datatype redis_cmd =
    INCR string
  | EXPIRE string int
  | TTL string
  | SET string string int
  | DEL "string list"

record redis_link =
  rl_client :: bool
  rl_replies :: "int option list"
  rl_sent :: "redis_cmd list"

record set_cookie =
  ck_name :: string
  ck_value :: string
  ck_max_age :: int
  ck_path :: string
  ck_secure :: bool
  ck_http_only :: bool
  ck_same_site :: SameSite

text \<open>
  The second half of the record is the request's context (the values the code sets and
  reads, where an unset string reads as empty) and the response being built.
\<close>

record conn =
  wld :: world
  limiters :: "string \<Rightarrow> limiter"
  loginEmailThrottle :: "string \<Rightarrow> loginEmailState option"
  redis :: redis_link
  request_id :: string
  auth_subject :: string
  platform_action_reason :: "string option"
  platform_roles :: "string list option"
  aborted :: bool
  status :: int
  resp_headers :: "(string \<times> string) list"
  resp_cookies :: "set_cookie list"
  resp_body :: "json option"

definition Abort :: "conn \<Rightarrow> conn" where
  "Abort c = c\<lparr>aborted := True\<rparr>"

definition AbortWithStatus :: "int \<Rightarrow> conn \<Rightarrow> conn" where
  "AbortWithStatus st c = c\<lparr>status := st, aborted := True\<rparr>"

definition set_header :: "string \<Rightarrow> string \<Rightarrow> conn \<Rightarrow> conn" where
  "set_header k v c = c\<lparr>resp_headers := (k, v) # filter (\<lambda>h. fst h \<noteq> k) (resp_headers c)\<rparr>"

text \<open>A call that works on the world, and a Redis command.\<close>

definition call :: "(world \<Rightarrow> 'a \<times> world) \<Rightarrow> conn \<Rightarrow> ('a \<Rightarrow> conn \<Rightarrow> conn) \<Rightarrow> conn" where
  "call f c k = (case f (wld c) of (x, w) \<Rightarrow> k x (c\<lparr>wld := w\<rparr>))"

definition redis_call :: "redis_cmd \<Rightarrow> conn \<Rightarrow> int option \<times> conn" where
  "redis_call cmd c =
     (let l = redis c; l' = l\<lparr>rl_replies := tl (rl_replies l), rl_sent := rl_sent l @ [cmd]\<rparr>
      in (case rl_replies l of [] \<Rightarrow> None | x # _ \<Rightarrow> x, c\<lparr>redis := l'\<rparr>))"

section \<open>Responses (api/response.go, respond/gin.go)\<close>

definition CodeValidation :: string where "CodeValidation = ''VALIDATION_ERROR''"
definition CodeNotFound :: string where "CodeNotFound = ''NOT_FOUND''"
definition CodeUnauthorized :: string where "CodeUnauthorized = ''UNAUTHORIZED''"
definition CodeForbidden :: string where "CodeForbidden = ''FORBIDDEN''"
definition CodeConflict :: string where "CodeConflict = ''CONFLICT''"
definition CodeInternal :: string where "CodeInternal = ''INTERNAL_ERROR''"
definition CodeRateLimited :: string where "CodeRateLimited = ''RATE_LIMITED''"

definition c_JSON :: "int \<Rightarrow> json \<Rightarrow> conn \<Rightarrow> conn" where
  "c_JSON st body c = c\<lparr>status := st, resp_body := Some body\<rparr>"

definition meta_json :: "conn \<Rightarrow> json" where
  "meta_json c = JObj [(''request_id'', JStr (request_id c))]"

definition JSONOK :: "int \<Rightarrow> json \<Rightarrow> conn \<Rightarrow> conn" where
  "JSONOK st payload c = c_JSON st (JObj [(''data'', payload), (''meta'', meta_json c)]) c"

definition OK :: "json \<Rightarrow> conn \<Rightarrow> conn" where
  "OK payload c = JSONOK 200 payload c"

definition error_envelope :: "string \<Rightarrow> string \<Rightarrow> (string \<times> json) list \<Rightarrow> conn \<Rightarrow> json" where
  "error_envelope code msg details c =
     JObj [(''error'', JObj ([(''code'', JStr code), (''message'', JStr msg)] @
             (if details = [] then [] else [(''details'', JObj details)]))),
           (''meta'', meta_json c)]"

definition respond_Error :: "int \<Rightarrow> string \<Rightarrow> string \<Rightarrow> (string \<times> json) list \<Rightarrow> conn \<Rightarrow> conn" where
  "respond_Error st code msg details c = c_JSON st (error_envelope code msg details c) c"

definition NoContent :: "conn \<Rightarrow> conn" where
  "NoContent c = c\<lparr>status := 204\<rparr>"

lemmas respond_defs = c_JSON_def JSONOK_def OK_def respond_Error_def NoContent_def

section \<open>Request ids (requestid/requestid.go)\<close>

definition request_id_header :: string where
  "request_id_header = ''X-Request-ID''"

definition newID :: "world \<Rightarrow> string \<times> world" where
  "newID w = (case rand_Read 8 w of
     (None, w1) \<Rightarrow> (hex_encode (replicate 8 (CHR 0x00)), w1)
   | (Some b, w1) \<Rightarrow> (hex_encode b, w1))"

definition requestid_Middleware :: "request \<Rightarrow> conn \<Rightarrow> conn" where
  "requestid_Middleware r c =
     (let rid = rq_header r request_id_header;
          go = (\<lambda>rid c. set_header request_id_header rid (c\<lparr>request_id := rid\<rparr>))
      in if rid = '''' \<or> length rid > 128 then call newID c go else go rid c)"

section \<open>Handler chains\<close>

text \<open>
  A middleware either aborts or hands over to the next handler as its last act, so a
  chain is a sequence that stops at the first abort.
\<close>

type_synonym handler = "request \<Rightarrow> conn \<Rightarrow> conn"

fun run_chain :: "handler list \<Rightarrow> handler" where
  "run_chain [] r c = c"
| "run_chain (h # hs) r c = (let c1 = h r c in if aborted c1 then c1 else run_chain hs r c1)"

lemma run_chain_append:
  "run_chain (hs @ ks) r c = (let c1 = run_chain hs r c in if aborted c1 then c1 else run_chain ks r c1)"
  if "\<not> aborted c"
  using that by (induction hs arbitrary: c) (auto simp: Let_def)

text \<open>
  Requests to one handler, one after another. Each arrives on a connection of its own, whose
  world and Redis link are arbitrary (other requests may have run in between, time has passed);
  what the process keeps in memory is as the previous request left it. The result lists each
  request with the connection before and after.
\<close>

definition carry :: "conn \<Rightarrow> conn \<Rightarrow> conn" where
  "carry p c = c\<lparr>limiters := limiters p, loginEmailThrottle := loginEmailThrottle p\<rparr>"

fun serve_all :: "handler \<Rightarrow> conn \<Rightarrow> (request \<times> conn) list \<Rightarrow> (request \<times> conn \<times> conn) list" where
  "serve_all h p [] = []"
| "serve_all h p ((r, c) # xs) = (r, carry p c, h r (carry p c)) # serve_all h (h r (carry p c)) xs"

lemma carry_simps [simp]:
  "wld (carry p c) = wld c" "redis (carry p c) = redis c" "aborted (carry p c) = aborted c"
  "limiters (carry p c) = limiters p" "loginEmailThrottle (carry p c) = loginEmailThrottle p"
  by (simp_all add: carry_def)

lemma length_serve_all [simp]: "length (serve_all h p xs) = length xs"
  by (induction xs arbitrary: p rule: list.induct) (auto simp: prod_eq_iff split: prod.splits)

lemma serve_each:
  "(r, c, c') \<in> set (serve_all h p xs) \<Longrightarrow> c' = h r c \<and> (\<exists>q c0. (r, c0) \<in> set xs \<and> c = carry q c0)"
proof (induction xs arbitrary: p)
  case (Cons x xs)
  obtain r0 c0 where x: "x = (r0, c0)" by (cases x)
  from Cons.prems consider "r = r0" "c = carry p c0" "c' = h r c" | "(r, c, c') \<in> set (serve_all h (h r0 (carry p c0)) xs)"
    by (auto simp: x)
  then show ?case by cases (use Cons.IH x in fastforce)+
qed simp

section \<open>Bodies (encoding/json and binding tags)\<close>

text \<open>
  Members are assigned in the order of the body; names match up to case; \<open>null\<close> leaves a
  string or number as it is and clears a pointer; another type is an error.
\<close>

fun dec_field :: "(json \<Rightarrow> 'a \<Rightarrow> 'a option) \<Rightarrow> string \<Rightarrow> 'a \<Rightarrow> (string \<times> json) list \<Rightarrow> 'a option" where
  "dec_field f k a [] = Some a"
| "dec_field f k a ((n, v) # ms) =
     (if EqualFold_ascii n k then (case f v a of None \<Rightarrow> None | Some b \<Rightarrow> dec_field f k b ms)
      else dec_field f k a ms)"

fun into_string :: "json \<Rightarrow> string \<Rightarrow> string option" where
  "into_string (JStr s) _ = Some s"
| "into_string JNull a = Some a"
| "into_string _ _ = None"

fun into_int :: "json \<Rightarrow> int \<Rightarrow> int option" where
  "into_int (JInt i) _ = (if - (2 ^ 63) \<le> i \<and> i < 2 ^ 63 then Some i else None)"
| "into_int JNull a = Some a"
| "into_int _ _ = None"

fun into_ptr :: "(json \<Rightarrow> 'a \<Rightarrow> 'a option) \<Rightarrow> 'a \<Rightarrow> json \<Rightarrow> 'a option \<Rightarrow> 'a option option" where
  "into_ptr f z JNull _ = Some None"
| "into_ptr f z v a = map_option Some (f v (case a of None \<Rightarrow> z | Some x \<Rightarrow> x))"

definition members :: "json option \<Rightarrow> (string \<times> json) list option" where
  "members body = (case body of
     Some (JObj ms) \<Rightarrow> Some ms
   | Some JNull \<Rightarrow> Some []
   | _ \<Rightarrow> None)"

definition str_field :: "string \<Rightarrow> (string \<times> json) list \<Rightarrow> string option" where
  "str_field k ms = dec_field into_string k '''' ms"

definition int_field :: "string \<Rightarrow> (string \<times> json) list \<Rightarrow> int option" where
  "int_field k ms = dec_field into_int k 0 ms"

definition opt_str_field :: "string \<Rightarrow> (string \<times> json) list \<Rightarrow> string option option" where
  "opt_str_field k ms = dec_field (into_ptr into_string '''') k None ms"

definition opt_int_field :: "string \<Rightarrow> (string \<times> json) list \<Rightarrow> int option option" where
  "opt_int_field k ms = dec_field (into_ptr into_int 0) k None ms"

text \<open>The tags \<open>required\<close> (not the zero value), \<open>min\<close> and \<open>max\<close> (in runes), \<open>gte=0\<close>.\<close>

definition rune_count :: "string \<Rightarrow> nat" where
  "rune_count s = length (filter (\<lambda>c. (of_char c :: nat) div 64 \<noteq> 2) s)"

definition valid :: "bool \<Rightarrow> 'a \<Rightarrow> 'a option" where
  "valid ok x = (if ok then Some x else None)"

section \<open>The service's configuration and libraries\<close>

text \<open>
  The package variables \<open>AuthStore\<close>, \<open>Database\<close>, \<open>TokenSvc\<close> and \<open>AppConfig\<close>, and
  the libraries the handlers use, as parameters: the key derivation, JWT, \<open>mail.ParseAddress\<close>
  (name and address), \<open>url.Parse\<close>, \<open>netip.ParseAddr\<close> and \<open>Prefix.Contains\<close> (\<open>None\<close>
  for a text that is not a prefix), RFC 3339 times, and the text of a failure of the database
  driver.
\<close>

text \<open>
  The table schema_migrations is written by the migration tool: its last row (version and
  dirty flag) is a parameter, as is the ping of the database.
\<close>

datatype migrations = MigrationsError | NoMigrations | Migrated int bool

record parsed_url =
  url_Scheme :: string
  url_has_User :: bool
  url_Fragment :: string
  url_Port :: string
  url_Hostname :: string

record env =
  AppConfig :: config
  AuthStore :: "store option"
  database_open :: bool
  TokenSvc :: "TokenService option"
  OIDCSvc :: "OIDC option"
  IDKey :: argon2
  JWT :: jwt_lib
  ParseAddress :: "string \<Rightarrow> (string \<times> string) option"
  UrlParse :: "string \<Rightarrow> parsed_url option"
  ParseAddr :: "string \<Rightarrow> bool"
  PrefixContains :: "string \<Rightarrow> string \<Rightarrow> bool option"
  ParseRFC3339 :: "string \<Rightarrow> int option"
  FormatRFC3339 :: "int \<Rightarrow> string"
  DriverErrorText :: string
  DbPing :: "world \<Rightarrow> bool \<times> world"
  MigrationRow :: "world \<Rightarrow> migrations \<times> world"

section \<open>Postconditions along the code\<close>

text \<open>
  \<open>post Q c\<close> states \<open>Q\<close> of the connection a handler ends with. The rules follow the
  code: a call, a check, a case, a local value.
\<close>

named_theorems post_intro \<open>postcondition rules for the shape of a handler\<close>

definition post :: "(conn \<Rightarrow> bool) \<Rightarrow> conn \<Rightarrow> bool" where
  "post Q c = Q c"

lemma postD: "post Q c \<Longrightarrow> Q c"
  by (simp add: post_def)

lemma post_call [post_intro]:
  "(\<And>x w. f (wld c) = (x, w) \<Longrightarrow> post Q (k x (c\<lparr>wld := w\<rparr>))) \<Longrightarrow> post Q (call f c k)"
  by (simp add: call_def split: prod.split)

lemma post_if [post_intro]: "(b \<Longrightarrow> post Q x) \<Longrightarrow> (\<not> b \<Longrightarrow> post Q y) \<Longrightarrow> post Q (if b then x else y)"
  by simp

lemma post_let [post_intro]: "post Q (k v) \<Longrightarrow> post Q (Let v k)"
  by simp

lemma post_option [post_intro]:
  "(v = None \<Longrightarrow> post Q x) \<Longrightarrow> (\<And>a. v = Some a \<Longrightarrow> post Q (y a)) \<Longrightarrow>
   post Q (case v of None \<Rightarrow> x | Some a \<Rightarrow> y a)"
  by (cases v) simp_all

lemma post_sum [post_intro]:
  "(\<And>a. v = Inl a \<Longrightarrow> post Q (x a)) \<Longrightarrow> (\<And>b. v = Inr b \<Longrightarrow> post Q (y b)) \<Longrightarrow>
   post Q (case v of Inl a \<Rightarrow> x a | Inr b \<Rightarrow> y b)"
  by (cases v) simp_all

lemma post_prod [post_intro]:
  "(\<And>a b. v = (a, b) \<Longrightarrow> post Q (y a b)) \<Longrightarrow> post Q (case v of (a, b) \<Rightarrow> y a b)"
  by (cases v) simp

lemma post_bool [post_intro]:
  "(v \<Longrightarrow> post Q x) \<Longrightarrow> (\<not> v \<Longrightarrow> post Q y) \<Longrightarrow> post Q (case v of True \<Rightarrow> x | False \<Rightarrow> y)"
  by (cases v) simp_all

lemma post_fault [post_intro]:
  "(v = Driver \<Longrightarrow> post Q a) \<Longrightarrow> (v = NoRows \<Longrightarrow> post Q b) \<Longrightarrow> (\<And>m. v = Msg m \<Longrightarrow> post Q (x m)) \<Longrightarrow>
   (\<And>e. v = Sentinel e \<Longrightarrow> post Q (y e)) \<Longrightarrow>
   post Q (case v of Driver \<Rightarrow> a | NoRows \<Rightarrow> b | Msg m \<Rightarrow> x m | Sentinel e \<Rightarrow> y e)"
  by (cases v) simp_all

text \<open>A chain: a middleware that aborts must establish the postcondition itself.\<close>

lemma post_chain:
  assumes "\<And>c1. c1 = h r c \<Longrightarrow> aborted c1 \<Longrightarrow> post Q c1"
    and "\<And>c1. c1 = h r c \<Longrightarrow> \<not> aborted c1 \<Longrightarrow> post Q (run_chain hs r c1)"
  shows "post Q (run_chain (h # hs) r c)"
  using assms by (simp add: Let_def)

lemma post_chain_end: "post Q c \<Longrightarrow> post Q (run_chain [] r c)"
  by simp

named_theorems conn_simps \<open>what building a response leaves alone\<close>

lemma wld_responses [simp, conn_simps]:
  "wld (c_JSON st b c) = wld c" "wld (JSONOK st d c) = wld c" "wld (OK d c) = wld c"
  "wld (respond_Error st code m ds c) = wld c" "wld (NoContent c) = wld c" "wld (Abort c) = wld c"
  "wld (AbortWithStatus st c) = wld c" "wld (set_header k v c) = wld c"
  by (simp_all add: respond_defs Abort_def AbortWithStatus_def set_header_def)

lemma aborted_responses [simp, conn_simps]:
  "aborted (c_JSON st b c) = aborted c" "aborted (JSONOK st d c) = aborted c" "aborted (OK d c) = aborted c"
  "aborted (respond_Error st code m ds c) = aborted c" "aborted (NoContent c) = aborted c" "aborted (Abort c)"
  "aborted (AbortWithStatus st c)" "aborted (set_header k v c) = aborted c"
  by (simp_all add: respond_defs Abort_def AbortWithStatus_def set_header_def)

lemma status_responses [simp, conn_simps]:
  "status (c_JSON st b c) = st" "status (JSONOK st d c) = st" "status (OK d c) = 200"
  "status (respond_Error st code m ds c) = st" "status (NoContent c) = 204" "status (Abort c) = status c"
  "status (AbortWithStatus st c) = st" "status (set_header k v c) = status c"
  by (simp_all add: respond_defs Abort_def AbortWithStatus_def set_header_def)

lemma subject_responses [simp, conn_simps]:
  "auth_subject (c_JSON st b c) = auth_subject c" "auth_subject (JSONOK st d c) = auth_subject c"
  "auth_subject (OK d c) = auth_subject c" "auth_subject (respond_Error st code m ds c) = auth_subject c"
  "auth_subject (NoContent c) = auth_subject c" "auth_subject (Abort c) = auth_subject c"
  "auth_subject (AbortWithStatus st c) = auth_subject c" "auth_subject (set_header k v c) = auth_subject c"
  by (simp_all add: respond_defs Abort_def AbortWithStatus_def set_header_def)

lemma redis_call_wld: "redis_call cmd c = (x, c') \<Longrightarrow> wld c' = wld c \<and> aborted c' = aborted c \<and>
    auth_subject c' = auth_subject c \<and> status c' = status c \<and> request_id c' = request_id c"
  by (auto simp: redis_call_def Let_def)

lemma redis_call_snd [simp]: "wld (snd (redis_call cmd c)) = wld c" "aborted (snd (redis_call cmd c)) = aborted c"
    "auth_subject (snd (redis_call cmd c)) = auth_subject c"
  by (simp_all add: redis_call_def Let_def)

lemma call_cases:
  assumes "call f c k = c'"
  obtains x w where "f (wld c) = (x, w)" "k x (c\<lparr>wld := w\<rparr>) = c'"
  using assms by (auto simp: call_def split: prod.splits)

end
