(* ===== verification/Middleware.thy ===== *)
theory Middleware
  imports Http
begin

text \<open>
  The middleware package: authentication by bearer token or session cookie, the CSRF double
  submit, CORS, the checks on the subject, its permissions and the stated reason, rate
  limits, and the security headers. A nil \<open>TokenService\<close> is \<open>None\<close>.
\<close>

section \<open>Authentication (auth.go)\<close>

definition writeAuthError :: "int \<Rightarrow> string \<Rightarrow> string \<Rightarrow> conn \<Rightarrow> conn" where
  "writeAuthError st code msg c = c_JSON st (error_envelope code msg [] c) c"

definition deny :: "int \<Rightarrow> string \<Rightarrow> string \<Rightarrow> conn \<Rightarrow> conn" where
  "deny st code msg c = Abort (writeAuthError st code msg c)"

definition bearer_prefix :: string where
  "bearer_prefix = ''Bearer ''"

definition is_bearer :: "string \<Rightarrow> bool" where
  "is_bearer raw \<longleftrightarrow> \<not> length raw < length bearer_prefix \<and> EqualFold_ascii (take (length bearer_prefix) raw) bearer_prefix"

definition BearerAuth :: "env \<Rightarrow> handler" where
  "BearerAuth e r c =
     (case TokenSvc e of
        None \<Rightarrow> deny 500 CodeInternal ''authentication not configured'' c
      | Some ts \<Rightarrow>
          let raw = rq_header r ''Authorization'' in
          if raw = '''' then deny 401 CodeUnauthorized ''missing authorization header'' c
          else if \<not> is_bearer raw then deny 401 CodeUnauthorized ''invalid authorization scheme'' c
          else let token = TrimSpace (drop (length bearer_prefix) raw) in
          if token = '''' then deny 401 CodeUnauthorized ''empty bearer token'' c
          else (case ParseAccessToken (JWT e) ts token (clock (wld c)) of
              Inl _ \<Rightarrow> deny 401 CodeUnauthorized ''invalid or expired token'' c
            | Inr cl \<Rightarrow>
                let sub = TrimSpace (cl_Subject cl) in
                if sub = '''' then deny 401 CodeUnauthorized ''invalid token subject'' c
                else c\<lparr>auth_subject := sub\<rparr>))"

definition bearer_branch :: "env \<Rightarrow> TokenService \<Rightarrow> string \<Rightarrow> conn \<Rightarrow> conn" where
  "bearer_branch e ts rawAuth c =
     (if \<not> is_bearer rawAuth then deny 401 CodeUnauthorized ''invalid authorization scheme'' c
      else let token = TrimSpace (drop (length bearer_prefix) rawAuth) in
      if token = '''' then deny 401 CodeUnauthorized ''empty bearer token'' c
      else (case ParseAccessToken (JWT e) ts token (clock (wld c)) of
          Inr cl \<Rightarrow>
            let sub = TrimSpace (cl_Subject cl) in
            if sub = '''' then deny 401 CodeUnauthorized ''invalid token subject'' c
            else c\<lparr>auth_subject := sub\<rparr>
        | Inl _ \<Rightarrow>
            (case OIDCSvc e of
               None \<Rightarrow> deny 401 CodeUnauthorized ''invalid or expired token'' c
             | Some oi \<Rightarrow> call (TryResolveAuthSubject (Some oi) token) c (\<lambda>res c1.
                 case res of
                   Inr subj \<Rightarrow> c1\<lparr>auth_subject := subj\<rparr>
                 | Inl _ \<Rightarrow> deny 401 CodeUnauthorized ''invalid or expired token'' c1))))"

definition session_branch :: "env \<Rightarrow> string \<Rightarrow> handler" where
  "session_branch e sessionCookieName r c =
     (case AuthStore e of
        None \<Rightarrow> deny 401 CodeUnauthorized ''missing authorization'' c
      | Some s \<Rightarrow>
          if TrimSpace sessionCookieName = '''' then deny 401 CodeUnauthorized ''missing authorization'' c
          else (case rq_cookie r sessionCookieName of
              None \<Rightarrow> deny 401 CodeUnauthorized ''missing session'' c
            | Some rawCookie \<Rightarrow>
                if TrimSpace rawCookie = '''' then deny 401 CodeUnauthorized ''missing session'' c
                else call (ValidateSession s rawCookie) c (\<lambda>res c1.
                  case res of
                    Inl _ \<Rightarrow> deny 401 CodeUnauthorized ''invalid or expired session'' c1
                  | Inr uid \<Rightarrow> c1\<lparr>auth_subject := user_subject uid\<rparr>)))"

definition BearerOrSession :: "env \<Rightarrow> string \<Rightarrow> handler" where
  "BearerOrSession e sessionCookieName r c =
     (case TokenSvc e of
        None \<Rightarrow> deny 500 CodeInternal ''authentication not configured'' c
      | Some ts \<Rightarrow>
          let rawAuth = TrimSpace (rq_header r ''Authorization'') in
          if rawAuth \<noteq> '''' then bearer_branch e ts rawAuth c
          else session_branch e sessionCookieName r c)"

section \<open>CSRF (csrf.go)\<close>

definition CSRFExemptPathPrefixes :: "string list" where
  "CSRFExemptPathPrefixes =
     [''/api/v1/auth/register'', ''/api/v1/auth/invite/accept'', ''/api/v1/auth/login'',
      ''/api/v1/auth/token'', ''/api/v1/auth/bootstrap'', ''/api/v1/auth/desktop/exchange'']"

definition safe_method :: "string \<Rightarrow> bool" where
  "safe_method m \<longleftrightarrow> m = ''GET'' \<or> m = ''HEAD'' \<or> m = ''OPTIONS'' \<or> m = ''TRACE''"

definition present :: "string option \<Rightarrow> bool" where
  "present v \<longleftrightarrow> (case v of None \<Rightarrow> False | Some s \<Rightarrow> TrimSpace s \<noteq> '''')"

definition CSRFCookieProtect :: "config \<Rightarrow> handler" where
  "CSRFCookieProtect cfg r c =
     (if safe_method (rq_method r) then c
      else if is_bearer (TrimSpace (rq_header r ''Authorization'')) then c
      else if \<exists>p\<in>set CSRFExemptPathPrefixes. HasPrefix (rq_path r) p then c
      else if \<not> present (rq_cookie r (SessionCookieName cfg)) then c
      else let cookieTok = rq_cookie r (CSRFCookieName cfg);
               hdr = TrimSpace (rq_header r (CSRFHeaderName cfg))
           in if \<not> present cookieTok \<or> hdr = '''' \<or> cookieTok \<noteq> Some hdr
              then Abort (respond_Error 403 CodeForbidden ''csrf token missing or invalid''
                            [(''header'', JStr (CSRFHeaderName cfg))] c)
              else c)"

section \<open>CORS (cors.go)\<close>

definition allow_methods :: "string list" where
  "allow_methods = [''GET'', ''POST'', ''PUT'', ''DELETE'', ''OPTIONS'']"

definition allow_headers :: "string list \<Rightarrow> string" where
  "allow_headers extra = foldl (\<lambda>b h. let h = TrimSpace h in if h \<noteq> '''' then b @ '', '' @ h else b)
     (''Authorization, Content-Type, Accept, '' @ request_id_header) extra"

definition DynamicCORS :: "string list \<Rightarrow> string list \<Rightarrow> handler" where
  "DynamicCORS allowedOrigins extraAllowHeaders r c =
     (let allow = filter (\<lambda>o'. o' \<noteq> '''') (map TrimSpace allowedOrigins);
          origin = rq_header r ''Origin''
      in if origin = '''' then c
         else if origin \<notin> set allow then AbortWithStatus 403 c
         else let c1 =
             set_header ''Access-Control-Max-Age'' ''600''
            (set_header ''Access-Control-Expose-Headers'' (''Content-Length, '' @ request_id_header)
            (set_header ''Access-Control-Allow-Headers'' (allow_headers extraAllowHeaders)
            (set_header ''Access-Control-Allow-Methods'' (join_with '', '' allow_methods)
            (set_header ''Vary'' ''Origin''
            (set_header ''Access-Control-Allow-Credentials'' ''true''
            (set_header ''Access-Control-Allow-Origin'' origin c))))))
           in if rq_method r = ''OPTIONS'' then AbortWithStatus 204 c1 else c1)"

section \<open>The subject, its roles and the stated reason\<close>

definition RequireHumanUser :: handler where
  "RequireHumanUser r c =
     (let sub = TrimSpace (auth_subject c) in
      if \<not> HasPrefix sub ''user:''
      then deny 403 CodeForbidden ''this operation requires a signed-in user account'' c
      else c)"

definition AuthUserIDFromContext :: "conn \<Rightarrow> int option" where
  "AuthUserIDFromContext c =
     (let sub = TrimSpace (auth_subject c) in
      if \<not> HasPrefix sub ''user:'' then None
      else (case Atoi (TrimSpace (drop (length ''user:'') sub)) of
          None \<Rightarrow> None
        | Some i \<Rightarrow> if i \<le> 0 then None else Some i))"

definition PlatformActionReasonHeader :: string where
  "PlatformActionReasonHeader = ''X-Platform-Action-Reason''"

definition RequirePlatformActionReason :: "int \<Rightarrow> handler" where
  "RequirePlatformActionReason minLen r c =
     (let minLen = (if minLen < 1 then 8 else minLen);
          reason = TrimSpace (rq_header r PlatformActionReasonHeader)
      in if int (length reason) < minLen
         then Abort (respond_Error 400 CodeValidation ''missing or too short privileged action reason''
                       [(''header'', JStr PlatformActionReasonHeader), (''min_len'', JInt minLen)] c)
         else c\<lparr>platform_action_reason := Some reason\<rparr>)"

definition effectivePlatformRoles :: "env \<Rightarrow> int \<Rightarrow> world \<Rightarrow> (unit, string list) result \<times> world" where
  "effectivePlatformRoles e userID w =
     (case AuthStore e of
        None \<Rightarrow> (Inr [], w)
      | Some s \<Rightarrow> bind_result (ListPlatformRoleNamesForUser (Some s) userID w)
          (\<lambda>roles w1. (Inr (remdups_adj (sort roles)), w1)))"

definition RequirePlatformPermission :: "env \<Rightarrow> string \<Rightarrow> handler" where
  "RequirePlatformPermission e permission r c =
     (case AuthUserIDFromContext c of
        None \<Rightarrow> deny 403 CodeForbidden ''this operation requires a signed-in user account'' c
      | Some uid \<Rightarrow> call (effectivePlatformRoles e uid) c (\<lambda>res c1.
          case res of
            Inl _ \<Rightarrow> deny 500 CodeInternal ''failed to resolve platform roles'' c1
          | Inr rs \<Rightarrow>
              if \<not> HasPermission rs permission
              then deny 403 CodeForbidden ''insufficient platform permissions for this operation'' c1
              else c1\<lparr>platform_roles := Some rs\<rparr>))"

section \<open>Rate limits (ratelimit.go, ratelimit_redis.go) and security headers (security.go)\<close>

definition win :: int where
  "win = 60 * 1000000000"

definition replace_char :: "char \<Rightarrow> char \<Rightarrow> string \<Rightarrow> string" where
  "replace_char a b s = map (\<lambda>x. if x = a then b else x) s"

definition fixedWindowRedisAllow :: "string \<Rightarrow> string \<Rightarrow> int \<Rightarrow> conn \<Rightarrow> (bool \<times> bool) \<times> conn" where
  "fixedWindowRedisAllow scope ip limit c =
     (let slot = clock (wld c) div 1000000000 div 60;
          safeIP = replace_char (CHR ''%'') (CHR ''_'') (replace_char (CHR '':'') (CHR ''_'') ip);
          key = ''ratelimit:'' @ scope @ '':'' @ safeIP @ '':'' @ Itoa slot
      in (case redis_call (INCR key) c of
            (None, c1) \<Rightarrow> ((True, True), c1)
          | (Some n, c1) \<Rightarrow>
              let c2 = (if n = 1 then snd (redis_call (EXPIRE key (75 * 1000000000)) c1) else c1)
              in ((n \<le> limit, False), c2)))"

definition sweep :: "int \<Rightarrow> limiter \<Rightarrow> limiter" where
  "sweep now l =
     (if now - lastSweep l \<ge> win
      then \<lparr>lastSweep = now,
            byIP = (\<lambda>k. case byIP l k of
              None \<Rightarrow> None
            | Some v \<Rightarrow> if now - windowStart v \<ge> 10 * win then None else Some v)\<rparr>
      else l)"

text \<open>The in-process window: is the request let through, and the state afterwards.\<close>

definition local_allow :: "int \<Rightarrow> int \<Rightarrow> string \<Rightarrow> limiter \<Rightarrow> bool \<times> limiter" where
  "local_allow rpm now ip l0 =
     (let l = sweep now l0;
          w0 = (case byIP l ip of None \<Rightarrow> \<lparr>windowStart = now, win_count = 0\<rparr> | Some w \<Rightarrow> w);
          w = (if now - windowStart w0 \<ge> win then \<lparr>windowStart = now, win_count = 0\<rparr> else w0)
      in if win_count w \<ge> rpm then (False, l\<lparr>byIP := (byIP l)(ip \<mapsto> w)\<rparr>)
         else (True, l\<lparr>byIP := (byIP l)(ip \<mapsto> w\<lparr>win_count := win_count w + 1\<rparr>)\<rparr>))"

definition too_many :: "string \<Rightarrow> conn \<Rightarrow> conn" where
  "too_many message c = Abort (respond_Error 429 CodeRateLimited message [] c)"

definition NewFixedWindowLimiter :: "string \<Rightarrow> int \<Rightarrow> string \<Rightarrow> handler" where
  "NewFixedWindowLimiter scope rpm message r c =
     (let rpm = (if rpm \<le> 0 then 30 else rpm);
          message = (if message = '''' then ''too many requests'' else message);
          scope = (if scope = '''' then ''default'' else scope);
          ip = rq_client_ip r;
          local = (\<lambda>c. case local_allow rpm (clock (wld c)) ip (limiters c scope) of
            (ok, l) \<Rightarrow>
              let c1 = c\<lparr>limiters := (limiters c)(scope := l)\<rparr>
              in if ok then c1 else too_many message c1)
      in if rl_client (redis c)
         then (case fixedWindowRedisAllow scope ip rpm c of
             ((ok, failed), c1) \<Rightarrow>
               if failed then local c1 else if \<not> ok then too_many message c1 else c1)
         else local c)"

definition NewTokenEndpointLimiter :: "int \<Rightarrow> handler" where
  "NewTokenEndpointLimiter rpm = NewFixedWindowLimiter ''auth_token'' rpm ''too many token requests''"

definition SecurityHeaders :: handler where
  "SecurityHeaders r c =
     set_header ''Cache-Control'' ''no-store''
    (set_header ''Referrer-Policy'' ''no-referrer''
    (set_header ''X-Frame-Options'' ''DENY''
    (set_header ''X-Content-Type-Options'' ''nosniff'' c)))"

lemma deny_simps [simp, conn_simps]:
  "wld (deny st code m c) = wld c" "aborted (deny st code m c)" "status (deny st code m c) = st"
  "auth_subject (deny st code m c) = auth_subject c"
  "wld (too_many m c) = wld c" "aborted (too_many m c)" "status (too_many m c) = 429"
  by (simp_all add: deny_def writeAuthError_def too_many_def)

section \<open>How much a rate limit lets through\<close>

text \<open>
  A run of the in-process limiter over the times and addresses of its requests, as the
  times and addresses of those let through.
\<close>

fun let_through :: "int \<Rightarrow> limiter \<Rightarrow> (int \<times> string) list \<Rightarrow> (int \<times> string) list" where
  "let_through rpm l [] = []"
| "let_through rpm l ((now, ip) # rs) =
     (case local_allow rpm now ip l of
        (ok, l') \<Rightarrow> (if ok then [(now, ip)] else []) @ let_through rpm l' rs)"

text \<open>Those of one address in the minute from \<open>a\<close> on.\<close>

definition in_minute :: "string \<Rightarrow> int \<Rightarrow> (int \<times> string) list \<Rightarrow> nat" where
  "in_minute ip a rs = length (filter (\<lambda>(t, k). k = ip \<and> a \<le> t \<and> t < a + win) rs)"

lemma in_minute_simps [simp]:
  "in_minute ip a [] = 0"
  "in_minute ip a (x # rs) = (if snd x = ip \<and> a \<le> fst x \<and> fst x < a + win then 1 else 0) + in_minute ip a rs"
  by (auto simp: in_minute_def)

lemma in_minute_append [simp]: "in_minute ip a (xs @ ys) = in_minute ip a xs + in_minute ip a ys"
  by (simp add: in_minute_def)

text \<open>What is still possible in that minute, given the window of the address.\<close>

definition room :: "int \<Rightarrow> int \<Rightarrow> ipWindow option \<Rightarrow> int" where
  "room rpm a w = (case w of
     None \<Rightarrow> 2 * rpm
   | Some v \<Rightarrow>
       if windowStart v \<ge> a then rpm - win_count v
       else if windowStart v + win > a then 2 * rpm - win_count v
       else 2 * rpm)"

definition window_ok :: "int \<Rightarrow> limiter \<Rightarrow> bool" where
  "window_ok rpm l \<longleftrightarrow> (\<forall>ip v. byIP l ip = Some v \<longrightarrow> 0 \<le> win_count v \<and> win_count v \<le> rpm)"

lemma win_pos: "0 < win"
  by (simp add: win_def)

lemma sweep_window: "byIP (sweep now l) ip = byIP l ip \<or>
    byIP (sweep now l) ip = None \<and> (\<exists>v. byIP l ip = Some v \<and> windowStart v + 10 * win \<le> now)"
  by (auto simp: sweep_def split: option.splits)

lemma sweep_window_ok: "window_ok rpm l \<Longrightarrow> window_ok rpm (sweep now l)"
  unfolding window_ok_def by (metis option.distinct(1) sweep_window)

lemma local_allow_other: "local_allow rpm now ip l = (ok, l') \<Longrightarrow> k \<noteq> ip \<Longrightarrow> byIP l' k = byIP (sweep now l) k"
  by (auto simp: local_allow_def Let_def split: if_splits)

lemma local_allow_self:
  assumes "local_allow rpm now ip l = (ok, l')" and "0 < rpm"
  shows "\<exists>v. byIP l' ip = Some v \<and>
    (case byIP (sweep now l) ip of
       None \<Rightarrow> ok \<and> windowStart v = now \<and> win_count v = 1
     | Some u \<Rightarrow>
         if now - windowStart u \<ge> win then ok \<and> windowStart v = now \<and> win_count v = 1
         else windowStart v = windowStart u \<and> ok = (win_count u < rpm) \<and>
              win_count v = win_count u + (if ok then 1 else 0))"
  using assms by (auto simp: local_allow_def Let_def split: option.splits if_splits)

lemma local_allow_window_ok:
  assumes "local_allow rpm now ip l = (ok, l')" and "0 < rpm" and "window_ok rpm l"
  shows "window_ok rpm l'"
  unfolding window_ok_def
proof (intro allI impI)
  fix k v assume v: "byIP l' k = Some v"
  note s = sweep_window_ok [OF assms(3), of now, unfolded window_ok_def, rule_format]
  show "0 \<le> win_count v \<and> win_count v \<le> rpm"
  proof (cases "k = ip")
    case False
    with v s local_allow_other [OF assms(1)] show ?thesis by simp
  next
    case True
    with v s [of ip] local_allow_self [OF assms(1,2)] assms(2) show ?thesis
      by (auto split: option.splits if_splits)
  qed
qed

lemma none_after:
  assumes "\<forall>x\<in>set rs. a + win \<le> fst x"
  shows "in_minute ip a (let_through rpm l rs) = 0"
  using assms by (induction rs arbitrary: l) (auto split: prod.splits)

lemma room_step:
  assumes "local_allow rpm now ip l = (ok, l')" and "0 < rpm" and "window_ok rpm l"
    and "now < a + win" and "\<And>v. byIP (sweep now l) ip = Some v \<Longrightarrow> windowStart v \<le> now"
  shows "(if ok \<and> a \<le> now then 1 else 0) + room rpm a (byIP l' ip) \<le> room rpm a (byIP (sweep now l) ip)"
proof -
  obtain v where v: "byIP l' ip = Some v" and
    c: "case byIP (sweep now l) ip of
       None \<Rightarrow> ok \<and> windowStart v = now \<and> win_count v = 1
     | Some u \<Rightarrow>
         if now - windowStart u \<ge> win then ok \<and> windowStart v = now \<and> win_count v = 1
         else windowStart v = windowStart u \<and> ok = (win_count u < rpm) \<and>
              win_count v = win_count u + (if ok then 1 else 0)"
    using local_allow_self [OF assms(1,2)] by blast
  show ?thesis
  proof (cases "byIP (sweep now l) ip")
    case None
    with v c assms(2,4) show ?thesis by (auto simp: room_def)
  next
    case (Some u)
    have "0 \<le> win_count u" "win_count u \<le> rpm" "windowStart u \<le> now"
      using sweep_window_ok [OF assms(3), of now] Some assms(5) by (auto simp: window_ok_def)
    with v c Some assms(2,4) win_pos show ?thesis
      unfolding room_def by (auto split: if_splits)
  qed
qed

lemma sweep_room:
  assumes "now < a + win" and "0 < rpm" and "window_ok rpm l" and "\<And>v. byIP l ip = Some v \<Longrightarrow> windowStart v \<le> now"
  shows "room rpm a (byIP (sweep now l) ip) \<le> room rpm a (byIP l ip)"
  using sweep_window [of now l ip]
proof (elim disjE conjE exE)
  fix v assume "byIP (sweep now l) ip = None" "byIP l ip = Some v" "windowStart v + 10 * win \<le> now"
  with assms(1) win_pos show ?thesis by (auto simp: room_def)
qed simp

lemma room_nonneg: "window_ok rpm l \<Longrightarrow> 0 < rpm \<Longrightarrow> 0 \<le> room rpm a (byIP l ip)"
  by (force simp: room_def window_ok_def split: option.split)

lemma at_most_room:
  assumes "0 < rpm" and "window_ok rpm l" and "sorted (map fst rs)"
    and "\<And>v x. byIP l ip = Some v \<Longrightarrow> x \<in> set rs \<Longrightarrow> windowStart v \<le> fst x"
  shows "int (in_minute ip a (let_through rpm l rs)) \<le> room rpm a (byIP l ip)"
  using assms(2-)
proof (induction rs arbitrary: l)
  case Nil
  then show ?case using room_nonneg [OF _ assms(1)] by simp
next
  case (Cons x rs)
  obtain now k where x: "x = (now, k)" by (cases x)
  show ?case
  proof (cases "now < a + win")
    case False
    with Cons.prems(2) x have "\<forall>y\<in>set (x # rs). a + win \<le> fst y" by auto
    from none_after [OF this] show ?thesis using room_nonneg [OF Cons.prems(1) assms(1)] by simp
  next
    case now: True
    obtain ok l' where l': "local_allow rpm now k l = (ok, l')" by (cases "local_allow rpm now k l")
    have start: "windowStart v \<le> now" if "byIP l ip = Some v" for v
      using Cons.prems(3) [OF that, of x] x by simp
    have swept: "windowStart v \<le> now" if "byIP (sweep now l) ip = Some v" for v
      using sweep_window [of now l ip] that start by auto
    have later: "windowStart v \<le> fst y" if "byIP l' ip = Some v" "y \<in> set rs" for v y
    proof -
      have "windowStart v \<le> now"
      proof (cases "k = ip")
        case True
        with local_allow_self [of rpm now ip l ok l'] l' assms(1) that(1) swept show ?thesis
          by (auto split: option.splits if_splits)
      next
        case False
        with local_allow_other [OF l', of ip] that(1) swept show ?thesis by auto
      qed
      also have "now \<le> fst y" using Cons.prems(2) that(2) x by auto
      finally show ?thesis .
    qed
    have IH: "int (in_minute ip a (let_through rpm l' rs)) \<le> room rpm a (byIP l' ip)"
      using Cons.IH [OF local_allow_window_ok [OF l' assms(1) Cons.prems(1)]] Cons.prems(2) later x by simp
    have "(if ok \<and> k = ip \<and> a \<le> now then 1 else 0) + room rpm a (byIP l' ip) \<le> room rpm a (byIP (sweep now l) ip)"
    proof (cases "k = ip")
      case True
      with room_step [of rpm now ip l ok l' a] l' assms(1) Cons.prems(1) now swept show ?thesis by simp
    qed (use local_allow_other [OF l', of ip] in auto)
    also have "\<dots> \<le> room rpm a (byIP l ip)"
      by (rule sweep_room [OF now assms(1) Cons.prems(1) start])
    finally show ?thesis using IH x l' now by (auto split: if_splits)
  qed
qed

text \<open>
  The limiter itself. With a Redis client a request is counted there, by the reply to the
  \<open>INCR\<close> it sends; without one, or when Redis fails, by the window in the process.
\<close>

definition limit_of :: "int \<Rightarrow> int" where
  "limit_of rpm = (if rpm \<le> 0 then 30 else rpm)"

fun redis_reply :: "request \<times> conn \<times> conn \<Rightarrow> (string \<times> int) option" where
  "redis_reply (r, c, c') =
     (case (drop (length (rl_sent (redis c))) (rl_sent (redis c')), rl_replies (redis c)) of
        (INCR k # _, Some n # _) \<Rightarrow> Some (k, n)
      | _ \<Rightarrow> None)"

text \<open>
  What Redis documents of \<open>INCR\<close>: the replies for one key are positive and go up. (A key names
  one slot of a minute and is given 75 seconds, so it does not lapse while it is in use.)
\<close>

definition redis_counts :: "(request \<times> conn \<times> conn) list \<Rightarrow> bool" where
  "redis_counts vs \<longleftrightarrow>
     (let ns = List.map_filter redis_reply vs
      in sorted_wrt (\<lambda>(k, m) (k', n). k = k' \<longrightarrow> m < n) ns \<and> (\<forall>(k, n)\<in>set ns. 0 < n))"

text \<open>The requests of an address let through in the minute from \<open>a\<close> on.\<close>

fun let_in :: "string \<Rightarrow> int \<Rightarrow> request \<times> conn \<times> conn \<Rightarrow> bool" where
  "let_in ip a (r, c, c') \<longleftrightarrow>
     \<not> aborted c' \<and> rq_client_ip r = ip \<and> a \<le> clock (wld c) \<and> clock (wld c) < a + win"

definition rate_key :: "string \<Rightarrow> string \<Rightarrow> int \<Rightarrow> string" where
  "rate_key scope ip t =
     ''ratelimit:'' @ scope @ '':'' @ replace_char (CHR ''%'') (CHR ''_'') (replace_char (CHR '':'') (CHR ''_'') ip)
       @ '':'' @ Itoa (t div win)"

lemma slot_div: "t div 1000000000 div 60 = t div win" for t :: int
  by (simp add: win_def zdiv_zmult2_eq)

lemma redis_allow_cases:
  assumes "fixedWindowRedisAllow scope ip lim c = ((ok, failed), c1)"
  shows "\<exists>cmds. c1 = c\<lparr>redis := redis c1\<rparr> \<and>
    rl_sent (redis c1) = rl_sent (redis c) @ INCR (rate_key scope ip (clock (wld c))) # cmds \<and>
    (case rl_replies (redis c) of Some n # _ \<Rightarrow> \<not> failed \<and> ok = (n \<le> lim) | _ \<Rightarrow> failed)"
proof -
  have "fixedWindowRedisAllow scope ip lim c =
    (case redis_call (INCR (rate_key scope ip (clock (wld c)))) c of
       (None, c1) \<Rightarrow> ((True, True), c1)
     | (Some n, c1) \<Rightarrow> ((n \<le> lim, False),
         if n = 1 then snd (redis_call (EXPIRE (rate_key scope ip (clock (wld c))) (75 * 1000000000)) c1) else c1))"
    by (simp only: fixedWindowRedisAllow_def Let_def rate_key_def slot_div append_assoc)
  with assms show ?thesis
    by (cases "rl_replies (redis c)") (auto simp: redis_call_def Let_def split: option.splits)
qed

text \<open>The two ways through the handler.\<close>

definition window_way :: "string \<Rightarrow> int \<Rightarrow> request \<Rightarrow> conn \<Rightarrow> conn \<Rightarrow> bool" where
  "window_way scope lim r c c' \<longleftrightarrow>
     (aborted c' \<longrightarrow> status c' = 429) \<and>
     local_allow lim (clock (wld c)) (rq_client_ip r) (limiters c scope) = (\<not> aborted c', limiters c' scope)"

definition redis_way :: "string \<Rightarrow> int \<Rightarrow> request \<Rightarrow> conn \<Rightarrow> int \<Rightarrow> conn \<Rightarrow> bool" where
  "redis_way scope lim r c n c' \<longleftrightarrow>
     (aborted c' \<longrightarrow> status c' = 429) \<and> limiters c' = limiters c \<and> (\<not> aborted c' \<longleftrightarrow> n \<le> lim)"

lemma too_many_limiters [simp]: "limiters (too_many m c) = limiters c" "redis (too_many m c) = redis c"
  by (simp_all add: too_many_def Abort_def respond_defs)

lemma window_way_taken:
  assumes "\<not> aborted c" and "local_allow lim (clock (wld c)) (rq_client_ip r) (limiters c scope) = (ok, l)"
  shows "window_way scope lim r c
    (if ok then c\<lparr>redis := k, limiters := (limiters c)(scope := l)\<rparr>
     else too_many m (c\<lparr>redis := k, limiters := (limiters c)(scope := l)\<rparr>))"
  using assms by (simp add: window_way_def)

lemma limiter_ways:
  assumes "scope \<noteq> ''''" and "\<not> aborted c"
  shows "(redis_reply (r, c, NewFixedWindowLimiter scope rpm message r c) = None \<and>
      window_way scope (limit_of rpm) r c (NewFixedWindowLimiter scope rpm message r c)) \<or>
    (\<exists>n. redis_reply (r, c, NewFixedWindowLimiter scope rpm message r c)
        = Some (rate_key scope (rq_client_ip r) (clock (wld c)), n) \<and> rl_client (redis c) \<and>
      redis_way scope (limit_of rpm) r c n (NewFixedWindowLimiter scope rpm message r c))"
proof -
  obtain ok l where la: "local_allow (limit_of rpm) (clock (wld c)) (rq_client_ip r) (limiters c scope) = (ok, l)"
    by (cases "local_allow (limit_of rpm) (clock (wld c)) (rq_client_ip r) (limiters c scope)")
  define msg where "msg = (if message = '''' then ''too many requests'' else message)"
  note code = NewFixedWindowLimiter_def Let_def limit_of_def [symmetric] msg_def [symmetric]
  show ?thesis
  proof (cases "rl_client (redis c)")
    case False
    have "NewFixedWindowLimiter scope rpm message r c =
      (if ok then c\<lparr>redis := redis c, limiters := (limiters c)(scope := l)\<rparr>
       else too_many msg (c\<lparr>redis := redis c, limiters := (limiters c)(scope := l)\<rparr>))"
      using assms(1) False la by (simp add: code)
    with window_way_taken [OF assms(2) la, of "redis c" msg] show ?thesis by simp
  next
    case True
    obtain ok' failed c1 where ra:
      "fixedWindowRedisAllow scope (rq_client_ip r) (limit_of rpm) c = ((ok', failed), c1)"
      by (metis prod.collapse)
    define k where "k = redis c1"
    from redis_allow_cases [OF ra, folded k_def] obtain cmds where
      k: "c1 = c\<lparr>redis := k\<rparr>" "rl_sent k = rl_sent (redis c) @ INCR (rate_key scope (rq_client_ip r) (clock (wld c))) # cmds"
        "case rl_replies (redis c) of Some n # _ \<Rightarrow> \<not> failed \<and> ok' = (n \<le> limit_of rpm) | _ \<Rightarrow> failed" by blast
    show ?thesis
    proof (cases failed)
      case f: True
      have h: "NewFixedWindowLimiter scope rpm message r c =
        (if ok then c\<lparr>redis := k, limiters := (limiters c)(scope := l)\<rparr>
         else too_many msg (c\<lparr>redis := k, limiters := (limiters c)(scope := l)\<rparr>))"
        using assms(1) True la f by (simp add: code ra k(1))
      have "redis_reply (r, c, NewFixedWindowLimiter scope rpm message r c) = None"
        using k(2,3) f by (auto simp: h split: list.splits option.splits)
      then show ?thesis using window_way_taken [OF assms(2) la, of k msg] by (simp only: h) simp
    next
      case f: False
      with k(3) obtain n ns where n: "rl_replies (redis c) = Some n # ns" "ok' = (n \<le> limit_of rpm)"
        by (auto split: list.splits option.splits)
      have h: "NewFixedWindowLimiter scope rpm message r c =
        (if n \<le> limit_of rpm then c\<lparr>redis := k\<rparr> else too_many msg (c\<lparr>redis := k\<rparr>))"
        using assms(1) True f n(2) by (simp add: code ra k(1))
      have "redis_reply (r, c, NewFixedWindowLimiter scope rpm message r c)
          = Some (rate_key scope (rq_client_ip r) (clock (wld c)), n)"
        using k(2) n(1) by (simp add: h)
      moreover have "redis_way scope (limit_of rpm) r c n (NewFixedWindowLimiter scope rpm message r c)"
        using assms(2) by (simp add: h redis_way_def)
      ultimately show ?thesis using True by blast
    qed
  qed
qed

text \<open>The requests that meet the window in the process are a run of it.\<close>

definition arrivals :: "(request \<times> conn \<times> conn) list \<Rightarrow> (int \<times> string) list" where
  "arrivals vs = map (\<lambda>(r, c, c'). (clock (wld c), rq_client_ip r)) vs"

lemma let_in_arrivals:
  "\<forall>(r, c, c')\<in>set vs. \<not> aborted c' \<Longrightarrow> length (filter (let_in ip a) vs) = in_minute ip a (arrivals vs)"
  by (induction vs) (auto simp: arrivals_def)

lemma served_by_window:
  fixes rpm :: int and message :: string and p :: conn
  assumes "scope \<noteq> ''''" and "\<forall>(r, c)\<in>set xs. \<not> aborted c"
  defines "ws \<equiv> \<lambda>p. filter (\<lambda>v. redis_reply v = None) (serve_all (NewFixedWindowLimiter scope rpm message) p xs)"
  shows "arrivals (filter (\<lambda>(r, c, c'). \<not> aborted c') (ws p))
    = let_through (limit_of rpm) (limiters p scope) (arrivals (ws p))"
  using assms(2) unfolding ws_def
proof (induction xs arbitrary: p)
  case (Cons x xs)
  obtain r c where x: "x = (r, c)" by (cases x)
  let ?h = "NewFixedWindowLimiter scope rpm message"
  from Cons.prems x have na: "\<not> aborted (carry p c)" by simp
  note IH = Cons.IH [of "?h r (carry p c)"]
  from limiter_ways [OF assms(1) na, where r = r and rpm = rpm and message = message] show ?case
  proof (elim disjE conjE exE)
    assume "redis_reply (r, carry p c, ?h r (carry p c)) = None"
      and w: "window_way scope (limit_of rpm) r (carry p c) (?h r (carry p c))"
    then show ?thesis using IH Cons.prems
      by (simp add: x window_way_def arrivals_def del: redis_reply.simps)
  next
    fix n assume "redis_reply (r, carry p c, ?h r (carry p c))
        = Some (rate_key scope (rq_client_ip r) (clock (wld (carry p c))), n)"
      and w: "redis_way scope (limit_of rpm) r (carry p c) n (?h r (carry p c))"
    then show ?thesis using IH Cons.prems
      by (simp add: x redis_way_def arrivals_def del: redis_reply.simps)
  qed
qed (simp add: arrivals_def)

lemma served_arrivals:
  "arrivals (serve_all h p xs) = map (\<lambda>(r, c). (clock (wld c), rq_client_ip r)) xs"
  by (induction xs arbitrary: p) (auto simp: arrivals_def)

lemma sorted_filter_arrivals: "sorted (map fst (arrivals vs)) \<Longrightarrow> sorted (map fst (arrivals (filter P vs)))"
  unfolding arrivals_def map_map by (rule sorted_filter)

lemma window_bound:
  fixes rpm :: int and message :: string and p :: conn
  assumes "scope \<noteq> ''''" and "byIP (limiters p scope) = (\<lambda>_. None)"
    and "sorted (map (\<lambda>(r, c). clock (wld c)) xs)" and "\<forall>(r, c)\<in>set xs. \<not> aborted c"
  defines "vs \<equiv> serve_all (NewFixedWindowLimiter scope rpm message) p xs"
  shows "int (length (filter (\<lambda>v. redis_reply v = None \<and> let_in ip a v) vs)) \<le> 2 * limit_of rpm"
proof -
  let ?ws = "filter (\<lambda>v. redis_reply v = None) vs"
  let ?ok = "filter (\<lambda>(r, c, c'). \<not> aborted c') ?ws"
  have "filter (\<lambda>v. redis_reply v = None \<and> let_in ip a v) vs = filter (let_in ip a) ?ok"
    unfolding filter_filter by (rule filter_cong) auto
  moreover have "length (filter (let_in ip a) ?ok) = in_minute ip a (arrivals ?ok)"
    by (rule let_in_arrivals) auto
  moreover have "arrivals ?ok = let_through (limit_of rpm) (limiters p scope) (arrivals ?ws)"
    unfolding vs_def by (rule served_by_window [OF assms(1,4)])
  moreover have "sorted (map fst (arrivals ?ws))"
    by (rule sorted_filter_arrivals)
      (use assms(3) in \<open>simp add: vs_def served_arrivals comp_def case_prod_unfold\<close>)
  moreover have "0 < limit_of rpm" by (simp add: limit_of_def)
  moreover have "window_ok (limit_of rpm) (limiters p scope)" using assms(2) by (simp add: window_ok_def)
  ultimately show ?thesis
    using at_most_room [of "limit_of rpm" "limiters p scope" "arrivals ?ws" ip a] assms(2) by (simp add: room_def)
qed

text \<open>Those that Redis counts: two keys at most, and no key lets more than the limit in.\<close>

lemma per_key:
  assumes "sorted_wrt (\<lambda>(k, m) (k', n). k = k' \<longrightarrow> m < n) ns" and "\<forall>(k, n)\<in>set ns. (0::int) < n"
  shows "int (length (filter (\<lambda>(k', n). k' = k \<and> n \<le> lim) ns)) \<le> max 0 lim"
proof -
  let ?f = "filter (\<lambda>(k', n). k' = k \<and> n \<le> lim) ns"
  have "sorted_wrt (<) (map snd ?f)"
    using assms(1) by (induction ns) auto
  then have d: "distinct (map snd ?f)" by (simp add: strict_sorted_iff)
  have "set (map snd ?f) \<subseteq> {1..lim}" using assms(2) by force
  then have "card (set (map snd ?f)) \<le> card {1..lim}" by (intro card_mono) auto
  with distinct_card [OF d] show ?thesis by simp
qed

lemma next_slot: "(a + win) div win = a div win + 1" for a :: int
  by (simp add: win_def)

lemma two_slots: "a \<le> t \<Longrightarrow> t < a + win \<Longrightarrow> t div win = a div win \<or> t div win = a div win + 1" for t :: int
proof -
  assume t: "a \<le> t" "t < a + win"
  have "a div win \<le> t div win" using t(1) win_pos by (simp add: zdiv_mono1)
  moreover have "t div win \<le> (a + win) div win" using t(2) win_pos by (simp add: zdiv_mono1)
  ultimately show ?thesis using next_slot [of a] by linarith
qed

lemma served_by_redis:
  assumes "scope \<noteq> ''''" and "\<forall>(r, c)\<in>set xs. \<not> aborted c"
    and "v \<in> set (serve_all (NewFixedWindowLimiter scope rpm message) p xs)" and "let_in ip a v" and "redis_reply v = Some (k, n)"
  shows "(k = rate_key scope ip a \<or> k = rate_key scope ip (a + win)) \<and> n \<le> limit_of rpm"
proof -
  obtain r c c' where v: "v = (r, c, c')" by (cases v)
  with serve_each assms(2,3) have c': "c' = NewFixedWindowLimiter scope rpm message r c" "\<not> aborted c" by fastforce+
  from limiter_ways [OF assms(1) c'(2), where r = r and rpm = rpm and message = message] assms(5)
  have k: "k = rate_key scope (rq_client_ip r) (clock (wld c))" and w: "redis_way scope (limit_of rpm) r c n c'"
    by (auto simp: v c'(1) simp del: redis_reply.simps)
  from assms(4) have t: "rq_client_ip r = ip" "a \<le> clock (wld c)" "clock (wld c) < a + win" "\<not> aborted c'"
    by (simp_all add: v)
  with two_slots [OF t(2,3)] k w show ?thesis by (auto simp: rate_key_def redis_way_def next_slot)
qed

lemma length_filter_map_filter:
  assumes "\<And>v. v \<in> set vs \<Longrightarrow> P v \<Longrightarrow> \<exists>y. f v = Some y \<and> Q y"
  shows "length (filter P vs) \<le> length (filter Q (List.map_filter f vs))"
  using assms by (induction vs) (fastforce simp: map_filter_simps split: option.splits)+

lemma length_filter_or: "length (filter (\<lambda>y. P y \<or> Q y) ys) \<le> length (filter P ys) + length (filter Q ys)"
  by (induction ys) auto

lemma redis_bound:
  fixes rpm :: int and message :: string and p :: conn
  assumes "scope \<noteq> ''''" and "\<forall>(r, c)\<in>set xs. \<not> aborted c"
  defines "vs \<equiv> serve_all (NewFixedWindowLimiter scope rpm message) p xs"
  assumes "redis_counts vs"
  shows "int (length (filter (\<lambda>v. redis_reply v \<noteq> None \<and> let_in ip a v) vs)) \<le> 2 * limit_of rpm"
proof -
  let ?ns = "List.map_filter redis_reply vs"
  let ?in = "\<lambda>t (k, n). k = rate_key scope ip t \<and> n \<le> limit_of rpm"
  from assms(4) have ns: "sorted_wrt (\<lambda>(k, m) (k', n). k = k' \<longrightarrow> m < n) ?ns" "\<forall>(k, n)\<in>set ?ns. 0 < n"
    by (simp_all add: redis_counts_def Let_def)
  have pos: "max 0 (limit_of rpm) = limit_of rpm" by (simp add: limit_of_def)
  have "length (filter (\<lambda>v. redis_reply v \<noteq> None \<and> let_in ip a v) vs)
      \<le> length (filter (\<lambda>y. ?in a y \<or> ?in (a + win) y) ?ns)"
    using served_by_redis [OF assms(1,2)] unfolding vs_def
    by (intro length_filter_map_filter) (fastforce simp del: redis_reply.simps let_in.simps)
  also have "\<dots> \<le> length (filter (?in a) ?ns) + length (filter (?in (a + win)) ?ns)"
    by (rule length_filter_or)
  finally have "int (length (filter (\<lambda>v. redis_reply v \<noteq> None \<and> let_in ip a v) vs))
      \<le> int (length (filter (?in a) ?ns)) + int (length (filter (?in (a + win)) ?ns))" by linarith
  with per_key [OF ns, of "rate_key scope ip a" "limit_of rpm"]
    per_key [OF ns, of "rate_key scope ip (a + win)" "limit_of rpm"]
  show ?thesis by (simp only: pos)
qed

lemma served_refused:
  assumes "scope \<noteq> ''''" and "\<forall>(r, c)\<in>set xs. \<not> aborted c"
    and "(r, c, c') \<in> set (serve_all (NewFixedWindowLimiter scope rpm message) p xs)" and "aborted c'"
  shows "status c' = 429"
proof -
  from serve_each [OF assms(3)] assms(2) have c': "c' = NewFixedWindowLimiter scope rpm message r c" "\<not> aborted c" by auto
  from limiter_ways [OF assms(1) c'(2), where r = r and rpm = rpm and message = message] assms(4) show ?thesis
    by (auto simp: c'(1) window_way_def redis_way_def)
qed

text \<open>
  C17: What a rate limit guarantees. Take the handler that \<open>NewFixedWindowLimiter\<close> returns
  for a route, the requests it handles in the order of their times, from any addresses, and
  Redis present, absent or failing at any of them; its process starts with no windows, and the
  replies of Redis to the increments of a key are positive and go up. Whoever is not let through
  is answered 429, and in any stretch of one minute an address gets at most twice the limit
  through when all requests are counted in one place, Redis or the process, and at most four
  times the limit when Redis fails in between. (Twice, because a window is fixed in time or by
  its first request, and a minute can meet two of them. A limit that is not positive counts as
  30.)
\<close>

theorem rate_limit_bound:
  assumes "vs = serve_all (NewFixedWindowLimiter scope rpm message) p xs"
    and "scope \<noteq> ''''" and "byIP (limiters p scope) = (\<lambda>_. None)"
    and "sorted (map (\<lambda>(r, c). clock (wld c)) xs)" and "\<forall>(r, c)\<in>set xs. \<not> aborted c"
    and "redis_counts vs"
  shows "(\<forall>(r, c, c')\<in>set vs. aborted c' \<longrightarrow> status c' = 429) \<and>
    int (length (filter (let_in ip a) vs)) \<le>
      (if (\<forall>v\<in>set vs. redis_reply v = None) \<or> (\<forall>v\<in>set vs. redis_reply v \<noteq> None) then 2 else 4)
        * (if rpm \<le> 0 then 30 else rpm)"
proof (intro conjI)
  show "\<forall>(r, c, c')\<in>set vs. aborted c' \<longrightarrow> status c' = 429"
    using served_refused [OF assms(2,5)] unfolding assms(1) by blast
next
  have w: "int (length (filter (\<lambda>v. redis_reply v = None \<and> let_in ip a v) vs)) \<le> 2 * limit_of rpm"
    unfolding assms(1) by (rule window_bound [OF assms(2-5)])
  have r: "int (length (filter (\<lambda>v. redis_reply v \<noteq> None \<and> let_in ip a v) vs)) \<le> 2 * limit_of rpm"
    unfolding assms(1) by (rule redis_bound [OF assms(2,5) assms(6) [unfolded assms(1)]])
  have split: "length (filter (let_in ip a) vs) = length (filter (\<lambda>v. redis_reply v = None \<and> let_in ip a v) vs)
      + length (filter (\<lambda>v. redis_reply v \<noteq> None \<and> let_in ip a v) vs)"
    by (induction vs) auto
  have "filter (\<lambda>v. redis_reply v \<noteq> None \<and> let_in ip a v) vs = []" if "\<forall>v\<in>set vs. redis_reply v = None"
    using that by (auto simp: filter_empty_conv simp del: redis_reply.simps)
  moreover have "filter (\<lambda>v. redis_reply v = None \<and> let_in ip a v) vs = []" if "\<forall>v\<in>set vs. redis_reply v \<noteq> None"
    using that by (auto simp: filter_empty_conv simp del: redis_reply.simps)
  ultimately show "int (length (filter (let_in ip a) vs)) \<le>
      (if (\<forall>v\<in>set vs. redis_reply v = None) \<or> (\<forall>v\<in>set vs. redis_reply v \<noteq> None) then 2 else 4)
        * (if rpm \<le> 0 then 30 else rpm)"
    using w r split by (simp add: limit_of_def [symmetric] del: redis_reply.simps let_in.simps)
qed

text \<open>
  Two requests a minute from one address, with Redis down from the third request to the fifth:
  six of seven are let through within a minute.
\<close>

definition demo_limiter :: limiter where
  "demo_limiter = \<lparr>lastSweep = 0, byIP = (\<lambda>_. None)\<rparr>"

definition demo_knock :: request where
  "demo_knock = \<lparr>rq_method = ''GET'', rq_path = ''/'', rq_header = (\<lambda>_. ''''), rq_cookie = (\<lambda>_. None),
     rq_param = (\<lambda>_. ''''), rq_query = (\<lambda>_. ''''), rq_client_ip = ''10.0.0.1'', rq_content_length = 0, rq_body = None\<rparr>"

definition demo_line :: "int option \<Rightarrow> int \<Rightarrow> conn" where
  "demo_line reply t = \<lparr>wld = demo_world\<lparr>clock := t\<rparr>, limiters = (\<lambda>_. demo_limiter), loginEmailThrottle = (\<lambda>_. None),
     redis = \<lparr>rl_client = True, rl_replies = [reply], rl_sent = []\<rparr>, request_id = ''r1'', auth_subject = '''',
     platform_action_reason = None, platform_roles = None, aborted = False, status = 200,
     resp_headers = [], resp_cookies = [], resp_body = None\<rparr>"

definition demo_knocks :: "(request \<times> conn) list" where
  "demo_knocks = map (\<lambda>(t, reply). (demo_knock, demo_line reply (t * 1000000000)))
     [(30, Some 1), (40, Some 2), (41, None), (42, None), (43, None), (60, Some 1), (61, Some 2)]"

definition demo_served :: "(request \<times> conn \<times> conn) list" where
  "demo_served = serve_all (NewFixedWindowLimiter ''api'' 2 '''') (demo_line None 0) demo_knocks"

lemma demo_served_eval:
  "redis_counts demo_served \<and> length (filter (let_in ''10.0.0.1'' 30000000000) demo_served) = 6"
  by code_simp

theorem rate_limit_bound_witness:
  "int (length (filter (let_in ''10.0.0.1'' 30000000000) demo_served)) \<le> 8 \<and>
   length (filter (let_in ''10.0.0.1'' 30000000000) demo_served) = 6"
  using rate_limit_bound [OF demo_served_def _ _ _ _ conjunct1 [OF demo_served_eval], of "''10.0.0.1''" 30000000000]
    demo_served_eval
  by (simp add: demo_knocks_def demo_line_def demo_limiter_def demo_world_def split: if_splits)

end
