(* ===== verification/Login_Throttle.thy ===== *)
theory Login_Throttle
  imports Http
begin

text \<open>
  myhandlers/login_throttle.go: the lockout of an email after repeated wrong passwords, kept
  in the process or, with a Redis client, in Redis (where an error means no lock).
\<close>

definition loginMaxFailuresPerEmail :: int where "loginMaxFailuresPerEmail = 5"
definition loginLockoutDuration :: int where "loginLockoutDuration = 15 * 60 * 1000000000"
definition loginFailKeyTTL :: int where "loginFailKeyTTL = 3600 * 1000000000"

lemmas login_consts = loginMaxFailuresPerEmail_def loginLockoutDuration_def loginFailKeyTTL_def

text \<open>The zero value of \<open>time.Time\<close> is the year 1.\<close>

definition zero_time :: int where
  "zero_time = - 62135596800000000000"

definition loginEmailKey :: "string \<Rightarrow> string" where
  "loginEmailKey email = hex_encode (take 16 (sha256 (ToLower (TrimSpace email))))"

definition redisLoginEmailLocked :: "string \<Rightarrow> conn \<Rightarrow> (bool \<times> int) \<times> conn" where
  "redisLoginEmailLocked email c =
     (case redis_call (TTL (''login:lock:'' @ loginEmailKey email)) c of
        (None, c1) \<Rightarrow> ((False, 0), c1)
      | (Some ttl, c1) \<Rightarrow> (if ttl > 0 then (True, ttl) else (False, 0), c1))"

definition loginEmailLocked :: "string \<Rightarrow> conn \<Rightarrow> (bool \<times> int) \<times> conn" where
  "loginEmailLocked email c =
     (if rl_client (redis c) then redisLoginEmailLocked email c
      else (case loginEmailThrottle c email of
          None \<Rightarrow> ((False, 0), c)
        | Some st \<Rightarrow>
            let now = clock (wld c) in
            (if now < lockedUntil st then (True, lockedUntil st - now) else (False, 0), c)))"

definition redisRecordLoginFailure :: "string \<Rightarrow> conn \<Rightarrow> conn" where
  "redisRecordLoginFailure email c =
     (let k = loginEmailKey email; failKey = ''login:fail:'' @ k; lockKey = ''login:lock:'' @ k in
      case redis_call (INCR failKey) c of
        (None, c1) \<Rightarrow> c1
      | (Some n, c1) \<Rightarrow>
          let c2 = (if n = 1 then snd (redis_call (EXPIRE failKey loginFailKeyTTL) c1) else c1) in
          if n \<ge> loginMaxFailuresPerEmail
          then snd (redis_call (DEL [failKey]) (snd (redis_call (SET lockKey ''1'' loginLockoutDuration) c2)))
          else c2)"

text \<open>One more failure for an email, at a time.\<close>

definition count_failure :: "int \<Rightarrow> loginEmailState option \<Rightarrow> loginEmailState" where
  "count_failure now st0 =
     (let st = (case st0 of None \<Rightarrow> \<lparr>failures = 0, lockedUntil = zero_time\<rparr> | Some st \<Rightarrow> st) in
      if now < lockedUntil st then st
      else let st1 = st\<lparr>failures := failures st + 1\<rparr> in
        if failures st1 \<ge> loginMaxFailuresPerEmail
        then st1\<lparr>lockedUntil := now + loginLockoutDuration, failures := 0\<rparr>
        else st1)"

definition recordLoginFailureKnownUser :: "string \<Rightarrow> conn \<Rightarrow> conn" where
  "recordLoginFailureKnownUser email c =
     (if rl_client (redis c) then redisRecordLoginFailure email c
      else c\<lparr>loginEmailThrottle := (loginEmailThrottle c)
               (email \<mapsto> count_failure (clock (wld c)) (loginEmailThrottle c email))\<rparr>)"

definition recordLoginSuccessClearThrottle :: "string \<Rightarrow> conn \<Rightarrow> conn" where
  "recordLoginSuccessClearThrottle email c =
     (if rl_client (redis c)
      then let k = loginEmailKey email in snd (redis_call (DEL [''login:fail:'' @ k, ''login:lock:'' @ k]) c)
      else c\<lparr>loginEmailThrottle := (loginEmailThrottle c)(email := None)\<rparr>)"

lemma locked_wld: "loginEmailLocked email c = (x, c') \<Longrightarrow> wld c' = wld c"
  by (auto simp: loginEmailLocked_def redisLoginEmailLocked_def Let_def dest!: redis_call_wld
      split: if_splits option.splits prod.splits)

lemma failure_wld [simp]: "wld (recordLoginFailureKnownUser email c) = wld c"
  by (simp add: recordLoginFailureKnownUser_def redisRecordLoginFailure_def Let_def split: option.split prod.split)
    (auto dest!: redis_call_wld)

lemma success_wld [simp]: "wld (recordLoginSuccessClearThrottle email c) = wld c"
  by (simp add: recordLoginSuccessClearThrottle_def Let_def)

end
