(* ===== verification/Case_Handlers.thy ===== *)
theory Case_Handlers
  imports Middleware Login_Throttle
begin

text \<open>
  myhandlers/cases_handlers.go: the operator cases over HTTP, and the helpers that all
  control-plane handlers share (path ids, query numbers, the stated reason, the audit row).
  The handlers that share their Go name with a persistence operation end in \<open>_handler\<close>.
\<close>

section \<open>Helpers of the control-plane handlers\<close>

definition parseInt64Param :: "string \<Rightarrow> request \<Rightarrow> conn \<Rightarrow> (int \<Rightarrow> conn \<Rightarrow> conn) \<Rightarrow> conn" where
  "parseInt64Param name r c k =
     (let s = TrimSpace (rq_param r name) in
      if s = '''' then respond_Error 400 CodeValidation ''missing path id'' [] c
      else (case ParseInt s of
          None \<Rightarrow> respond_Error 400 CodeValidation ''id must be a positive integer'' [] c
        | Some n \<Rightarrow>
            if n < 1 then respond_Error 400 CodeValidation ''id must be a positive integer'' [] c
            else k n c))"

text \<open>An optional number of the query string; the inner \<open>None\<close> is an absent one.\<close>

definition query_int :: "request \<Rightarrow> string \<Rightarrow> int \<Rightarrow> int option option" where
  "query_int r name hi =
     (let v = TrimSpace (rq_query r name) in
      if v = '''' then Some None
      else (case Atoi v of
          None \<Rightarrow> None
        | Some n \<Rightarrow> if n < 1 \<or> n > hi then None else Some (Some n)))"

definition max_int64 :: int where
  "max_int64 = 2 ^ 63 - 1"

definition reasonFromContext :: "request \<Rightarrow> conn \<Rightarrow> string" where
  "reasonFromContext r c =
     (let reason = TrimSpace (rq_header r PlatformActionReasonHeader) in
      if reason = '''' then (case platform_action_reason c of None \<Rightarrow> '''' | Some s \<Rightarrow> TrimSpace s)
      else reason)"

definition with_user :: "conn \<Rightarrow> (int \<Rightarrow> conn) \<Rightarrow> conn" where
  "with_user c k = (case AuthUserIDFromContext c of
     None \<Rightarrow> respond_Error 403 CodeForbidden ''user subject required'' [] c
   | Some uid \<Rightarrow> k uid)"

definition json_bytes :: "json \<Rightarrow> string" where
  "json_bytes v = (case Marshal v of None \<Rightarrow> '''' | Some s \<Rightarrow> s)"

text \<open>The audit row of a handler; its error is ignored.\<close>

definition audit_admin ::
    "env \<Rightarrow> request \<Rightarrow> int \<Rightarrow> string \<Rightarrow> string \<Rightarrow> string \<Rightarrow> string \<Rightarrow> json_text \<Rightarrow> conn \<Rightarrow> (conn \<Rightarrow> conn) \<Rightarrow> conn" where
  "audit_admin e r uid action resourceType resourceID reason metaJSON c k =
     call (\<lambda>w. (InsertAdminAuditEvent (AuthStore e) (Some uid) (auth_subject c) action resourceType resourceID
             reason (request_id c) (rq_client_ip r) (rq_header r ''User-Agent'') metaJSON w
             :: (unit, unit) result \<times> world)) c
       (\<lambda>_ c1. k c1)"

section \<open>Reading cases\<close>

definition opt_member :: "string \<Rightarrow> json option \<Rightarrow> (string \<times> json) list" where
  "opt_member k v = (case v of None \<Rightarrow> [] | Some j \<Rightarrow> [(k, j)])"

definition caseRowToJSON :: "case_row \<Rightarrow> json" where
  "caseRowToJSON r = JObj
     ([(''id'', JInt (oc_id r)),
       (''created_at'', JTime (oc_created_at r)),
       (''updated_at'', JTime (oc_updated_at r)),
       (''status'', JStr (oc_status r)),
       (''priority'', JStr (oc_priority r)),
       (''subject_platform_user_id'', JInt (oc_subject_user_id r)),
       (''title'', JStr (oc_title r)),
       (''created_by_user_id'', JInt (oc_created_by r))] @
      opt_member ''subject_character_ref'' (map_option JStr (oc_character_ref r)) @
      opt_member ''description'' (map_option JStr (oc_description r)) @
      opt_member ''assigned_to_user_id'' (map_option JInt (oc_assigned_to r)))"

definition ListOperatorCases_handler :: "env \<Rightarrow> handler" where
  "ListOperatorCases_handler e r c =
     (case query_int r ''limit'' 200 of
        None \<Rightarrow> respond_Error 400 CodeValidation ''limit must be between 1 and 200'' [] c
      | Some limit0 \<Rightarrow>
          let limit = (case limit0 of None \<Rightarrow> 50 | Some n \<Rightarrow> n);
              status = TrimSpace (rq_query r ''status'')
          in (case query_int r ''subject_platform_user_id'' max_int64 of
                None \<Rightarrow> respond_Error 400 CodeValidation ''subject_platform_user_id must be positive'' [] c
              | Some subjectUID \<Rightarrow>
                  (case query_int r ''before_id'' max_int64 of
                     None \<Rightarrow> respond_Error 400 CodeValidation ''before_id must be a positive integer'' [] c
                   | Some beforeID \<Rightarrow>
                       call (ListOperatorCases (AuthStore e)
                           \<lparr>lq_Limit = limit, lq_Status = status, lq_SubjectUserID = subjectUID, lq_BeforeID = beforeID\<rparr>) c
                         (\<lambda>res c1. case res of
                            Inl _ \<Rightarrow> respond_Error 500 CodeInternal ''failed to list cases'' [] c1
                          | Inr rows \<Rightarrow> OK (JObj [(''items'', JArr (map caseRowToJSON rows)), (''limit'', JInt limit)]) c1))))"

text \<open>Loading a case first, as most handlers do.\<close>

definition with_case :: "env \<Rightarrow> int \<Rightarrow> conn \<Rightarrow> (case_row \<Rightarrow> conn \<Rightarrow> conn) \<Rightarrow> conn" where
  "with_case e caseID c k =
     call (GetOperatorCase (AuthStore e) caseID) c (\<lambda>res c1.
       case res of
         Inl NoRows \<Rightarrow> respond_Error 404 CodeNotFound ''case not found'' [] c1
       | Inl _ \<Rightarrow> respond_Error 500 CodeInternal ''failed to load case'' [] c1
       | Inr row \<Rightarrow> k row c1)"

definition GetOperatorCase_handler :: "env \<Rightarrow> handler" where
  "GetOperatorCase_handler e r c =
     parseInt64Param ''id'' r c (\<lambda>caseID c. with_case e caseID c (\<lambda>row c1. OK (caseRowToJSON row) c1))"

definition note_json :: "note_row \<Rightarrow> json" where
  "note_json n = JObj [(''id'', JInt (cn_id n)), (''case_id'', JInt (cn_case_id n)),
     (''created_at'', JTime (cn_created_at n)), (''body'', JStr (cn_body n)),
     (''created_by_user_id'', JInt (cn_created_by n))]"

definition ListOperatorCaseNotes_handler :: "env \<Rightarrow> handler" where
  "ListOperatorCaseNotes_handler e r c =
     parseInt64Param ''id'' r c (\<lambda>caseID c. with_case e caseID c (\<lambda>_ c1.
       call (ListOperatorCaseNotes (AuthStore e) caseID) c1 (\<lambda>res c2.
         case res of
           Inl _ \<Rightarrow> respond_Error 500 CodeInternal ''failed to list notes'' [] c2
         | Inr ns \<Rightarrow> OK (JObj [(''items'', JArr (map note_json ns))]) c2)))"

definition action_json :: "action_row \<Rightarrow> json" where
  "action_json a = JObj
     ([(''id'', JInt (ca_id a)), (''case_id'', JInt (ca_case_id a)), (''created_at'', JTime (ca_created_at a)),
       (''action_kind'', JStr (ca_action_kind a)), (''actor_user_id'', JInt (ca_actor a))] @
      opt_member ''payload'' (case ca_payload a of None \<Rightarrow> None | Some p \<Rightarrow> if length p > 0 then Some (JRaw p) else None) @
      opt_member ''reason'' (map_option JStr (ca_reason a)))"

definition ListOperatorCaseActions_handler :: "env \<Rightarrow> handler" where
  "ListOperatorCaseActions_handler e r c =
     parseInt64Param ''id'' r c (\<lambda>caseID c. with_case e caseID c (\<lambda>_ c1.
       call (ListOperatorCaseActions (AuthStore e) caseID 100) c1 (\<lambda>res c2.
         case res of
           Inl _ \<Rightarrow> respond_Error 500 CodeInternal ''failed to list actions'' [] c2
         | Inr acts \<Rightarrow> OK (JObj [(''items'', JArr (map action_json acts))]) c2)))"

section \<open>Opening and changing cases\<close>

record createCaseBody =
  cb_SubjectPlatformUserID :: int
  cb_SubjectCharacterRef :: "string option"
  cb_Title :: string
  cb_Description :: string
  cb_Priority :: string

definition bind_createCaseBody :: "json option \<Rightarrow> createCaseBody option" where
  "bind_createCaseBody b =
     Option.bind (members b) (\<lambda>ms.
     Option.bind (int_field ''subject_platform_user_id'' ms) (\<lambda>subject.
     Option.bind (opt_str_field ''subject_character_ref'' ms) (\<lambda>cref.
     Option.bind (str_field ''title'' ms) (\<lambda>title.
     Option.bind (str_field ''description'' ms) (\<lambda>desc.
     Option.bind (str_field ''priority'' ms) (\<lambda>priority.
       valid (subject \<noteq> 0 \<and> 1 \<le> rune_count title \<and> rune_count title \<le> 256 \<and> title \<noteq> '''')
         \<lparr>cb_SubjectPlatformUserID = subject, cb_SubjectCharacterRef = cref, cb_Title = title,
          cb_Description = desc, cb_Priority = priority\<rparr>))))))"

definition invalid_json :: "conn \<Rightarrow> conn" where
  "invalid_json c = respond_Error 400 CodeValidation ''invalid JSON body'' [] c"

definition PostOperatorCase :: "env \<Rightarrow> handler" where
  "PostOperatorCase e r c =
     with_user c (\<lambda>uid.
     case bind_createCaseBody (rq_body r) of
       None \<Rightarrow> invalid_json c
     | Some body \<Rightarrow>
         let priority = TrimSpace (cb_Priority body);
             priority = (if priority = '''' then CasePriorityNormal else priority);
             subject = cb_SubjectPlatformUserID body
         in call (\<lambda>w. (query (\<lambda>_ d. live_user d subject) w :: (unit, bool) result \<times> world)) c (\<lambda>live c1.
           case live of
             Inl _ \<Rightarrow> respond_Error 500 CodeInternal ''failed to validate subject user'' [] c1
           | Inr False \<Rightarrow> respond_Error 400 CodeValidation ''subject_platform_user_id does not exist in users table''
               [(''field'', JStr ''subject_platform_user_id''), (''id'', JInt subject)] c1
           | Inr True \<Rightarrow>
               call (CreateOperatorCase (AuthStore e) subject (cb_SubjectCharacterRef body)
                   (TrimSpace (cb_Title body)) (TrimSpace (cb_Description body)) priority uid) c1 (\<lambda>res c2.
                 case res of
                   Inl (Sentinel ErrInvalidCasePriority) \<Rightarrow>
                     respond_Error 400 CodeValidation ''invalid case priority'' [(''field'', JStr ''priority'')] c2
                 | Inl _ \<Rightarrow> respond_Error 500 CodeInternal ''failed to create case'' [] c2
                 | Inr caseID \<Rightarrow>
                     audit_admin e r uid ''case.created'' ''operator_case'' (Itoa caseID)
                       (reasonFromContext r c2) '''' c2
                       (JSONOK 201 (JObj [(''id'', JInt caseID), (''status'', JStr CaseStatusOpen)])))))"

record patchCaseBody =
  pb_Status :: "string option"
  pb_Priority :: "string option"
  pb_AssignedToUID :: "int option"

definition bind_patchCaseBody :: "json option \<Rightarrow> patchCaseBody option" where
  "bind_patchCaseBody b =
     Option.bind (members b) (\<lambda>ms.
     Option.bind (opt_str_field ''status'' ms) (\<lambda>st.
     Option.bind (opt_str_field ''priority'' ms) (\<lambda>priority.
     Option.bind (opt_int_field ''assigned_to_user_id'' ms) (\<lambda>assigned.
       Some \<lparr>pb_Status = st, pb_Priority = priority, pb_AssignedToUID = assigned\<rparr>))))"

text \<open>\<open>err.Error()\<close>, and the zero value of a row.\<close>

definition case_error_text :: "env \<Rightarrow> case_error fault \<Rightarrow> string" where
  "case_error_text e err = (case err of
     Driver \<Rightarrow> DriverErrorText e
   | NoRows \<Rightarrow> ''sql: no rows in result set''
   | Msg m \<Rightarrow> m
   | Sentinel ErrInvalidCaseStatus \<Rightarrow> ''invalid case status''
   | Sentinel ErrInvalidCasePriority \<Rightarrow> ''invalid case priority'')"

definition zero_case :: case_row where
  "zero_case = \<lparr>oc_id = 0, oc_created_at = zero_time, oc_updated_at = zero_time, oc_status = '''', oc_priority = '''',
     oc_subject_user_id = 0, oc_character_ref = None, oc_title = '''', oc_description = None, oc_created_by = 0,
     oc_assigned_to = None\<rparr>"

definition PatchOperatorCase :: "env \<Rightarrow> handler" where
  "PatchOperatorCase e r c =
     with_user c (\<lambda>uid. parseInt64Param ''id'' r c (\<lambda>caseID c.
     case bind_patchCaseBody (rq_body r) of
       None \<Rightarrow> invalid_json c
     | Some body \<Rightarrow>
         call (UpdateOperatorCase (AuthStore e) caseID (pb_Status body) (pb_Priority body) (pb_AssignedToUID body)) c
           (\<lambda>res c1. case res of
              Inl NoRows \<Rightarrow> respond_Error 404 CodeNotFound ''case not found'' [] c1
            | Inl err \<Rightarrow> respond_Error 400 CodeValidation (case_error_text e err) [] c1
            | Inr _ \<Rightarrow>
                audit_admin e r uid ''case.updated'' ''operator_case'' (Itoa caseID) (reasonFromContext r c1)
                  (json_bytes (JObj [(''case_id'', JInt caseID)])) c1 (\<lambda>c2.
                call (GetOperatorCase (AuthStore e) caseID) c2 (\<lambda>row c3.
                  OK (caseRowToJSON (case row of Inl _ \<Rightarrow> zero_case | Inr x \<Rightarrow> x)) c3)))))"

section \<open>Notes and recorded actions\<close>

definition bind_postNoteBody :: "json option \<Rightarrow> string option" where
  "bind_postNoteBody b =
     Option.bind (members b) (\<lambda>ms.
     Option.bind (str_field ''body'' ms) (\<lambda>t. valid (t \<noteq> '''' \<and> 1 \<le> rune_count t) t))"

definition PostOperatorCaseNote :: "env \<Rightarrow> handler" where
  "PostOperatorCaseNote e r c =
     with_user c (\<lambda>uid. parseInt64Param ''id'' r c (\<lambda>caseID c.
     case bind_postNoteBody (rq_body r) of
       None \<Rightarrow> invalid_json c
     | Some body \<Rightarrow> with_case e caseID c (\<lambda>_ c1.
         call (InsertOperatorCaseNote (AuthStore e) caseID body uid) c1 (\<lambda>res c2.
           case res of
             Inl _ \<Rightarrow> respond_Error 500 CodeInternal ''failed to add note'' [] c2
           | Inr noteID \<Rightarrow>
               audit_admin e r uid ''case.note_added'' ''operator_case'' (Itoa caseID) (reasonFromContext r c2)
                 (json_bytes (JObj [(''note_id'', JInt noteID)])) c2
                 (JSONOK 201 (JObj [(''id'', JInt noteID), (''case_id'', JInt caseID)]))))))"

text \<open>The last steps of the three handlers that record an action.\<close>

definition record_action ::
    "env \<Rightarrow> request \<Rightarrow> int \<Rightarrow> int \<Rightarrow> string \<Rightarrow> json \<Rightarrow> string \<Rightarrow> string \<Rightarrow> string \<Rightarrow> conn \<Rightarrow> conn" where
  "record_action e r uid caseID kind payload audit_action fail_msg recorded c =
     (let reason = reasonFromContext r c in
      call (InsertOperatorCaseAction (AuthStore e) caseID kind (Some payload) reason uid) c (\<lambda>res c1.
        case res of
          Inl _ \<Rightarrow> respond_Error 500 CodeInternal fail_msg [] c1
        | Inr _ \<Rightarrow>
            audit_admin e r uid audit_action ''operator_case'' (Itoa caseID) reason (json_bytes payload) c1
              (OK (JObj [(''ok'', JBool True), (''recorded'', JStr recorded)]))))"

definition bind_postSanctionBody :: "json option \<Rightarrow> (string \<times> string option) option" where
  "bind_postSanctionBody b =
     Option.bind (members b) (\<lambda>ms.
     Option.bind (str_field ''sanction_type'' ms) (\<lambda>t.
     Option.bind (opt_str_field ''expires_at'' ms) (\<lambda>x. valid (t \<noteq> '''') (t, x))))"

definition PostOperatorCaseSanction :: "env \<Rightarrow> handler" where
  "PostOperatorCaseSanction e r c =
     with_user c (\<lambda>uid. parseInt64Param ''id'' r c (\<lambda>caseID c.
     case bind_postSanctionBody (rq_body r) of
       None \<Rightarrow> invalid_json c
     | Some (sanctionType, expiresAt) \<Rightarrow> with_case e caseID c (\<lambda>row c1.
         let payload = [(''sanction_type'', JStr (TrimSpace sanctionType)),
                        (''subject_platform_user_id'', JInt (oc_subject_user_id row))];
             go = (\<lambda>payload. record_action e r uid caseID CaseActionSanction (JObj payload)
                     ''case.sanction_recorded'' ''failed to record sanction'' ''sanction'' c1)
         in (case expiresAt of
               None \<Rightarrow> go payload
             | Some x \<Rightarrow>
                 if TrimSpace x = '''' then go payload
                 else (case ParseRFC3339 e (TrimSpace x) of
                     None \<Rightarrow> respond_Error 400 CodeValidation ''expires_at must be RFC3339'' [] c1
                   | Some t \<Rightarrow> go (payload @ [(''expires_at'', JStr (FormatRFC3339 e t))]))))))"

definition bind_postRecoveryBody :: "json option \<Rightarrow> string option" where
  "bind_postRecoveryBody b = Option.bind (members b) (str_field ''character_ref'')"

definition PostOperatorCaseRecoveryRequest :: "env \<Rightarrow> handler" where
  "PostOperatorCaseRecoveryRequest e r c =
     with_user c (\<lambda>uid. parseInt64Param ''id'' r c (\<lambda>caseID c.
     case bind_postRecoveryBody (rq_body r) of
       None \<Rightarrow> invalid_json c
     | Some characterRef \<Rightarrow> with_case e caseID c (\<lambda>row c1.
         let cref = TrimSpace characterRef;
             cref = (if cref = '''' then (case oc_character_ref row of None \<Rightarrow> '''' | Some x \<Rightarrow> x) else cref)
         in record_action e r uid caseID CaseActionRecoveryRequest
              (JObj [(''character_ref'', JStr cref), (''subject_platform_user_id'', JInt (oc_subject_user_id row))])
              ''case.recovery_requested'' ''failed to record recovery request'' ''recovery_request'' c1)))"

definition bind_postAppealResolveBody :: "json option \<Rightarrow> (string \<times> string) option" where
  "bind_postAppealResolveBody b =
     Option.bind (members b) (\<lambda>ms.
     Option.bind (str_field ''outcome'' ms) (\<lambda>out.
     Option.bind (str_field ''notes'' ms) (\<lambda>ns. valid (out \<noteq> '''') (out, ns))))"

definition PostOperatorCaseAppealResolve :: "env \<Rightarrow> handler" where
  "PostOperatorCaseAppealResolve e r c =
     with_user c (\<lambda>uid. parseInt64Param ''id'' r c (\<lambda>caseID c.
     case bind_postAppealResolveBody (rq_body r) of
       None \<Rightarrow> invalid_json c
     | Some (outcome0, ns) \<Rightarrow>
         let outcome = ToLower (TrimSpace outcome0) in
         if outcome \<noteq> ''upheld'' \<and> outcome \<noteq> ''overturned''
         then respond_Error 400 CodeValidation ''outcome must be upheld or overturned'' [] c
         else with_case e caseID c (\<lambda>_ c1.
           record_action e r uid caseID CaseActionAppealResolve
             (JObj [(''outcome'', JStr outcome), (''notes'', JStr (TrimSpace ns))])
             ''case.appeal_resolved'' ''failed to record appeal resolution'' ''appeal_resolve'' c1)))"

end
