(* ===== verification/Platform_Handlers.thy ===== *)
theory Platform_Handlers
  imports Case_Handlers
begin

text \<open>
  myhandlers/platform_handlers.go and myhandlers/platform_backup_restore_handlers.go: the
  remaining control-plane handlers.
\<close>

section \<open>Stubs, own roles, audit trail, ledger, acknowledgments\<close>

definition str_array :: "string list \<Rightarrow> json" where
  "str_array ss = JArr (map JStr ss)"

definition ListPlayersStub :: handler where
  "ListPlayersStub r c = OK (JObj
     [(''items'', JArr []),
      (''note'', JStr ''Stub; link players to platform users via platform_user_id in suite databases.''),
      (''permissions'', str_array [PermPlayersRead])]) c"

definition ListCharactersStub :: handler where
  "ListCharactersStub r c = OK (JObj
     [(''items'', JArr []),
      (''note'', JStr ''Stub; characters are Marble-authoritative per data-ownership.md.''),
      (''permissions'', str_array [PermCharactersRead])]) c"

text \<open>A nil slice is encoded as \<open>null\<close>; here the lists are nil when nothing was added.\<close>

definition slice_json :: "string list \<Rightarrow> json" where
  "slice_json ss = (if ss = [] then JNull else str_array ss)"

text \<open>The permissions in the order of their first occurrence.\<close>

definition add_new :: "string \<Rightarrow> string list \<Rightarrow> string list" where
  "add_new p perms = (if p \<in> set perms then perms else perms @ [p])"

definition effective_permissions :: "string list \<Rightarrow> string list" where
  "effective_permissions rs = fold add_new (concat (map PermissionsForRole rs)) []"

definition GetSecurityMeRoles :: handler where
  "GetSecurityMeRoles r c = with_user c (\<lambda>uid.
     let rs = (case platform_roles c of None \<Rightarrow> [] | Some rs \<Rightarrow> rs)
     in OK (JObj [(''user_id'', JInt uid), (''roles'', slice_json rs),
                  (''effective_permissions'', slice_json (effective_permissions rs))]) c)"

definition audit_event_json :: "admin_audit_row \<Rightarrow> json" where
  "audit_event_json a = JObj
     ([(''id'', JInt (ad_id a)), (''created_at'', JTime (ad_created_at a))] @
      opt_member ''actor_user_id'' (map_option JInt (ad_actor a)) @
      [(''auth_subject'', JStr (ad_subject a)), (''action'', JStr (ad_action a)),
       (''resource_type'', JStr (ad_resource_type a))] @
      opt_member ''resource_id'' (map_option JStr (ad_resource_id a)) @
      opt_member ''reason'' (map_option JStr (ad_reason a)) @
      opt_member ''request_id'' (map_option JStr (ad_request_id a)))"

definition ListAdminAuditEvents :: "env \<Rightarrow> handler" where
  "ListAdminAuditEvents e r c =
     call (\<lambda>w. (query (\<lambda>_ d. take 100 (newest_first ad_id (admin_audit d))) w
             :: (unit, admin_audit_row list) result \<times> world)) c (\<lambda>res c1.
       case res of
         Inl _ \<Rightarrow> respond_Error 500 CodeInternal ''failed to list admin audit events'' [] c1
       | Inr rows \<Rightarrow> OK (JObj [(''items'', JArr (map audit_event_json rows)), (''limit'', JInt 100)]) c1)"

definition ledger_item :: "ledger_row \<Rightarrow> json" where
  "ledger_item l = JObj
     ([(''id'', JInt (el_id l)), (''created_at'', JTime (el_created_at l)),
       (''platform_user_id'', JInt (el_platform_user_id l)), (''event_type'', JStr (el_event_type l)),
       (''amount_delta'', JInt (el_amount_delta l)), (''currency_code'', JStr (el_currency_code l))] @
      opt_member ''reference_type'' (map_option JStr (el_reference_type l)) @
      opt_member ''reference_id'' (map_option JStr (el_reference_id l)) @
      opt_member ''meta'' (case el_meta l of None \<Rightarrow> None | Some m \<Rightarrow> if length m > 0 then Some (JRaw m) else None))"

text \<open>An optional RFC 3339 time of the query string.\<close>

definition query_time :: "env \<Rightarrow> request \<Rightarrow> string \<Rightarrow> int option option" where
  "query_time e r name =
     (let v = TrimSpace (rq_query r name) in
      if v = '''' then Some None else map_option Some (ParseRFC3339 e v))"

definition bad_query :: "string \<Rightarrow> conn \<Rightarrow> conn" where
  "bad_query msg c = respond_Error 400 CodeValidation msg [] c"

definition GetEconomyLedger :: "env \<Rightarrow> handler" where
  "GetEconomyLedger e r c =
     (case query_int r ''limit'' 100 of
        None \<Rightarrow> bad_query ''limit must be between 1 and 100'' c
      | Some limit0 \<Rightarrow>
     (case query_int r ''before_id'' max_int64 of
        None \<Rightarrow> bad_query ''before_id must be a positive integer'' c
      | Some beforeID \<Rightarrow>
     (case query_int r ''platform_user_id'' max_int64 of
        None \<Rightarrow> bad_query ''platform_user_id must be a positive integer'' c
      | Some platformUserID \<Rightarrow>
          let limit = (case limit0 of None \<Rightarrow> 50 | Some n \<Rightarrow> n);
              eventType = TrimSpace (rq_query r ''event_type'')
          in if length eventType > 64 then bad_query ''event_type too long'' c
          else
     (case query_time e r ''from'' of
        None \<Rightarrow> bad_query ''from must be RFC3339 date-time'' c
      | Some fromTime \<Rightarrow>
     (case query_time e r ''to'' of
        None \<Rightarrow> bad_query ''to must be RFC3339 date-time'' c
      | Some toTime \<Rightarrow>
          call (\<lambda>w. (ListEconomyLedgerEvents (AuthStore e)
              \<lparr>el_q_Limit = limit, el_q_BeforeID = beforeID, el_q_PlatformUserID = platformUserID,
               el_q_EventType = eventType, el_q_FromTime = fromTime, el_q_ToTime = toTime\<rparr> w
              :: (unit, ledger_row list) result \<times> world)) c (\<lambda>res c1.
            case res of
              Inl _ \<Rightarrow> respond_Error 500 CodeInternal ''failed to list economy ledger events'' [] c1
            | Inr rows \<Rightarrow> OK (JObj [(''items'', JArr (map ledger_item rows)), (''limit'', JInt limit)]) c1))))))"

text \<open>
  The body of an acknowledgment is optional and its errors are ignored: what was decoded
  before a member of another type stays.
\<close>

fun lenient_string :: "string \<Rightarrow> string \<Rightarrow> (string \<times> json) list \<Rightarrow> string" where
  "lenient_string k a [] = a"
| "lenient_string k a ((n, v) # ms) =
     lenient_string k (if EqualFold_ascii n k then (case into_string v a of None \<Rightarrow> a | Some b \<Rightarrow> b) else a) ms"

definition ack_message :: "request \<Rightarrow> string" where
  "ack_message r =
     (if rq_content_length r > 0
      then (case members (rq_body r) of None \<Rightarrow> '''' | Some ms \<Rightarrow> lenient_string ''message'' '''' ms)
      else '''')"

definition PostSupportAck :: "env \<Rightarrow> handler" where
  "PostSupportAck e r c = with_user c (\<lambda>uid.
     let reason = reasonFromContext r c;
         message = TrimSpace (ack_message r);
         meta = (if message \<noteq> '''' then Marshal (JObj [(''message'', JStr message)]) else Some '''')
     in (case meta of
           None \<Rightarrow> respond_Error 500 CodeInternal ''failed to encode audit meta'' [] c
         | Some metaJSON \<Rightarrow>
             call (\<lambda>w. (InsertAdminAuditEvent (AuthStore e) (Some uid) (auth_subject c) ''support.ack'' ''support'' ''''
                 reason (request_id c) (rq_client_ip r) (rq_header r ''User-Agent'') metaJSON w
                 :: (unit, unit) result \<times> world)) c (\<lambda>res c1.
               case res of
                 Inl _ \<Rightarrow> respond_Error 500 CodeInternal ''failed to write admin audit event'' [] c1
               | Inr _ \<Rightarrow> OK (JObj [(''ok'', JBool True), (''recorded'', JStr ''support.ack'')]) c1)))"

section \<open>Backup restore workflow\<close>

definition count_of :: "string \<Rightarrow> (string \<times> nat) list \<Rightarrow> int" where
  "count_of st counts = (case map_of counts st of None \<Rightarrow> 0 | Some n \<Rightarrow> int n)"

definition GetBackupsStatus :: "env \<Rightarrow> handler" where
  "GetBackupsStatus e r c =
     call (BackupRestoreStatusCounts (AuthStore e)) c (\<lambda>res c1.
       case res of
         Inl _ \<Rightarrow> respond_Error 500 CodeInternal ''failed to read backup restore status'' [] c1
       | Inr counts \<Rightarrow> OK (JObj
           [(''restore_workflow_enabled'', JBool True),
            (''pending_restore_requests'', JInt (count_of BackupRestoreStatusPending counts)),
            (''approved_awaiting_fulfillment'', JInt (count_of BackupRestoreStatusApproved counts)),
            (''counts_by_status'', JObj (map (\<lambda>(st, n). (st, JInt (int n))) counts)),
            (''note'', JStr ''Physical backups/restores are run out of band; this API tracks approval workflow only.''),
            (''permissions'', str_array [PermBackupsRead])]) c1)"

definition backupRestoreRowToJSON :: "restore_row \<Rightarrow> json" where
  "backupRestoreRowToJSON b = JObj
     ([(''id'', JInt (br_id b)), (''created_at'', JTime (br_created_at b)), (''updated_at'', JTime (br_updated_at b)),
       (''requested_by_user_id'', JInt (br_requested_by b)), (''scope'', JStr (br_scope b)),
       (''restore_point_label'', JStr (br_label b)), (''reason'', JStr (br_reason b)), (''status'', JStr (br_status b))] @
      opt_member ''rejection_reason'' (map_option JStr (br_rejection_reason b)) @
      opt_member ''approval_1_user_id'' (map_option JInt (br_approval1 b)) @
      opt_member ''approval_1_at'' (map_option JTime (br_approval1_at b)) @
      opt_member ''approval_2_user_id'' (map_option JInt (br_approval2 b)) @
      opt_member ''approval_2_at'' (map_option JTime (br_approval2_at b)) @
      opt_member ''fulfilled_at'' (map_option JTime (br_fulfilled_at b)) @
      opt_member ''fulfilled_note'' (map_option JStr (br_fulfilled_note b)) @
      opt_member ''request_id'' (map_option JStr (br_request_id b)))"

definition ListBackupRestoreRequests_handler :: "env \<Rightarrow> handler" where
  "ListBackupRestoreRequests_handler e r c =
     (case query_int r ''limit'' 200 of
        None \<Rightarrow> bad_query ''limit must be between 1 and 200'' c
      | Some limit0 \<Rightarrow>
          let limit = (case limit0 of None \<Rightarrow> 50 | Some n \<Rightarrow> n) in
          call (ListBackupRestoreRequests (AuthStore e) limit (TrimSpace (rq_query r ''status''))) c (\<lambda>res c1.
            case res of
              Inl _ \<Rightarrow> respond_Error 500 CodeInternal ''failed to list backup restore requests'' [] c1
            | Inr rows \<Rightarrow>
                OK (JObj [(''items'', JArr (map backupRestoreRowToJSON rows)), (''limit'', JInt limit)]) c1))"

definition bind_CreateBackupRestoreRequestBody :: "json option \<Rightarrow> (string \<times> string) option" where
  "bind_CreateBackupRestoreRequestBody b =
     Option.bind (members b) (\<lambda>ms.
     Option.bind (str_field ''scope'' ms) (\<lambda>sc.
     Option.bind (str_field ''restore_point_label'' ms) (\<lambda>lb. Some (sc, lb))))"

definition restore_resource :: string where
  "restore_resource = ''backup_restore_request''"

definition id_status :: "int \<Rightarrow> string \<Rightarrow> json" where
  "id_status i st = JObj [(''id'', JInt i), (''status'', JStr st)]"

definition PostBackupRestoreRequest :: "env \<Rightarrow> handler" where
  "PostBackupRestoreRequest e r c = with_user c (\<lambda>uid.
     case bind_CreateBackupRestoreRequestBody (rq_body r) of
       None \<Rightarrow> invalid_json c
     | Some (scope0, label0) \<Rightarrow>
         let scope = TrimSpace scope0; label = TrimSpace label0 in
         if scope = '''' \<or> length scope > 64
         then bad_query ''scope is required and must be at most 64 characters'' c
         else if label = '''' \<or> length label > 256
         then bad_query ''restore_point_label is required and must be at most 256 characters'' c
         else let reason = (case platform_action_reason c of None \<Rightarrow> '''' | Some s \<Rightarrow> TrimSpace s) in
         if reason = ''''
         then respond_Error 400 CodeValidation ''missing privileged action reason''
                [(''header'', JStr PlatformActionReasonHeader)] c
         else call (CreateBackupRestoreRequest (AuthStore e) uid scope label reason (request_id c)) c (\<lambda>res c1.
           case res of
             Inl _ \<Rightarrow> respond_Error 500 CodeInternal ''failed to create backup restore request'' [] c1
           | Inr i \<Rightarrow>
               audit_admin e r uid ''backup.restore.request'' restore_resource (Itoa i) reason '''' c1
                 (OK (id_status i BackupRestoreStatusPending))))"

definition approve_refusal :: "restore_error fault \<Rightarrow> conn \<Rightarrow> conn" where
  "approve_refusal err c = (case err of
     Sentinel ErrBackupRestoreNotFound \<Rightarrow> respond_Error 404 CodeNotFound ''restore request not found'' [] c
   | Sentinel ErrBackupRestoreInvalidState \<Rightarrow> respond_Error 409 CodeConflict ''restore request is not pending'' [] c
   | Sentinel ErrBackupRestoreCannotApprove \<Rightarrow>
       respond_Error 403 CodeForbidden ''requester cannot approve own restore request'' [] c
   | Sentinel ErrBackupRestoreDuplicateSlot \<Rightarrow> respond_Error 409 CodeConflict ''same user cannot approve twice'' [] c
   | Sentinel ErrBackupRestoreAlreadyFilled \<Rightarrow>
       respond_Error 409 CodeConflict ''restore request already has two approvals'' [] c
   | _ \<Rightarrow> respond_Error 500 CodeInternal ''failed to approve restore request'' [] c)"

definition PostBackupRestoreApprove :: "env \<Rightarrow> handler" where
  "PostBackupRestoreApprove e r c = with_user c (\<lambda>uid. parseInt64Param ''id'' r c (\<lambda>i c.
     let reason = reasonFromContext r c in
     call (ApproveBackupRestoreRequest (AuthStore e) i uid) c (\<lambda>res c1.
       case res of
         Inl err \<Rightarrow> approve_refusal err c1
       | Inr _ \<Rightarrow>
           call (GetBackupRestoreRequest (AuthStore e) i) c1 (\<lambda>row c2.
           let st = (case row of Inl _ \<Rightarrow> '''' | Inr b \<Rightarrow> br_status b) in
           audit_admin e r uid ''backup.restore.approve'' restore_resource (Itoa i) reason
             (json_bytes (JObj [(''status_after'', JStr st)])) c2
             (OK (id_status i st))))))"

definition reject_refusal :: "restore_error fault \<Rightarrow> conn \<Rightarrow> conn" where
  "reject_refusal err c = (case err of
     Sentinel ErrBackupRestoreNotFound \<Rightarrow> respond_Error 404 CodeNotFound ''restore request not found'' [] c
   | Sentinel ErrBackupRestoreCannotApprove \<Rightarrow>
       respond_Error 403 CodeForbidden ''requester cannot reject as approver; use cancel instead'' [] c
   | Sentinel ErrBackupRestoreInvalidState \<Rightarrow> respond_Error 409 CodeConflict ''restore request is not pending'' [] c
   | _ \<Rightarrow> respond_Error 500 CodeInternal ''failed to reject restore request'' [] c)"

definition PostBackupRestoreReject :: "env \<Rightarrow> handler" where
  "PostBackupRestoreReject e r c = with_user c (\<lambda>uid. parseInt64Param ''id'' r c (\<lambda>i c.
     let reason = reasonFromContext r c in
     call (RejectBackupRestoreRequest (AuthStore e) i uid reason) c (\<lambda>res c1.
       case res of
         Inl err \<Rightarrow> reject_refusal err c1
       | Inr _ \<Rightarrow>
           audit_admin e r uid ''backup.restore.reject'' restore_resource (Itoa i) reason '''' c1
             (OK (id_status i BackupRestoreStatusRejected)))))"

definition PostBackupRestoreFulfill :: "env \<Rightarrow> handler" where
  "PostBackupRestoreFulfill e r c = with_user c (\<lambda>uid. parseInt64Param ''id'' r c (\<lambda>i c.
     let note = reasonFromContext r c in
     call (FulfillBackupRestoreRequest (AuthStore e) i uid note) c (\<lambda>res c1.
       case res of
         Inl (Sentinel ErrBackupRestoreInvalidState) \<Rightarrow>
           respond_Error 409 CodeConflict ''restore request is not approved'' [] c1
       | Inl _ \<Rightarrow> respond_Error 500 CodeInternal ''failed to fulfill restore request'' [] c1
       | Inr _ \<Rightarrow>
           audit_admin e r uid ''backup.restore.fulfill'' restore_resource (Itoa i) note '''' c1
             (OK (id_status i BackupRestoreStatusFulfilled)))))"

definition cancel_refusal :: "restore_error fault \<Rightarrow> conn \<Rightarrow> conn" where
  "cancel_refusal err c = (case err of
     Sentinel ErrBackupRestoreNotFound \<Rightarrow> respond_Error 404 CodeNotFound ''restore request not found'' [] c
   | Sentinel ErrBackupRestoreNotRequester \<Rightarrow> respond_Error 403 CodeForbidden ''only the requester may cancel'' [] c
   | Sentinel ErrBackupRestoreInvalidState \<Rightarrow> respond_Error 409 CodeConflict ''restore request is not pending'' [] c
   | _ \<Rightarrow> respond_Error 500 CodeInternal ''failed to cancel restore request'' [] c)"

definition PostBackupRestoreCancel :: "env \<Rightarrow> handler" where
  "PostBackupRestoreCancel e r c = with_user c (\<lambda>uid. parseInt64Param ''id'' r c (\<lambda>i c.
     let reason = reasonFromContext r c in
     call (CancelBackupRestoreRequest (AuthStore e) i uid) c (\<lambda>res c1.
       case res of
         Inl err \<Rightarrow> cancel_refusal err c1
       | Inr _ \<Rightarrow>
           audit_admin e r uid ''backup.restore.cancel'' restore_resource (Itoa i) reason '''' c1
             (OK (id_status i BackupRestoreStatusCancelled)))))"

end
