(* ===== verification/Auth_Handlers.thy ===== *)
theory Auth_Handlers
  imports Platform_Handlers
begin

text \<open>
  myhandlers/auth_session_handlers.go, auth_handlers.go and change_password.go: invitations,
  login and logout, session refresh and CSRF cookies, password changes, platform tokens, and
  the desktop exchange. A handler that needs the store answers 500 when there is none.
\<close>

section \<open>Helpers\<close>

definition with_store :: "env \<Rightarrow> conn \<Rightarrow> (store \<Rightarrow> conn) \<Rightarrow> conn" where
  "with_store e c k = (case AuthStore e of
     None \<Rightarrow> respond_Error 500 CodeInternal ''auth store not configured'' [] c
   | Some s \<Rightarrow> k s)"

text \<open>\<open>_ = AuthStore.InsertAudit(...)\<close> with the client's address and user agent.\<close>

definition audit ::
    "store \<Rightarrow> request \<Rightarrow> string \<Rightarrow> int option \<Rightarrow> string \<Rightarrow> json_text \<Rightarrow> conn \<Rightarrow> (conn \<Rightarrow> conn) \<Rightarrow> conn" where
  "audit s r event uid hint metaJSON c k =
     call (InsertAudit s event uid (clientIP r) (UserAgent r) hint metaJSON) c (\<lambda>_ c1. k c1)"

definition internal :: "string \<Rightarrow> conn \<Rightarrow> conn" where
  "internal msg c = respond_Error 500 CodeInternal msg [] c"

definition invalid_field :: "string \<Rightarrow> string \<Rightarrow> conn \<Rightarrow> conn" where
  "invalid_field msg field c = respond_Error 400 CodeValidation msg [(''field'', JStr field)] c"

definition unauthorized :: "string \<Rightarrow> conn \<Rightarrow> conn" where
  "unauthorized msg c = respond_Error 401 CodeUnauthorized msg [] c"

definition forbidden :: "string \<Rightarrow> conn \<Rightarrow> conn" where
  "forbidden msg c = respond_Error 403 CodeForbidden msg [] c"

definition normalizeEmail :: "env \<Rightarrow> string \<Rightarrow> string option" where
  "normalizeEmail e s0 =
     (let s = TrimSpace (ToLower s0) in
      if s = '''' then None
      else (case ParseAddress e s of
          None \<Rightarrow> None
        | Some (name, address) \<Rightarrow>
            if name \<noteq> '''' \<or> TrimSpace address = '''' then None
            else Some (ToLower (TrimSpace address))))"

definition emailDomainHint :: "string \<Rightarrow> string" where
  "emailDomainHint email =
     (if CHR ''@'' \<notin> set email then '''' else rev (takeWhile (\<lambda>c. c \<noteq> CHR ''@'') (rev email)))"

text \<open>\<open>int(time.Until(t).Seconds())\<close>, not below zero.\<close>

definition seconds_until :: "int \<Rightarrow> int \<Rightarrow> int" where
  "seconds_until t now = (if t - now < 0 then 0 else (t - now) div 1000000000)"

definition SetCookie :: "config \<Rightarrow> string \<Rightarrow> string \<Rightarrow> int \<Rightarrow> bool \<Rightarrow> conn \<Rightarrow> conn" where
  "SetCookie cfg name v maxAge httpOnly c = c\<lparr>resp_cookies := resp_cookies c @
     [\<lparr>ck_name = name, ck_value = v, ck_max_age = maxAge, ck_path = ''/'', ck_secure = SessionCookieSecure cfg,
       ck_http_only = httpOnly, ck_same_site = SessionSameSiteMode cfg\<rparr>]\<rparr>"

definition setSessionCookie :: "config \<Rightarrow> string \<Rightarrow> conn \<Rightarrow> conn" where
  "setSessionCookie cfg raw c =
     (let now = clock (wld c) in
      SetCookie cfg (SessionCookieName cfg) raw (seconds_until (now + SessionAbsoluteTTL cfg) now) True c)"

definition clearSessionCookie :: "config \<Rightarrow> conn \<Rightarrow> conn" where
  "clearSessionCookie cfg c = SetCookie cfg (SessionCookieName cfg) '''' (- 1) True c"

definition setCSRFCookie :: "config \<Rightarrow> string \<Rightarrow> conn \<Rightarrow> conn" where
  "setCSRFCookie cfg raw c =
     (let now = clock (wld c) in
      SetCookie cfg (CSRFCookieName cfg) raw (seconds_until (now + SessionAbsoluteTTL cfg) now) False c)"

definition clearCSRFCookie :: "config \<Rightarrow> conn \<Rightarrow> conn" where
  "clearCSRFCookie cfg c = SetCookie cfg (CSRFCookieName cfg) '''' (- 1) False c"

text \<open>The session cookie of a request, if it is not blank.\<close>

definition session_cookie :: "config \<Rightarrow> request \<Rightarrow> string option" where
  "session_cookie cfg r = (case rq_cookie r (SessionCookieName cfg) of
     None \<Rightarrow> None | Some raw \<Rightarrow> if TrimSpace raw = '''' then None else Some raw)"

section \<open>Registration and invitations (auth_session_handlers.go)\<close>

definition RegisterUser :: "config \<Rightarrow> handler" where
  "RegisterUser cfg r c = forbidden ''self-registration disabled; use invite acceptance flow'' c"

record invite_body =
  ib_Email :: string
  ib_Name :: string
  ib_Role :: string
  ib_LinkedUserID :: "int option"

definition bind_invite_body :: "json option \<Rightarrow> invite_body option" where
  "bind_invite_body b =
     Option.bind (members b) (\<lambda>ms.
     Option.bind (str_field ''email'' ms) (\<lambda>email.
     Option.bind (str_field ''name'' ms) (\<lambda>name.
     Option.bind (str_field ''role'' ms) (\<lambda>role.
     Option.bind (opt_int_field ''linked_user_id'' ms) (\<lambda>linked.
       valid (email \<noteq> '''' \<and> name \<noteq> '''' \<and> 1 \<le> rune_count name \<and> rune_count name \<le> 100 \<and>
              role \<noteq> '''' \<and> 1 \<le> rune_count role \<and> rune_count role \<le> 64)
         \<lparr>ib_Email = email, ib_Name = name, ib_Role = role, ib_LinkedUserID = linked\<rparr>)))))"

definition CreateOperatorInvite_handler :: "env \<Rightarrow> handler" where
  "CreateOperatorInvite_handler e r c = with_store e c (\<lambda>s.
     case AuthUserIDFromContext c of
       None \<Rightarrow> forbidden ''signed-in operator required'' c
     | Some inviterID \<Rightarrow>
     (case bind_invite_body (rq_body r) of
       None \<Rightarrow> invalid_field ''invalid request body'' ''body'' c
     | Some body \<Rightarrow>
     (case normalizeEmail e (ib_Email body) of
       None \<Rightarrow> invalid_field ''invalid email'' ''email'' c
     | Some email \<Rightarrow>
         let name = TrimSpace (ib_Name body); roleName = TrimSpace (ib_Role body) in
         if name = '''' then invalid_field ''name is required'' ''name'' c
         else if roleName = '''' then invalid_field ''role is required'' ''role'' c
         else call NewOpaqueToken c (\<lambda>tok c1.
           case tok of
             None \<Rightarrow> internal ''failed to create invite token'' c1
           | Some rawToken \<Rightarrow>
               let expiresAt = clock (wld c1) + OperatorInviteTTL (AppConfig e) in
               call (CreateOperatorInvite (Some s) (HashOpaqueToken rawToken) email name roleName
                   (ib_LinkedUserID body) (Some inviterID) expiresAt '''') c1 (\<lambda>res c2.
                 case res of
                   Inl _ \<Rightarrow> internal ''failed to create invite'' c2
                 | Inr _ \<Rightarrow>
                     let expires = FormatRFC3339 e expiresAt in
                     audit s r ''auth_operator_invite_created'' (Some inviterID) email
                       (json_bytes (JObj [(''role'', JStr roleName), (''expires_at'', JStr expires)])) c2
                       (JSONOK 201 (JObj [(''invite_token'', JStr rawToken), (''email'', JStr email),
                          (''role'', JStr roleName), (''expires_at'', JStr expires)])))))))"

record accept_body =
  ab_InviteToken :: string
  ab_Email :: string
  ab_Password :: string
  ab_Name :: string

definition bind_accept_body :: "json option \<Rightarrow> accept_body option" where
  "bind_accept_body b =
     Option.bind (members b) (\<lambda>ms.
     Option.bind (str_field ''invite_token'' ms) (\<lambda>tok.
     Option.bind (str_field ''email'' ms) (\<lambda>email.
     Option.bind (str_field ''password'' ms) (\<lambda>pw.
     Option.bind (str_field ''name'' ms) (\<lambda>name.
       valid (tok \<noteq> '''' \<and> email \<noteq> '''' \<and> pw \<noteq> '''')
         \<lparr>ab_InviteToken = tok, ab_Email = email, ab_Password = pw, ab_Name = name\<rparr>)))))"

definition accept_error :: "invite_error fault \<Rightarrow> conn \<Rightarrow> conn" where
  "accept_error err c = (case err of
     Sentinel ErrOperatorInviteNotFound \<Rightarrow> unauthorized ''invite is invalid or expired'' c
   | Sentinel ErrOperatorInviteExpired \<Rightarrow> unauthorized ''invite is invalid or expired'' c
   | Sentinel ErrOperatorInviteUsed \<Rightarrow> unauthorized ''invite is invalid or expired'' c
   | Sentinel ErrOperatorInviteEmailMismatch \<Rightarrow> unauthorized ''invite email does not match'' c
   | Sentinel ErrOperatorRoleNotFound \<Rightarrow> respond_Error 400 CodeValidation ''invite role is invalid'' [] c
   | Sentinel ErrOperatorEmailExists \<Rightarrow>
       respond_Error 409 CodeConflict ''an operator account already exists for this invite'' [] c
   | _ \<Rightarrow> internal ''failed to accept invite'' c)"

definition AcceptOperatorInvite_handler :: "env \<Rightarrow> handler" where
  "AcceptOperatorInvite_handler e r c = with_store e c (\<lambda>s.
     case bind_accept_body (rq_body r) of
       None \<Rightarrow> invalid_field ''invalid request body'' ''body'' c
     | Some body \<Rightarrow>
         if ValidatePasswordLength (ab_Password body) \<noteq> None
         then respond_Error 400 CodeValidation ''password does not meet policy''
                [(''field'', JStr ''password''), (''min_len'', JInt 8)] c
         else let inviteToken = TrimSpace (ab_InviteToken body) in
         if inviteToken = '''' then invalid_field ''invite_token is required'' ''invite_token'' c
         else (case normalizeEmail e (ab_Email body) of
             None \<Rightarrow> invalid_field ''invalid email'' ''email'' c
           | Some email \<Rightarrow> call (HashPassword (IDKey e) (ab_Password body)) c (\<lambda>hashed c1.
               case hashed of
                 Inl _ \<Rightarrow> respond_Error 400 CodeValidation ''password does not meet policy'' [] c1
               | Inr hash \<Rightarrow>
                   call (AcceptOperatorInvite (Some s) (HashOpaqueToken inviteToken) email hash (TrimSpace (ab_Name body))) c1
                     (\<lambda>res c2. case res of
                        Inl err \<Rightarrow> accept_error err c2
                      | Inr x \<Rightarrow>
                          audit s r ''auth_operator_invite_accepted'' (Some (ir_LinkedUserID x)) (ir_Email x) '''' c2
                            (JSONOK 201 (JObj [(''user_id'', JInt (ir_LinkedUserID x)), (''email'', JStr (ir_Email x)),
                               (''role'', JStr (ir_RoleName x))]))))))"

section \<open>Login, logout, refresh\<close>

definition authLoginFail :: "store \<Rightarrow> request \<Rightarrow> int option \<Rightarrow> string \<Rightarrow> string \<Rightarrow> conn \<Rightarrow> (conn \<Rightarrow> conn) \<Rightarrow> conn" where
  "authLoginFail s r uid email reason c k =
     audit s r ''auth_login_failure'' uid email (json_bytes (JObj [(''reason'', JStr reason)])) c k"

definition bind_login_body :: "json option \<Rightarrow> (string \<times> string) option" where
  "bind_login_body b =
     Option.bind (members b) (\<lambda>ms.
     Option.bind (str_field ''email'' ms) (\<lambda>email.
     Option.bind (str_field ''password'' ms) (\<lambda>pw. valid (email \<noteq> '''' \<and> pw \<noteq> '''') (email, pw))))"

text \<open>After the password has been verified: the session, its cookies and the answer.\<close>

definition open_session :: "env \<Rightarrow> store \<Rightarrow> request \<Rightarrow> int \<Rightarrow> string \<Rightarrow> conn \<Rightarrow> conn" where
  "open_session e s r uid email c0 =
     call (\<lambda>w. (TouchOperatorLoginByEmail (Some s) email w :: (unit, unit) result \<times> world))
       (recordLoginSuccessClearThrottle email c0) (\<lambda>_ c1.
     call NewOpaqueToken c1 (\<lambda>tok c2.
       case tok of
         None \<Rightarrow> internal ''login failed'' c2
       | Some raw \<Rightarrow>
           call (CreateSession s uid raw (clientIP r) (UserAgent r)) c2 (\<lambda>res c3.
             case res of
               Inl _ \<Rightarrow> internal ''login failed'' c3
             | Inr _ \<Rightarrow>
                 audit s r ''auth_login_success'' (Some uid) email '''' c3 (\<lambda>c4.
                 call NewOpaqueToken (setSessionCookie (AppConfig e) raw c4) (\<lambda>csrfTok c5.
                   case csrfTok of
                     None \<Rightarrow> internal ''login failed'' c5
                   | Some t \<Rightarrow>
                       JSONOK 200 (JObj [(''user_id'', JInt uid), (''email'', JStr email)])
                         (setCSRFCookie (AppConfig e) t c5))))))"

definition login_denied :: "conn \<Rightarrow> conn" where
  "login_denied c = unauthorized ''invalid email or password'' c"

definition LoginUser :: "env \<Rightarrow> handler" where
  "LoginUser e r c =
     (if \<not> database_open e then internal ''auth store not configured'' c
      else with_store e c (\<lambda>s.
     case bind_login_body (rq_body r) of
       None \<Rightarrow> invalid_field ''invalid request body'' ''body'' c
     | Some (email0, password) \<Rightarrow>
     (case normalizeEmail e email0 of
       None \<Rightarrow> authLoginFail s r None '''' ''invalid_email'' c login_denied
     | Some email \<Rightarrow>
     (case loginEmailLocked email c of
       ((True, retry), c1) \<Rightarrow>
         let sec = retry div 1000000000 + 1; sec = (if sec < 1 then 1 else sec) in
         respond_Error 429 CodeRateLimited ''too many login attempts; try again later''
           [(''retry_after_seconds'', JInt sec)] c1
     | ((False, _), c1) \<Rightarrow>
         call (\<lambda>w. (GetUserAuthByEmail email w :: (unit, int \<times> string) result \<times> world)) c1 (\<lambda>res c2.
           case res of
             Inl NoRows \<Rightarrow> authLoginFail s r None email ''unknown_user_or_no_password'' c2 login_denied
           | Inl _ \<Rightarrow> internal ''login failed'' c2
           | Inr (uid, hash) \<Rightarrow>
               if TrimSpace hash = ''''
               then authLoginFail s r None email ''unknown_user_or_no_password'' c2 login_denied
               else if VerifyPassword (IDKey e) password hash \<noteq> Inr True
               then authLoginFail s r (Some uid) email ''bad_password'' (recordLoginFailureKnownUser email c2) login_denied
               else open_session e s r uid email c2)))))"

definition LogoutUser :: "env \<Rightarrow> handler" where
  "LogoutUser e r c = with_store e c (\<lambda>s.
     let cfg = AppConfig e;
         answer = (\<lambda>c. JSONOK 200 (JObj [(''logged_out'', JBool True)]) (clearCSRFCookie cfg (clearSessionCookie cfg c)))
     in (case session_cookie cfg r of
           None \<Rightarrow> answer c
         | Some raw \<Rightarrow> call (RevokeSessionByRawToken s raw) c (\<lambda>_ c1.
             audit s r ''auth_logout'' None '''' '''' c1 answer)))"

definition RefreshSession_handler :: "env \<Rightarrow> handler" where
  "RefreshSession_handler e r c = with_store e c (\<lambda>s.
     case session_cookie (AppConfig e) r of
       None \<Rightarrow> unauthorized ''missing session'' c
     | Some raw \<Rightarrow> call (RefreshSession s raw) c (\<lambda>res c1.
         case res of
           Inl _ \<Rightarrow> unauthorized ''invalid or expired session'' c1
         | Inr uid \<Rightarrow>
             audit s r ''auth_refresh'' (Some uid) '''' '''' c1 (\<lambda>c2.
             call NewOpaqueToken (setSessionCookie (AppConfig e) raw c2) (\<lambda>tok c3.
               case tok of
                 None \<Rightarrow> internal ''refresh failed'' c3
               | Some t \<Rightarrow> JSONOK 200 (JObj [(''refreshed'', JBool True), (''user_id'', JInt uid)])
                   (setCSRFCookie (AppConfig e) t c3)))))"

definition GetAuthCSRF :: "env \<Rightarrow> handler" where
  "GetAuthCSRF e r c = with_store e c (\<lambda>s.
     case session_cookie (AppConfig e) r of
       None \<Rightarrow> unauthorized ''missing session'' c
     | Some raw \<Rightarrow> call (ValidateSession s raw) c (\<lambda>res c1.
         case res of
           Inl _ \<Rightarrow> unauthorized ''invalid or expired session'' c1
         | Inr _ \<Rightarrow> call NewOpaqueToken c1 (\<lambda>tok c2.
             case tok of
               None \<Rightarrow> internal ''failed to issue csrf'' c2
             | Some t \<Rightarrow> JSONOK 200 (JObj [(''csrf_ready'', JBool True)]) (setCSRFCookie (AppConfig e) t c2))))"

section \<open>Changing the password (change_password.go)\<close>

text \<open>The subject check of three handlers: \<open>user:\<close> and a positive number.\<close>

definition user_of_subject :: "string \<Rightarrow> conn \<Rightarrow> (string \<Rightarrow> int \<Rightarrow> conn) \<Rightarrow> conn" where
  "user_of_subject msg c k =
     (let sub = TrimSpace (auth_subject c) in
      if \<not> HasPrefix sub ''user:'' then forbidden msg c
      else (case Atoi (TrimPrefix sub ''user:'') of
          None \<Rightarrow> unauthorized ''invalid session subject'' c
        | Some uid \<Rightarrow> if uid \<le> 0 then unauthorized ''invalid session subject'' c else k sub uid))"

definition bind_change_body :: "json option \<Rightarrow> (string \<times> string) option" where
  "bind_change_body b =
     Option.bind (members b) (\<lambda>ms.
     Option.bind (str_field ''current_password'' ms) (\<lambda>cur.
     Option.bind (str_field ''new_password'' ms) (\<lambda>new. valid (cur \<noteq> '''' \<and> new \<noteq> '''') (cur, new))))"

definition ChangePassword :: "env \<Rightarrow> handler" where
  "ChangePassword e r c = with_store e c (\<lambda>s.
     user_of_subject ''password change requires a user session'' c (\<lambda>sub uid.
     case bind_change_body (rq_body r) of
       None \<Rightarrow> invalid_field ''invalid request body'' ''body'' c
     | Some (currentPassword, newPassword) \<Rightarrow>
         if ValidatePasswordLength newPassword \<noteq> None
         then respond_Error 400 CodeValidation ''new password does not meet policy''
                [(''field'', JStr ''new_password''), (''min_len'', JInt 8)] c
         else call (\<lambda>w. (GetUserPasswordHashByID uid w :: (unit, string) result \<times> world)) c (\<lambda>res c1.
           case res of
             Inl NoRows \<Rightarrow> respond_Error 404 CodeNotFound ''user not found'' [] c1
           | Inl _ \<Rightarrow> internal ''failed to load credentials'' c1
           | Inr hash \<Rightarrow>
               if TrimSpace hash = '''' then forbidden ''password login not enabled for this account'' c1
               else if VerifyPassword (IDKey e) currentPassword hash \<noteq> Inr True
               then unauthorized ''current password incorrect'' c1
               else call (HashPassword (IDKey e) newPassword) c1 (\<lambda>hashed c2.
                 case hashed of
                   Inl _ \<Rightarrow> respond_Error 400 CodeValidation ''new password does not meet policy'' [] c2
                 | Inr newHash \<Rightarrow>
                     call (\<lambda>w. (UpdateUserPasswordHash uid newHash w :: (unit, unit) result \<times> world)) c2 (\<lambda>upd c3.
                       case upd of
                         Inl _ \<Rightarrow> internal ''failed to update password'' c3
                       | Inr _ \<Rightarrow> call (RevokeAllSessionsForUser uid) c3 (\<lambda>rev c4.
                           case rev of
                             Inl _ \<Rightarrow> internal ''failed to revoke sessions'' c4
                           | Inr _ \<Rightarrow>
                               audit s r ''auth_password_changed'' (Some uid) '''' '''' c4 (\<lambda>c5.
                                 JSONOK 200 (JObj [(''password_changed'', JBool True), (''relogin_required'', JBool True)])
                                   (clearCSRFCookie (AppConfig e) (clearSessionCookie (AppConfig e) c5)))))))))"

end
