(* ===== verification/Token_Handlers.thy ===== *)
theory Token_Handlers
  imports Auth_Handlers
begin

text \<open>
  myhandlers/auth_handlers.go: platform tokens by client credentials or the bootstrap bridge,
  join tokens, and the desktop exchange with its PKCE challenge.
\<close>

section \<open>Checks on texts\<close>

definition secureStringEq :: "string \<Rightarrow> string \<Rightarrow> bool" where
  "secureStringEq a b = (if length a \<noteq> length b then False else a = b)"

definition originAllowed :: "string \<Rightarrow> string list \<Rightarrow> bool" where
  "originAllowed origin allowlist = list_ex (\<lambda>allowed. EqualFold_ascii (TrimSpace allowed) origin) allowlist"

definition clientIPAllowedForBootstrap :: "env \<Rightarrow> string \<Rightarrow> string list \<Rightarrow> bool" where
  "clientIPAllowedForBootstrap e raw allowedCIDRs =
     (let ipText = TrimSpace raw in
      if ipText = '''' then False
      else if \<not> ParseAddr e ipText then False
      else list_ex (\<lambda>cidr. PrefixContains e (TrimSpace cidr) ipText = Some True) allowedCIDRs)"

definition port_ok :: "string \<Rightarrow> bool" where
  "port_ok p = (if p = '''' then True
     else (case Atoi p of None \<Rightarrow> False | Some n \<Rightarrow> \<not> (n < 1 \<or> n > 65535)))"

definition isAllowedLoopbackCallbackURI :: "env \<Rightarrow> string \<Rightarrow> string list \<Rightarrow> bool" where
  "isAllowedLoopbackCallbackURI e raw allowedHosts =
     (case UrlParse e raw of
        None \<Rightarrow> False
      | Some u \<Rightarrow>
          if \<not> EqualFold_ascii (url_Scheme u) ''http'' then False
          else if url_has_User u \<or> TrimSpace (url_Fragment u) \<noteq> '''' then False
          else if \<not> port_ok (url_Port u) then False
          else let host = ToLower (TrimSpace (url_Hostname u)) in
            if host = '''' then False
            else list_ex (\<lambda>allowed. host = ToLower (TrimSpace allowed)) allowedHosts)"

definition char_in :: "char \<Rightarrow> nat \<Rightarrow> nat \<Rightarrow> bool" where
  "char_in b lo hi \<longleftrightarrow> lo \<le> (of_char b :: nat) \<and> (of_char b :: nat) \<le> hi"

definition is_alnum :: "char \<Rightarrow> bool" where
  "is_alnum b \<longleftrightarrow> char_in b 97 122 \<or> char_in b 65 90 \<or> char_in b 48 57"

definition isValidOpaqueCode :: "string \<Rightarrow> bool" where
  "isValidOpaqueCode raw \<longleftrightarrow> length raw = 64 \<and> list_all (\<lambda>b. char_in b 48 57 \<or> char_in b 97 102) raw"

definition isValidCodeChallenge :: "string \<Rightarrow> bool" where
  "isValidCodeChallenge v \<longleftrightarrow> length v = 43 \<and> list_all (\<lambda>b. is_alnum b \<or> b = CHR ''-'' \<or> b = CHR ''_'') v"

definition isValidCodeVerifier :: "string \<Rightarrow> bool" where
  "isValidCodeVerifier v \<longleftrightarrow> 43 \<le> length v \<and> length v \<le> 128 \<and>
     list_all (\<lambda>b. is_alnum b \<or> b = CHR ''-'' \<or> b = CHR ''.'' \<or> b = CHR ''_'' \<or> b = CHR ''~'') v"

definition pkceS256 :: "string \<Rightarrow> string" where
  "pkceS256 verifier = b64_encode URLAlphabet (sha256 verifier)"

section \<open>Platform tokens\<close>

definition client_token ::
    "env \<Rightarrow> string \<Rightarrow> (string \<times> json) list \<Rightarrow> conn \<Rightarrow> conn" where
  "client_token e clientID extra c =
     (case TokenSvc e of
        None \<Rightarrow> internal ''token service not configured'' c
      | Some ts \<Rightarrow> call (MintAccessToken (JWT e) ts (''client:'' @ clientID)) c (\<lambda>res c1.
          case res of
            Inl _ \<Rightarrow> internal ''failed to issue token'' c1
          | Inr (rawToken, expires) \<Rightarrow>
              JSONOK 200 (JObj ([(''access_token'', JStr rawToken), (''token_type'', JStr ''Bearer''),
                (''expires_in'', JInt (seconds_until expires (clock (wld c1))))] @ extra)) c1))"

definition issueTokenResponse :: "env \<Rightarrow> string \<Rightarrow> conn \<Rightarrow> conn" where
  "issueTokenResponse e clientID c = client_token e clientID [] c"

definition issueBootstrapTokenResponse :: "env \<Rightarrow> string \<Rightarrow> conn \<Rightarrow> conn" where
  "issueBootstrapTokenResponse e clientID c = client_token e clientID
     [(''bootstrap'', JObj [(''temporary'', JBool True), (''deprecated'', JBool True),
        (''migrate_to'', JStr ''POST /api/v1/auth/login''),
        (''disable_env'', JStr ''AUTH_BOOTSTRAP_ENABLED=false''),
        (''session_cookie'', JStr ''gl_session (see SESSION_COOKIE_NAME)'')])] c"

record token_body =
  tb_GrantType :: string
  tb_ClientID :: string
  tb_ClientSecret :: string

definition bind_token_body :: "json option \<Rightarrow> token_body option" where
  "bind_token_body b =
     Option.bind (members b) (\<lambda>ms.
     Option.bind (str_field ''grant_type'' ms) (\<lambda>g.
     Option.bind (str_field ''client_id'' ms) (\<lambda>i.
     Option.bind (str_field ''client_secret'' ms) (\<lambda>s.
       valid (g \<noteq> '''' \<and> i \<noteq> '''' \<and> s \<noteq> '''')
         \<lparr>tb_GrantType = g, tb_ClientID = i, tb_ClientSecret = s\<rparr>))))"

definition IssueToken :: "env \<Rightarrow> handler" where
  "IssueToken e r c =
     (case bind_token_body (rq_body r) of
        None \<Rightarrow> invalid_field ''invalid request body'' ''body'' c
      | Some body \<Rightarrow>
          if TrimSpace (tb_GrantType body) \<noteq> ''client_credentials''
          then respond_Error 400 CodeValidation ''unsupported grant_type'' [(''grant_type'', JStr (tb_GrantType body))] c
          else if \<not> secureStringEq (TrimSpace (tb_ClientID body)) (PlatformClientID (AppConfig e)) \<or>
                  \<not> secureStringEq (tb_ClientSecret body) (PlatformClientSecret (AppConfig e))
          then unauthorized ''invalid client credentials'' c
          else if TokenSvc e = None then internal ''token service not configured'' c
          else issueTokenResponse e (PlatformClientID (AppConfig e)) c)"

definition IssueBootstrapToken :: "env \<Rightarrow> handler" where
  "IssueBootstrapToken e r c =
     (let cfg = AppConfig e in
      if \<not> AuthBootstrapEnabled cfg then forbidden ''bootstrap auth disabled; use user login'' c
      else let origin = TrimSpace (rq_header r ''Origin'') in
      if origin = '''' then forbidden ''origin required'' c
      else if \<not> originAllowed origin (CORSAllowedOrigins cfg) then forbidden ''origin not allowed'' c
      else if \<not> clientIPAllowedForBootstrap e (clientIP r) (AuthBootstrapAllowedCIDRs cfg)
      then forbidden ''bootstrap client IP not allowed'' c
      else let issue = issueBootstrapTokenResponse e (PlatformClientID cfg) in
        (case AuthStore e of
           None \<Rightarrow> issue c
         | Some s \<Rightarrow> audit s r ''auth_bootstrap_used'' None origin '''' c issue))"

section \<open>Join tokens\<close>

definition session_id_ok :: "string \<Rightarrow> bool" where
  "session_id_ok s \<longleftrightarrow> \<not> (length s < 3 \<or> length s > 128)"

definition bad_session_id :: "conn \<Rightarrow> conn" where
  "bad_session_id c = invalid_field ''session_id must be between 3 and 128 characters'' ''session_id'' c"

definition bind_join_body :: "json option \<Rightarrow> string option" where
  "bind_join_body b =
     Option.bind (members b) (\<lambda>ms. Option.bind (str_field ''session_id'' ms) (\<lambda>s. valid (s \<noteq> '''') s))"

definition IssueJoinToken :: "env \<Rightarrow> handler" where
  "IssueJoinToken e r c =
     user_of_subject ''join token requires an authenticated user'' c (\<lambda>sub userID.
     case bind_join_body (rq_body r) of
       None \<Rightarrow> invalid_field ''invalid request body'' ''body'' c
     | Some sid \<Rightarrow>
         let sessionID = TrimSpace sid in
         if \<not> session_id_ok sessionID then bad_session_id c
         else (case TokenSvc e of
             None \<Rightarrow> internal ''token service not configured'' c
           | Some ts \<Rightarrow> call (MintJoinToken (JWT e) ts sub sessionID (JoinTokenTTL (AppConfig e))) c (\<lambda>res c1.
               case res of
                 Inl _ \<Rightarrow> internal ''failed to issue join token'' c1
               | Inr (rawToken, expires) \<Rightarrow>
                   let answer = (\<lambda>c2. JSONOK 200 (JObj [(''join_token'', JStr rawToken), (''token_type'', JStr ''Bearer''),
                          (''expires_in'', JInt (seconds_until expires (clock (wld c2)))),
                          (''session_id'', JStr sessionID)]) c2)
                   in (case AuthStore e of
                         None \<Rightarrow> answer c1
                       | Some s \<Rightarrow> audit s r ''auth_join_token_issued'' (Some userID) sub
                           (json_bytes (JObj [(''session_id'', JStr sessionID), (''token_use'', JStr ''join'')])) c1 answer))))"

section \<open>The desktop exchange\<close>

definition desktop_failure ::
    "store \<Rightarrow> request \<Rightarrow> string \<Rightarrow> int option \<Rightarrow> string \<Rightarrow> string \<Rightarrow> (string \<times> json) list \<Rightarrow> conn \<Rightarrow> (conn \<Rightarrow> conn) \<Rightarrow> conn" where
  "desktop_failure s r event userID subject reason extra c k =
     audit s r event userID subject (json_bytes (JObj ((''reason'', JStr reason) # extra))) c k"

definition recordDesktopExchangeStartFailure ::
    "store \<Rightarrow> request \<Rightarrow> int option \<Rightarrow> string \<Rightarrow> string \<Rightarrow> (string \<times> json) list \<Rightarrow> conn \<Rightarrow> (conn \<Rightarrow> conn) \<Rightarrow> conn" where
  "recordDesktopExchangeStartFailure s r = desktop_failure s r ''auth_desktop_exchange_start_failure''"

definition recordDesktopExchangeFailure ::
    "store \<Rightarrow> request \<Rightarrow> int option \<Rightarrow> string \<Rightarrow> string \<Rightarrow> (string \<times> json) list \<Rightarrow> conn \<Rightarrow> (conn \<Rightarrow> conn) \<Rightarrow> conn" where
  "recordDesktopExchangeFailure s r = desktop_failure s r ''auth_desktop_exchange_failure''"

record start_body =
  sb_SessionID :: string
  sb_CodeChallenge :: string
  sb_CallbackURI :: string

definition bind_start_body :: "json option \<Rightarrow> start_body option" where
  "bind_start_body b =
     Option.bind (members b) (\<lambda>ms.
     Option.bind (str_field ''session_id'' ms) (\<lambda>s.
     Option.bind (str_field ''code_challenge'' ms) (\<lambda>ch.
     Option.bind (str_field ''callback_uri'' ms) (\<lambda>cb.
       valid (s \<noteq> '''' \<and> ch \<noteq> '''') \<lparr>sb_SessionID = s, sb_CodeChallenge = ch, sb_CallbackURI = cb\<rparr>))))"

definition StartDesktopExchangeCode :: "env \<Rightarrow> handler" where
  "StartDesktopExchangeCode e r c = with_store e c (\<lambda>s.
     user_of_subject ''desktop exchange requires an authenticated user'' c (\<lambda>sub userID.
     case bind_start_body (rq_body r) of
       None \<Rightarrow> invalid_field ''invalid request body'' ''body'' c
     | Some body \<Rightarrow>
         let cfg = AppConfig e; sessionID = TrimSpace (sb_SessionID body) in
         if \<not> session_id_ok sessionID then bad_session_id c
         else let codeChallenge = TrimSpace (sb_CodeChallenge body) in
         if \<not> isValidCodeChallenge codeChallenge
         then recordDesktopExchangeStartFailure s r (Some userID) sub ''invalid_code_challenge'' [] c
                (invalid_field ''code_challenge must be a valid PKCE S256 challenge'' ''code_challenge'')
         else let callbackURI = TrimSpace (sb_CallbackURI body) in
         if callbackURI \<noteq> '''' \<and> \<not> isAllowedLoopbackCallbackURI e callbackURI (DesktopExchangeCallbackHosts cfg)
         then recordDesktopExchangeStartFailure s r (Some userID) sub ''invalid_callback_uri''
                [(''callback_uri'', JStr callbackURI)] c
                (invalid_field ''callback_uri must be a loopback http URL'' ''callback_uri'')
         else call NewOpaqueToken c (\<lambda>tok c1.
           case tok of
             None \<Rightarrow> internal ''failed to create exchange code'' c1
           | Some rawCode \<Rightarrow>
               call (CreateDesktopExchangeCode s userID rawCode codeChallenge sessionID callbackURI
                   (DesktopExchangeCodeTTL cfg)) c1 (\<lambda>res c2.
                 case res of
                   Inl _ \<Rightarrow> internal ''failed to save exchange code'' c2
                 | Inr _ \<Rightarrow>
                     audit s r ''auth_desktop_exchange_start'' (Some userID) sub
                       (json_bytes (JObj [(''session_id'', JStr sessionID), (''callback_uri'', JStr callbackURI),
                          (''pkce'', JStr ''s256'')])) c2
                       (JSONOK 200 (JObj [(''exchange_code'', JStr rawCode),
                          (''expires_in'', JInt (DesktopExchangeCodeTTL cfg div 1000000000)),
                          (''session_id'', JStr sessionID), (''callback_uri'', JStr callbackURI),
                          (''pkce_method'', JStr ''S256'')]))))))"

definition bind_exchange_body :: "json option \<Rightarrow> (string \<times> string) option" where
  "bind_exchange_body b =
     Option.bind (members b) (\<lambda>ms.
     Option.bind (str_field ''exchange_code'' ms) (\<lambda>code.
     Option.bind (str_field ''code_verifier'' ms) (\<lambda>v. valid (code \<noteq> '''' \<and> v \<noteq> '''') (code, v))))"

definition exchange_denied :: "conn \<Rightarrow> conn" where
  "exchange_denied c = unauthorized ''exchange code is invalid or expired'' c"

definition redeem_error :: "store \<Rightarrow> request \<Rightarrow> session_error fault \<Rightarrow> conn \<Rightarrow> conn" where
  "redeem_error s r err c = (case err of
     Sentinel ErrExchangeCodeNotFound \<Rightarrow> recordDesktopExchangeFailure s r None '''' ''code_not_found'' [] c exchange_denied
   | Sentinel ErrExchangeCodeUsed \<Rightarrow> recordDesktopExchangeFailure s r None '''' ''code_already_used'' [] c exchange_denied
   | Sentinel ErrExchangeCodeExpired \<Rightarrow> recordDesktopExchangeFailure s r None '''' ''code_expired'' [] c exchange_denied
   | _ \<Rightarrow> recordDesktopExchangeFailure s r None '''' ''exchange_internal_error'' [] c (internal ''failed to exchange code''))"

text \<open>After the code has been redeemed: the verifier must match its challenge.\<close>

definition desktop_token :: "env \<Rightarrow> store \<Rightarrow> TokenService \<Rightarrow> request \<Rightarrow> string \<Rightarrow> DesktopExchangeCode \<Rightarrow> conn \<Rightarrow> conn" where
  "desktop_token e s ts r codeVerifier row c =
     (let expectedChallenge = TrimSpace (dx_code_challenge row);
          actualChallenge = pkceS256 codeVerifier;
          sub = ''user:'' @ Itoa (dx_user_id row)
      in if expectedChallenge = '''' \<or> expectedChallenge \<noteq> actualChallenge
         then recordDesktopExchangeFailure s r (Some (dx_user_id row)) sub ''code_verifier_mismatch''
                [(''session_id'', JStr (dx_session_id row))] c exchange_denied
         else call (MintDesktopAccessToken (JWT e) ts sub (dx_session_id row)) c (\<lambda>res c1.
           case res of
             Inl _ \<Rightarrow> internal ''failed to issue desktop token'' c1
           | Inr (rawToken, expires) \<Rightarrow>
               audit s r ''auth_desktop_exchange_success'' (Some (dx_user_id row)) sub
                 (json_bytes (JObj [(''session_id'', JStr (dx_session_id row)), (''token_use'', JStr ''desktop_access'')])) c1
                 (\<lambda>c2. JSONOK 200 (JObj [(''access_token'', JStr rawToken), (''token_type'', JStr ''Bearer''),
                    (''expires_in'', JInt (seconds_until expires (clock (wld c2)))),
                    (''session_id'', JStr (dx_session_id row)), (''token_use'', JStr ''desktop_access'')]) c2)))"

definition ExchangeDesktopCode :: "env \<Rightarrow> handler" where
  "ExchangeDesktopCode e r c = with_store e c (\<lambda>s.
     case TokenSvc e of
       None \<Rightarrow> internal ''token service not configured'' c
     | Some ts \<Rightarrow>
     (case bind_exchange_body (rq_body r) of
       None \<Rightarrow> recordDesktopExchangeFailure s r None '''' ''invalid_request_body'' [] c
                 (invalid_field ''invalid request body'' ''body'')
     | Some (code, verifier) \<Rightarrow>
         let rawCode = TrimSpace code in
         if \<not> isValidOpaqueCode rawCode
         then recordDesktopExchangeFailure s r None '''' ''invalid_exchange_code_format'' [] c
                (invalid_field ''exchange_code is invalid'' ''exchange_code'')
         else let codeVerifier = TrimSpace verifier in
         if \<not> isValidCodeVerifier codeVerifier
         then recordDesktopExchangeFailure s r None '''' ''invalid_code_verifier'' [] c
                (invalid_field ''code_verifier is invalid'' ''code_verifier'')
         else call (RedeemDesktopExchangeCode s rawCode) c (\<lambda>res c1.
           case res of
             Inl err \<Rightarrow> redeem_error s r err c1
           | Inr row \<Rightarrow> desktop_token e s ts r codeVerifier row c1)))"

end
