(* ===== verification/User_Handlers.thy ===== *)
theory User_Handlers
  imports Auth_Handlers
begin

text \<open>
  myhandlers/sqlhandlers.go and myhandlers/myhandlers.go: the user records, their deletion,
  and the health and readiness probes. These handlers send their statements themselves; the
  database is open.
\<close>

section \<open>Reading users\<close>

definition parseID :: "string \<Rightarrow> int option" where
  "parseID idParam = (case Atoi idParam of None \<Rightarrow> None | Some i \<Rightarrow> if i \<le> 0 then None else Some i)"

definition user_json :: "user_row \<Rightarrow> json" where
  "user_json u = JObj [(''id'', JInt (us_id u)), (''name'', JStr (us_name u)), (''pennies'', JInt (us_pennies u))]"

text \<open>\<open>ORDER BY pennies DESC, id ASC\<close> over the users that are not deleted.\<close>

definition ranked :: "user_row list \<Rightarrow> user_row list" where
  "ranked us = sort_key (\<lambda>u. - us_pennies u) (sort_key us_id us)"

definition live_users :: "(user_row \<Rightarrow> bool) \<Rightarrow> database \<Rightarrow> user_row list" where
  "live_users P d = ranked (filter (\<lambda>u. us_deleted_at u = None \<and> P u) (users d))"

definition list_users :: "(user_row \<Rightarrow> bool) \<Rightarrow> string \<Rightarrow> conn \<Rightarrow> conn" where
  "list_users P fail_msg c =
     call (\<lambda>w. (query (\<lambda>_. live_users P) w :: (unit, user_row list) result \<times> world)) c (\<lambda>res c1.
       case res of
         Inl _ \<Rightarrow> respond_Error 500 CodeInternal fail_msg [] c1
       | Inr us \<Rightarrow> OK (JArr (map user_json us)) c1)"

definition GetUsers :: handler where
  "GetUsers r c = list_users (\<lambda>_. True) ''failed to query users'' c"

text \<open>
  \<open>LIKE\<close> with the pattern \<open>%\<close>, the text, \<open>%\<close>: a percent sign in the text stands for
  any characters, an underscore for one, a backslash for the next character itself. Letters
  are compared as they are (the collation of the column is not modelled).
\<close>

fun like :: "string \<Rightarrow> string \<Rightarrow> bool" where
  "like [] s \<longleftrightarrow> s = []"
| "like (p # ps) s \<longleftrightarrow>
     (if p = CHR ''%'' then like ps s \<or> (case s of [] \<Rightarrow> False | _ # cs \<Rightarrow> like (p # ps) cs)
      else (case s of [] \<Rightarrow> False
            | c # cs \<Rightarrow>
                if p = CHR ''_'' then like ps cs
                else if p = CHR 0x5C then
                  (case ps of [] \<Rightarrow> c = p \<and> cs = [] | q # qs \<Rightarrow> c = q \<and> like qs cs)
                else c = p \<and> like ps cs))"

definition SearchUsers :: handler where
  "SearchUsers r c =
     (let name = TrimSpace (rq_query r ''name'') in
      if name = '''' then OK (JArr []) c
      else list_users (\<lambda>u. like (''%'' @ name @ ''%'') (us_name u)) ''failed to search users'' c)"

definition bad_id :: "conn \<Rightarrow> conn" where
  "bad_id c = invalid_field ''id must be a positive integer'' ''id'' c"

definition user_not_found :: "int \<Rightarrow> conn \<Rightarrow> conn" where
  "user_not_found i c = respond_Error 404 CodeNotFound ''user not found'' [(''id'', JInt i)] c"

definition find_live_user :: "int \<Rightarrow> database \<Rightarrow> user_row option" where
  "find_live_user i d = List.find (\<lambda>u. us_id u = i \<and> us_deleted_at u = None) (users d)"

definition GetUserByID :: handler where
  "GetUserByID r c =
     (case parseID (rq_param r ''id'') of
        None \<Rightarrow> bad_id c
      | Some i \<Rightarrow>
          call (\<lambda>w. (query (\<lambda>_. find_live_user i) w :: (unit, user_row option) result \<times> world)) c (\<lambda>res c1.
            case res of
              Inl _ \<Rightarrow> internal ''failed to fetch user'' c1
            | Inr None \<Rightarrow> user_not_found i c1
            | Inr (Some u) \<Rightarrow> OK (user_json u) c1))"

section \<open>Writing users\<close>

definition bind_userPayload :: "json option \<Rightarrow> (string \<times> int) option" where
  "bind_userPayload b =
     Option.bind (members b) (\<lambda>ms.
     Option.bind (str_field ''name'' ms) (\<lambda>name.
     Option.bind (int_field ''pennies'' ms) (\<lambda>pennies.
       valid (name \<noteq> '''' \<and> 1 \<le> rune_count name \<and> rune_count name \<le> 100 \<and> 0 \<le> pennies) (name, pennies))))"

definition user_answer :: "int \<Rightarrow> string \<Rightarrow> int \<Rightarrow> json" where
  "user_answer i name pennies = JObj [(''id'', JInt i), (''name'', JStr name), (''pennies'', JInt pennies)]"

definition CreateUser :: handler where
  "CreateUser r c =
     (case bind_userPayload (rq_body r) of
        None \<Rightarrow> invalid_field ''invalid payload'' ''body'' c
      | Some (name0, pennies) \<Rightarrow>
          let name = TrimSpace name0 in
          if name = '''' then invalid_field ''name is required'' ''name'' c
          else call (\<lambda>w. (exec (\<lambda>_ d. Some (insert_user name pennies d)) w :: (unit, int) result \<times> world)) c
            (\<lambda>res c1. case res of
               Inl _ \<Rightarrow> internal ''failed to create user'' c1
             | Inr i \<Rightarrow> JSONOK 201 (user_answer i name pennies) c1))"

definition update_user_row :: "string \<Rightarrow> int \<Rightarrow> user_row \<Rightarrow> user_row" where
  "update_user_row name pennies u = u\<lparr>us_name := name, us_pennies := pennies\<rparr>"

definition UpdateUser :: handler where
  "UpdateUser r c =
     (case parseID (rq_param r ''id'') of
        None \<Rightarrow> bad_id c
      | Some i \<Rightarrow>
     (case bind_userPayload (rq_body r) of
        None \<Rightarrow> invalid_field ''invalid payload'' ''body'' c
      | Some (name0, pennies) \<Rightarrow>
          let name = TrimSpace name0 in
          if name = '''' then invalid_field ''name is required'' ''name'' c
          else call (\<lambda>w. (exec (\<lambda>_ d.
              let P = (\<lambda>u. us_id u = i \<and> us_deleted_at u = None); f = update_user_row name pennies
              in Some (d\<lparr>users := update_where P f (users d)\<rparr>, affected P f (users d))) w
              :: (unit, nat) result \<times> world)) c
            (\<lambda>res c1. case res of
               Inl _ \<Rightarrow> internal ''failed to update user'' c1
             | Inr n \<Rightarrow>
                 if n = 0 then user_not_found i c1 else OK (user_answer i name pennies) c1)))"

section \<open>Deleting a user\<close>

text \<open>
  The transaction: the answer to give after a rollback is the error, and a commit gives
  whether the user was deleted (or had been before, which is rolled back as well).
\<close>

datatype delete_stop = DBegin | DCommit | DUpdate | DResolve | DNotFound | DAlready | DSessions | DSuspend

definition soft_delete :: "int \<Rightarrow> int \<Rightarrow> database \<Rightarrow> (database \<times> nat) option" where
  "soft_delete i t d =
     (let P = (\<lambda>u. us_id u = i \<and> us_deleted_at u = None); f = (\<lambda>u. u\<lparr>us_deleted_at := Some t\<rparr>)
      in Some (d\<lparr>users := update_where P f (users d)\<rparr>, affected P f (users d)))"

definition revoke_sessions_of :: "int \<Rightarrow> int \<Rightarrow> database \<Rightarrow> (database \<times> nat) option" where
  "revoke_sessions_of i = update_sessions (\<lambda>r. se_user_id r = i \<and> se_revoked_at r = None)
     (\<lambda>t r. r\<lparr>se_revoked_at := Some t\<rparr>)"

definition suspend_account :: "int \<Rightarrow> int \<Rightarrow> database \<Rightarrow> (database \<times> unit) option" where
  "suspend_account i t d = Some (d\<lparr>accounts := update_where (\<lambda>a. oa_linked_user_id a = i)
     (\<lambda>a. a\<lparr>oa_status := ''suspended''\<rparr>) (accounts d)\<rparr>, ())"

definition as_stop :: "delete_stop \<Rightarrow> (unit, 'a) result \<times> world \<Rightarrow> (delete_stop, 'a) result \<times> world" where
  "as_stop e p = (case p of (Inl _, w) \<Rightarrow> (Inl (Sentinel e), w) | (Inr a, w) \<Rightarrow> (Inr a, w))"

definition delete_user_tx :: "int \<Rightarrow> world \<Rightarrow> (delete_stop, unit) result \<times> world" where
  "delete_user_tx i w = in_tx_as (Sentinel DBegin) (Sentinel DCommit) (\<lambda>w0.
     bind_result (as_stop DUpdate (exec (soft_delete i) w0)) (\<lambda>n w1.
     if n = 0 then
       bind_result (as_stop DResolve (query (\<lambda>_ d. user_exists d i) w1)) (\<lambda>existing w2.
         (Inl (Sentinel (if existing then DAlready else DNotFound)), w2))
     else
       bind_result (as_stop DSessions (exec (revoke_sessions_of i) w1)) (\<lambda>_ w2.
       as_stop DSuspend (exec (suspend_account i) w2)))) w"

definition delete_answer :: "int \<Rightarrow> delete_stop fault \<Rightarrow> conn \<Rightarrow> conn" where
  "delete_answer i err c = (case err of
     Sentinel DBegin \<Rightarrow> internal ''failed to delete user'' c
   | Sentinel DCommit \<Rightarrow> internal ''failed to finalize user deletion'' c
   | Sentinel DUpdate \<Rightarrow> internal ''failed to delete user'' c
   | Sentinel DResolve \<Rightarrow> internal ''failed to resolve user state'' c
   | Sentinel DNotFound \<Rightarrow> user_not_found i c
   | Sentinel DAlready \<Rightarrow> NoContent c
   | Sentinel DSessions \<Rightarrow> internal ''failed to revoke user sessions'' c
   | Sentinel DSuspend \<Rightarrow> internal ''failed to suspend operator account'' c
   | _ \<Rightarrow> internal ''failed to delete user'' c)"

definition DeleteUser :: "env \<Rightarrow> handler" where
  "DeleteUser e r c =
     (case parseID (rq_param r ''id'') of
        None \<Rightarrow> bad_id c
      | Some i \<Rightarrow>
          call (delete_user_tx i) c (\<lambda>res c1.
            case res of
              Inl err \<Rightarrow> delete_answer i err c1
            | Inr _ \<Rightarrow>
                (case AuthStore e of
                   None \<Rightarrow> NoContent c1
                 | Some _ \<Rightarrow> (case AuthUserIDFromContext c1 of
                     None \<Rightarrow> NoContent c1
                   | Some actorID \<Rightarrow>
                       audit_admin e r actorID ''user.soft_deleted'' ''user'' (Itoa i) (reasonFromContext r c1) '''' c1
                         NoContent))))"

section \<open>Probes\<close>

definition Health :: handler where
  "Health r c = c_JSON 200 (JObj [(''status'', JStr ''ok'')]) c"

definition not_ready :: "string \<Rightarrow> (string \<times> json) list \<Rightarrow> string \<Rightarrow> conn \<Rightarrow> conn" where
  "not_ready reason extra rid c = c_JSON 503
     (JObj ([(''status'', JStr ''not_ready''), (''reason'', JStr reason)] @ extra @ [(''request_id'', JStr rid)])) c"

definition Ready :: "env \<Rightarrow> handler" where
  "Ready e r c =
     (let rid = rq_header r request_id_header; expected = MigrationExpectedVersion (AppConfig e) in
      if \<not> database_open e then not_ready ''no_database'' [] rid c
      else call (DbPing e) c (\<lambda>ok c1.
        if \<not> ok then not_ready ''db_ping_failed'' [(''error'', JStr (DriverErrorText e))] rid c1
        else if expected > 0 then
          call (MigrationRow e) c1 (\<lambda>row c2.
            case row of
              NoMigrations \<Rightarrow> not_ready ''migrations_not_applied'' [] rid c2
            | MigrationsError \<Rightarrow> not_ready ''migration_check_failed'' [(''error'', JStr (DriverErrorText e))] rid c2
            | Migrated version dirty \<Rightarrow>
                if dirty then not_ready ''migration_dirty'' [(''version'', JInt version)] rid c2
                else if version < expected
                then not_ready ''migration_version_mismatch''
                       [(''version'', JInt version), (''expected_min'', JInt expected)] rid c2
                else c_JSON 200 (JObj [(''status'', JStr ''ready''), (''request_id'', JStr rid),
                       (''migration_version'', JInt version), (''migration_expected_min'', JInt expected)]) c2)
        else c_JSON 200 (JObj [(''status'', JStr ''ready''), (''request_id'', JStr rid)]) c1))"

text \<open>\<open>dsnFromConfig\<close>, with the options of \<open>dsn_params\<close>.\<close>

definition dsnFromConfig :: "config \<Rightarrow> string" where
  "dsnFromConfig cfg = DBUser cfg @ '':'' @ DBPass cfg @ ''@tcp('' @ DBHost cfg @ '':'' @ DBPort cfg @ '')/'' @ DBName cfg
     @ ''?'' @ dsn_params"

end
