(* ===== verification/Router.thy ===== *)
theory Router
  imports Token_Handlers User_Handlers
begin

text \<open>
  main.go: the route table of \<open>setupRouter\<close>. A route is a method, a path pattern and
  its handlers; which route a request takes is gin's choice, so the statements are about every
  route of the table. \<open>serve\<close> runs the global middleware, the group's and the route's
  own handlers as one chain.
\<close>

definition isUnversionedLegacyAPIPath :: "string \<Rightarrow> bool" where
  "isUnversionedLegacyAPIPath p \<longleftrightarrow> p = ''/api'' \<or> HasPrefix p ''/api/'' \<and> \<not> HasPrefix p ''/api/v1''"

definition legacyAPIMiddleware :: handler where
  "legacyAPIMiddleware r c =
     (if isUnversionedLegacyAPIPath (rq_path r)
      then Abort (respond_Error 410 CodeNotFound ''unversioned API removed; use /api/v1'' [] c)
      else c)"

record route =
  rt_method :: string
  rt_path :: string
  rt_handlers :: "handler list"

definition route_of :: "string \<Rightarrow> string \<Rightarrow> handler list \<Rightarrow> route" where
  "route_of m p hs = \<lparr>rt_method = m, rt_path = p, rt_handlers = hs\<rparr>"

text \<open>The middleware of every request, and of the group /api/v1.\<close>

definition global_middleware :: "env \<Rightarrow> handler list" where
  "global_middleware e =
     [requestid_Middleware, SecurityHeaders] @
     (if CORSAllowedOrigins (AppConfig e) \<noteq> []
      then [DynamicCORS (CORSAllowedOrigins (AppConfig e)) [CSRFHeaderName (AppConfig e)]] else []) @
     [legacyAPIMiddleware]"

definition v1_middleware :: "env \<Rightarrow> handler list" where
  "v1_middleware e = [CSRFCookieProtect (AppConfig e)]"

definition authenticate :: "env \<Rightarrow> handler" where
  "authenticate e = BearerOrSession e (SessionCookieName (AppConfig e))"

definition probe_routes :: "env \<Rightarrow> route list" where
  "probe_routes e = [route_of ''GET'' ''/healthz'' [Health], route_of ''GET'' ''/readyz'' [Ready e]]"

definition tokenLim :: handler where
  "tokenLim = NewFixedWindowLimiter ''auth_token'' 30 ''too many token requests''"

definition auth_routes :: "env \<Rightarrow> route list" where
  "auth_routes e =
     [route_of ''POST'' ''/auth/register''
        [NewFixedWindowLimiter ''auth_register'' 15 ''too many registration attempts'', RegisterUser (AppConfig e)],
      route_of ''POST'' ''/auth/invite/accept''
        [NewFixedWindowLimiter ''auth_invite_accept'' 20 ''too many invite acceptance attempts'',
         AcceptOperatorInvite_handler e],
      route_of ''POST'' ''/auth/login''
        [NewFixedWindowLimiter ''auth_login'' 30 ''too many login attempts'', LoginUser e],
      route_of ''POST'' ''/auth/logout''
        [NewFixedWindowLimiter ''auth_logout'' 60 ''too many logout attempts'', LogoutUser e],
      route_of ''POST'' ''/auth/refresh''
        [NewFixedWindowLimiter ''auth_refresh'' 120 ''too many session refresh attempts'', RefreshSession_handler e],
      route_of ''GET'' ''/auth/csrf''
        [NewFixedWindowLimiter ''auth_csrf'' 60 ''too many csrf requests'', GetAuthCSRF e],
      route_of ''POST'' ''/auth/change-password''
        [NewFixedWindowLimiter ''auth_change_password'' 10 ''too many password change attempts'',
         authenticate e, ChangePassword e],
      route_of ''POST'' ''/auth/join-token''
        [NewFixedWindowLimiter ''auth_join_token'' 60 ''too many join token requests'',
         authenticate e, RequireHumanUser, IssueJoinToken e],
      route_of ''POST'' ''/auth/desktop/start''
        [NewFixedWindowLimiter ''auth_desktop_start'' 30 ''too many desktop exchange start requests'',
         authenticate e, RequireHumanUser, StartDesktopExchangeCode e],
      route_of ''POST'' ''/auth/token'' [tokenLim, IssueToken e],
      route_of ''POST'' ''/auth/bootstrap'' [tokenLim, IssueBootstrapToken e],
      route_of ''POST'' ''/auth/desktop/exchange''
        [NewFixedWindowLimiter ''auth_desktop_exchange'' 45 ''too many desktop exchange requests'',
         ExchangeDesktopCode e]]"

definition user_routes :: "env \<Rightarrow> route list" where
  "user_routes e =
     [route_of ''GET'' ''/users'' [authenticate e, GetUsers],
      route_of ''GET'' ''/users/search'' [authenticate e, SearchUsers],
      route_of ''GET'' ''/users/:id'' [authenticate e, GetUserByID],
      route_of ''POST'' ''/users'' [authenticate e, CreateUser],
      route_of ''PUT'' ''/users/:id'' [authenticate e, RequireHumanUser, UpdateUser],
      route_of ''DELETE'' ''/users/:id''
        [authenticate e, RequireHumanUser, RequirePlatformPermission e PermUsersDelete,
         RequirePlatformActionReason 10, DeleteUser e]]"

text \<open>The control plane: every route starts with \<open>guards\<close>.\<close>

definition cp_guards :: "env \<Rightarrow> handler list" where
  "cp_guards e = [authenticate e, RequireHumanUser]"

definition backupRestoreMutLim :: handler where
  "backupRestoreMutLim = NewFixedWindowLimiter ''backup_restore_mut'' 60 ''too many backup restore workflow requests''"

definition caseReadLim :: handler where
  "caseReadLim = NewFixedWindowLimiter ''operator_cases_read'' 120 ''too many case read requests''"

definition caseMutLim :: handler where
  "caseMutLim = NewFixedWindowLimiter ''operator_cases_mut'' 60 ''too many case mutation requests''"

definition read_route :: "env \<Rightarrow> string \<Rightarrow> handler list \<Rightarrow> string \<Rightarrow> handler \<Rightarrow> route" where
  "read_route e p lim perm h = route_of ''GET'' p (cp_guards e @ lim @ [RequirePlatformPermission e perm, h])"

definition write_route :: "env \<Rightarrow> string \<Rightarrow> string \<Rightarrow> handler \<Rightarrow> string \<Rightarrow> handler \<Rightarrow> route" where
  "write_route e m p lim perm h = route_of m p
     (cp_guards e @ [lim, RequirePlatformPermission e perm, RequirePlatformActionReason 10, h])"

definition cp_reads :: "env \<Rightarrow> route list" where
  "cp_reads e =
     [read_route e ''/players'' [] PermPlayersRead ListPlayersStub,
      read_route e ''/characters'' [] PermCharactersRead ListCharactersStub,
      read_route e ''/backups/status'' [] PermBackupsRead (GetBackupsStatus e),
      read_route e ''/backups/restore-requests'' [] PermBackupsRead (ListBackupRestoreRequests_handler e),
      read_route e ''/security/me'' [] PermSecurityRead GetSecurityMeRoles,
      read_route e ''/audit/admin-events'' [] PermAuditRead (ListAdminAuditEvents e),
      read_route e ''/economy/ledger'' [] PermEconomyRead (GetEconomyLedger e),
      read_route e ''/cases'' [caseReadLim] PermCasesRead (ListOperatorCases_handler e),
      read_route e ''/cases/:id/notes'' [caseReadLim] PermCasesRead (ListOperatorCaseNotes_handler e),
      read_route e ''/cases/:id/actions'' [caseReadLim] PermCasesRead (ListOperatorCaseActions_handler e),
      read_route e ''/cases/:id'' [caseReadLim] PermCasesRead (GetOperatorCase_handler e)]"

definition cp_writes :: "env \<Rightarrow> route list" where
  "cp_writes e =
     [write_route e ''POST'' ''/backups/restore-requests'' backupRestoreMutLim PermBackupsRestoreRequest
        (PostBackupRestoreRequest e),
      write_route e ''POST'' ''/backups/restore-requests/:id/approve'' backupRestoreMutLim PermBackupsRestoreApprove
        (PostBackupRestoreApprove e),
      write_route e ''POST'' ''/backups/restore-requests/:id/reject'' backupRestoreMutLim PermBackupsRestoreApprove
        (PostBackupRestoreReject e),
      write_route e ''POST'' ''/backups/restore-requests/:id/fulfill'' backupRestoreMutLim PermBackupsRestoreFulfill
        (PostBackupRestoreFulfill e),
      write_route e ''POST'' ''/backups/restore-requests/:id/cancel'' backupRestoreMutLim PermBackupsRestoreRequest
        (PostBackupRestoreCancel e),
      write_route e ''POST'' ''/support/ack''
        (NewFixedWindowLimiter ''support_ack'' 30 ''too many support ack requests'') PermSupportAck (PostSupportAck e),
      write_route e ''POST'' ''/cases'' caseMutLim PermCasesWrite (PostOperatorCase e),
      write_route e ''POST'' ''/cases/:id/notes'' caseMutLim PermCasesWrite (PostOperatorCaseNote e),
      write_route e ''POST'' ''/cases/:id/sanctions'' caseMutLim PermSanctionsWrite (PostOperatorCaseSanction e),
      write_route e ''POST'' ''/cases/:id/recovery-requests'' caseMutLim PermRecoveryWrite
        (PostOperatorCaseRecoveryRequest e),
      write_route e ''POST'' ''/cases/:id/appeals/resolve'' caseMutLim PermAppealsResolve
        (PostOperatorCaseAppealResolve e),
      write_route e ''PATCH'' ''/cases/:id'' caseMutLim PermCasesWrite (PatchOperatorCase e)]"

definition invite_route :: "env \<Rightarrow> route" where
  "invite_route e = route_of ''POST'' ''/auth/invites''
     (cp_guards e @ [NewFixedWindowLimiter ''auth_invite_create'' 30 ''too many invite creation attempts'',
        RequirePlatformPermission e PermSecurityWrite, CreateOperatorInvite_handler e])"

definition v1_routes :: "env \<Rightarrow> route list" where
  "v1_routes e = auth_routes e @ user_routes e @ cp_reads e @ cp_writes e @ [invite_route e]"

text \<open>\<open>setupRouter\<close>: \<open>proxies_ok\<close> is the check of gin's \<open>SetTrustedProxies\<close>.\<close>

definition setupRouter :: "(string list \<Rightarrow> bool) \<Rightarrow> env \<Rightarrow> unit + route list" where
  "setupRouter proxies_ok e =
     (if \<not> proxies_ok (TrustedProxies (AppConfig e)) then Inl ()
      else Inr (map (\<lambda>rt. rt\<lparr>rt_handlers := global_middleware e @ rt_handlers rt\<rparr>)
        (probe_routes e @
         map (\<lambda>rt. rt\<lparr>rt_path := ''/api/v1'' @ rt_path rt, rt_handlers := v1_middleware e @ rt_handlers rt\<rparr>)
           (v1_routes e))))"

definition serve :: "route \<Rightarrow> handler" where
  "serve rt r c = run_chain (rt_handlers rt) r c"

end
