(* ===== verification/Access.thy ===== *)
theory Access
  imports Router
begin

text \<open>
  Who gets to a handler: the authentication, the CSRF check and the guards of the control
  plane, as facts about the connection that a chain hands over.
\<close>

section \<open>What a middleware leaves alone\<close>

definition same_context :: "conn \<Rightarrow> conn \<Rightarrow> bool" where
  "same_context c c' \<longleftrightarrow> auth_subject c' = auth_subject c \<and> request_id c' = request_id c \<and>
     platform_roles c' = platform_roles c \<and> platform_action_reason c' = platform_action_reason c"

lemma redis_call_context:
  "redis_call cmd c = (x, c') \<Longrightarrow> wld c' = wld c \<and> aborted c' = aborted c \<and> same_context c c'"
  by (auto simp: redis_call_def Let_def same_context_def)

lemma redis_allow_context:
  "fixedWindowRedisAllow scope ip n c = (x, c') \<Longrightarrow> wld c' = wld c \<and> aborted c' = aborted c \<and> same_context c c'"
  by (auto simp: fixedWindowRedisAllow_def redis_call_def Let_def same_context_def split: prod.splits option.splits if_splits)

definition limiter_mw :: "handler \<Rightarrow> bool" where
  "limiter_mw h \<longleftrightarrow> (\<exists>scope n msg. h = NewFixedWindowLimiter scope n msg)"

lemma limiter_frame:
  assumes "limiter_mw h" and "\<not> aborted c"
  shows "wld (h r c) = wld c" and "same_context c (h r c)" and "aborted (h r c) \<Longrightarrow> status (h r c) = 429"
proof -
  from assms(1) obtain scope n msg where h: "h = NewFixedWindowLimiter scope n msg"
    by (auto simp: limiter_mw_def)
  have "post (\<lambda>c'. wld c' = wld c \<and> same_context c c' \<and> (aborted c' \<longrightarrow> status c' = 429)) (h r c)"
    unfolding h NewFixedWindowLimiter_def Let_def
    by (intro post_intro; insert assms(2);
        auto simp: post_def too_many_def respond_defs Abort_def same_context_def dest!: redis_allow_context)
  then show "wld (h r c) = wld c" "same_context c (h r c)" "aborted (h r c) \<Longrightarrow> status (h r c) = 429"
    by (auto simp: post_def)
qed

section \<open>Authentication\<close>

text \<open>
  The ways a request can be authenticated, from a world to the world after it: by a token of
  the platform, by a token of the external issuer, or by a session cookie, the latter only if
  there is no Authorization header.
\<close>

inductive authenticated :: "env \<Rightarrow> request \<Rightarrow> world \<Rightarrow> string \<Rightarrow> world \<Rightarrow> bool" for e r where
  by_token: "TokenSvc e = Some ts \<Longrightarrow> is_bearer (TrimSpace (rq_header r ''Authorization'')) \<Longrightarrow>
    ParseAccessToken (JWT e) ts (TrimSpace (drop 7 (TrimSpace (rq_header r ''Authorization'')))) (clock w) = Inr cl \<Longrightarrow>
    TrimSpace (cl_Subject cl) \<noteq> '''' \<Longrightarrow> authenticated e r w (TrimSpace (cl_Subject cl)) w"
| by_oidc: "is_bearer (TrimSpace (rq_header r ''Authorization'')) \<Longrightarrow> OIDCSvc e = Some oi \<Longrightarrow>
    TryResolveAuthSubject (Some oi) (TrimSpace (drop 7 (TrimSpace (rq_header r ''Authorization'')))) w = (Inr sub, w') \<Longrightarrow>
    authenticated e r w sub w'"
| by_session: "TrimSpace (rq_header r ''Authorization'') = '''' \<Longrightarrow> AuthStore e = Some s \<Longrightarrow>
    rq_cookie r (SessionCookieName (AppConfig e)) = Some raw \<Longrightarrow> TrimSpace raw \<noteq> '''' \<Longrightarrow>
    ValidateSession s raw w = (Inr uid, w') \<Longrightarrow> authenticated e r w (user_subject uid) w'"

lemma prefix_length [simp]: "length bearer_prefix = 7"
  by (simp add: bearer_prefix_def)

lemma Validate_clean: "clean w (ValidateSession s t w)"
proof (rule cleanI)
  fix err w' assume "ValidateSession s t w = (Inl err, w')"
  then show "db w' = db w"
    by (auto simp: ValidateSession_def Let_def split: if_splits option.splits
        elim!: bind_result_cases query_cases exec_cases)
qed

lemma Resolve_clean: "TryResolveAuthSubject oi t w = (Inl err, w') \<Longrightarrow> db w' = db w"
  by (auto simp: TryResolveAuthSubject_def Let_def split: option.splits if_splits prod.splits sum.splits
      dest!: ensure.error_no_effect)

definition refused :: "conn \<Rightarrow> conn \<Rightarrow> bool" where
  "refused c c' \<longleftrightarrow> aborted c' \<and> 400 \<le> status c' \<and> db (wld c') = db (wld c)"

lemma refused_deny [simp]: "refused c (deny st code m c1) \<longleftrightarrow> 400 \<le> st \<and> db (wld c1) = db (wld c)"
  by (simp add: refused_def)

definition subject_set :: "env \<Rightarrow> request \<Rightarrow> conn \<Rightarrow> conn \<Rightarrow> bool" where
  "subject_set e r c c' \<longleftrightarrow>
     (\<exists>sub w'. authenticated e r (wld c) sub w' \<and> c' = c\<lparr>wld := w', auth_subject := sub\<rparr>)"

lemma subject_setI: "authenticated e r (wld c) sub w' \<Longrightarrow> c' = c\<lparr>wld := w', auth_subject := sub\<rparr> \<Longrightarrow> subject_set e r c c'"
  by (auto simp: subject_set_def)

lemma bearer_branch_cases:
  assumes "TokenSvc e = Some ts"
  shows "post (\<lambda>c'. refused c c' \<or> subject_set e r c c')
    (bearer_branch e ts (TrimSpace (rq_header r ''Authorization'')) c)"
  unfolding bearer_branch_def Let_def
proof (intro post_intro, goal_cases)
  case (4 err oi x w a)
  then show ?case using Resolve_clean by (simp add: post_def)
next
  case (5 err oi x w b)
  then show ?case by (auto simp: post_def intro!: subject_setI by_oidc)
next
  case (7 cl)
  then show ?case using assms by (auto simp: post_def intro!: subject_setI by_token)
qed (auto simp: post_def)

lemma session_branch_cases:
  assumes "TrimSpace (rq_header r ''Authorization'') = ''''"
  shows "post (\<lambda>c'. refused c c' \<or> subject_set e r c c') (session_branch e (SessionCookieName (AppConfig e)) r c)"
  unfolding session_branch_def
proof (intro post_intro, goal_cases)
  case (5 s raw x w err)
  then show ?case using Validate_clean [of "wld c" s raw] by (simp add: post_def clean_def)
next
  case (6 s raw x w uid)
  then show ?case using assms by (auto simp: post_def intro!: subject_setI by_session)
qed (auto simp: post_def)

lemma authenticate_cases: "refused c (authenticate e r c) \<or> subject_set e r c (authenticate e r c)"
proof -
  have "post (\<lambda>c'. refused c c' \<or> subject_set e r c c') (authenticate e r c)"
    unfolding authenticate_def BearerOrSession_def Let_def
    by (intro post_intro) (auto simp: bearer_branch_cases session_branch_cases, auto simp: post_def)
  then show ?thesis by (rule postD)
qed

section \<open>The guards of the control plane\<close>

lemma AuthUser_pos: "AuthUserIDFromContext c = Some uid \<Longrightarrow> 0 < uid \<and> HasPrefix (TrimSpace (auth_subject c)) ''user:''"
  by (auto simp: AuthUserIDFromContext_def Let_def split: if_splits option.splits)

lemma AuthUser_context: "same_context c c' \<Longrightarrow> AuthUserIDFromContext c' = AuthUserIDFromContext c"
  by (simp add: AuthUserIDFromContext_def same_context_def)

lemma effective_roles_db: "effectivePlatformRoles e uid w = (x, w') \<Longrightarrow> db w' = db w"
  by (auto simp: effectivePlatformRoles_def ListPlatformRoleNamesForUser_def split: option.splits if_splits
      elim!: bind_result_cases query_cases)

text \<open>The roles that count: those the tables hold for the user.\<close>

definition granted_roles :: "int \<Rightarrow> database \<Rightarrow> string list" where
  "granted_roles uid d = (if operator_tables d then account_role_names uid d else legacy_role_names uid d)"

lemma effective_roles:
  "effectivePlatformRoles e uid w = (Inr rs, w') \<Longrightarrow>
   rs = (if AuthStore e = None then [] else remdups_adj (sort (granted_roles uid (db w))))"
  by (auto simp: effectivePlatformRoles_def ListPlatformRoleNamesForUser_def granted_roles_def split: option.splits if_splits
      elim!: bind_result_cases query_cases)

lemma HasPermission_set: "set rs = set rs' \<Longrightarrow> HasPermission rs p = HasPermission rs' p"
  by (simp add: HasPermission_def list_ex_iff)

lemma granted_permission:
  assumes "effectivePlatformRoles e uid w = (Inr rs, w')" and "HasPermission rs perm"
  shows "HasPermission (granted_roles uid (db w)) perm"
proof -
  from assms effective_roles [OF assms(1)] have "rs = remdups_adj (sort (granted_roles uid (db w)))"
    by (auto split: if_splits)
  then have "set rs = set (granted_roles uid (db w))" by simp
  with assms(2) show ?thesis using HasPermission_set by blast
qed

text \<open>Who a role of the operator tables belongs to: an active account of a live user.\<close>

lemma granted_account:
  assumes "HasPermission (granted_roles uid d) perm" and "operator_tables d"
  shows "live_user d uid \<and> (\<exists>a\<in>set (accounts d). oa_linked_user_id a = uid \<and> oa_status a = ''active'' \<and>
    (\<exists>x\<in>set (account_roles d). \<exists>q\<in>set (roles d). ar_account_id x = oa_id a \<and> ar_role_id x = ro_id q \<and>
       HasPermission [ro_name q] perm))"
proof -
  from assms(1) obtain n where n: "n \<in> set (granted_roles uid d)" "HasPermission [n] perm"
    using HasPermission_iff by blast
  with assms(2) have "n \<in> set (account_role_names uid d)" by (simp add: granted_roles_def)
  then obtain q x a where "q \<in> set (roles d)" "x \<in> set (account_roles d)" "a \<in> set (accounts d)"
    "n = ro_name q" "ar_role_id x = ro_id q" "oa_id a = ar_account_id x" "oa_linked_user_id a = uid"
    "oa_status a = ''active''" "live_user d uid"
    by (auto simp: account_role_names_def split: if_splits)
  with n(2) show ?thesis by (metis (no_types, lifting))
qed

text \<open>
  What a handler of the control plane can rely on: the caller is a human user who was
  authenticated by this request and whose roles grant the permission.
\<close>

definition admitted :: "env \<Rightarrow> string \<Rightarrow> request \<Rightarrow> conn \<Rightarrow> conn \<Rightarrow> bool" where
  "admitted e perm r c c1 \<longleftrightarrow>
     (\<exists>w1 uid. authenticated e r (wld c) (auth_subject c1) w1 \<and> AuthUserIDFromContext c1 = Some uid \<and>
        db (wld c1) = db w1 \<and> HasPermission (granted_roles uid (db w1)) perm \<and> request_id c1 = request_id c)"

text \<open>Not let in: nothing is changed beyond what the authentication itself writes.\<close>

definition turned_away :: "env \<Rightarrow> request \<Rightarrow> conn \<Rightarrow> conn \<Rightarrow> bool" where
  "turned_away e r c c' \<longleftrightarrow> aborted c' \<and> 400 \<le> status c' \<and>
     (db (wld c') = db (wld c) \<or> (\<exists>sub w1. authenticated e r (wld c) sub w1 \<and> db (wld c') = db w1))"

lemma permission_cases:
  "post (\<lambda>c'. aborted c' \<and> 400 \<le> status c' \<and> db (wld c') = db (wld c) \<or>
     (\<exists>uid rs w'. AuthUserIDFromContext c = Some uid \<and> HasPermission (granted_roles uid (db (wld c))) perm \<and>
        db w' = db (wld c) \<and> c' = c\<lparr>wld := w', platform_roles := Some rs\<rparr>))
   (RequirePlatformPermission e perm r c)"
  unfolding RequirePlatformPermission_def
proof (intro post_intro, goal_cases)
  case (4 uid x w rs)
  then have "HasPermission (granted_roles uid (db (wld c))) perm" "db w = db (wld c)"
    using granted_permission effective_roles_db by auto
  with 4(1) show ?case by (auto simp: post_def)
qed (auto simp: post_def dest: effective_roles_db)

lemma human_cases: "RequireHumanUser r c = c \<or> aborted (RequireHumanUser r c) \<and> status (RequireHumanUser r c) = 403 \<and>
    wld (RequireHumanUser r c) = wld c"
  by (simp add: RequireHumanUser_def Let_def)

lemma reason_cases:
  "(\<exists>reason. reason = TrimSpace (rq_header r PlatformActionReasonHeader) \<and> 10 \<le> length reason \<and>
      RequirePlatformActionReason 10 r c = c\<lparr>platform_action_reason := Some reason\<rparr>) \<or>
   aborted (RequirePlatformActionReason 10 r c) \<and> status (RequirePlatformActionReason 10 r c) = 400 \<and>
     wld (RequirePlatformActionReason 10 r c) = wld c"
  by (auto simp: RequirePlatformActionReason_def Let_def)

section \<open>The access policy (docs/openapi.yaml)\<close>

text \<open>
  The permission that docs/openapi.yaml requires for a method and a path below /api/v1, and
  whether the header \<open>X-Platform-Action-Reason\<close> is required; for the deletion of a user and
  for invitations, which it does not describe, what main.go says.
\<close>

definition access_policy :: "((string \<times> string) \<times> string \<times> bool) list" where
  "access_policy =
     [((''GET'', ''/players''), ''players.read'', False),
      ((''GET'', ''/characters''), ''characters.read'', False),
      ((''GET'', ''/cases''), ''cases.read'', False),
      ((''POST'', ''/cases''), ''cases.write'', True),
      ((''GET'', ''/cases/:id''), ''cases.read'', False),
      ((''PATCH'', ''/cases/:id''), ''cases.write'', True),
      ((''GET'', ''/cases/:id/notes''), ''cases.read'', False),
      ((''POST'', ''/cases/:id/notes''), ''cases.write'', True),
      ((''GET'', ''/cases/:id/actions''), ''cases.read'', False),
      ((''POST'', ''/cases/:id/sanctions''), ''sanctions.write'', True),
      ((''POST'', ''/cases/:id/recovery-requests''), ''recovery.write'', True),
      ((''POST'', ''/cases/:id/appeals/resolve''), ''appeals.resolve'', True),
      ((''GET'', ''/backups/status''), ''backups.read'', False),
      ((''GET'', ''/backups/restore-requests''), ''backups.read'', False),
      ((''POST'', ''/backups/restore-requests''), ''backups.restore.request'', True),
      ((''POST'', ''/backups/restore-requests/:id/approve''), ''backups.restore.approve'', True),
      ((''POST'', ''/backups/restore-requests/:id/reject''), ''backups.restore.approve'', True),
      ((''POST'', ''/backups/restore-requests/:id/fulfill''), ''backups.restore.fulfill'', True),
      ((''POST'', ''/backups/restore-requests/:id/cancel''), ''backups.restore.request'', True),
      ((''GET'', ''/economy/ledger''), ''economy.read'', False),
      ((''GET'', ''/security/me''), ''security.read'', False),
      ((''GET'', ''/audit/admin-events''), ''audit.read'', False),
      ((''POST'', ''/support/ack''), ''platform.support.ack'', True),
      ((''POST'', ''/auth/invites''), ''security.write'', False),
      ((''DELETE'', ''/users/:id''), ''users.delete'', True)]"

definition required_access :: "route \<Rightarrow> (string \<times> bool) option" where
  "required_access rt = map_of access_policy (rt_method rt, rt_path rt)"

text \<open>The shape of a guarded chain.\<close>

definition guarded_by :: "env \<Rightarrow> string \<Rightarrow> bool \<Rightarrow> handler list \<Rightarrow> bool" where
  "guarded_by e perm reason hs \<longleftrightarrow>
     (\<exists>lim h. list_all limiter_mw lim \<and>
        hs = [authenticate e, RequireHumanUser] @ lim @ [RequirePlatformPermission e perm] @
             (if reason then [RequirePlatformActionReason 10] else []) @ [h])"

definition meets_policy :: "env \<Rightarrow> route \<Rightarrow> bool" where
  "meets_policy e rt \<longleftrightarrow>
     (case required_access rt of None \<Rightarrow> True | Some (perm, reason) \<Rightarrow> guarded_by e perm reason (rt_handlers rt))"

lemma limiter_mw_new [simp]: "limiter_mw (NewFixedWindowLimiter scope n msg)"
  by (auto simp: limiter_mw_def)

lemma limiter_mw_shared [simp]: "limiter_mw backupRestoreMutLim" "limiter_mw caseReadLim" "limiter_mw caseMutLim"
  by (simp_all add: backupRestoreMutLim_def caseReadLim_def caseMutLim_def)

lemma read_route_meets:
  assumes "map_of access_policy (''GET'', p) = Some (perm, False)" and "list_all limiter_mw lim"
  shows "meets_policy e (read_route e p lim perm h)"
  using assms
  by (auto simp: meets_policy_def required_access_def read_route_def route_of_def cp_guards_def guarded_by_def
      intro!: exI [of _ lim])

lemma write_route_meets:
  assumes "map_of access_policy (m, p) = Some (perm, True)" and "limiter_mw lim"
  shows "meets_policy e (write_route e m p lim perm h)"
  using assms
  by (auto simp: meets_policy_def required_access_def write_route_def route_of_def cp_guards_def guarded_by_def
      intro!: exI [of _ "[lim]"])

lemmas perm_defs = PermPlayersRead_def PermCharactersRead_def PermBackupsRead_def PermBackupsRestoreRequest_def
  PermBackupsRestoreApprove_def PermBackupsRestoreFulfill_def PermSecurityRead_def PermSecurityWrite_def
  PermAuditRead_def PermSupportAck_def PermEconomyRead_def PermUsersDelete_def PermCasesRead_def
  PermCasesWrite_def PermSanctionsWrite_def PermRecoveryWrite_def PermAppealsResolve_def

lemma reads_meet: "list_all (meets_policy e) (cp_reads e)"
  by (simp add: cp_reads_def; intro conjI; rule read_route_meets; simp add: access_policy_def perm_defs)

lemma writes_meet: "list_all (meets_policy e) (cp_writes e)"
  by (simp add: cp_writes_def; intro conjI; rule write_route_meets; simp add: access_policy_def perm_defs)

lemma others_meet: "list_all (meets_policy e) (auth_routes e @ user_routes e @ [invite_route e])"
  by (simp add: auth_routes_def user_routes_def invite_route_def route_of_def meets_policy_def required_access_def
      access_policy_def)
    (auto simp: guarded_by_def perm_defs cp_guards_def intro: exI [of _ "[]"])

lemma routes_meet_policy: "rt \<in> set (v1_routes e) \<Longrightarrow> meets_policy e rt"
  using reads_meet [of e] writes_meet [of e] others_meet [of e]
  by (auto simp: v1_routes_def list_all_iff)

text \<open>
  What the handler gets: the caller admitted with the permission and, where it is required,
  the stated reason of at least ten characters in the context.
\<close>

definition stated_reason :: "request \<Rightarrow> conn \<Rightarrow> bool" where
  "stated_reason r c1 \<longleftrightarrow>
     platform_action_reason c1 = Some (TrimSpace (rq_header r PlatformActionReasonHeader)) \<and>
     10 \<le> length (TrimSpace (rq_header r PlatformActionReasonHeader))"

definition gate_outcome :: "env \<Rightarrow> string \<Rightarrow> bool \<Rightarrow> handler \<Rightarrow> request \<Rightarrow> conn \<Rightarrow> conn \<Rightarrow> bool" where
  "gate_outcome e perm reason h r c c' \<longleftrightarrow> turned_away e r c c' \<or>
     (\<exists>c1. admitted e perm r c c1 \<and> (reason \<longrightarrow> stated_reason r c1) \<and> \<not> aborted c1 \<and> c' = h r c1)"

text \<open>Behind the authentication: everything from a connection whose subject has been set.\<close>

definition past_auth :: "env \<Rightarrow> request \<Rightarrow> conn \<Rightarrow> conn \<Rightarrow> bool" where
  "past_auth e r c c1 \<longleftrightarrow> \<not> aborted c1 \<and> request_id c1 = request_id c \<and>
     (\<exists>w1. authenticated e r (wld c) (auth_subject c1) w1 \<and> db (wld c1) = db w1)"

lemma past_auth_context:
  "past_auth e r c c1 \<Longrightarrow> wld c2 = wld c1 \<Longrightarrow> same_context c1 c2 \<Longrightarrow> \<not> aborted c2 \<Longrightarrow> past_auth e r c c2"
  by (simp add: past_auth_def same_context_def)

lemma past_auth_turned_away:
  "past_auth e r c c1 \<Longrightarrow> db (wld c') = db (wld c1) \<Longrightarrow> aborted c' \<Longrightarrow> 400 \<le> status c' \<Longrightarrow> turned_away e r c c'"
  by (auto simp: past_auth_def turned_away_def)

lemma limiters_chain:
  assumes "list_all limiter_mw lim" and "past_auth e r c c1"
    and "\<And>c2. past_auth e r c c2 \<Longrightarrow> gate_outcome e perm reason h r c (run_chain hs r c2)"
  shows "gate_outcome e perm reason h r c (run_chain (lim @ hs) r c1)"
  using assms(1,2)
proof (induction lim arbitrary: c1)
  case Nil
  then show ?case using assms(3) by simp
next
  case (Cons l ls)
  from Cons.prems have l: "limiter_mw l" "\<not> aborted c1" by (auto simp: past_auth_def)
  note frame = limiter_frame [OF l, of r]
  show ?case
  proof (cases "aborted (l r c1)")
    case True
    then have "turned_away e r c (l r c1)"
      using frame Cons.prems(2) by (auto intro!: past_auth_turned_away)
    with True show ?thesis by (simp add: gate_outcome_def Let_def)
  next
    case False
    then have "past_auth e r c (l r c1)"
      using frame Cons.prems(2) past_auth_context by blast
    with False Cons show ?thesis by (simp add: Let_def)
  qed
qed

lemma permission_gate:
  assumes "past_auth e r c c1"
  shows "gate_outcome e perm reason h r c
    (run_chain ([RequirePlatformPermission e perm] @ (if reason then [RequirePlatformActionReason 10] else []) @ [h]) r c1)"
proof -
  from permission_cases [of c1 perm e r, THEN postD] consider
      (no) "aborted (RequirePlatformPermission e perm r c1)" "turned_away e r c (RequirePlatformPermission e perm r c1)"
    | (yes) c2 where "RequirePlatformPermission e perm r c1 = c2" "\<not> aborted c2" "admitted e perm r c c2" "past_auth e r c c2"
    using assms by (fastforce simp: admitted_def past_auth_def AuthUserIDFromContext_def intro: past_auth_turned_away)
  then show ?thesis
  proof cases
    case no
    then show ?thesis by (simp add: gate_outcome_def Let_def)
  next
    case yes
    show ?thesis
    proof (cases reason)
      case False
      with yes show ?thesis by (auto simp: gate_outcome_def Let_def)
    next
      case True
      from reason_cases [of r c2] show ?thesis
      proof (elim disjE exE conjE)
        fix s assume s: "s = TrimSpace (rq_header r PlatformActionReasonHeader)" "10 \<le> length s"
          "RequirePlatformActionReason 10 r c2 = c2\<lparr>platform_action_reason := Some s\<rparr>"
        let ?c3 = "c2\<lparr>platform_action_reason := Some s\<rparr>"
        from yes s have "admitted e perm r c ?c3 \<and> stated_reason r ?c3 \<and> \<not> aborted ?c3"
          by (simp add: admitted_def stated_reason_def AuthUserIDFromContext_def)
        with True yes s(3) show ?thesis unfolding gate_outcome_def by (auto simp: Let_def)
      next
        assume "aborted (RequirePlatformActionReason 10 r c2)" "status (RequirePlatformActionReason 10 r c2) = 400"
          "wld (RequirePlatformActionReason 10 r c2) = wld c2"
        moreover from this yes(4) have "turned_away e r c (RequirePlatformActionReason 10 r c2)"
          by (intro past_auth_turned_away) auto
        ultimately show ?thesis using True yes by (simp add: gate_outcome_def Let_def)
      qed
    qed
  qed
qed

lemma guarded_chain:
  assumes "guarded_by e perm reason hs" and "\<not> aborted c"
  shows "gate_outcome e perm reason (last hs) r c (run_chain hs r c)"
proof -
  from assms(1) obtain lim h where lim: "list_all limiter_mw lim" and
    hs: "hs = [authenticate e, RequireHumanUser] @ lim @ [RequirePlatformPermission e perm] @
             (if reason then [RequirePlatformActionReason 10] else []) @ [h]"
    unfolding guarded_by_def by blast
  let ?tail = "[RequirePlatformPermission e perm] @ (if reason then [RequirePlatformActionReason 10] else []) @ [h]"
  have last: "last hs = h" using hs by (simp split: if_splits)
  have rest: "gate_outcome e perm reason h r c (run_chain (lim @ ?tail) r c1)" if "past_auth e r c c1" for c1
    using limiters_chain [OF lim that] permission_gate by blast
  show ?thesis
  proof (cases "aborted (authenticate e r c)")
    case True
    with authenticate_cases [of c e r] assms(2) have "turned_away e r c (authenticate e r c)"
      by (auto simp: refused_def turned_away_def subject_set_def)
    with True show ?thesis by (simp add: hs gate_outcome_def Let_def)
  next
    case False
    with authenticate_cases [of c e r] have a: "past_auth e r c (authenticate e r c)"
      by (auto simp: refused_def past_auth_def subject_set_def)
    let ?c1 = "authenticate e r c" and ?c2 = "RequireHumanUser r (authenticate e r c)"
    from human_cases [of r ?c1] show ?thesis
    proof
      assume "?c2 = ?c1"
      with False a rest show ?thesis by (simp add: hs last [unfolded hs] Let_def)
    next
      assume h: "aborted ?c2 \<and> status ?c2 = 403 \<and> wld ?c2 = wld ?c1"
      with a have "turned_away e r c ?c2" by (auto intro!: past_auth_turned_away)
      with h False show ?thesis by (simp add: hs gate_outcome_def Let_def)
    qed
  qed
qed

text \<open>
  C1: The access policy is enforced. On every route of /api/v1 for which the OpenAPI document
  requires a permission (and on the deletion of users and the creation of invitations), the
  handler runs only for a human user whom this very request has authenticated (with a
  verified token, or with a live session if there is no Authorization header) and to whom the
  tables grant that permission, and, where the document says so, only with a stated reason of
  at least ten characters. In every other case the chain stops with an error status and no
  table is changed beyond what the authentication wrote.
\<close>

theorem access_policy_enforced:
  assumes "rt \<in> set (v1_routes e)" and "required_access rt = Some (perm, reason)" and "\<not> aborted c"
  shows "turned_away e r c (run_chain (rt_handlers rt) r c) \<or>
    (\<exists>c1 uid. admitted e perm r c c1 \<and> AuthUserIDFromContext c1 = Some uid \<and> 0 < uid \<and>
       (reason \<longrightarrow> stated_reason r c1) \<and> run_chain (rt_handlers rt) r c = last (rt_handlers rt) r c1)"
proof -
  from routes_meet_policy [OF assms(1)] assms(2) have "guarded_by e perm reason (rt_handlers rt)"
    by (simp add: meets_policy_def)
  from guarded_chain [OF this assms(3), of r] show ?thesis
    unfolding gate_outcome_def admitted_def using AuthUser_pos by blast
qed

section \<open>A request of an operator\<close>

definition demo_site :: env where
  "demo_site = \<lparr>AppConfig = demo_config, AuthStore = Some demo_store, database_open = True,
     TokenSvc = Some demo_service, OIDCSvc = None, IDKey = demo_argon2, JWT = demo_jwt,
     ParseAddress = (\<lambda>s. Some ('''', s)), UrlParse = (\<lambda>_. None), ParseAddr = (\<lambda>_. True),
     PrefixContains = (\<lambda>_ _. Some True), ParseRFC3339 = (\<lambda>_. None), FormatRFC3339 = (\<lambda>_. ''2026-01-01T00:00:00Z''),
     DriverErrorText = ''driver'', DbPing = (\<lambda>w. (True, w)), MigrationRow = (\<lambda>w. (NoMigrations, w))\<rparr>"

text \<open>User 1 holds the role \<open>operator\<close>.\<close>

definition demo_operator_world :: world where
  "demo_operator_world = demo_world\<lparr>db := (db demo_world)
     \<lparr>accounts := [\<lparr>oa_id = 7, oa_linked_user_id = 1, oa_email = ''op@x.org'', oa_password_hash = ''h'',
        oa_status = ''active'', oa_invited_by = None, oa_last_login_at = None\<rparr>],
      roles := [\<lparr>ro_id = 3, ro_name = ''operator''\<rparr>],
      account_roles := [\<lparr>ar_account_id = 7, ar_role_id = 3\<rparr>]\<rparr>\<rparr>"

definition demo_conn :: "world \<Rightarrow> conn" where
  "demo_conn w = \<lparr>wld = w, limiters = (\<lambda>_. demo_limiter), loginEmailThrottle = (\<lambda>_. None),
     redis = \<lparr>rl_client = False, rl_replies = [], rl_sent = []\<rparr>, request_id = ''r1'', auth_subject = '''',
     platform_action_reason = None, platform_roles = None, aborted = False, status = 200,
     resp_headers = [], resp_cookies = [], resp_body = None\<rparr>"

definition demo_request :: "string \<Rightarrow> string \<Rightarrow> (string \<Rightarrow> string) \<Rightarrow> json option \<Rightarrow> request" where
  "demo_request m p h b = \<lparr>rq_method = m, rq_path = p, rq_header = h, rq_cookie = (\<lambda>_. None), rq_param = (\<lambda>_. ''1''),
     rq_query = (\<lambda>_. ''''), rq_client_ip = ''10.0.0.1'', rq_content_length = 0, rq_body = b\<rparr>"

definition demo_headers :: "string \<Rightarrow> string" where
  "demo_headers k = (if k = ''Authorization'' then ''Bearer tok''
     else if k = ''X-Platform-Action-Reason'' then ''ticket-4711'' else '''')"

definition demo_ack :: request where
  "demo_ack = demo_request ''POST'' ''/api/v1/support/ack'' demo_headers None"

lemma trim_visible: "visible c \<Longrightarrow> visible (last (c # cs)) \<Longrightarrow> TrimSpace (c # cs) = c # cs"
  by (intro TrimSpace_visible) auto

lemma demo_parse: "ParseAccessToken demo_jwt demo_service ''tok'' 1000000000000 = Inr demo_claims"
  by (simp add: ParseAccessToken_def parseAccessTokenWithSecret_def demo_jwt_def demo_claims_def demo_service_def
      registered_claims_def claims_valid_def NewNumericDate_def)

lemma demo_authenticate:
  "authenticate demo_site demo_ack (demo_conn demo_operator_world) =
   (demo_conn demo_operator_world)\<lparr>auth_subject := ''user:1''\<rparr>"
proof -
  have s: "TokenSvc demo_site = Some demo_service" "JWT demo_site = demo_jwt" by (simp_all add: demo_site_def)
  have c: "clock (wld (demo_conn demo_operator_world)) = 1000000000000"
    by (simp add: demo_conn_def demo_operator_world_def demo_world_def)
  have sub: "cl_Subject demo_claims = ''user:1''" by (simp add: demo_claims_def registered_claims_def)
  show ?thesis
    by (simp add: authenticate_def BearerOrSession_def s Let_def demo_ack_def demo_request_def demo_headers_def
      trim_visible visible_def bearer_branch_def is_bearer_def bearer_prefix_def EqualFold_ascii_def ascii_lower_def
      lower_char_def c demo_parse sub)
qed

lemma demo_permission:
  "RequirePlatformPermission demo_site perm r (c\<lparr>wld := demo_operator_world, auth_subject := ''user:1''\<rparr>) =
   c\<lparr>wld := demo_operator_world, auth_subject := ''user:1'',
     platform_roles := Some [''operator'']\<rparr>"
proof -
  have "AuthUserIDFromContext (c\<lparr>wld := demo_operator_world, auth_subject := ''user:1''\<rparr>) = Some 1"
    by (simp add: AuthUserIDFromContext_def Let_def trim_visible visible_def HasPrefix_def ParseInt_def char_digit_def)
  moreover have "effectivePlatformRoles demo_site 1 demo_operator_world =
      (Inr [''operator''], demo_operator_world)"
    by (simp add: effectivePlatformRoles_def demo_site_def ListPlatformRoleNamesForUser_def demo_store_def
        nil_store_def demo_operator_world_def demo_world_def query_def db_call_def bind_result_def account_role_names_def
        live_user_def demo_user_def empty_db_def)
  moreover have "HasPermission [''operator''] perm" by (rule HasPermission_operator) simp
  ultimately show ?thesis by (simp add: RequirePlatformPermission_def call_def)
qed

lemma demo_limit:
  "\<exists>L. NewFixedWindowLimiter ''support_ack'' 30 msg demo_ack ((demo_conn w)\<lparr>auth_subject := s\<rparr>) =
     (demo_conn w)\<lparr>limiters := L, auth_subject := s\<rparr>"
  by (simp add: NewFixedWindowLimiter_def demo_conn_def Let_def local_allow_def sweep_def demo_limiter_def)

lemma ack_goes_on: "aborted (PostSupportAck e r c) = aborted c"
proof -
  have "post (\<lambda>c'. aborted c' = aborted c) (PostSupportAck e r c)"
    unfolding PostSupportAck_def with_user_def Let_def by (intro post_intro; simp add: post_def)
  then show ?thesis by (rule postD)
qed

lemma demo_chain_goes_on:
  "\<not> aborted (run_chain (rt_handlers (write_route demo_site ''POST'' ''/support/ack''
     (NewFixedWindowLimiter ''support_ack'' 30 msg) PermSupportAck (PostSupportAck demo_site)))
     demo_ack (demo_conn demo_operator_world))"
proof -
  have h: "RequireHumanUser demo_ack ((demo_conn w)\<lparr>auth_subject := ''user:1''\<rparr>) = (demo_conn w)\<lparr>auth_subject := ''user:1''\<rparr>" for w
    by (simp add: RequireHumanUser_def Let_def trim_visible visible_def HasPrefix_def)
  obtain L where L: "NewFixedWindowLimiter ''support_ack'' 30 msg demo_ack
      ((demo_conn demo_operator_world)\<lparr>auth_subject := ''user:1''\<rparr>) =
      (demo_conn demo_operator_world)\<lparr>limiters := L, auth_subject := ''user:1''\<rparr>"
    using demo_limit by blast
  have w: "(demo_conn demo_operator_world)\<lparr>limiters := L, auth_subject := ''user:1''\<rparr> =
      (demo_conn demo_operator_world)\<lparr>limiters := L, wld := demo_operator_world, auth_subject := ''user:1''\<rparr>"
    by (simp add: demo_conn_def)
  have r: "TrimSpace (rq_header demo_ack PlatformActionReasonHeader) = ''ticket-4711''"
    by (simp add: demo_ack_def demo_request_def demo_headers_def PlatformActionReasonHeader_def trim_visible visible_def)
  have a: "\<not> aborted (demo_conn demo_operator_world)" by (simp add: demo_conn_def)
  show ?thesis
    by (simp add: write_route_def route_of_def cp_guards_def demo_authenticate h L a Let_def)
      (simp add: w demo_permission a Let_def RequirePlatformActionReason_def r ack_goes_on)
qed

theorem access_policy_enforced_witness:
  "\<exists>c1. admitted demo_site ''platform.support.ack'' demo_ack (demo_conn demo_operator_world) c1 \<and>
     platform_action_reason c1 = Some ''ticket-4711'' \<and>
     run_chain (rt_handlers (write_route demo_site ''POST'' ''/support/ack''
       (NewFixedWindowLimiter ''support_ack'' 30 ''too many support ack requests'') PermSupportAck (PostSupportAck demo_site)))
       demo_ack (demo_conn demo_operator_world) = PostSupportAck demo_site demo_ack c1"
proof -
  let ?rt = "write_route demo_site ''POST'' ''/support/ack''
    (NewFixedWindowLimiter ''support_ack'' 30 ''too many support ack requests'') PermSupportAck (PostSupportAck demo_site)"
  let ?c = "demo_conn demo_operator_world"
  have "?rt \<in> set (v1_routes demo_site)" by (simp add: v1_routes_def cp_writes_def)
  moreover have "required_access ?rt = Some (''platform.support.ack'', True)"
    by (simp add: required_access_def write_route_def route_of_def access_policy_def)
  moreover have "\<not> aborted ?c" by (simp add: demo_conn_def)
  ultimately have "turned_away demo_site demo_ack ?c (run_chain (rt_handlers ?rt) demo_ack ?c) \<or>
    (\<exists>c1 uid. admitted demo_site ''platform.support.ack'' demo_ack ?c c1 \<and> AuthUserIDFromContext c1 = Some uid \<and> 0 < uid \<and>
       (True \<longrightarrow> stated_reason demo_ack c1) \<and>
       run_chain (rt_handlers ?rt) demo_ack ?c = last (rt_handlers ?rt) demo_ack c1)"
    by (rule access_policy_enforced)
  moreover have "\<not> aborted (run_chain (rt_handlers ?rt) demo_ack ?c)"
    by (rule demo_chain_goes_on)
  moreover have "TrimSpace (rq_header demo_ack PlatformActionReasonHeader) = ''ticket-4711''"
    by (simp add: demo_ack_def demo_request_def demo_headers_def PlatformActionReasonHeader_def trim_visible visible_def)
  ultimately show ?thesis
    by (auto simp: turned_away_def stated_reason_def write_route_def route_of_def)
qed

section \<open>Cross-site requests\<close>

text \<open>A double submit: the cookie is there, is not blank, and the header repeats it.\<close>

definition double_submit :: "config \<Rightarrow> request \<Rightarrow> bool" where
  "double_submit cfg r \<longleftrightarrow>
     (\<exists>tok. rq_cookie r (CSRFCookieName cfg) = Some tok \<and> TrimSpace tok \<noteq> '''' \<and>
        TrimSpace (rq_header r (CSRFHeaderName cfg)) = tok)"

definition rides_on_session :: "config \<Rightarrow> request \<Rightarrow> bool" where
  "rides_on_session cfg r \<longleftrightarrow>
     \<not> safe_method (rq_method r) \<and> \<not> is_bearer (TrimSpace (rq_header r ''Authorization'')) \<and>
     (\<forall>p\<in>set CSRFExemptPathPrefixes. \<not> HasPrefix (rq_path r) p) \<and>
     present (rq_cookie r (SessionCookieName cfg))"

text \<open>The middleware before the CSRF check: it leaves the tables alone.\<close>

definition quiet :: "request \<Rightarrow> conn \<Rightarrow> conn \<Rightarrow> bool" where
  "quiet r c c' \<longleftrightarrow> db (wld c') = db (wld c) \<and>
     (aborted c' \<longrightarrow> status c' = 403 \<or> status c' = 410 \<or> status c' = 204 \<and> rq_method r = ''OPTIONS'')"

lemma quiet_trans: "quiet r c c1 \<Longrightarrow> quiet r c1 c2 \<Longrightarrow> quiet r c c2"
  by (auto simp: quiet_def)

lemma quiet_chain:
  assumes "\<forall>h\<in>set hs. \<forall>c. \<not> aborted c \<longrightarrow> quiet r c (h r c)" and "\<not> aborted c"
  shows "quiet r c (run_chain hs r c)"
  using assms
proof (induction hs arbitrary: c)
  case (Cons h hs)
  then have "quiet r c (h r c)" by simp
  moreover have "quiet r (h r c) (run_chain hs r (h r c))" if "\<not> aborted (h r c)"
    using Cons.IH Cons.prems(1) that by simp
  ultimately show ?case using quiet_trans by (auto simp: Let_def)
qed (simp add: quiet_def)

lemma quiet_middleware:
  assumes "\<not> aborted c"
  shows "quiet r c (requestid_Middleware r c)" "quiet r c (SecurityHeaders r c)" "quiet r c (DynamicCORS os hs r c)"
    "quiet r c (legacyAPIMiddleware r c)"
proof -
  have "db w1 = db w" if "newID w = (x, w1)" for x w w1
    using that rand_Read_world [of 8 w] by (auto simp: newID_def split: prod.splits option.splits)
  then show "quiet r c (requestid_Middleware r c)"
    using assms by (auto simp: requestid_Middleware_def Let_def call_def quiet_def split: prod.split)
  show "quiet r c (SecurityHeaders r c)" using assms by (simp add: SecurityHeaders_def quiet_def)
  show "quiet r c (DynamicCORS os hs r c)" using assms by (simp add: DynamicCORS_def Let_def quiet_def)
  show "quiet r c (legacyAPIMiddleware r c)" using assms by (simp add: legacyAPIMiddleware_def quiet_def)
qed

lemma global_quiet: "h \<in> set (global_middleware e) \<Longrightarrow> \<not> aborted c \<Longrightarrow> quiet r c (h r c)"
  using quiet_middleware by (auto simp: global_middleware_def split: if_splits)

lemma csrf_stops:
  assumes "rides_on_session cfg r" and "\<not> double_submit cfg r"
  shows "CSRFCookieProtect cfg r c = Abort (respond_Error 403 CodeForbidden ''csrf token missing or invalid''
     [(''header'', JStr (CSRFHeaderName cfg))] c)"
  using assms
  by (auto simp: CSRFCookieProtect_def rides_on_session_def double_submit_def Let_def present_def split: option.splits)

text \<open>
  C6: Cross-site requests are stopped. A request that would change something on the strength
  of a session cookie (an unsafe method, no bearer token, a path outside the few sign-in
  routes) and does not repeat a non-blank CSRF cookie in the CSRF header gets through to no
  handler and no authentication of any route: the chain of the service stops with 403 (410 if
  the path is not below /api/v1) and no table changes.
\<close>

theorem cross_site_requests_stopped:
  assumes "rides_on_session (AppConfig e) r" and "\<not> double_submit (AppConfig e) r" and "\<not> aborted c"
  shows "\<forall>hs. let c' = run_chain (global_middleware e @ v1_middleware e @ hs) r c
     in aborted c' \<and> (status c' = 403 \<or> status c' = 410) \<and> db (wld c') = db (wld c)"
proof -
  have q: "quiet r c (run_chain (global_middleware e) r c)"
    using global_quiet assms(3) by (intro quiet_chain) auto
  have "rq_method r \<noteq> ''OPTIONS''" using assms(1) by (auto simp: rides_on_session_def safe_method_def)
  with q csrf_stops [OF assms(1,2)] show ?thesis
    by (auto simp: run_chain_append [OF assms(3)] v1_middleware_def quiet_def Let_def)
qed

text \<open>A form post from another site, with the browser's cookies and without the header.\<close>

definition demo_forged :: request where
  "demo_forged = (demo_request ''POST'' ''/api/v1/users'' (\<lambda>_. '''') (Some (JObj [(''name'', JStr ''x'')])))
     \<lparr>rq_cookie := (\<lambda>k. if k = ''gl_session'' then Some ''abc'' else if k = ''gl_csrf'' then Some ''def'' else None)\<rparr>"

theorem cross_site_requests_stopped_witness:
  "let c' = run_chain (global_middleware demo_site @ v1_middleware demo_site @ [authenticate demo_site, CreateUser])
       demo_forged (demo_conn demo_world)
   in aborted c' \<and> (status c' = 403 \<or> status c' = 410) \<and> db (wld c') = db demo_world"
proof -
  have "rides_on_session (AppConfig demo_site) demo_forged" "\<not> double_submit (AppConfig demo_site) demo_forged"
    "\<not> aborted (demo_conn demo_world)" "wld (demo_conn demo_world) = demo_world"
    by (simp_all add: rides_on_session_def double_submit_def safe_method_def demo_forged_def demo_request_def
        demo_site_def demo_config_def present_def trim_visible visible_def is_bearer_def bearer_prefix_def
        CSRFExemptPathPrefixes_def HasPrefix_def demo_conn_def)
  with cross_site_requests_stopped [of demo_site demo_forged "demo_conn demo_world"] show ?thesis
    unfolding Let_def by metis
qed

end
