(* ===== verification/Control_Plane.thy ===== *)
theory Control_Plane
  imports Access
begin

text \<open>
  The operations of the control plane behind its guards: an error changes nothing, and what
  succeeds is recorded in the admin audit trail with the actor, the subject and the reason.
\<close>

section \<open>Operations under the audit trail\<close>

text \<open>What an operation must leave to the audit: the trail itself, and the users it refers to.\<close>

definition same_books :: "database \<Rightarrow> database \<Rightarrow> bool" where
  "same_books d d' \<longleftrightarrow> users d' = users d \<and> admin_audit d' = admin_audit d"

lemma reflp_same_books [simp, keeps_intro]: "reflp same_books"
  by (simp add: reflp_def same_books_def)

lemma same_books_trans: "same_books a b \<Longrightarrow> same_books b c \<Longrightarrow> same_books a c"
  by (simp add: same_books_def)

definition no_fault :: "world \<Rightarrow> bool" where
  "no_fault w \<longleftrightarrow> outcomes w = []"

definition carried :: "world \<Rightarrow> world \<Rightarrow> bool" where
  "carried w w' \<longleftrightarrow> same_books (db w) (db w') \<and> (no_fault w \<longrightarrow> no_fault w')"

locale governed_op = atomic_op op for op :: "world \<Rightarrow> ('e, 'a) result \<times> world" +
  assumes op_books: "keeps same_books w (op w)"
    and op_script: "no_fault w \<Longrightarrow> no_fault (snd (op w))"
begin

text \<open>A handler that runs the operation, answers an error, and goes on after a success.\<close>

lemma handler:
  assumes "\<And>err w. db w = db (wld c) \<Longrightarrow> post Q (kerr err (c\<lparr>wld := w\<rparr>))"
    and "\<And>a w. carried (wld c) w \<Longrightarrow> post Q (kok a (c\<lparr>wld := w\<rparr>))"
  shows "post Q (call op c (\<lambda>res c1. case res of Inl err \<Rightarrow> kerr err c1 | Inr a \<Rightarrow> kok a c1))"
proof (rule post_call)
  fix x w assume op: "op (wld c) = (x, w)"
  show "post Q (case x of Inl err \<Rightarrow> kerr err (c\<lparr>wld := w\<rparr>) | Inr a \<Rightarrow> kok a (c\<lparr>wld := w\<rparr>))"
  proof (cases x)
    case (Inl err)
    with op error_no_effect have "db w = db (wld c)" by blast
    with assms(1) Inl show ?thesis by simp
  next
    case (Inr a)
    from op have "carried (wld c) w"
      using keepsD [OF op_books] op_script [of "wld c"] by (auto simp: carried_def)
    with assms(2) Inr show ?thesis by simp
  qed
qed

end

lemma no_fault_steps [simp]:
  "no_fault w \<Longrightarrow> no_fault (snd (exec f w))" "no_fault w \<Longrightarrow> no_fault (snd (query q w))"
  by (auto simp: no_fault_def exec_no_script query_no_script split: option.split)

lemma no_fault_bind:
  assumes "no_fault (snd p)" and "\<And>a w. p = (Inr a, w) \<Longrightarrow> no_fault (snd (k a w))"
  shows "no_fault (snd (bind_result p k))"
  using assms by (cases p; cases "fst p") auto

lemma no_fault_in_tx:
  assumes "no_fault w" and "no_fault (snd (body w))"
  shows "no_fault (snd (in_tx body w))"
  using assms by (cases "body w") (auto simp: no_fault_def in_tx_no_script split: sum.split)

lemma no_fault_option:
  "(x = None \<Longrightarrow> no_fault (snd p)) \<Longrightarrow> (\<And>y. x = Some y \<Longrightarrow> no_fault (snd (q y))) \<Longrightarrow>
   no_fault (snd (case x of None \<Rightarrow> p | Some y \<Rightarrow> q y))"
  by (cases x) simp_all

lemma no_fault_if: "(b \<Longrightarrow> no_fault (snd p)) \<Longrightarrow> (\<not> b \<Longrightarrow> no_fault (snd q)) \<Longrightarrow> no_fault (snd (if b then p else q))"
  by simp

lemma no_fault_pair: "no_fault w \<Longrightarrow> no_fault (snd (x, w))"
  by simp

lemma no_fault_exec: "no_fault w \<Longrightarrow> no_fault (snd (exec f w))"
  by simp

lemma no_fault_query: "no_fault w \<Longrightarrow> no_fault (snd (query q w))"
  by simp

lemmas no_fault_intro = no_fault_if no_fault_option no_fault_bind no_fault_in_tx no_fault_exec no_fault_query no_fault_pair

lemma no_fault_bound: "p = (x, w) \<Longrightarrow> no_fault (snd p) \<Longrightarrow> no_fault w"
  by simp

lemma no_fault_then:
  assumes "no_fault (snd p)" and "\<And>a w. no_fault w \<Longrightarrow> no_fault (snd (k a w))"
  shows "no_fault (snd (bind_result p k))"
  using assms by (cases p; cases "fst p") auto

lemmas no_fault_rules = no_fault_if no_fault_option no_fault_then no_fault_in_tx no_fault_exec no_fault_query no_fault_pair

lemma clean_exec_bind:
  assumes "\<And>t d a. f t (db w) = Some (d, a) \<Longrightarrow> bad a \<Longrightarrow> d = db w" and "\<And>a w1 e w2. k a w1 = (Inl e, w2) \<Longrightarrow> bad a \<and> w2 = w1"
  shows "clean w (bind_result (exec f w) k)"
proof (rule clean_bind)
  fix a w1 e w2
  assume *: "exec f w = (Inr a, w1)" "k a w1 = (Inl e, w2)"
  from assms(2) [OF *(2)] have "bad a" "w2 = w1" by auto
  with *(1) assms(1) show "db w2 = db w" by (auto elim!: exec_cases)
qed (rule clean_exec)

interpretation open_case: governed_op "CreateOperatorCase s u cref t d p b" for s u cref t d p b
  by unfold_locales
    (auto simp: CreateOperatorCase_def Let_def same_books_def split: if_splits
      intro!: clean_intro no_fault_rules keeps_intro keeps_exec)

interpretation patch_case: governed_op "UpdateOperatorCase s i st pr a" for s i st pr a
proof unfold_locales
  fix w
  show "clean w (UpdateOperatorCase s i st pr a w)"
    unfolding UpdateOperatorCase_def Let_def
    by (intro clean_intro clean_exec_bind [where bad = "\<lambda>n. n = 0"])
      (auto simp: affected_zero_unchanged split: if_splits)
  show "keeps same_books w (UpdateOperatorCase s i st pr a w)"
    unfolding UpdateOperatorCase_def Let_def
    by (intro keeps_intro keeps_bind_reads keeps_exec) (auto simp: same_books_def split: if_splits)
  show "no_fault w \<Longrightarrow> no_fault (snd (UpdateOperatorCase s i st pr a w))"
    unfolding UpdateOperatorCase_def Let_def by (intro no_fault_rules)
qed

interpretation add_note: governed_op "InsertOperatorCaseNote s i b u" for s i b u
  by unfold_locales
    (auto simp: InsertOperatorCaseNote_def Let_def same_books_def split: if_splits
      intro!: clean_intro no_fault_rules keeps_intro keeps_exec)

interpretation add_action: governed_op "InsertOperatorCaseAction s i k p r u" for s i k p r u
proof unfold_locales
  fix w
  show "clean w (InsertOperatorCaseAction s i k p r u w)"
    unfolding InsertOperatorCaseAction_def Let_def by (auto intro!: clean_intro split: option.split)
  show "keeps same_books w (InsertOperatorCaseAction s i k p r u w)"
    unfolding InsertOperatorCaseAction_def Let_def
    by (intro keeps_intro keeps_exec) (auto simp: same_books_def split: if_splits)
  show "no_fault w \<Longrightarrow> no_fault (snd (InsertOperatorCaseAction s i k p r u w))"
    unfolding InsertOperatorCaseAction_def Let_def by (intro no_fault_rules)
qed

text \<open>The updates of the restore workflow.\<close>

lemma keeps_update_books: "keeps same_books w (exec (update_restores P f) w)"
  by (rule keeps_exec) (auto simp: update_restores_def same_books_def)

interpretation request_restore: governed_op "CreateBackupRestoreRequest s u sc lb re rq" for s u sc lb re rq
  by unfold_locales
    (auto simp: CreateBackupRestoreRequest_def Let_def same_books_def split: if_splits
      intro!: clean_intro no_fault_rules keeps_intro keeps_exec)

lemma no_fault_get: "no_fault w \<Longrightarrow> no_fault (snd (GetBackupRestoreRequest s i w))"
  unfolding GetBackupRestoreRequest_def by (intro no_fault_rules)

interpretation reject_restore: governed_op "RejectBackupRestoreRequest s i u re" for s i u re
proof unfold_locales
  fix w
  show "keeps same_books w (RejectBackupRestoreRequest s i u re w)"
    unfolding RejectBackupRestoreRequest_def by (intro keeps_intro keeps_bind_reads keeps_update_books)
  show "no_fault w \<Longrightarrow> no_fault (snd (RejectBackupRestoreRequest s i u re w))"
    unfolding RejectBackupRestoreRequest_def by (intro no_fault_rules no_fault_get)
qed

interpretation cancel_restore: governed_op "CancelBackupRestoreRequest s i u" for s i u
proof unfold_locales
  fix w
  show "keeps same_books w (CancelBackupRestoreRequest s i u w)"
    unfolding CancelBackupRestoreRequest_def by (intro keeps_intro keeps_bind_reads keeps_update_books)
  show "no_fault w \<Longrightarrow> no_fault (snd (CancelBackupRestoreRequest s i u w))"
    unfolding CancelBackupRestoreRequest_def by (intro no_fault_rules no_fault_get)
qed

interpretation fulfill_restore: governed_op "FulfillBackupRestoreRequest s i u nt" for s i u nt
proof unfold_locales
  fix w
  show "keeps same_books w (FulfillBackupRestoreRequest s i u nt w)"
    unfolding FulfillBackupRestoreRequest_def by (intro keeps_intro keeps_bind_reads keeps_update_books)
  show "no_fault w \<Longrightarrow> no_fault (snd (FulfillBackupRestoreRequest s i u nt w))"
    unfolding FulfillBackupRestoreRequest_def by (intro no_fault_rules)
qed

interpretation approve_restore: governed_op "ApproveBackupRestoreRequest s i u" for s i u
proof unfold_locales
  fix w
  show "keeps same_books w (ApproveBackupRestoreRequest s i u w)"
    unfolding ApproveBackupRestoreRequest_def Let_def
    by (intro keeps_intro keeps_bind_reads keeps_exec) (auto simp: same_books_def update_restores_def split: if_splits)
  show "no_fault w \<Longrightarrow> no_fault (snd (ApproveBackupRestoreRequest s i u w))"
    unfolding ApproveBackupRestoreRequest_def Let_def by (intro no_fault_rules)
qed

section \<open>Errors change nothing, successes are recorded\<close>

definition audit_row :: "int \<Rightarrow> string \<Rightarrow> conn \<Rightarrow> admin_audit_row \<Rightarrow> bool" where
  "audit_row uid reason c row \<longleftrightarrow> ad_actor row = Some uid \<and> ad_subject row = auth_subject c \<and>
     ad_reason row = Some reason \<and> ad_request_id row = nullStr (request_id c)"

definition accounted :: "int \<Rightarrow> string \<Rightarrow> conn \<Rightarrow> conn \<Rightarrow> bool" where
  "accounted uid reason c c' \<longleftrightarrow>
     400 \<le> status c' \<and> db (wld c') = db (wld c) \<or>
     (status c' = 200 \<or> status c' = 201) \<and>
       (no_fault (wld c) \<longrightarrow> user_exists (db (wld c)) uid \<longrightarrow>
        (\<exists>row. admin_audit (db (wld c')) = admin_audit (db (wld c)) @ [row] \<and> audit_row uid reason c row))"

lemma accounted_error [post_intro]:
  "db (wld c') = db (wld c) \<Longrightarrow> 400 \<le> st \<Longrightarrow> post (accounted uid reason c) (respond_Error st code m ds c')"
  by (simp add: post_def accounted_def)

definition same_request :: "conn \<Rightarrow> conn \<Rightarrow> bool" where
  "same_request c c1 \<longleftrightarrow> carried (wld c) (wld c1) \<and> auth_subject c1 = auth_subject c \<and> request_id c1 = request_id c"

definition answers :: "(conn \<Rightarrow> conn) \<Rightarrow> bool" where
  "answers k \<longleftrightarrow> (\<forall>c. db (wld (k c)) = db (wld c) \<and> (status (k c) = 200 \<or> status (k c) = 201))"

lemma answers_simple [simp]: "answers (OK d)" "answers (JSONOK 200 d)" "answers (JSONOK 201 d)"
  by (simp_all add: answers_def)

lemma InsertAdmin_ok:
  assumes "\<not> nil_store s" and "no_fault w" and "user_exists (db w) uid"
    and "InsertAdminAuditEvent s (Some uid) sub a t i reason rid ip ua m w = (x, w')"
  shows "x = Inr () \<and> no_fault w' \<and> (\<exists>row. admin_audit (db w') = admin_audit (db w) @ [row] \<and>
    ad_actor row = Some uid \<and> ad_subject row = sub \<and> ad_reason row = nullStr reason \<and> ad_request_id row = nullStr rid)"
  using assms by (auto simp: InsertAdminAuditEvent_def no_fault_def exec_no_script user_ref_def)

lemma audited_answer:
  assumes "AuthStore e = Some s" and "\<not> nil_store (Some s)" and "reason \<noteq> ''''"
    and "same_request c c1" and "answers k"
  shows "post (accounted uid reason c) (audit_admin e r uid a t i reason m c1 k)"
  unfolding audit_admin_def
proof (rule post_call)
  fix x :: "(unit, unit) result" and w
  assume ins: "InsertAdminAuditEvent (AuthStore e) (Some uid) (auth_subject c1) a t i reason (request_id c1)
     (rq_client_ip r) (rq_header r ''User-Agent'') m (wld c1) = (x, w)"
  let ?c2 = "c1\<lparr>wld := w\<rparr>"
  have k: "status (k ?c2) = 200 \<or> status (k ?c2) = 201" "db (wld (k ?c2)) = db w"
    using assms(5) by (auto simp: answers_def)
  have "\<exists>row. admin_audit (db w) = admin_audit (db (wld c)) @ [row] \<and> audit_row uid reason c row"
    if "no_fault (wld c)" "user_exists (db (wld c)) uid"
  proof -
    from assms(4) that have "no_fault (wld c1)" "user_exists (db (wld c1)) uid"
      "admin_audit (db (wld c1)) = admin_audit (db (wld c))"
      by (auto simp: same_request_def carried_def same_books_def user_exists_def)
    with InsertAdmin_ok [OF _ this(1,2) ins] assms(1-4) show ?thesis
      by (auto simp: audit_row_def nullStr_def same_request_def)
  qed
  with k show "post (accounted uid reason c) (k ?c2)" by (simp add: post_def accounted_def)
qed

lemma same_request_refl [simp]: "same_request c c"
  by (simp add: same_request_def carried_def same_books_def)

lemma same_request_op: "same_request c c1 \<Longrightarrow> carried (wld c1) w \<Longrightarrow> same_request c (c1\<lparr>wld := w\<rparr>)"
  by (auto simp: same_request_def carried_def same_books_def)

lemma carried_read: "db w' = db w \<Longrightarrow> (no_fault w \<Longrightarrow> no_fault w') \<Longrightarrow> carried w w'"
  by (simp add: carried_def same_books_def)

lemma GetCase_keeps: "keeps (=) w (GetOperatorCase s i w)"
  unfolding GetOperatorCase_def by (intro keeps_intro)

lemma no_fault_get_case: "no_fault w \<Longrightarrow> no_fault (snd (GetOperatorCase s i w))"
  unfolding GetOperatorCase_def by (intro no_fault_rules)

text \<open>The steps before the operation: the caller, the path id, the case.\<close>

lemma with_user_known: "AuthUserIDFromContext c = Some uid \<Longrightarrow> with_user c k = k uid"
  by (simp add: with_user_def)

lemma parse_id_post:
  assumes "db (wld c1) = db (wld c)" and "\<And>i. post (accounted uid reason c) (k i c1)"
  shows "post (accounted uid reason c) (parseInt64Param n r c1 k)"
  unfolding parseInt64Param_def Let_def using assms by (intro post_intro accounted_error) auto

lemma with_case_post:
  assumes "same_request c c1" and "db (wld c1) = db (wld c)"
    and "\<And>row c2. same_request c c2 \<Longrightarrow> db (wld c2) = db (wld c) \<Longrightarrow> platform_action_reason c2 = platform_action_reason c1 \<Longrightarrow>
      post (accounted uid reason c) (k row c2)"
  shows "post (accounted uid reason c) (with_case e i c1 k)"
  unfolding with_case_def
proof (rule post_call)
  fix x w assume g: "GetOperatorCase (AuthStore e) i (wld c1) = (x, w)"
  then have d: "db w = db (wld c)" using keepsD [OF GetCase_keeps g] assms(2) by simp
  moreover have "same_request c (c1\<lparr>wld := w\<rparr>)"
    using assms(1,2) d no_fault_get_case [of "wld c1" "AuthStore e" i] g
    by (auto intro!: same_request_op carried_read)
  ultimately show "post (accounted uid reason c)
     (case x of Inl NoRows \<Rightarrow> respond_Error 404 CodeNotFound ''case not found'' [] (c1\<lparr>wld := w\<rparr>)
       | Inl _ \<Rightarrow> respond_Error 500 CodeInternal ''failed to load case'' [] (c1\<lparr>wld := w\<rparr>)
       | Inr row \<Rightarrow> k row (c1\<lparr>wld := w\<rparr>))"
    by (intro post_intro) (auto intro!: assms(3))
qed

section \<open>The twelve handlers\<close>

definition behaves :: "env \<Rightarrow> handler \<Rightarrow> bool" where
  "behaves e h \<longleftrightarrow> (\<forall>r c s uid. AuthStore e = Some s \<longrightarrow> \<not> nil_store (Some s) \<longrightarrow>
     AuthUserIDFromContext c = Some uid \<longrightarrow> stated_reason r c \<longrightarrow>
     post (accounted uid (TrimSpace (rq_header r PlatformActionReasonHeader)) c) (h r c))"

lemma behavesI:
  assumes "\<And>r c s uid reason. AuthStore e = Some s \<Longrightarrow> \<not> nil_store (Some s) \<Longrightarrow> AuthUserIDFromContext c = Some uid \<Longrightarrow>
      (\<And>k. with_user c k = k uid) \<Longrightarrow> reason \<noteq> '''' \<Longrightarrow> TrimSpace reason = reason \<Longrightarrow> platform_action_reason c = Some reason \<Longrightarrow>
      (\<And>c1. reasonFromContext r c1 = reason) \<Longrightarrow>
      post (accounted uid reason c) (h r c)"
  shows "behaves e h"
  unfolding behaves_def
proof (intro allI impI)
  fix r c s uid
  assume s: "AuthStore e = Some s" "\<not> nil_store (Some s)" and u: "AuthUserIDFromContext c = Some uid" and "stated_reason r c"
  let ?reason = "TrimSpace (rq_header r PlatformActionReasonHeader)"
  from \<open>stated_reason r c\<close> have r: "?reason \<noteq> ''''" "platform_action_reason c = Some ?reason"
    by (auto simp: stated_reason_def)
  show "post (accounted uid ?reason c) (h r c)"
    by (rule assms [OF s u with_user_known [OF u] r(1) _ r(2)])
      (use r(1) in \<open>auto simp: reasonFromContext_def\<close>)
qed

lemmas branch_rules = post_if post_let post_option post_sum post_prod post_fault post_bool accounted_error

lemma invalid_json_post [intro]: "post (accounted uid reason c) (invalid_json c)"
  by (simp add: invalid_json_def accounted_error)

lemma bad_query_post [intro]: "post (accounted uid reason c) (bad_query m c)"
  by (simp add: bad_query_def accounted_error)

lemma note_behaves: "behaves e (PostOperatorCaseNote e)"
  unfolding PostOperatorCaseNote_def
  by (rule behavesI, simp only:)
    (intro parse_id_post with_case_post add_note.handler audited_answer branch_rules;
      auto intro: same_request_op)

lemma record_action_post:
  assumes "same_request c c1" and "db (wld c1) = db (wld c)" and "\<And>c1. reasonFromContext r c1 = reason"
    and "AuthStore e = Some s" "\<not> nil_store (Some s)" "reason \<noteq> ''''"
  shows "post (accounted uid reason c) (record_action e r uid i kind payload act msg rec c1)"
  unfolding record_action_def assms(3)
  using assms(1,2,4-) by (intro branch_rules add_action.handler audited_answer; auto intro: same_request_op)

lemma sanction_behaves: "behaves e (PostOperatorCaseSanction e)"
  unfolding PostOperatorCaseSanction_def
  by (rule behavesI, simp only:)
    (intro parse_id_post with_case_post branch_rules record_action_post; auto)

lemma recovery_behaves: "behaves e (PostOperatorCaseRecoveryRequest e)"
  unfolding PostOperatorCaseRecoveryRequest_def
  by (rule behavesI, simp only:)
    (intro parse_id_post with_case_post branch_rules record_action_post; auto)

lemma appeal_behaves: "behaves e (PostOperatorCaseAppealResolve e)"
  unfolding PostOperatorCaseAppealResolve_def
  by (rule behavesI, simp only:)
    (intro parse_id_post with_case_post branch_rules record_action_post; auto)

lemma patch_behaves: "behaves e (PatchOperatorCase e)"
proof -
  have k: "answers (\<lambda>c2. call (GetOperatorCase s i) c2 (\<lambda>row c3.
      OK (caseRowToJSON (case row of Inl _ \<Rightarrow> zero_case | Inr x \<Rightarrow> x)) c3))" for s i
    using keepsD [OF GetCase_keeps] by (fastforce simp: answers_def call_def split: prod.split)
  show ?thesis
    unfolding PatchOperatorCase_def
    by (rule behavesI, simp only:)
      (intro parse_id_post branch_rules patch_case.handler audited_answer; auto intro: same_request_op k)
qed

text \<open>A read before the operation.\<close>

lemma carried_query: "query q w = (x, w') \<Longrightarrow> carried w w' \<and> db w' = db w"
  by (auto simp: carried_def same_books_def no_fault_def query_no_script dest: query_db)

lemma get_restore_carried: "GetBackupRestoreRequest s i w = (x, w') \<Longrightarrow> carried w w'"
  using keepsD [OF keeps_Get, where x = x] no_fault_bound [of "GetBackupRestoreRequest s i w" x w', OF _ no_fault_get]
  by (auto intro!: carried_read)


lemma carried_trans: "carried w1 w2 \<Longrightarrow> carried w2 w3 \<Longrightarrow> carried w1 w3"
  by (auto simp: carried_def same_books_def)

lemma same_request_get:
  "carried (wld c) w \<Longrightarrow> GetBackupRestoreRequest s i w = (x, w') \<Longrightarrow> same_request c (c\<lparr>wld := w'\<rparr>)"
  using same_request_op [OF same_request_refl] carried_trans get_restore_carried by blast

lemma read_post:
  fixes k :: "('e, 'a) result \<Rightarrow> conn \<Rightarrow> conn"
  assumes "same_request c c1" and "db (wld c1) = db (wld c)"
    and "\<And>x c2. same_request c c2 \<Longrightarrow> db (wld c2) = db (wld c) \<Longrightarrow> post Q (k x c2)"
  shows "post Q (call (query q) c1 k)"
proof (rule post_call)
  fix x :: "('e, 'a) result" and w assume "query q (wld c1) = (x, w)"
  with carried_query have "carried (wld c1) w" "db w = db (wld c1)" by blast+
  with assms show "post Q (k x (c1\<lparr>wld := w\<rparr>))" by (auto intro!: assms(3) same_request_op)
qed

lemma open_behaves: "behaves e (PostOperatorCase e)"
  unfolding PostOperatorCase_def
  by (rule behavesI, simp only:)
    (intro branch_rules read_post open_case.handler audited_answer; auto intro: same_request_op accounted_error split: case_error.split)

lemma request_behaves: "behaves e (PostBackupRestoreRequest e)"
  unfolding PostBackupRestoreRequest_def
  by (rule behavesI, simp only:)
    (intro branch_rules request_restore.handler audited_answer; auto intro!: audited_answer intro: same_request_op)

lemma error_answers [intro]:
  assumes "db (wld c1) = db (wld c)"
  shows "post (accounted uid reason c) (approve_refusal err c1)" "post (accounted uid reason c) (reject_refusal err c1)"
    "post (accounted uid reason c) (cancel_refusal err c1)"
  using assms
  by (auto simp: approve_refusal_def reject_refusal_def cancel_refusal_def accounted_error split: fault.split restore_error.split)

lemma reject_behaves: "behaves e (PostBackupRestoreReject e)"
  unfolding PostBackupRestoreReject_def
  by (rule behavesI, simp only:)
    (intro parse_id_post branch_rules reject_restore.handler audited_answer; auto intro: same_request_op)

lemma cancel_behaves: "behaves e (PostBackupRestoreCancel e)"
  unfolding PostBackupRestoreCancel_def
  by (rule behavesI, simp only:)
    (intro parse_id_post branch_rules cancel_restore.handler audited_answer; auto intro: same_request_op)

lemma fulfill_behaves: "behaves e (PostBackupRestoreFulfill e)"
  unfolding PostBackupRestoreFulfill_def
  by (rule behavesI, simp only:)
    (intro parse_id_post branch_rules fulfill_restore.handler audited_answer;
      auto intro: same_request_op accounted_error split: restore_error.split)

lemma approve_behaves: "behaves e (PostBackupRestoreApprove e)"
  unfolding PostBackupRestoreApprove_def
  by (rule behavesI, simp only:)
    (intro parse_id_post branch_rules approve_restore.handler post_call audited_answer;
      auto intro: same_request_op same_request_get)

lemma ack_behaves: "behaves e (PostSupportAck e)"
  unfolding PostSupportAck_def
proof (rule behavesI, simp only:, intro branch_rules, goal_cases)
  case (3 r c s uid reason metaJSON)
  show ?case
  proof (rule post_call)
    fix x :: "(unit, unit) result" and w
    assume i: "InsertAdminAuditEvent (Some s) (Some uid) (auth_subject c) ''support.ack'' ''support'' [] reason
      (request_id c) (rq_client_ip r) (rq_header r ''User-Agent'') metaJSON (wld c) = (x, w)"
    have "db w = db (wld c)" if "x = Inl err" for err
      using i that by (auto simp: InsertAdminAuditEvent_def split: if_splits elim!: exec_cases)
    moreover have "\<exists>row. admin_audit (db w) = admin_audit (db (wld c)) @ [row] \<and> audit_row uid reason c row"
      if "no_fault (wld c)" "user_exists (db (wld c)) uid"
      using InsertAdmin_ok [OF 3(2) that i] 3(5) by (auto simp: audit_row_def nullStr_def)
    ultimately show "post (accounted uid reason c)
       (case x of Inl _ \<Rightarrow> respond_Error 500 CodeInternal ''failed to write admin audit event'' [] (c\<lparr>wld := w\<rparr>)
        | Inr _ \<Rightarrow> OK (JObj [(''ok'', JBool True), (''recorded'', JStr ''support.ack'')]) (c\<lparr>wld := w\<rparr>))"
      by (intro branch_rules) (auto simp: post_def accounted_def intro!: accounted_error)
  qed
qed auto

lemma writes_behave: "rt \<in> set (cp_writes e) \<Longrightarrow> behaves e (last (rt_handlers rt))"
  by (auto simp: cp_writes_def write_route_def route_of_def open_behaves request_behaves approve_behaves reject_behaves
      fulfill_behaves cancel_behaves ack_behaves note_behaves sanction_behaves recovery_behaves appeal_behaves
      patch_behaves)

text \<open>
  The one mutating route of the control plane without a stated reason, the creation of an
  invitation, is recorded in the audit trail of authentication instead.
\<close>

definition invited :: "int \<Rightarrow> conn \<Rightarrow> conn \<Rightarrow> bool" where
  "invited uid c c' \<longleftrightarrow>
     400 \<le> status c' \<and> db (wld c') = db (wld c) \<or>
     status c' = 201 \<and>
       (no_fault (wld c) \<longrightarrow> user_exists (db (wld c)) uid \<longrightarrow>
        admin_audit (db (wld c')) = admin_audit (db (wld c)) \<and>
        (\<exists>ticket row. invites (db (wld c')) = invites (db (wld c)) @ [ticket] \<and> iv_invited_by ticket = Some uid \<and>
           auth_audit (db (wld c')) = auth_audit (db (wld c)) @ [row] \<and>
           au_event_type row = ''auth_operator_invite_created'' \<and> au_user_id row = Some uid))"

lemma opaque_token_world: "NewOpaqueToken w = (x, w') \<Longrightarrow> db w' = db w \<and> (no_fault w \<longrightarrow> no_fault w')"
  using rand_Read_world by (fastforce simp: NewOpaqueToken_def no_fault_def split: prod.splits option.splits)

lemma create_invite_result:
  assumes "CreateOperatorInvite (Some s) h email n ro lu (Some uid) t m w = (x, w')"
  shows "(\<exists>err. x = Inl err \<and> db w' = db w) \<or>
    x = Inr () \<and> (no_fault w \<longrightarrow> no_fault w') \<and>
      (\<exists>ticket. db w' = (db w)\<lparr>invites := invites (db w) @ [ticket]\<rparr> \<and> iv_invited_by ticket = Some uid)"
proof -
  have "no_fault w'" if "no_fault w"
    using assms that
    by (auto simp: CreateOperatorInvite_def no_fault_def exec_no_script split: if_splits option.splits prod.splits)
  moreover have "(\<exists>err. x = Inl err \<and> db w' = db w) \<or>
      x = Inr () \<and> (\<exists>ticket. db w' = (db w)\<lparr>invites := invites (db w) @ [ticket]\<rparr> \<and> iv_invited_by ticket = Some uid)"
    using assms
    by (auto simp: CreateOperatorInvite_def split: if_splits elim!: exec_cases dest!: sym [of _ "db w'"])
  ultimately show ?thesis by blast
qed

lemma invite_audited:
  assumes "db_set s" and "db (wld c1) = (db (wld c))\<lparr>invites := invites (db (wld c)) @ [ticket]\<rparr>" and "iv_invited_by ticket = Some uid"
    and "no_fault (wld c) \<longrightarrow> no_fault (wld c1)"
    and "\<And>w. status (k (c1\<lparr>wld := w\<rparr>)) = 201 \<and> wld (k (c1\<lparr>wld := w\<rparr>)) = w"
  shows "post (invited uid c) (audit s r ''auth_operator_invite_created'' (Some uid) hint m c1 k)"
  unfolding audit_def
proof (rule post_call)
  fix x :: "(session_error, unit) result" and w
  assume "InsertAudit s ''auth_operator_invite_created'' (Some uid) (clientIP r) (UserAgent r) hint m (wld c1) = (x, w)"
  then have "db w = (db (wld c1))\<lparr>auth_audit := auth_audit (db (wld c1)) @
      [\<lparr>au_event_type = ''auth_operator_invite_created'', au_user_id = Some uid, au_ip = nullStr (clientIP r),
        au_user_agent = nullStr (UserAgent r), au_subject_hint = nullStr hint, au_meta = nullBytes m\<rparr>]\<rparr>" if "no_fault (wld c1)"
    using assms(1) that by (auto simp: InsertAudit_def no_fault_def exec_no_script)
  with assms(2-5) show "post (invited uid c) (k (c1\<lparr>wld := w\<rparr>))"
    by (simp add: post_def invited_def)
qed

lemma invite_behaves:
  assumes "AuthStore e = Some s" and "db_set s" and "AuthUserIDFromContext c = Some uid"
  shows "post (invited uid c) (CreateOperatorInvite_handler e r c)"
proof -
  have refused: "post (invited uid c) c'" if "db (wld c') = db (wld c)" "400 \<le> status c'" for c'
    using that by (simp add: post_def invited_def)
  show ?thesis
    unfolding CreateOperatorInvite_handler_def with_store_def assms(1,3) option.case Let_def
  proof (intro post_intro, goal_cases)
    case (7 body email x w tok xa wa)
    from opaque_token_world [OF 7(5)] create_invite_result [OF 7(7)] 7(8) obtain ticket where
      "db wa = (db (wld c))\<lparr>invites := invites (db (wld c)) @ [ticket]\<rparr>" "iv_invited_by ticket = Some uid"
      "no_fault (wld c) \<longrightarrow> no_fault wa"
      by auto
    then show ?case by (intro invite_audited [OF assms(2)]) (simp_all add: respond_defs)
  qed (auto intro!: refused simp: invalid_field_def internal_def respond_defs dest!: opaque_token_world create_invite_result)
qed

text \<open>
  C5: Control-plane writes account for themselves. On every mutating route of the control
  plane (restore requests, cases, acknowledgments, invitations) the handler that the guards have
  let through either answers with an error status, and then no table has changed, or answers 200
  or 201; in the latter case, unless the database fails, exactly one audit row has been added,
  and it names the caller. For an invitation, which needs no stated reason, that row is in the
  audit trail of authentication and the admin audit trail is as it was; for all the others it is
  in the admin audit trail and also names the caller's subject, the request and the stated
  reason.
\<close>

theorem control_plane_accounts:
  assumes "rt \<in> set (cp_writes e @ [invite_route e])" and "AuthStore e = Some s" and "db_set s"
    and "AuthUserIDFromContext c = Some uid" and "rt_path rt \<noteq> ''/auth/invites'' \<longrightarrow> stated_reason r c"
  shows "let c' = last (rt_handlers rt) r c in
    400 \<le> status c' \<and> db (wld c') = db (wld c) \<or>
    (status c' = 200 \<or> status c' = 201) \<and>
      (outcomes (wld c) = [] \<longrightarrow> user_exists (db (wld c)) uid \<longrightarrow>
       (if rt_path rt = ''/auth/invites''
        then admin_audit (db (wld c')) = admin_audit (db (wld c)) \<and>
          (\<exists>row. auth_audit (db (wld c')) = auth_audit (db (wld c)) @ [row] \<and>
             au_event_type row = ''auth_operator_invite_created'' \<and> au_user_id row = Some uid)
        else (\<exists>row. admin_audit (db (wld c')) = admin_audit (db (wld c)) @ [row] \<and>
          ad_actor row = Some uid \<and> ad_subject row = auth_subject c \<and>
          ad_reason row = Some (TrimSpace (rq_header r PlatformActionReasonHeader)) \<and>
          ad_request_id row = nullStr (request_id c))))"
proof (cases "rt \<in> set (cp_writes e)")
  case True
  then have p: "rt_path rt \<noteq> ''/auth/invites''" by (auto simp: cp_writes_def write_route_def route_of_def)
  from assms(3) have "\<not> nil_store (Some s)" by (simp add: nil_store_def)
  with writes_behave [OF True] assms(2,4,5) p
  have "post (accounted uid (TrimSpace (rq_header r PlatformActionReasonHeader)) c) (last (rt_handlers rt) r c)"
    by (simp add: behaves_def)
  with p show ?thesis unfolding Let_def by (simp add: post_def accounted_def no_fault_def audit_row_def)
next
  case False
  with assms(1) have rt: "rt = invite_route e" by simp
  then have p: "rt_path rt = ''/auth/invites''" and l: "last (rt_handlers rt) = CreateOperatorInvite_handler e"
    by (simp_all add: invite_route_def route_of_def cp_guards_def)
  from invite_behaves [OF assms(2-4), of r] show ?thesis
    unfolding Let_def l by (auto simp: p post_def invited_def no_fault_def)
qed

text \<open>The acknowledgment of the example before: 200, and its row.\<close>

definition demo_ack_conn :: conn where
  "demo_ack_conn = (demo_conn demo_operator_world)\<lparr>auth_subject := ''user:1'', platform_action_reason := Some ''ticket-4711''\<rparr>"

theorem control_plane_accounts_witness:
  "let c' = PostSupportAck demo_site demo_ack demo_ack_conn in
     status c' = 200 \<and> (\<exists>row. admin_audit (db (wld c')) = [row] \<and> ad_actor row = Some 1 \<and>
       ad_subject row = ''user:1'' \<and> ad_reason row = Some ''ticket-4711'' \<and> ad_request_id row = Some ''r1'')"
proof -
  let ?rt = "write_route demo_site ''POST'' ''/support/ack''
    (NewFixedWindowLimiter ''support_ack'' 30 ''too many support ack requests'') PermSupportAck (PostSupportAck demo_site)"
  have t: "TrimSpace (rq_header demo_ack PlatformActionReasonHeader) = ''ticket-4711''"
    by (simp add: demo_ack_def demo_request_def demo_headers_def PlatformActionReasonHeader_def trim_visible visible_def)
  have u: "AuthUserIDFromContext demo_ack_conn = Some 1"
    by (simp add: demo_ack_conn_def AuthUserIDFromContext_def Let_def trim_visible visible_def HasPrefix_def ParseInt_def
        char_digit_def)
  have "?rt \<in> set (cp_writes demo_site @ [invite_route demo_site])" by (simp add: cp_writes_def)
  moreover have "AuthStore demo_site = Some demo_store" "db_set demo_store" by (simp_all add: demo_site_def demo_store_def)
  moreover have p: "rt_path ?rt \<noteq> ''/auth/invites''" by (simp add: write_route_def route_of_def)
  moreover have "stated_reason demo_ack demo_ack_conn" by (simp add: stated_reason_def t demo_ack_conn_def)
  ultimately have main: "let c' = last (rt_handlers ?rt) demo_ack demo_ack_conn in
    400 \<le> status c' \<and> db (wld c') = db (wld demo_ack_conn) \<or>
    (status c' = 200 \<or> status c' = 201) \<and>
      (outcomes (wld demo_ack_conn) = [] \<longrightarrow> user_exists (db (wld demo_ack_conn)) 1 \<longrightarrow>
       (\<exists>row. admin_audit (db (wld c')) = admin_audit (db (wld demo_ack_conn)) @ [row] \<and>
          ad_actor row = Some 1 \<and> ad_subject row = auth_subject demo_ack_conn \<and>
          ad_reason row = Some (TrimSpace (rq_header demo_ack PlatformActionReasonHeader)) \<and>
          ad_request_id row = nullStr (request_id demo_ack_conn)))"
    using control_plane_accounts [of ?rt demo_site demo_store demo_ack_conn 1 demo_ack] u unfolding Let_def by auto
  have w: "wld demo_ack_conn = demo_operator_world" "auth_subject demo_ack_conn = ''user:1''"
      "request_id demo_ack_conn = ''r1''" "outcomes demo_operator_world = []" "admin_audit (db demo_operator_world) = []"
      "user_exists (db demo_operator_world) 1"
    by (simp_all add: demo_ack_conn_def demo_conn_def demo_operator_world_def demo_world_def empty_db_def user_exists_def
        demo_user_def)
  have "status (PostSupportAck demo_site demo_ack demo_ack_conn) = 200"
    by (simp add: PostSupportAck_def with_user_known [OF u] Let_def reasonFromContext_def ack_message_def demo_ack_def
        demo_request_def demo_headers_def call_def InsertAdminAuditEvent_def w exec_no_script demo_site_def demo_store_def
        nil_store_def user_ref_def)
  with main show ?thesis by (simp add: Let_def w t write_route_def route_of_def nullStr_def)
qed

end
