(* ===== verification/Sign_In.thy ===== *)
theory Sign_In
  imports Control_Plane
begin

text \<open>
  Signing in and out of the service: what opens a session, what a password change, a desktop exchange and the deletion of a user leave behind.
\<close>

section \<open>What the helpers leave alone\<close>

lemma NewOpaque_db: "NewOpaqueToken w = (x, w') \<Longrightarrow> db w' = db w"
  using rand_Read_world by (fastforce simp: NewOpaqueToken_def split: prod.splits option.splits)

lemma InsertAudit_tables:
  "InsertAudit s ev uid ip ua h m w = (x, w') \<Longrightarrow> \<exists>rows. db w' = (db w)\<lparr>auth_audit := rows\<rparr>"
  by (auto simp: InsertAudit_def split: if_splits elim!: exec_cases dest!: sym [of _ "db w'"] intro: exI [of _ "auth_audit (db w)"])

lemma audit_post:
  assumes "\<And>w rows. db w = (db (wld c))\<lparr>auth_audit := rows\<rparr> \<Longrightarrow> post Q (k (c\<lparr>wld := w\<rparr>))"
  shows "post Q (audit s r ev uid h m c k)"
  unfolding audit_def by (rule post_call) (use InsertAudit_tables assms in blast)

lemma Touch_sessions: "TouchOperatorLoginByEmail s email w = (x, w') \<Longrightarrow>
    sessions (db w') = sessions (db w) \<and> users (db w') = users (db w)"
  by (auto simp: TouchOperatorLoginByEmail_def Let_def split: if_splits elim!: bind_result_cases exec_cases
      dest!: sym [of _ "db w'"])

lemma CreateSession_result:
  assumes "CreateSession s uid raw ip ua w = (x, w')"
  shows "(\<exists>err. x = Inl err \<and> db w' = db w) \<or>
    (\<exists>row. x = Inr () \<and> sessions (db w') = sessions (db w) @ [row] \<and> se_user_id row = uid \<and>
       se_token_hash row = HashOpaqueToken raw \<and> se_revoked_at row = None)"
  using assms
  by (auto simp: CreateSession_def Let_def new_session_row_def split: if_splits elim!: exec_cases dest!: sym [of _ "db w'"])

lemma cookie_simps [simp]:
  "wld (setSessionCookie cfg v c) = wld c" "wld (setCSRFCookie cfg v c) = wld c"
  "wld (clearSessionCookie cfg c) = wld c" "wld (clearCSRFCookie cfg c) = wld c"
  by (simp_all add: setSessionCookie_def setCSRFCookie_def clearSessionCookie_def clearCSRFCookie_def SetCookie_def Let_def)

section \<open>Login\<close>

text \<open>
  The request names an active account of a live user, its email is not locked, and the
  password verifies against the stored hash.
\<close>

definition credentials_verified :: "env \<Rightarrow> request \<Rightarrow> conn \<Rightarrow> int \<Rightarrow> bool" where
  "credentials_verified e r c uid \<longleftrightarrow>
     (\<exists>email0 password email a. bind_login_body (rq_body r) = Some (email0, password) \<and>
        normalizeEmail e email0 = Some email \<and> \<not> fst (fst (loginEmailLocked email c)) \<and>
        a \<in> set (accounts (db (wld c))) \<and> oa_email a = email \<and> oa_status a = ''active'' \<and>
        oa_linked_user_id a = uid \<and> live_user (db (wld c)) uid \<and>
        VerifyPassword (IDKey e) password (oa_password_hash a) = Inr True)"

text \<open>The session that a login leaves, with its cookie.\<close>

definition session_opened :: "env \<Rightarrow> int \<Rightarrow> conn \<Rightarrow> conn \<Rightarrow> bool" where
  "session_opened e uid c c' \<longleftrightarrow>
     (\<exists>raw row. sessions (db (wld c')) = sessions (db (wld c)) @ [row] \<and> se_user_id row = uid \<and>
        se_token_hash row = HashOpaqueToken raw \<and> se_revoked_at row = None \<and>
        (\<exists>ck\<in>set (resp_cookies c'). ck_name ck = SessionCookieName (AppConfig e) \<and> ck_value ck = raw \<and>
           ck_http_only ck))"

definition login_outcome :: "env \<Rightarrow> request \<Rightarrow> conn \<Rightarrow> conn \<Rightarrow> bool" where
  "login_outcome e r c c' \<longleftrightarrow>
     sessions (db (wld c')) = sessions (db (wld c)) \<and> 400 \<le> status c' \<or>
     (\<exists>uid. credentials_verified e r c uid \<and> session_opened e uid c c' \<and> (status c' = 200 \<or> status c' = 500))"

lemma Auth_found:
  assumes "GetUserAuthByEmail email w = (Inr (uid, hash), w')"
  shows "\<exists>a. a \<in> set (accounts (db w)) \<and> oa_email a = email \<and> oa_status a = ''active'' \<and> oa_linked_user_id a = uid \<and>
    live_user (db w) uid \<and> oa_password_hash a = hash"
  using assms
  by (auto simp: GetUserAuthByEmail_def account_joined_def split: option.splits elim!: bind_result_cases query_cases
      dest!: find_Some_set)

lemma GetUserAuth_db: "GetUserAuthByEmail email w = (x, w') \<Longrightarrow> db w' = db w"
  by (auto simp: GetUserAuthByEmail_def split: option.splits elim!: bind_result_cases query_cases)

lemma refusal_simps [simp]:
  "wld (internal m c) = wld c" "wld (unauthorized m c) = wld c" "wld (forbidden m c) = wld c" "wld (invalid_field m f c) = wld c"
  "status (internal m c) = 500" "status (unauthorized m c) = 401" "status (forbidden m c) = 403"
  "status (invalid_field m f c) = 400" "wld (login_denied c) = wld c" "status (login_denied c) = 401"
  by (simp_all add: internal_def unauthorized_def forbidden_def invalid_field_def login_denied_def)

lemma cookies_responses [simp]:
  "resp_cookies (c_JSON st b c) = resp_cookies c" "resp_cookies (JSONOK st d c) = resp_cookies c"
  "resp_cookies (internal m c) = resp_cookies c"
  by (simp_all add: respond_defs internal_def)

lemma session_cookie_set [simp]:
  "resp_cookies (setSessionCookie cfg raw c) = resp_cookies c @ [\<lparr>ck_name = SessionCookieName cfg, ck_value = raw,
     ck_max_age = seconds_until (clock (wld c) + SessionAbsoluteTTL cfg) (clock (wld c)), ck_path = ''/'',
     ck_secure = SessionCookieSecure cfg, ck_http_only = True, ck_same_site = SessionSameSiteMode cfg\<rparr>]"
  "\<exists>ck. resp_cookies (setCSRFCookie cfg raw c) = resp_cookies c @ [ck]"
  by (simp_all add: setSessionCookie_def setCSRFCookie_def SetCookie_def Let_def)

lemma login_refused: "sessions (db (wld c')) = sessions (db (wld c)) \<Longrightarrow> 400 \<le> status c' \<Longrightarrow> post (login_outcome e r c) c'"
  by (simp add: post_def login_outcome_def)

lemma open_session_outcome:
  assumes v: "credentials_verified e r c uid" and s: "sessions (db (wld c1)) = sessions (db (wld c))"
  shows "post (login_outcome e r c) (open_session e st r uid email c1)"
  unfolding open_session_def
proof (intro post_intro audit_post, goal_cases)
  case (1 x w xa wa)
  with s Touch_sessions [OF 1(1)] NewOpaque_db [OF 1(2)] show ?case by (auto intro: login_refused)
next
  case (2 x w xa wa raw xb wb xc)
  with s Touch_sessions [OF 2(1)] NewOpaque_db [OF 2(2)] CreateSession_result [OF 2(4)] show ?case
    by (auto intro: login_refused)
next
  case (3 x w xa wa raw xb wb xc wc rows xd wd)
  from CreateSession_result [OF 3(4)] 3(5) obtain row where
    "sessions (db wb) = sessions (db wa) @ [row]" "se_user_id row = uid" "se_token_hash row = HashOpaqueToken raw"
    "se_revoked_at row = None" by auto
  with s 3(6) Touch_sessions [OF 3(1)] NewOpaque_db [OF 3(2)] NewOpaque_db [OF 3(7)] v show ?case
    by (auto simp: post_def login_outcome_def session_opened_def)
next
  case (4 x w xa wa raw xb wb xc wc rows xd wd t)
  from CreateSession_result [OF 4(4)] 4(5) obtain row where
    row: "sessions (db wb) = sessions (db wa) @ [row]" "se_user_id row = uid" "se_token_hash row = HashOpaqueToken raw"
    "se_revoked_at row = None" by auto
  let ?c = "(setSessionCookie (AppConfig e) raw
      (recordLoginSuccessClearThrottle email c1\<lparr>wld := w, wld := wa, wld := wb, wld := wc\<rparr>))\<lparr>wld := wd\<rparr>"
  obtain ck where "resp_cookies (setCSRFCookie (AppConfig e) t ?c) = resp_cookies ?c @ [ck]"
    using session_cookie_set(2) by blast
  with row s 4(6) Touch_sessions [OF 4(1)] NewOpaque_db [OF 4(2)] NewOpaque_db [OF 4(7)] v show ?case
    by (auto simp: post_def login_outcome_def session_opened_def)
qed

text \<open>
  C7: A session needs verified credentials. Whatever a login request holds and whatever
  fails on the way, either no session is created and the answer is an error, or the request
  named an active account of a live user under a normalised email that is not locked out, and
  its password verified against the stored hash: then exactly one session has been added, for
  that user and not revoked, and the token it stores the hash of has been set as the HttpOnly
  session cookie (with 500 instead of 200 only if the CSRF token could not be drawn).
\<close>

theorem login_opens_session:
  "(sessions (db (wld (LoginUser e r c))) = sessions (db (wld c)) \<and> 400 \<le> status (LoginUser e r c)) \<or>
   (\<exists>uid. credentials_verified e r c uid \<and> session_opened e uid c (LoginUser e r c) \<and>
      (status (LoginUser e r c) = 200 \<or> status (LoginUser e r c) = 500))"
proof -
  have opened: "post (login_outcome e r c) (open_session e st r uid email (c1\<lparr>wld := w\<rparr>))"
    if "bind_login_body (rq_body r) = Some (email0, password)" "normalizeEmail e email0 = Some email"
      "loginEmailLocked email c = ((False, retry), c1)" "GetUserAuthByEmail email (wld c1) = (Inr (uid, hash), w)"
      "VerifyPassword (IDKey e) password hash = Inr True" for st uid email email0 password c1 w retry hash
  proof (rule open_session_outcome)
    from that show "sessions (db (wld (c1\<lparr>wld := w\<rparr>))) = sessions (db (wld c))"
      by (simp add: GetUserAuth_db [OF that(4)] locked_wld [OF that(3)])
    from Auth_found [OF that(4)] that show "credentials_verified e r c uid"
      unfolding credentials_verified_def locked_wld [OF that(3)] by fastforce
  qed
  have "post (login_outcome e r c) (LoginUser e r c)"
    unfolding LoginUser_def with_store_def authLoginFail_def Let_def
    by (intro post_intro audit_post; (rule opened; fastforce)?)
      (auto intro!: login_refused simp: locked_wld dest!: GetUserAuth_db)
  then show ?thesis by (simp add: post_def login_outcome_def)
qed

section \<open>Changing a password\<close>

lemma HashPassword_verifies:
  assumes "key_length_law idkey" and "HashPassword idkey p w = (Inr h, w')"
  shows "VerifyPassword idkey p h = Inr True \<and> 8 \<le> length p \<and> length p \<le> 200 \<and> db w' = db w"
proof -
  from HashPassword_ok [OF assms(2)] obtain salt where
    s: "length salt = argon2SaltLen" "8 \<le> length p" "length p \<le> 200"
      "h = argon2_encode salt (idkey p salt argon2Time argon2MemoryKiB argon2Threads argon2KeyLen)" by blast
  moreover have "db w' = db w"
    using assms(2) rand_Read_world by (fastforce simp: HashPassword_def split: if_splits prod.splits option.splits)
  ultimately show ?thesis using verify_encoded [OF assms(1) s(1)] by auto
qed

text \<open>The stored hash of every account of a user, where the user is live.\<close>

lemma UpdateHash_ok:
  assumes "UpdateUserPasswordHash uid h w = (Inr (), w')"
  shows "accounts (db w') = map (\<lambda>a. if oa_linked_user_id a = uid then a\<lparr>oa_password_hash := h\<rparr> else a) (accounts (db w)) \<and>
    sessions (db w') = sessions (db w) \<and> users (db w') = users (db w) \<and> live_user (db w) uid"
  using assms
  by (auto simp: UpdateUserPasswordHash_def Let_def update_where_def affected_def affected_rows_def filter_empty_conv
      split: if_splits
      elim!: bind_result_cases exec_cases dest!: sym [of _ "db w'"])

lemma Hash_found:
  assumes "GetUserPasswordHashByID uid w = (Inr h, w')"
  shows "db w' = db w \<and> (\<exists>a\<in>set (accounts (db w)). oa_linked_user_id a = uid \<and> oa_status a = ''active'' \<and>
    live_user (db w) uid \<and> oa_password_hash a = h)"
  using assms
  by (auto simp: GetUserPasswordHashByID_def account_joined_def split: option.splits
      elim!: bind_result_cases query_cases dest!: find_Some_set)

lemma RevokeAll_ok:
  assumes "RevokeAllSessionsForUser uid w = (Inr n, w')"
  shows "accounts (db w') = accounts (db w) \<and>
    (\<exists>t. sessions (db w') = map (\<lambda>q. if se_user_id q = uid \<and> se_revoked_at q = None then q\<lparr>se_revoked_at := Some t\<rparr> else q)
       (sessions (db w)))"
  using assms unfolding RevokeAllSessionsForUser_def
proof (cases rule: exec_cases)
  case (ok t d a)
  from ok(1) have "d = (db w)\<lparr>sessions := update_where (\<lambda>r. se_user_id r = uid \<and> se_revoked_at r = None)
      (\<lambda>r. r\<lparr>se_revoked_at := Some t\<rparr>) (sessions (db w))\<rparr>"
    by (simp add: update_sessions_def)
  with ok(3) show ?thesis by (auto simp: update_where_def)
qed simp

text \<open>What a password change leaves behind.\<close>

definition password_changed :: "env \<Rightarrow> int \<Rightarrow> string \<Rightarrow> string \<Rightarrow> conn \<Rightarrow> conn \<Rightarrow> bool" where
  "password_changed e uid current new c c' \<longleftrightarrow>
     (\<exists>a\<in>set (accounts (db (wld c))). oa_linked_user_id a = uid \<and> oa_status a = ''active'' \<and>
        VerifyPassword (IDKey e) current (oa_password_hash a) = Inr True) \<and>
     live_user (db (wld c)) uid \<and> 8 \<le> length new \<and> length new \<le> 200 \<and>
     (\<exists>h t. VerifyPassword (IDKey e) new h = Inr True \<and>
        accounts (db (wld c')) = map (\<lambda>a. if oa_linked_user_id a = uid then a\<lparr>oa_password_hash := h\<rparr> else a) (accounts (db (wld c))) \<and>
        sessions (db (wld c')) = map (\<lambda>q. if se_user_id q = uid \<and> se_revoked_at q = None then q\<lparr>se_revoked_at := Some t\<rparr> else q)
          (sessions (db (wld c))))"

text \<open>
  C12: What a successful password change does. It answers 200 only for a signed-in user whose
  current password verified against the hash of an active account; then the stored hash of
  that user's account, and of no other, is one that the new password verifies against, every
  session of the user that was not revoked is revoked now, and sessions of others are as they
  were.
\<close>

theorem password_change_effect:
  assumes "key_length_law (IDKey e)" and "status (ChangePassword e r c) = 200"
  shows "\<exists>uid current new. HasPrefix (TrimSpace (auth_subject c)) ''user:'' \<and>
    Atoi (TrimPrefix (TrimSpace (auth_subject c)) ''user:'') = Some uid \<and> 0 < uid \<and>
    bind_change_body (rq_body r) = Some (current, new) \<and> password_changed e uid current new c (ChangePassword e r c)"
proof -
  let ?ok = "\<lambda>c'. status c' = 200 \<longrightarrow> (\<exists>uid current new. HasPrefix (TrimSpace (auth_subject c)) ''user:'' \<and>
    Atoi (TrimPrefix (TrimSpace (auth_subject c)) ''user:'') = Some uid \<and> 0 < uid \<and>
    bind_change_body (rq_body r) = Some (current, new) \<and> password_changed e uid current new c c')"
  have changed: "?ok c'"
    if "HasPrefix (TrimSpace (auth_subject c)) ''user:''" "Atoi (TrimPrefix (TrimSpace (auth_subject c)) ''user:'') = Some uid"
      "0 < uid" "bind_change_body (rq_body r) = Some (current, new)"
      "GetUserPasswordHashByID uid (wld c) = (Inr hash, w1)" "VerifyPassword (IDKey e) current hash = Inr True"
      "HashPassword (IDKey e) new w1 = (Inr h, w2)" "UpdateUserPasswordHash uid h w2 = (Inr (), w3)"
      "RevokeAllSessionsForUser uid w3 = (Inr n, w4)" "db (wld c') = (db w4)\<lparr>auth_audit := rows\<rparr>"
    for uid current new hash w1 h w2 w3 n w4 rows c'
  proof -
    from RevokeAll_ok [OF that(9)] obtain t where t: "accounts (db w4) = accounts (db w3)"
      "sessions (db w4) = map (\<lambda>q. if se_user_id q = uid \<and> se_revoked_at q = None then q\<lparr>se_revoked_at := Some t\<rparr> else q)
       (sessions (db w3))" by blast
    note facts = Hash_found [OF that(5)] HashPassword_verifies [OF assms(1) that(7)] UpdateHash_ok [OF that(8)] t that(10)
    have "password_changed e uid current new c c'"
      unfolding password_changed_def
      by (intro conjI exI [of _ h] exI [of _ t]) (use facts that(6) in auto)
    with that(1-4) show ?thesis by blast
  qed
  have "post ?ok (ChangePassword e r c)"
    unfolding ChangePassword_def with_store_def user_of_subject_def Let_def
    by (intro post_intro audit_post; (unfold post_def, rule changed; (assumption | simp; fail))?)
      (auto simp: post_def respond_defs)
  with assms(2) show ?thesis by (simp add: post_def)
qed

text \<open>User 1 of the example changes the password and is signed out.\<close>

definition demo_salt :: string where
  "demo_salt = replicate 16 (CHR ''s'')"

definition demo_hash :: string where
  "demo_hash = argon2_encode demo_salt (demo_argon2 ''correct horse'' demo_salt argon2Time argon2MemoryKiB argon2Threads argon2KeyLen)"

definition demo_password_world :: world where
  "demo_password_world = demo_operator_world\<lparr>db := (db demo_operator_world)
     \<lparr>accounts := map (\<lambda>a. a\<lparr>oa_password_hash := demo_hash\<rparr>) (accounts (db demo_operator_world)),
      sessions := [new_session_row 1 0 1 ''h1'' 9 9 '''' '''']\<rparr>\<rparr>"

definition demo_change :: request where
  "demo_change = demo_request ''POST'' ''/api/v1/auth/change-password'' demo_headers
     (Some (JObj [(''current_password'', JStr ''correct horse''), (''new_password'', JStr ''battery staple'')]))"

lemma demo_hash_verifies: "VerifyPassword demo_argon2 ''correct horse'' demo_hash = Inr True"
  unfolding demo_hash_def using demo_argon2_law
  by (subst verify_encoded) (simp_all add: demo_salt_def argon2SaltLen_def)

lemma demo_change_ok:
  "status (ChangePassword demo_site demo_change ((demo_conn demo_password_world)\<lparr>auth_subject := ''user:1''\<rparr>)) = 200"
proof -
  have t: "TrimSpace ''user:1'' = ''user:1''" by (simp add: trim_visible visible_def)
  have u: "Atoi (TrimPrefix ''user:1'' ''user:'') = Some 1" "HasPrefix ''user:1'' ''user:''"
    by (simp_all add: TrimPrefix_def HasPrefix_def ParseInt_def char_digit_def)
  have b: "bind_change_body (rq_body demo_change) = Some (''correct horse'', ''battery staple'')"
    by (simp add: demo_change_def demo_request_def bind_change_body_def members_def str_field_def EqualFold_ascii_def
        ascii_lower_def lower_char_def valid_def)
  have h: "GetUserPasswordHashByID 1 demo_password_world = ((Inr demo_hash, demo_password_world) :: (unit, string) result \<times> world)"
    by (simp add: GetUserPasswordHashByID_def account_joined_def query_no_script demo_password_world_def
        demo_operator_world_def demo_world_def live_user_def demo_user_def)
  have n: "TrimSpace demo_hash \<noteq> []"
    by (rule TrimSpace_keeps_visible [of "CHR ''$''"]) (simp_all add: demo_hash_def argon2_encode_def visible_def)
  obtain nh w2 where nh: "HashPassword demo_argon2 ''battery staple'' demo_password_world = (Inr nh, w2)"
    by (simp add: HashPassword_def argon2_consts rand_Read_def read_entropy_def demo_password_world_def
        demo_operator_world_def demo_world_def)
  have "VerifyPassword demo_argon2 ''battery staple'' demo_hash = Inr False"
    unfolding demo_hash_def using demo_argon2_law
    by (subst verify_encoded) (simp_all add: demo_salt_def argon2SaltLen_def demo_argon2_def argon2KeyLen_def)
  with HashPassword_verifies [OF demo_argon2_law nh] have ne: "nh \<noteq> demo_hash" by auto
  from HashPassword_ok [OF nh] have w2: "db w2 = db demo_password_world" "outcomes w2 = []"
    by (auto simp: demo_password_world_def demo_operator_world_def demo_world_def)
  obtain w3 where up: "UpdateUserPasswordHash 1 nh w2 = ((Inr (), w3) :: (unit, unit) result \<times> world)" "outcomes w3 = []"
    using ne
    by (simp add: UpdateUserPasswordHash_def exec_no_script w2 affected_def affected_rows_def Let_def)
      (simp add: w2(2) demo_password_world_def demo_operator_world_def demo_world_def live_user_def demo_user_def)
  obtain w4 m where rv: "RevokeAllSessionsForUser 1 w3 = (Inr m, w4)"
    by (simp add: RevokeAllSessionsForUser_def exec_no_script up(2) update_sessions_def)
  have e: "AuthStore demo_site = Some demo_store" "IDKey demo_site = demo_argon2" by (simp_all add: demo_site_def)
  have wc: "wld (demo_conn demo_password_world) = demo_password_world" by (simp add: demo_conn_def)
  show ?thesis
    by (simp add: ChangePassword_def with_store_def user_of_subject_def t u b e call_def wc h n demo_hash_verifies nh up rv
        ValidatePasswordLength_def passwordMinLen_def passwordMaxLen_def audit_def Let_def respond_defs split: prod.split)
qed

theorem password_change_effect_witness:
  "\<exists>q. sessions (db (wld (ChangePassword demo_site demo_change ((demo_conn demo_password_world)\<lparr>auth_subject := ''user:1''\<rparr>)))) = [q] \<and>
     se_revoked_at q \<noteq> None"
proof -
  let ?c = "(demo_conn demo_password_world)\<lparr>auth_subject := ''user:1''\<rparr>"
  have "key_length_law (IDKey demo_site)" using demo_argon2_law by (simp add: demo_site_def)
  from password_change_effect [OF this demo_change_ok] obtain uid t where
    "Atoi (TrimPrefix (TrimSpace (auth_subject ?c)) ''user:'') = Some uid"
    "sessions (db (wld (ChangePassword demo_site demo_change ?c))) =
      map (\<lambda>q. if se_user_id q = uid \<and> se_revoked_at q = None then q\<lparr>se_revoked_at := Some t\<rparr> else q) (sessions (db (wld ?c)))"
    unfolding password_changed_def by blast
  then show ?thesis
    by (simp add: demo_conn_def demo_password_world_def new_session_row_def trim_visible visible_def TrimPrefix_def
        HasPrefix_def ParseInt_def char_digit_def)
qed

section \<open>The desktop exchange\<close>

text \<open>The code of the request has been redeemed: it was there, unused and not expired, and is used now.\<close>

definition code_redeemed :: "request \<Rightarrow> conn \<Rightarrow> conn \<Rightarrow> string \<Rightarrow> exchange_row \<Rightarrow> bool" where
  "code_redeemed r c c' codeVerifier x \<longleftrightarrow>
     (\<exists>code verifier t. bind_exchange_body (rq_body r) = Some (code, verifier) \<and> codeVerifier = TrimSpace verifier \<and>
        isValidOpaqueCode (TrimSpace code) \<and> isValidCodeVerifier codeVerifier \<and>
        exchange_by_hash (HashOpaqueToken (TrimSpace code)) (db (wld c)) = Some x \<and> xc_consumed_at x = None \<and>
        clock (wld c) < xc_expires_at x \<and>
        exchanges (db (wld c')) = update_where (\<lambda>q. xc_id q = xc_id x \<and> xc_consumed_at q = None)
          (\<lambda>q. q\<lparr>xc_consumed_at := Some t\<rparr>) (exchanges (db (wld c))))"

text \<open>A desktop token for the user and session of a code is in the answer.\<close>

definition desktop_token_answered :: "env \<Rightarrow> exchange_row \<Rightarrow> conn \<Rightarrow> bool" where
  "desktop_token_answered e x c' \<longleftrightarrow>
     (\<exists>ts tok expires w w' rest. TokenSvc e = Some ts \<and>
        MintDesktopAccessToken (JWT e) ts (user_subject (xc_user_id x)) (xc_session_id x) w = (Inr (tok, expires), w') \<and>
        resp_body c' = Some (JObj [(''data'', JObj ((''access_token'', JStr tok) # rest)), (''meta'', meta_json c')]))"

definition exchange_outcome :: "env \<Rightarrow> request \<Rightarrow> conn \<Rightarrow> conn \<Rightarrow> bool" where
  "exchange_outcome e r c c' \<longleftrightarrow>
     400 \<le> status c' \<and> (exchanges (db (wld c')) = exchanges (db (wld c)) \<or> (\<exists>v x. code_redeemed r c c' v x)) \<or>
     status c' = 200 \<and> (\<exists>v x. code_redeemed r c c' v x \<and> TrimSpace (xc_code_challenge x) = pkceS256 v \<and>
        desktop_token_answered e x c')"

lemma exchange_refused:
  "exchanges (db (wld c')) = exchanges (db (wld c)) \<Longrightarrow> 400 \<le> status c' \<Longrightarrow> post (exchange_outcome e r c) c'"
  by (simp add: post_def exchange_outcome_def)

lemma Redeem_clean: "RedeemDesktopExchangeCode s code w = (Inl err, w') \<Longrightarrow> db w' = db w"
  by (rule redeem.error_no_effect)

lemma Mint_db: "MintDesktopAccessToken L ts sub sid w = (x, w') \<Longrightarrow> db w' = db w"
  using rand_Read_world
  by (fastforce simp: MintDesktopAccessToken_def randomJTI_def Let_def split: if_splits prod.splits option.splits)

lemma redeemed_context:
  "code_redeemed r c c1 v x \<Longrightarrow> exchanges (db (wld c2)) = exchanges (db (wld c1)) \<Longrightarrow> code_redeemed r c c2 v x"
  by (simp add: code_redeemed_def)

lemma exchange_burnt:
  "code_redeemed r c c1 v x \<Longrightarrow> exchanges (db (wld c2)) = exchanges (db (wld c1)) \<Longrightarrow> 400 \<le> status c2 \<Longrightarrow>
   post (exchange_outcome e r c) c2"
  unfolding post_def exchange_outcome_def using redeemed_context by blast

lemma redeem_error_outcome:
  assumes "db w = db (wld c)"
  shows "post (exchange_outcome e r c) (redeem_error s r err (c\<lparr>wld := w\<rparr>))"
  unfolding redeem_error_def recordDesktopExchangeFailure_def desktop_failure_def exchange_denied_def
  by (cases err; (simp split: session_error.split)?; (intro conjI impI)?; (intro audit_post exchange_refused)?)
    (use assms in auto)

lemma desktop_token_outcome:
  assumes x: "code_redeemed r c c1 v x" and ts: "TokenSvc e = Some ts"
  shows "post (exchange_outcome e r c) (desktop_token e s ts r v
    \<lparr>dx_user_id = xc_user_id x, dx_session_id = xc_session_id x, dx_code_challenge = xc_code_challenge x\<rparr> c1)"
  unfolding desktop_token_def Let_def recordDesktopExchangeFailure_def desktop_failure_def exchange_denied_def
proof (intro post_intro audit_post, goal_cases)
  case (1 w rows)
  then show ?case by (intro exchange_burnt [OF x]) auto
next
  case (2 y w err)
  then show ?case using Mint_db [OF 2(2)] by (intro exchange_burnt [OF x]) auto
next
  case (3 y w p tok expires w2 rows)
  let ?c = "JSONOK 200 (JObj [(''access_token'', JStr tok), (''token_type'', JStr ''Bearer''),
      (''expires_in'', JInt (seconds_until expires (clock (wld (c1\<lparr>wld := w, wld := w2\<rparr>))))),
      (''session_id'', JStr (xc_session_id x)), (''token_use'', JStr ''desktop_access'')]) (c1\<lparr>wld := w, wld := w2\<rparr>)"
  have "code_redeemed r c ?c v x" using redeemed_context [OF x] 3 Mint_db [OF 3(2)] by auto
  moreover have "desktop_token_answered e x ?c"
    unfolding desktop_token_answered_def using 3(2-4) ts
    by (auto simp: respond_defs user_subject_def meta_json_def)
  ultimately show ?case using 3(1) by (auto simp: post_def exchange_outcome_def)
qed

text \<open>
  C4: The desktop exchange. Whatever is sent, the answer is an error, and then the codes are
  as they were or the one presented has been used up (a wrong verifier burns the code too); or
  it is 200, and then the request presented an unused code before its expiry, which is used
  now, and a code verifier whose S256 hash is the challenge the code was created with, and
  the answer holds a desktop token that was minted for the user and session of that code.
\<close>

theorem desktop_exchange_outcome:
  "let c' = ExchangeDesktopCode e r c in
     400 \<le> status c' \<and> (exchanges (db (wld c')) = exchanges (db (wld c)) \<or> (\<exists>v x. code_redeemed r c c' v x)) \<or>
     status c' = 200 \<and> (\<exists>v x. code_redeemed r c c' v x \<and> TrimSpace (xc_code_challenge x) = pkceS256 v \<and>
        desktop_token_answered e x c')"
proof -
  have redeemed: "post (exchange_outcome e r c) (desktop_token e s ts r (TrimSpace verifier) row (c\<lparr>wld := w\<rparr>))"
    if "TokenSvc e = Some ts" "bind_exchange_body (rq_body r) = Some (code, verifier)" "isValidOpaqueCode (TrimSpace code)"
      "isValidCodeVerifier (TrimSpace verifier)" "RedeemDesktopExchangeCode s (TrimSpace code) (wld c) = (Inr row, w)"
    for s ts code verifier row w
  proof -
    from Redeem_ok [OF that(5)] obtain x t where x: "exchange_by_hash (HashOpaqueToken (TrimSpace code)) (db (wld c)) = Some x"
      "xc_consumed_at x = None" "clock (wld c) < xc_expires_at x"
      "row = \<lparr>dx_user_id = xc_user_id x, dx_session_id = xc_session_id x, dx_code_challenge = xc_code_challenge x\<rparr>"
      "exchanges (db w) = update_where (\<lambda>q. xc_id q = xc_id x \<and> xc_consumed_at q = None)
         (\<lambda>q. q\<lparr>xc_consumed_at := Some t\<rparr>) (exchanges (db (wld c)))" by blast
    then have "code_redeemed r c (c\<lparr>wld := w\<rparr>) (TrimSpace verifier) x"
      using that(2-4) unfolding code_redeemed_def by fastforce
    with that(1) show ?thesis unfolding x(4) by (rule desktop_token_outcome [rotated])
  qed
  have "post (exchange_outcome e r c) (ExchangeDesktopCode e r c)"
    unfolding ExchangeDesktopCode_def with_store_def recordDesktopExchangeFailure_def desktop_failure_def Let_def
    by (intro post_intro audit_post redeem_error_outcome; (rule redeemed; force)?)
      (auto intro!: exchange_refused dest: Redeem_clean)
  then show ?thesis unfolding Let_def by (simp add: post_def exchange_outcome_def)
qed

section \<open>Deleting a user\<close>

text \<open>No way in with a password or a session is left for a user.\<close>

definition locked_out :: "database \<Rightarrow> int \<Rightarrow> bool" where
  "locked_out d i \<longleftrightarrow> \<not> live_user d i \<and>
     \<not> (\<exists>w email h w'. db w = d \<and> GetUserAuthByEmail email w = ((Inr (i, h), w') :: (unit, int \<times> string) result \<times> world)) \<and>
     \<not> (\<exists>w s tk w'. db w = d \<and> ValidateSession s tk w = (Inr i, w'))"

lemma not_live_locked_out:
  assumes "\<not> live_user d i"
  shows "locked_out d i"
proof -
  have "False" if "GetUserAuthByEmail email w = ((Inr (i, h), w') :: (unit, int \<times> string) result \<times> world)" "db w = d"
    for w email h w'
    using Auth_found [OF that(1)] that(2) assms by blast
  moreover have "False" if "ValidateSession s tk w = (Inr i, w')" "db w = d" for w s tk w'
    using Validate_ok [OF that(1)] that(2) assms session_by_hashD by blast
  ultimately show ?thesis using assms unfolding locked_out_def by blast
qed

lemma soft_delete_result:
  assumes "soft_delete i t d = Some (d', n)"
  shows "\<not> live_user d' i \<and> (n = 0 \<longrightarrow> \<not> live_user d i)"
proof
  let ?P = "\<lambda>u. us_id u = i \<and> us_deleted_at u = None" and ?f = "\<lambda>u. u\<lparr>us_deleted_at := Some t\<rparr>"
  from assms have p: "(d\<lparr>users := update_where ?P ?f (users d)\<rparr>, affected ?P ?f (users d)) = (d', n)"
    unfolding soft_delete_def Let_def by (rule option.inject [THEN iffD1])
  have d': "users d' = update_where ?P ?f (users d)" using arg_cong [OF p, of "\<lambda>x. users (fst x)"] by simp
  have n: "n = affected ?P ?f (users d)" using arg_cong [OF p, of snd] by simp
  have "\<not> (us_id v = i \<and> us_deleted_at v = None)" if "v \<in> set (update_where ?P ?f us)" for v us
    using that by (induction us) (auto split: if_splits)
  then show "\<not> live_user d' i" unfolding live_user_def d' by blast
  have "?f u \<noteq> u" if "?P u" for u
  proof
    assume "?f u = u"
    then have "us_deleted_at (?f u) = us_deleted_at u" by (rule arg_cong)
    with that show False by simp
  qed
  then show "n = 0 \<longrightarrow> \<not> live_user d i" unfolding n affected_zero_iff live_user_def by blast
qed

lemma as_stop_cases:
  assumes "as_stop e p = (x, w)"
  obtains (fail) err where "p = (Inl err, w)" "x = Inl (Sentinel e)" | (ok) a where "p = (Inr a, w)" "x = Inr a"
  using assms by (cases p; cases "fst p") (auto simp: as_stop_def)

lemma bind_InrE:
  assumes "bind_result p k = (Inr b, w')"
  obtains a w1 where "p = (Inr a, w1)" "k a w1 = (Inr b, w')"
  using assms by (auto elim: bind_result_cases)

lemma as_stop_InrE:
  assumes "as_stop e p = (Inr a, w)"
  obtains "p = (Inr a, w)"
  using assms by (cases rule: as_stop_cases) (auto intro: that)

lemma exec_InrE:
  assumes "exec f w = (Inr a, w')"
  obtains t where "f t (db w) = Some (db w', a)"
  using assms by (auto elim!: exec_cases)

text \<open>The transaction: what a commit leaves, and when the user was deleted before.\<close>

lemma delete_tx_ok:
  assumes "delete_user_tx i w = (Inr u, w')"
  shows "\<not> live_user (db w') i \<and>
    \<not> (\<exists>q. q \<in> set (sessions (db w')) \<and> se_user_id q = i \<and> se_revoked_at q = None) \<and>
    \<not> (\<exists>a. a \<in> set (accounts (db w')) \<and> oa_linked_user_id a = i \<and> oa_status a \<noteq> ''suspended'')"
  using assms unfolding delete_user_tx_def
proof (cases rule: in_tx_as_cases)
  case (commit a w1 w2)
  from commit(3) obtain n wa m wb where d: "exec (soft_delete i) w1 = ((Inr n, wa) :: (unit, nat) result \<times> world)"
    and r: "exec (revoke_sessions_of i) wa = ((Inr m, wb) :: (unit, nat) result \<times> world)"
      "exec (suspend_account i) wb = ((Inr a, w2) :: (unit, unit) result \<times> world)"
    by (auto elim!: bind_InrE as_stop_InrE split: if_splits)
  obtain t1 where t1: "soft_delete i t1 (db w1) = Some (db wa, n)" using d by (rule exec_InrE)
  obtain t2 where t2: "revoke_sessions_of i t2 (db wa) = Some (db wb, m)" using r(1) by (rule exec_InrE)
  obtain t3 where t3: "suspend_account i t3 (db wb) = Some (db w2, a)" using r(2) by (rule exec_InrE)
  from t2 have b: "db wb = (db wa)\<lparr>sessions := update_where (\<lambda>r. se_user_id r = i \<and> se_revoked_at r = None)
      (\<lambda>r. r\<lparr>se_revoked_at := Some t2\<rparr>) (sessions (db wa))\<rparr>"
    by (simp add: revoke_sessions_of_def update_sessions_def)
  from t3 have c: "db w2 = (db wb)\<lparr>accounts := update_where (\<lambda>a. oa_linked_user_id a = i)
      (\<lambda>a. a\<lparr>oa_status := ''suspended''\<rparr>) (accounts (db wb))\<rparr>"
    by (simp add: suspend_account_def)
  have live: "live_user (db w') i = live_user (db wa) i" unfolding commit(5) c b live_user_def by simp
  have "\<not> (se_user_id q = i \<and> se_revoked_at q = None)"
    if "q \<in> set (update_where (\<lambda>r. se_user_id r = i \<and> se_revoked_at r = None) (\<lambda>r. r\<lparr>se_revoked_at := Some t2\<rparr>) ss)" for q ss
    using that by (induction ss) (auto split: if_splits)
  then have sess: "\<not> (\<exists>q. q \<in> set (sessions (db w')) \<and> se_user_id q = i \<and> se_revoked_at q = None)"
    unfolding commit(5) c b by auto
  have "oa_linked_user_id q = i \<longrightarrow> oa_status q = ''suspended''"
    if "q \<in> set (update_where (\<lambda>a. oa_linked_user_id a = i) (\<lambda>a. a\<lparr>oa_status := ''suspended''\<rparr>) as)" for q as
    using that by (induction as) (auto split: if_splits)
  then have "\<not> (\<exists>a. a \<in> set (accounts (db w')) \<and> oa_linked_user_id a = i \<and> oa_status a \<noteq> ''suspended'')"
    unfolding commit(5) c by auto
  with soft_delete_result [OF t1] live sess show ?thesis by blast
qed simp

lemma delete_tx_error:
  assumes "delete_user_tx i w = (Inl err, w')"
  shows "db w' = db w \<and> (err = Sentinel DAlready \<longrightarrow> \<not> live_user (db w) i)"
proof -
  have "db w' = db w" using assms unfolding delete_user_tx_def by (cases rule: in_tx_as_cases) auto
  moreover have "\<not> live_user (db w) i" if "err = Sentinel DAlready"
  proof -
    have inner: "\<not> live_user (db w0) i"
      if "bind_result (as_stop DUpdate (exec (soft_delete i) w0)) (\<lambda>n w1.
        if n = 0 then
          bind_result (as_stop DResolve (query (\<lambda>_ d. user_exists d i) w1)) (\<lambda>existing w2.
            (Inl (Sentinel (if existing then DAlready else DNotFound)), w2))
        else
          bind_result (as_stop DSessions (exec (revoke_sessions_of i) w1)) (\<lambda>_ w2.
          as_stop DSuspend (exec (suspend_account i) w2))) = (Inl (Sentinel DAlready), w2)" for w0 w2
      using that
      by (auto elim!: bind_result_cases as_stop_cases exec_cases split: if_splits dest!: soft_delete_result)
    from assms that show ?thesis
      unfolding delete_user_tx_def in_tx_as_def
      by (auto split: prod.splits bool.splits sum.splits dest!: db_call_db inner)
  qed
  ultimately show ?thesis by blast
qed

definition deletion_outcome :: "request \<Rightarrow> conn \<Rightarrow> conn \<Rightarrow> bool" where
  "deletion_outcome r c c' \<longleftrightarrow>
     400 \<le> status c' \<and> db (wld c') = db (wld c) \<or>
     status c' = 204 \<and> (\<exists>i. parseID (rq_param r ''id'') = Some i \<and> locked_out (db (wld c')) i)"

lemma deletion_done:
  "parseID (rq_param r ''id'') = Some i \<Longrightarrow> \<not> live_user (db (wld c')) i \<Longrightarrow> status c' = 204 \<Longrightarrow> post (deletion_outcome r c) c'"
  unfolding post_def deletion_outcome_def using not_live_locked_out by blast

lemma deletion_refused: "db (wld c') = db (wld c) \<Longrightarrow> 400 \<le> status c' \<Longrightarrow> post (deletion_outcome r c) c'"
  by (simp add: post_def deletion_outcome_def)

lemma delete_answer_outcome:
  assumes "parseID (rq_param r ''id'') = Some i" and "db w = db (wld c)" and "err = Sentinel DAlready \<longrightarrow> \<not> live_user (db w) i"
  shows "post (deletion_outcome r c) (delete_answer i err (c\<lparr>wld := w\<rparr>))"
proof (cases "err = Sentinel DAlready")
  case True
  then show ?thesis using assms by (intro deletion_done) (simp_all add: delete_answer_def)
next
  case False
  then show ?thesis using assms(2)
    by (intro deletion_refused; cases err; simp add: delete_answer_def user_not_found_def split: delete_stop.split)
qed

lemma InsertAdmin_users: "InsertAdminAuditEvent s u sub a t i reason rid ip ua m w = (x, w') \<Longrightarrow> users (db w') = users (db w)"
  using keepsD [of same_books w "InsertAdminAuditEvent s u sub a t i reason rid ip ua m w" x w']
  by (auto simp: InsertAdminAuditEvent_def split: if_splits elim!: exec_cases dest!: sym [of _ "db w'"])

lemma live_user_users: "users d' = users d \<Longrightarrow> live_user d' i = live_user d i"
  by (simp add: live_user_def)

text \<open>
  C11: Deleting a user. Either the answer is an error and no table has changed, or it is 204
  and afterwards the user is not live and has no way in: no email and password finds their
  account, and no token of any session validates to them. (The same answer is given, without a
  change, for a user who was deleted before.)
\<close>

theorem deletion_locks_out:
  "let c' = DeleteUser e r c in
     400 \<le> status c' \<and> db (wld c') = db (wld c) \<or>
     status c' = 204 \<and> (\<exists>i. parseID (rq_param r ''id'') = Some i \<and> locked_out (db (wld c')) i)"
proof -
  have "post (deletion_outcome r c) (DeleteUser e r c)"
    unfolding DeleteUser_def audit_admin_def
  proof (intro post_intro, goal_cases)
    case 1
    show ?case by (intro deletion_refused) (simp_all add: bad_id_def invalid_field_def)
  next
    case (2 i x w err)
    then show ?case using delete_tx_error [of i "wld c" err w] by (intro delete_answer_outcome) auto
  next
    case (3 i x w u)
    then show ?case using delete_tx_ok [of i "wld c" u w] by (intro deletion_done) auto
  next
    case (4 i x w u s)
    then show ?case using delete_tx_ok [of i "wld c" u w] by (intro deletion_done) auto
  next
    case (5 i x w u s actor y w2)
    from delete_tx_ok [OF 5(2) [unfolded 5(3)]] have "\<not> live_user (db w) i" by blast
    with live_user_users [OF InsertAdmin_users [OF 5(6)]] have gone: "\<not> live_user (db w2) i" by auto
    show ?case by (rule deletion_done [OF 5(1)]) (use gone in simp_all)
  qed
  then show ?thesis unfolding Let_def by (simp add: post_def deletion_outcome_def)
qed

end
