(* ===== verification/Round_Trip.thy ===== *)
theory Round_Trip
  imports Sign_In
begin

text \<open>
  From a login to the requests after it: the session that \<open>LoginUser\<close> opens is the one the
  authentication middleware accepts, for as long as its time-outs say.
\<close>

section \<open>Operations on a database that answers\<close>

text \<open>Nothing fails and no time passes: what is left to fail, the clock and the users.\<close>

definition steady :: "world \<Rightarrow> world \<Rightarrow> bool" where
  "steady w w' \<longleftrightarrow> outcomes w' = [] \<and> clock w' = clock w \<and> users (db w') = users (db w)"

lemma steady_trans: "steady w w1 \<Longrightarrow> steady w1 w2 \<Longrightarrow> steady w w2"
  by (simp add: steady_def)

lemma GetUserAuth_steady: "outcomes w = [] \<Longrightarrow> GetUserAuthByEmail email w = (x, w') \<Longrightarrow> w' = w"
  by (auto simp: GetUserAuthByEmail_def world_simps split: option.splits)

lemma Touch_steady: "outcomes w = [] \<Longrightarrow> TouchOperatorLoginByEmail s email w = (x, w') \<Longrightarrow> steady w w'"
  by (auto simp: TouchOperatorLoginByEmail_def world_simps steady_def split: if_splits)

lemma InsertAudit_steady:
  "outcomes w = [] \<Longrightarrow> InsertAudit s ev uid ip ua h m w = (x, w') \<Longrightarrow> steady w w' \<and> sessions (db w') = sessions (db w)"
  by (auto simp: InsertAudit_def world_simps steady_def split: if_splits)

lemma NewOpaque_steady: "outcomes w = [] \<Longrightarrow> NewOpaqueToken w = (x, w') \<Longrightarrow> steady w w' \<and> db w' = db w"
  using rand_Read_world by (fastforce simp: NewOpaqueToken_def steady_def split: prod.splits option.splits)

text \<open>A token is hexadecimal: not empty, and without white space to trim.\<close>

definition solid :: "string \<Rightarrow> bool" where
  "solid s \<longleftrightarrow> s \<noteq> '''' \<and> TrimSpace s = s"

lemma solid_visible:
  assumes "s \<noteq> []" and "\<forall>x\<in>set s. visible x"
  shows "solid s"
  using assms last_in_set [OF assms(1)] list.set_sel(1) [OF assms(1)] by (simp add: solid_def TrimSpace_visible)

lemma NewOpaque_solid:
  assumes "NewOpaqueToken w = (Some raw, w')"
  shows "solid raw"
proof -
  from assms obtain b w1 where b: "rand_Read 32 w = (Some b, w1)" and raw: "raw = hex_encode b"
    by (auto simp: NewOpaqueToken_def split: prod.splits option.splits)
  from rand_Read_length [OF b] have "length raw = 64" unfolding raw by simp
  then have ne: "raw \<noteq> []" by auto
  have "\<forall>x\<in>set raw. visible x" using set_hex_encode unfolding raw visible_def by fastforce
  with ne show ?thesis by (rule solid_visible)
qed

section \<open>What a login leaves for the next request\<close>

text \<open>How long a new session lasts without being used.\<close>

definition session_lifetime :: "store \<Rightarrow> int" where
  "session_lifetime s = min (idleTTL s) (absTTL s)"

text \<open>The token opens a session of the user in the tables, up to that time.\<close>

definition token_opens :: "store \<Rightarrow> string \<Rightarrow> int \<Rightarrow> world \<Rightarrow> bool" where
  "token_opens s raw uid w \<longleftrightarrow> outcomes w = [] \<and> solid raw \<and>
     (\<exists>row. session_by_hash (HashOpaqueToken raw) (db w) = Some row \<and> se_user_id row = uid \<and> se_revoked_at row = None \<and>
        (\<forall>t. t + second \<le> clock w + session_lifetime s \<longrightarrow> t < se_expires_at row \<and> t < se_absolute_expires_at row))"

lemma token_validates:
  assumes "token_opens s raw uid w" and "db_set s" and "t + second \<le> clock w + session_lifetime s"
  obtains w' where "ValidateSession s raw (w\<lparr>clock := t\<rparr>) = (Inr uid, w')"
proof -
  from assms obtain row where "session_by_hash (HashOpaqueToken raw) (db w) = Some row" "se_user_id row = uid"
    "se_revoked_at row = None" "t < se_expires_at row" "t < se_absolute_expires_at row" "outcomes w = []"
    unfolding token_opens_def by blast
  with assms(2) that show thesis by (simp add: ValidateSession_def Let_def world_simps update_sessions_def)
qed

lemma CreateSession_opens:
  assumes "CreateSession s uid raw ip ua w = (Inr (), w')" and "outcomes w = []" and "live_user (db w) uid"
    and "solid raw"
  shows "token_opens s raw uid w' \<and> clock w' = clock w"
proof -
  define row where "row = new_session_row (next_id se_id (sessions (db w))) (CURRENT_TIMESTAMP (clock w)) uid
    (HashOpaqueToken raw) (if clock w + absTTL s < clock w + idleTTL s then clock w + absTTL s
      else clock w + idleTTL s) (clock w + absTTL s) ip ua"
  from assms(1,2) have w': "w' = w\<lparr>db := (db w)\<lparr>sessions := sessions (db w) @ [row]\<rparr>\<rparr>"
    and fresh: "HashOpaqueToken raw \<notin> se_token_hash ` set (sessions (db w))"
    by (auto simp: CreateSession_def Let_def world_simps row_def split: if_splits)
  have found: "session_by_hash (HashOpaqueToken raw) (db w') = Some row"
    unfolding session_by_hash_def w' using assms(3) fresh
    by (auto intro!: find_append_fresh intro: image_eqI [OF sym] simp: live_user_def row_def new_session_row_def)
  have "t < TIMESTAMP (clock w + n)" if "t + second \<le> clock w + m" "m \<le> n" for t m n
    using TIMESTAMP_bounds(2) [of "clock w + n"] that by (simp add: second_def)
  then have "t < se_expires_at row \<and> t < se_absolute_expires_at row" if "t + second \<le> clock w + session_lifetime s" for t
    using that by (auto simp: row_def new_session_row_def session_lifetime_def)
  then show ?thesis
    using found assms(2,4) by (auto simp: token_opens_def w' row_def new_session_row_def)
qed

lemma session_by_hash_cong:
  "sessions d' = sessions d \<Longrightarrow> users d' = users d \<Longrightarrow> session_by_hash h d' = session_by_hash h d"
  by (simp add: session_by_hash_def live_user_def)

lemma token_opens_steady:
  "token_opens s raw uid w \<Longrightarrow> steady w w' \<Longrightarrow> sessions (db w') = sessions (db w) \<Longrightarrow> token_opens s raw uid w'"
  by (auto simp: token_opens_def steady_def session_by_hash_cong [of "db w'" "db w"])

text \<open>The cookies a browser sends back: the value set last for a name.\<close>

definition jar :: "conn \<Rightarrow> string \<Rightarrow> string option" where
  "jar c name = map_option ck_value (List.find (\<lambda>ck. ck_name ck = name) (rev (resp_cookies c)))"

lemma jar_simps [simp]:
  "jar (c_JSON st b c) = jar c" "jar (JSONOK st d c) = jar c" "jar (c\<lparr>wld := w\<rparr>) = jar c"
  "jar (setSessionCookie cfg v c) n = (if n = SessionCookieName cfg then Some v else jar c n)"
  "jar (setCSRFCookie cfg v c) n = (if n = CSRFCookieName cfg then Some v else jar c n)"
  by (auto simp: jar_def fun_eq_iff setSessionCookie_def setCSRFCookie_def SetCookie_def Let_def)

definition session_started :: "env \<Rightarrow> store \<Rightarrow> request \<Rightarrow> conn \<Rightarrow> conn \<Rightarrow> bool" where
  "session_started e s r c c' \<longleftrightarrow> status c' = 200 \<longrightarrow>
     (\<exists>uid raw t. credentials_verified e r c uid \<and> token_opens s raw uid (wld c') \<and> clock (wld c') = clock (wld c) \<and>
        jar c' (SessionCookieName (AppConfig e)) = Some raw \<and> jar c' (CSRFCookieName (AppConfig e)) = Some t \<and> solid t)"

lemma not_started: "status c' \<noteq> 200 \<Longrightarrow> post (session_started e s r c) c'"
  by (simp add: post_def session_started_def)

lemma open_session_started:
  assumes v: "credentials_verified e r c uid" and o: "outcomes (wld c1) = []" "clock (wld c1) = clock (wld c)"
    and live: "live_user (db (wld c1)) uid" and n: "SessionCookieName (AppConfig e) \<noteq> CSRFCookieName (AppConfig e)"
  shows "post (session_started e s r c) (open_session e s r uid email c1)"
  unfolding open_session_def audit_def
proof (intro post_intro, goal_cases)
  case (4 x w xa wa raw xb wb u xc wc xd wd t)
  from 4(1) o have w: "steady (wld c1) w" by (intro Touch_steady) simp_all
  then have "outcomes w = []" by (simp add: steady_def)
  with 4(2) have "steady w wa" by (auto dest: NewOpaque_steady)
  from steady_trans [OF w this] have wa: "steady (wld c1) wa" .
  from 4(2,3) have b: "solid raw" by (auto intro: NewOpaque_solid)
  from wa live have "outcomes wa = []" "live_user (db wa) uid" by (auto simp: steady_def live_user_def)
  moreover from 4(4,5) have "CreateSession s uid raw (clientIP r) (UserAgent r) wa = (Inr (), wb)" by simp
  ultimately have tok: "token_opens s raw uid wb" "clock wb = clock wa" using CreateSession_opens b by blast+
  then have "outcomes wb = []" by (simp add: token_opens_def)
  moreover from 4(6) have "InsertAudit s ''auth_login_success'' (Some uid) (clientIP r) (UserAgent r) email '''' wb = (xc, wc)"
    by simp
  ultimately have wc: "steady wb wc" "sessions (db wc) = sessions (db wb)" using InsertAudit_steady by blast+
  then have "outcomes wc = []" by (simp add: steady_def)
  moreover from 4(7) have "NewOpaqueToken wc = (xd, wd)" by simp
  ultimately have wd: "steady wc wd" "db wd = db wc" using NewOpaque_steady by blast+
  from token_opens_steady [OF token_opens_steady [OF tok(1) wc] wd(1)] wd(2) have "token_opens s raw uid wd" by simp
  moreover have "clock wd = clock (wld c)" using wa tok(2) wc wd o(2) by (simp add: steady_def)
  moreover from 4(7,8) have "solid t" by (auto intro: NewOpaque_solid)
  ultimately show ?case using v n unfolding post_def session_started_def by (intro impI exI [of _ uid] exI [of _ raw] exI [of _ t]) simp
qed (simp_all add: not_started)

lemma login_started:
  assumes "AuthStore e = Some s" and o: "outcomes (wld c) = []"
    and n: "SessionCookieName (AppConfig e) \<noteq> CSRFCookieName (AppConfig e)"
  shows "session_started e s r c (LoginUser e r c)"
proof -
  have opened: "post (session_started e s r c) (open_session e s r uid email (c1\<lparr>wld := w\<rparr>))"
    if "bind_login_body (rq_body r) = Some (email0, password)" "normalizeEmail e email0 = Some email"
      "loginEmailLocked email c = ((False, retry), c1)" "GetUserAuthByEmail email (wld c1) = (Inr (uid, hash), w)"
      "VerifyPassword (IDKey e) password hash = Inr True" for uid email email0 password c1 w retry hash
  proof (rule open_session_started [OF _ _ _ _ n])
    note l = locked_wld [OF that(3)]
    from that(4) have w: "w = wld c" unfolding l by (rule GetUserAuth_steady [OF o])
    with o show "outcomes (wld (c1\<lparr>wld := w\<rparr>)) = []" "clock (wld (c1\<lparr>wld := w\<rparr>)) = clock (wld c)" by simp_all
    from Auth_found [OF that(4)] w l show "live_user (db (wld (c1\<lparr>wld := w\<rparr>))) uid" by auto
    from Auth_found [OF that(4)] that show "credentials_verified e r c uid"
      unfolding credentials_verified_def l by fastforce
  qed
  have "post (session_started e s r c) (LoginUser e r c)"
    unfolding LoginUser_def with_store_def authLoginFail_def assms(1) option.case Let_def
    by (intro post_intro audit_post; (rule opened; fastforce)?) (auto intro!: not_started)
  then show ?thesis by (simp add: post_def)
qed

lemma csrf_passes:
  assumes "rq_cookie r (CSRFCookieName cfg) = Some t" and "solid t"
    and "safe_method (rq_method r) \<or> rq_header r (CSRFHeaderName cfg) = t"
  shows "CSRFCookieProtect cfg r c = c"
  using assms by (auto simp: CSRFCookieProtect_def Let_def solid_def present_def)

text \<open>
  C8: Login round trip. Over a database that does not fail, a login answered with 200 gives a
  browser all it needs: a request to the versioned API that brings back the two cookies of the
  answer (and the CSRF token in its header, unless its method is safe) passes the CSRF check and
  is authenticated as the user whose credentials the login verified, at any time up to a second
  before the idle or the absolute time-out is over, whichever is shorter. (The names of the two
  cookies have to differ, which Config.Load does not check.)
\<close>

theorem login_session_authenticates:
  assumes "AuthStore e = Some s" and "db_set s" and "TokenSvc e = Some ts" and "outcomes (wld c) = []"
    and "SessionCookieName (AppConfig e) \<noteq> CSRFCookieName (AppConfig e)" and "TrimSpace (SessionCookieName (AppConfig e)) \<noteq> ''''"
    and "status (LoginUser e r c) = 200"
    and "\<not> aborted c1" and "wld c1 = (wld (LoginUser e r c))\<lparr>clock := t\<rparr>"
    and "t + second \<le> clock (wld c) + min (idleTTL s) (absTTL s)"
    and "TrimSpace (rq_header r1 ''Authorization'') = ''''" and "rq_cookie r1 = jar (LoginUser e r c)"
    and "safe_method (rq_method r1) \<or> rq_cookie r1 (CSRFCookieName (AppConfig e)) = Some (rq_header r1 (CSRFHeaderName (AppConfig e)))"
  shows "\<exists>uid. credentials_verified e r c uid \<and>
    \<not> aborted (run_chain (v1_middleware e @ [authenticate e]) r1 c1) \<and>
    auth_subject (run_chain (v1_middleware e @ [authenticate e]) r1 c1) = user_subject uid"
proof -
  let ?c' = "LoginUser e r c"
  from login_started [OF assms(1,4,5), of r] assms(7) obtain uid raw tok where
    v: "credentials_verified e r c uid" and opens: "token_opens s raw uid (wld ?c')" and clk: "clock (wld ?c') = clock (wld c)"
    and ck: "jar ?c' (SessionCookieName (AppConfig e)) = Some raw" "jar ?c' (CSRFCookieName (AppConfig e)) = Some tok" "solid tok"
    unfolding session_started_def by blast
  from csrf_passes [of r1 "AppConfig e" tok] ck assms(12,13) have "CSRFCookieProtect (AppConfig e) r1 c1 = c1" by auto
  moreover from opens have "TrimSpace raw \<noteq> ''''" by (simp add: token_opens_def solid_def)
  moreover obtain w' where "ValidateSession s raw (wld c1) = (Inr uid, w')"
    using token_validates [OF opens assms(2), of t] assms(10) clk unfolding assms(9) session_lifetime_def by auto
  ultimately have "run_chain (v1_middleware e @ [authenticate e]) r1 c1 = c1\<lparr>wld := w', auth_subject := user_subject uid\<rparr>"
    using assms(1,3,6,8,11,12) ck(1)
    by (simp add: v1_middleware_def authenticate_def BearerOrSession_def session_branch_def call_def)
  with v assms(8) show ?thesis by auto
qed

section \<open>A login and the next request\<close>

definition demo_credentials :: request where
  "demo_credentials = demo_request ''POST'' ''/api/v1/auth/login'' (\<lambda>_. '''')
     (Some (JObj [(''email'', JStr ''op@x.org''), (''password'', JStr ''correct horse'')]))"

definition demo_lobby :: conn where
  "demo_lobby = demo_conn (demo_password_world\<lparr>db := (db demo_password_world)\<lparr>sessions := []\<rparr>\<rparr>)"

lemma demo_normalized: "normalizeEmail demo_site ''op@x.org'' = Some ''op@x.org''"
  by (simp add: normalizeEmail_def demo_site_def ascii_lower_def lower_char_def trim_visible visible_def)

lemma demo_signs_in: "status (LoginUser demo_site demo_credentials demo_lobby) = 200"
proof -
  have b: "bind_login_body (rq_body demo_credentials) = Some (''op@x.org'', ''correct horse'')"
    by (simp add: demo_credentials_def demo_request_def bind_login_body_def members_def str_field_def EqualFold_ascii_def
        ascii_lower_def lower_char_def valid_def)
  have l: "loginEmailLocked ''op@x.org'' demo_lobby = ((False, 0), demo_lobby)"
    by (simp add: demo_lobby_def demo_conn_def loginEmailLocked_def)
  have o: "outcomes (wld demo_lobby) = []"
    by (simp add: demo_lobby_def demo_conn_def demo_password_world_def demo_operator_world_def demo_world_def)
  have g: "GetUserAuthByEmail ''op@x.org'' (wld demo_lobby) = ((Inr (1, demo_hash), wld demo_lobby) :: (unit, int \<times> string) result \<times> world)"
    using o by (simp add: GetUserAuthByEmail_def account_joined_def query_no_script)
      (simp add: demo_lobby_def demo_conn_def demo_password_world_def demo_operator_world_def demo_world_def live_user_def demo_user_def)
  have n: "TrimSpace demo_hash \<noteq> []"
    by (rule TrimSpace_keeps_visible [of "CHR ''$''"]) (simp_all add: demo_hash_def argon2_encode_def visible_def)
  have e: "AuthStore demo_site = Some demo_store" "IDKey demo_site = demo_argon2" "database_open demo_site"
    by (simp_all add: demo_site_def)
  have s: "status (open_session demo_site demo_store demo_credentials 1 ''op@x.org'' demo_lobby) = 200"
    by (simp add: open_session_def call_def audit_def recordLoginSuccessClearThrottle_def TouchOperatorLoginByEmail_def
        CreateSession_def InsertAudit_def NewOpaqueToken_def rand_Read_def read_entropy_def world_simps nil_store_def
        demo_store_def Let_def demo_lobby_def demo_conn_def demo_password_world_def demo_operator_world_def demo_world_def
        user_exists_def demo_user_def respond_defs setSessionCookie_def setCSRFCookie_def SetCookie_def)
  show ?thesis
    using s by (simp add: LoginUser_def with_store_def e b demo_normalized l g n call_def demo_hash_verifies)
qed

text \<open>Ninety seconds later, with an idle time-out of a hundred.\<close>

theorem login_session_authenticates_witness:
  "auth_subject (run_chain (v1_middleware demo_site @ [authenticate demo_site])
     ((demo_request ''GET'' ''/api/v1/users'' (\<lambda>_. '''') None)\<lparr>rq_cookie := jar (LoginUser demo_site demo_credentials demo_lobby)\<rparr>)
     (demo_conn ((wld (LoginUser demo_site demo_credentials demo_lobby))\<lparr>clock := 1090000000000\<rparr>))) = ''user:1''"
proof -
  let ?c' = "LoginUser demo_site demo_credentials demo_lobby"
  let ?r = "(demo_request ''GET'' ''/api/v1/users'' (\<lambda>_. '''') None)\<lparr>rq_cookie := jar ?c'\<rparr>"
  let ?c = "demo_conn ((wld ?c')\<lparr>clock := 1090000000000\<rparr>)"
  have site: "AuthStore demo_site = Some demo_store" "TokenSvc demo_site = Some demo_service"
    "SessionCookieName (AppConfig demo_site) = ''gl_session''" "CSRFCookieName (AppConfig demo_site) = ''gl_csrf''"
    by (simp_all add: demo_site_def demo_config_def)
  have w: "outcomes (wld demo_lobby) = []" "clock (wld demo_lobby) = 1000000000000"
    "\<And>a. a \<in> set (accounts (db (wld demo_lobby))) \<Longrightarrow> oa_linked_user_id a = 1"
    by (simp_all add: demo_lobby_def demo_conn_def demo_password_world_def demo_operator_world_def demo_world_def)
  have "db_set demo_store" "1090000000000 + second \<le> clock (wld demo_lobby) + min (idleTTL demo_store) (absTTL demo_store)"
    by (simp_all add: demo_store_def second_def w(2))
  moreover have "TrimSpace ''gl_session'' \<noteq> ''''" by (simp add: trim_visible visible_def)
  moreover have "\<not> aborted ?c" "wld ?c = (wld ?c')\<lparr>clock := 1090000000000\<rparr>" by (simp_all add: demo_conn_def)
  moreover have "TrimSpace (rq_header ?r ''Authorization'') = ''''" "rq_cookie ?r = jar ?c'" "safe_method (rq_method ?r)"
    by (simp_all add: demo_request_def safe_method_def)
  ultimately obtain uid where "credentials_verified demo_site demo_credentials demo_lobby uid"
    "auth_subject (run_chain (v1_middleware demo_site @ [authenticate demo_site]) ?r ?c) = user_subject uid"
    using login_session_authenticates [of demo_site demo_store demo_service demo_lobby demo_credentials ?c 1090000000000 ?r]
      site w(1) demo_signs_in by auto
  moreover from this(1) have "uid = 1" unfolding credentials_verified_def using w(3) by blast
  moreover have "user_subject 1 = ''user:1''" by (simp add: user_subject_def Itoa_def nat_str.simps [of "Suc 0"] digit_char_def char_of_def bit_0)
  ultimately show ?thesis by simp
qed

end
