(* ===== verification/Handoff.thy ===== *)
theory Handoff
  imports Round_Trip
begin

text \<open>
  The desktop handoff from end to end: a signed-in user starts it in the browser, the desktop
  client exchanges the code of the answer and its PKCE verifier for a token, and the token is
  accepted for that user.
\<close>

section \<open>A code that can be redeemed\<close>

text \<open>
  The token is that of an unused code for this user, session and challenge, which expires no
  earlier than a second before the end of its time to live.
\<close>

definition code_waits :: "string \<Rightarrow> int \<Rightarrow> string \<Rightarrow> string \<Rightarrow> int \<Rightarrow> world \<Rightarrow> bool" where
  "code_waits raw uid sid challenge ttl w \<longleftrightarrow> outcomes w = [] \<and> distinct (map xc_id (exchanges (db w))) \<and>
     (\<exists>row. exchange_by_hash (HashOpaqueToken raw) (db w) = Some row \<and> xc_consumed_at row = None \<and> xc_user_id row = uid \<and>
        xc_session_id row = sid \<and> xc_code_challenge row = challenge \<and>
        (\<forall>t. t + second \<le> clock w + ttl \<longrightarrow> t < xc_expires_at row))"

lemma code_waits_steady:
  "code_waits raw uid sid ch ttl w \<Longrightarrow> steady w w' \<Longrightarrow> exchanges (db w') = exchanges (db w) \<Longrightarrow> code_waits raw uid sid ch ttl w'"
  by (auto simp: code_waits_def steady_def exchange_by_hash_def)

lemma CreateCode_waits:
  assumes "CreateDesktopExchangeCode s uid raw ch sid cb ttl w = (Inr (), w')" and "outcomes w = []"
    and "distinct (map xc_id (exchanges (db w)))"
  shows "code_waits raw uid sid ch ttl w' \<and> clock w' = clock w"
proof -
  define row where "row = new_exchange_row (next_id xc_id (exchanges (db w))) uid (HashOpaqueToken raw) ch sid cb (clock w + ttl)"
  from assms(1,2) have w': "w' = w\<lparr>db := (db w)\<lparr>exchanges := exchanges (db w) @ [row]\<rparr>\<rparr>"
    and fresh: "HashOpaqueToken raw \<notin> xc_code_hash ` set (exchanges (db w))"
    by (auto simp: CreateDesktopExchangeCode_def Let_def world_simps row_def split: if_splits)
  have "exchange_by_hash (HashOpaqueToken raw) (db w') = Some row"
    unfolding exchange_by_hash_def w' using fresh
    by (auto intro!: find_append_fresh intro: image_eqI [OF sym] simp: row_def new_exchange_row_def)
  moreover have "t < TIMESTAMP (clock w + ttl)" if "t + second \<le> clock w + ttl" for t
    using TIMESTAMP_bounds(2) [of "clock w + ttl"] that by (simp add: second_def)
  moreover have "distinct (map xc_id (exchanges (db w')))" using assms(3) by (simp add: w' row_def new_exchange_row_def)
  ultimately show ?thesis using assms(2) by (auto simp: code_waits_def w' row_def new_exchange_row_def)
qed

text \<open>Exactly one row is affected by an update of an unused code.\<close>

lemma one_affected:
  assumes "r \<in> set rs" and "distinct (map k rs)" and "P r" and "f r \<noteq> r"
  shows "affected (\<lambda>q. k q = k r \<and> P q) f rs = 1"
proof -
  have "filter (\<lambda>q. (k q = k r \<and> P q) \<and> (clientFoundRows \<or> f q \<noteq> q)) rs = [r]"
    using assms
  proof (induction rs)
    case (Cons x rs)
    show ?case
    proof (cases "x = r")
      case True
      with Cons.prems(2) have "filter (\<lambda>q. (k q = k r \<and> P q) \<and> (clientFoundRows \<or> f q \<noteq> q)) rs = []"
        by (auto simp: filter_empty_conv image_iff)
      with True Cons.prems(3,4) show ?thesis by simp
    next
      case False
      with Cons.prems(1,2) have "k x \<noteq> k r" by auto
      with False Cons show ?thesis by simp
    qed
  qed simp
  then show ?thesis by (simp add: affected_def affected_rows_def)
qed

lemma Redeem_waiting:
  assumes "code_waits raw uid sid ch ttl w" and "db_set s" and "t + second \<le> clock w + ttl"
  obtains w' where "RedeemDesktopExchangeCode s raw (w\<lparr>clock := t\<rparr>) =
    (Inr \<lparr>dx_user_id = uid, dx_session_id = sid, dx_code_challenge = ch\<rparr>, w')" "clock w' = t" "entropy w' = entropy w"
proof -
  from assms(1,3) obtain row where o: "outcomes w = []" and d: "distinct (map xc_id (exchanges (db w)))"
    and f: "exchange_by_hash (HashOpaqueToken raw) (db w) = Some row"
    and row: "xc_consumed_at row = None" "t < xc_expires_at row" "xc_user_id row = uid" "xc_session_id row = sid"
      "xc_code_challenge row = ch"
    unfolding code_waits_def by blast
  have "row \<in> set (exchanges (db w))" using f find_Some_set unfolding exchange_by_hash_def by fastforce
  moreover have "row\<lparr>xc_consumed_at := Some t'\<rparr> \<noteq> row" for t'
    using row(1) by (metis exchange_row.select_convs(8) exchange_row.surjective exchange_row.update_convs(8) option.distinct(1))
  ultimately have one: "affected (\<lambda>r. xc_id r = xc_id row \<and> xc_consumed_at r = None) (\<lambda>r. r\<lparr>xc_consumed_at := Some t'\<rparr>)
      (exchanges (db w)) = 1" for t'
    using one_affected [OF _ d, of row "\<lambda>r. xc_consumed_at r = None" "\<lambda>r. r\<lparr>xc_consumed_at := Some t'\<rparr>"] row(1) by simp
  show thesis
    using that o f row one assms(2) by (simp add: RedeemDesktopExchangeCode_def Let_def world_simps)
qed

section \<open>Starting the handoff\<close>

text \<open>What the answer to a start holds, for the user of the subject and the session named.\<close>

definition handoff_started :: "env \<Rightarrow> start_body \<Rightarrow> conn \<Rightarrow> conn \<Rightarrow> bool" where
  "handoff_started e b c c' \<longleftrightarrow> status c' = 200 \<longrightarrow>
     (\<exists>uid raw rest. Atoi (TrimPrefix (TrimSpace (auth_subject c)) ''user:'') = Some uid \<and>
        resp_body c' = Some (JObj [(''data'', JObj ((''exchange_code'', JStr raw) # rest)), (''meta'', meta_json c')]) \<and>
        isValidOpaqueCode raw \<and> clock (wld c') = clock (wld c) \<and>
        code_waits raw uid (TrimSpace (sb_SessionID b)) (TrimSpace (sb_CodeChallenge b)) (DesktopExchangeCodeTTL (AppConfig e)) (wld c'))"

lemma start_refused: "status c' \<noteq> 200 \<Longrightarrow> post (handoff_started e b c) c'"
  by (simp add: post_def handoff_started_def)

lemma NewOpaque_valid:
  assumes "NewOpaqueToken w = (Some raw, w')"
  shows "isValidOpaqueCode raw"
proof -
  from assms obtain b w1 where b: "rand_Read 32 w = (Some b, w1)" and raw: "raw = hex_encode b"
    by (auto simp: NewOpaqueToken_def split: prod.splits option.splits)
  from rand_Read_length [OF b] show ?thesis
    using set_hex_encode unfolding raw by (auto simp: isValidOpaqueCode_def list_all_iff char_in_def)
qed

lemma audit_steady:
  "outcomes w = [] \<Longrightarrow> InsertAudit s ev uid ip ua h m w = (x, w') \<Longrightarrow> steady w w' \<and> exchanges (db w') = exchanges (db w)"
  by (auto simp: InsertAudit_def world_simps steady_def split: if_splits)

lemma handoff_ready:
  assumes o: "outcomes (wld c) = []" and d: "distinct (map xc_id (exchanges (db (wld c))))"
    and uid: "Atoi (TrimPrefix (TrimSpace (auth_subject c)) ''user:'') = Some uid"
    and new: "NewOpaqueToken (wld c) = (Some raw, w)"
    and create: "CreateDesktopExchangeCode s uid raw (TrimSpace (sb_CodeChallenge b)) (TrimSpace (sb_SessionID b)) cb
      (DesktopExchangeCodeTTL (AppConfig e)) w = (Inr (), wa)"
    and aud: "InsertAudit s ev u ip ua h m wa = (x, wb)"
  shows "post (handoff_started e b c) (JSONOK 200 (JObj ((''exchange_code'', JStr raw) # rest)) (c\<lparr>wld := wb\<rparr>))"
proof -
  from NewOpaque_steady [OF o new] have w: "steady (wld c) w" "db w = db (wld c)" by simp_all
  then have "outcomes w = []" "distinct (map xc_id (exchanges (db w)))" using d by (simp_all add: steady_def)
  from CreateCode_waits [OF create this] have wa: "code_waits raw uid (TrimSpace (sb_SessionID b)) (TrimSpace (sb_CodeChallenge b))
      (DesktopExchangeCodeTTL (AppConfig e)) wa" "clock wa = clock w" by simp_all
  then have "outcomes wa = []" by (simp add: code_waits_def)
  from audit_steady [OF this aud] have wb: "steady wa wb" "exchanges (db wb) = exchanges (db wa)" by simp_all
  from code_waits_steady [OF wa(1) wb] have "code_waits raw uid (TrimSpace (sb_SessionID b)) (TrimSpace (sb_CodeChallenge b))
      (DesktopExchangeCodeTTL (AppConfig e)) wb" .
  moreover have "clock wb = clock (wld c)" using w(1) wa(2) wb(1) by (simp add: steady_def)
  ultimately show ?thesis
    using uid NewOpaque_valid [OF new] unfolding post_def handoff_started_def
    by (intro impI exI [of _ uid] exI [of _ raw] exI [of _ rest]) (simp add: respond_defs meta_json_def)
qed

lemma start_handoff:
  assumes o: "outcomes (wld c) = []" and d: "distinct (map xc_id (exchanges (db (wld c))))" and b: "bind_start_body (rq_body r) = Some b"
  shows "post (handoff_started e b c) (StartDesktopExchangeCode e r c)"
  unfolding StartDesktopExchangeCode_def with_store_def user_of_subject_def recordDesktopExchangeStartFailure_def desktop_failure_def
    audit_def b option.case Let_def
  by (intro post_intro; (simp add: start_refused bad_session_id_def; fail)?; simp; rule handoff_ready [OF o d]; assumption)

section \<open>The exchange\<close>

text \<open>A token is in the answer that the service accepts for the user, for as long as it lives.\<close>

definition token_handed_over :: "env \<Rightarrow> TokenService \<Rightarrow> int \<Rightarrow> string \<Rightarrow> int \<Rightarrow> conn \<Rightarrow> bool" where
  "token_handed_over e ts uid sid t c' \<longleftrightarrow> status c' = 200 \<and>
     (\<exists>tok rest cl. resp_body c' = Some (JObj [(''data'', JObj ((''access_token'', JStr tok) # rest)), (''meta'', meta_json c')]) \<and>
        cl_Subject cl = user_subject uid \<and> cl_SessionID cl = sid \<and>
        (\<forall>now. ParseAccessToken (JWT e) ts tok now = Inr cl \<longleftrightarrow>
           NewNumericDate t \<le> now \<and> now < NewNumericDate (t + ts_ttl ts)))"

definition exchanged :: "env \<Rightarrow> TokenService \<Rightarrow> int \<Rightarrow> string \<Rightarrow> int \<Rightarrow> conn \<Rightarrow> conn \<Rightarrow> bool" where
  "exchanged e ts uid sid t c c' \<longleftrightarrow> token_handed_over e ts uid (TrimSpace sid) t c' \<or>
     status c' = 500 \<and> (\<exists>w err w'. clock w = t \<and> entropy w = entropy (wld c) \<and>
       MintDesktopAccessToken (JWT e) ts (user_subject uid) sid w = (Inl err, w'))"

lemma desktop_token_exchanged:
  assumes "jwt_law (JWT e)" and "TrimSpace ch = pkceS256 v" and "clock (wld c) = t" and "entropy (wld c) = entropy (wld c0)"
  shows "post (exchanged e ts uid sid t c0) (desktop_token e s ts r v \<lparr>dx_user_id = uid, dx_session_id = sid, dx_code_challenge = ch\<rparr> c)"
proof -
  have ne: "pkceS256 v \<noteq> ''''" using length_b64_encode [of URLAlphabet "sha256 v"] by (auto simp: pkceS256_def)
  show ?thesis
    unfolding desktop_token_def Let_def audit_def
  proof (intro post_intro, goal_cases)
    case 1
    with assms(2) ne show ?case by simp
  next
    case (2 x w err)
    with assms(3,4) show ?case by (auto simp: post_def exchanged_def user_subject_def)
  next
    case (3 x w p tok expires y w2)
    then have m: "mint (Desktop sid) (JWT e) ts (user_subject uid) (wld c) = (Inr (tok, expires), w)" by (simp add: user_subject_def)
    have "ts_secret ts \<in> secrets ts" by (simp add: secrets_def)
    from token_roundtrip [OF assms(1) m refl refl this] obtain cl where "expires = t + ts_ttl ts" "cl_Subject cl = user_subject uid"
      "cl_SessionID cl = TrimSpace sid"
      "\<forall>now. ParseAccessToken (JWT e) ts tok now = Inr cl \<longleftrightarrow> NewNumericDate t \<le> now \<and> now < NewNumericDate expires"
      using assms(3) by auto
    then show ?case
      unfolding post_def exchanged_def token_handed_over_def
      by (intro disjI1 conjI exI [of _ tok] exI [of _ cl]) (auto simp: respond_defs meta_json_def)
  qed
qed

text \<open>Characters of a verifier are visible, so trimming leaves it alone.\<close>

lemma valid_verifier_solid:
  assumes "isValidCodeVerifier v"
  shows "TrimSpace v = v"
proof -
  from assms have "v \<noteq> []" by (auto simp: isValidCodeVerifier_def)
  moreover have "\<forall>x\<in>set v. visible x"
    using assms by (auto simp: isValidCodeVerifier_def list_all_iff is_alnum_def char_in_def visible_def)
  ultimately show ?thesis using solid_visible by (simp add: solid_def)
qed

lemma valid_code_solid:
  assumes "isValidOpaqueCode v"
  shows "TrimSpace v = v"
proof -
  from assms have "v \<noteq> []" by (auto simp: isValidOpaqueCode_def)
  moreover have "\<forall>x\<in>set v. visible x"
    using assms by (auto simp: isValidOpaqueCode_def list_all_iff char_in_def visible_def)
  ultimately show ?thesis using solid_visible by (simp add: solid_def)
qed

text \<open>
  C9: The desktop handoff. Over a database that does not fail, a start answered with 200 hands
  out a code with which the desktop client, up to a second before the code's time to live is
  over and with the verifier of the challenge, gets what it came for: the exchange is answered
  with 200 and a token for the user who started and the session that was named, which the
  service accepts exactly until the token's own lifetime is over. Only minting can still fail
  (no random id, no signature), which gives 500.
\<close>

theorem desktop_handoff:
  assumes "AuthStore e = Some s" and "db_set s" and "TokenSvc e = Some ts" and "jwt_law (JWT e)"
    and "outcomes (wld c) = []" and "distinct (map xc_id (exchanges (db (wld c))))"
    and "bind_start_body (rq_body r) = Some b" and "TrimSpace (sb_CodeChallenge b) = pkceS256 v" and "isValidCodeVerifier v"
    and "status (StartDesktopExchangeCode e r c) = 200"
    and "resp_body (StartDesktopExchangeCode e r c) = Some (JObj [(''data'', JObj ((''exchange_code'', JStr code) # rest)), mt])"
    and "bind_exchange_body (rq_body r1) = Some (code, v)"
    and "wld c1 = (wld (StartDesktopExchangeCode e r c))\<lparr>clock := t\<rparr>"
    and "t + second \<le> clock (wld c) + DesktopExchangeCodeTTL (AppConfig e)"
  shows "\<exists>uid. Atoi (TrimPrefix (TrimSpace (auth_subject c)) ''user:'') = Some uid \<and>
    exchanged e ts uid (TrimSpace (sb_SessionID b)) t c1 (ExchangeDesktopCode e r1 c1)"
proof -
  let ?c' = "StartDesktopExchangeCode e r c" and ?sid = "TrimSpace (sb_SessionID b)"
  from start_handoff [OF assms(5,6,7), of e] assms(10,11) obtain uid where
    uid: "Atoi (TrimPrefix (TrimSpace (auth_subject c)) ''user:'') = Some uid" and ok: "isValidOpaqueCode code"
    and w: "clock (wld ?c') = clock (wld c)"
      "code_waits code uid ?sid (TrimSpace (sb_CodeChallenge b)) (DesktopExchangeCodeTTL (AppConfig e)) (wld ?c')"
    unfolding post_def handoff_started_def by auto
  obtain w' where w': "RedeemDesktopExchangeCode s code (wld c1) =
      (Inr \<lparr>dx_user_id = uid, dx_session_id = ?sid, dx_code_challenge = TrimSpace (sb_CodeChallenge b)\<rparr>, w')" "clock w' = t"
      "entropy w' = entropy (wld c1)"
    using Redeem_waiting [OF w(2) assms(2), of t] assms(14) w(1) unfolding assms(13) by auto
  then have "ExchangeDesktopCode e r1 c1 = desktop_token e s ts r1 v
      \<lparr>dx_user_id = uid, dx_session_id = ?sid, dx_code_challenge = TrimSpace (sb_CodeChallenge b)\<rparr> (c1\<lparr>wld := w'\<rparr>)"
    using assms(1,3,9,12) ok
    by (simp add: ExchangeDesktopCode_def with_store_def call_def Let_def valid_verifier_solid valid_code_solid)
  moreover have "post (exchanged e ts uid ?sid t c1) (desktop_token e s ts r1 v
      \<lparr>dx_user_id = uid, dx_session_id = ?sid, dx_code_challenge = TrimSpace (sb_CodeChallenge b)\<rparr> (c1\<lparr>wld := w'\<rparr>))"
  proof (rule desktop_token_exchanged [OF assms(4)])
    show "TrimSpace (TrimSpace (sb_CodeChallenge b)) = pkceS256 v" unfolding TrimSpace_idem by (rule assms(8))
  qed (use w'(2,3) in simp_all)
  ultimately show ?thesis using uid by (simp add: post_def)
qed

section \<open>A handoff\<close>

lemma pkce_challenge_valid: "isValidCodeChallenge (pkceS256 v)" and pkce_challenge_solid: "TrimSpace (pkceS256 v) = pkceS256 v"
proof -
  have a: "\<forall>b\<in>set URLAlphabet. is_alnum b \<or> b = CHR ''-'' \<or> b = CHR ''_''"
    by (simp add: URLAlphabet_def is_alnum_def char_in_def)
  have "set (pkceS256 v) \<subseteq> set URLAlphabet"
    using b64_digits_less [of _ "sha256 v"] by (auto simp: pkceS256_def b64_encode_def alphabets)
  with a have c: "\<forall>b\<in>set (pkceS256 v). is_alnum b \<or> b = CHR ''-'' \<or> b = CHR ''_''" by blast
  have len: "length (pkceS256 v) = 43" by (simp add: pkceS256_def length_b64_encode)
  with c show "isValidCodeChallenge (pkceS256 v)" by (auto simp: isValidCodeChallenge_def list_all_iff)
  from len have "pkceS256 v \<noteq> []" by auto
  moreover from c have "\<forall>x\<in>set (pkceS256 v). visible x" by (auto simp: is_alnum_def char_in_def visible_def)
  ultimately show "TrimSpace (pkceS256 v) = pkceS256 v" using solid_visible by (simp add: solid_def)
qed

text \<open>User 1 starts at second 1000; the desktop client exchanges a minute later.\<close>

definition demo_verifier :: string where
  "demo_verifier = replicate 43 (CHR ''a'')"

definition demo_desktop_claims :: Claims where
  "demo_desktop_claims = (registered_claims demo_service ''user:1'' 1060000000000 1960000000000
     (hex_encode (take 16 (''bbbb'' @ replicate 16 (CHR 0x00)))))\<lparr>cl_TokenUse := ''desktop_access'', cl_SessionID := ''sess-1''\<rparr>"

definition handoff_jwt :: jwt_lib where
  "handoff_jwt =
     \<lparr>SignedString = (\<lambda>alg key cl. if alg = HS256 \<and> key = ts_secret demo_service \<and> cl = demo_desktop_claims then Some ''tok'' else None),
      ParseWithClaims = (\<lambda>keyfunc issuer audience methods now t.
        if t = ''tok'' \<and> HS256 \<in> set methods \<and> keyfunc HS256 = Some (ts_secret demo_service) \<and>
           claims_valid issuer audience now demo_desktop_claims
        then Some (demo_desktop_claims, True) else None),
      ParseUnverified = (\<lambda>t. if t = ''tok'' then Some (HS256, demo_desktop_claims) else None),
      Verify = (\<lambda>alg key t. alg = HS256 \<and> key = ts_secret demo_service \<and> t = ''tok'')\<rparr>"

lemma handoff_jwt_law: "jwt_law handoff_jwt"
  by (auto simp: jwt_law_def handoff_jwt_def)

definition handoff_site :: env where
  "handoff_site = demo_site\<lparr>JWT := handoff_jwt\<rparr>"

definition demo_browser :: conn where
  "demo_browser = (demo_conn demo_world)\<lparr>auth_subject := ''user:1''\<rparr>"

definition demo_start_request :: request where
  "demo_start_request = demo_request ''POST'' ''/api/v1/auth/desktop/start'' (\<lambda>_. '''')
     (Some (JObj [(''session_id'', JStr ''sess-1''), (''code_challenge'', JStr (pkceS256 demo_verifier))]))"

definition demo_exchange_request :: "string \<Rightarrow> request" where
  "demo_exchange_request code = demo_request ''POST'' ''/api/v1/auth/desktop/exchange'' (\<lambda>_. '''')
     (Some (JObj [(''exchange_code'', JStr code), (''code_verifier'', JStr demo_verifier)]))"

lemma demo_bodies:
  "bind_start_body (rq_body demo_start_request) =
     Some \<lparr>sb_SessionID = ''sess-1'', sb_CodeChallenge = pkceS256 demo_verifier, sb_CallbackURI = ''''\<rparr>"
  "code \<noteq> '''' \<Longrightarrow> bind_exchange_body (rq_body (demo_exchange_request code)) = Some (code, demo_verifier)"
proof -
  have "length (pkceS256 demo_verifier) = 43" by (simp add: pkceS256_def length_b64_encode)
  then have "pkceS256 demo_verifier \<noteq> []" by auto
  then show "bind_start_body (rq_body demo_start_request) =
     Some \<lparr>sb_SessionID = ''sess-1'', sb_CodeChallenge = pkceS256 demo_verifier, sb_CallbackURI = ''''\<rparr>"
    by (simp add: demo_start_request_def demo_request_def bind_start_body_def members_def str_field_def EqualFold_ascii_def
        ascii_lower_def lower_char_def valid_def)
  show "code \<noteq> '''' \<Longrightarrow> bind_exchange_body (rq_body (demo_exchange_request code)) = Some (code, demo_verifier)"
    by (simp add: demo_exchange_request_def demo_request_def bind_exchange_body_def members_def str_field_def EqualFold_ascii_def
        ascii_lower_def lower_char_def valid_def demo_verifier_def)
qed

lemma demo_handoff_starts:
  "status (StartDesktopExchangeCode handoff_site demo_start_request demo_browser) = 200"
  "entropy (wld (StartDesktopExchangeCode handoff_site demo_start_request demo_browser)) = [Some ''bbbb'', Some ''cccc'']"
proof -
  have t: "TrimSpace ''user:1'' = ''user:1''" "TrimSpace ''sess-1'' = ''sess-1''" by (simp_all add: trim_visible visible_def)
  have u: "Atoi (TrimPrefix ''user:1'' ''user:'') = Some 1" "HasPrefix ''user:1'' ''user:''"
    by (simp_all add: TrimPrefix_def HasPrefix_def ParseInt_def char_digit_def)
  have e: "AuthStore handoff_site = Some demo_store" "DesktopExchangeCodeTTL (AppConfig handoff_site) = 120000000000"
    by (simp_all add: handoff_site_def demo_site_def demo_config_def)
  have "demo_browser = demo_conn demo_world\<lparr>auth_subject := ''user:1''\<rparr>" by (simp add: demo_browser_def)
  then have "status (StartDesktopExchangeCode handoff_site demo_start_request demo_browser) = 200 \<and>
      entropy (wld (StartDesktopExchangeCode handoff_site demo_start_request demo_browser)) = [Some ''bbbb'', Some ''cccc'']"
    by (simp add: StartDesktopExchangeCode_def with_store_def e user_of_subject_def demo_browser_def demo_conn_def t u demo_bodies(1)
        session_id_ok_def pkce_challenge_valid pkce_challenge_solid Let_def call_def NewOpaqueToken_def rand_Read_def read_entropy_def
        demo_world_def CreateDesktopExchangeCode_def demo_store_def world_simps user_exists_def demo_user_def empty_db_def
        audit_def InsertAudit_def respond_defs)
  then show "status (StartDesktopExchangeCode handoff_site demo_start_request demo_browser) = 200"
    "entropy (wld (StartDesktopExchangeCode handoff_site demo_start_request demo_browser)) = [Some ''bbbb'', Some ''cccc'']"
    by simp_all
qed

lemma demo_desktop_mint:
  assumes "clock w = 1060000000000" and "entropy w = [Some ''bbbb'', Some ''cccc'']"
  shows "fst (MintDesktopAccessToken handoff_jwt demo_service (user_subject 1) ''sess-1'' w) = Inr (''tok'', 1960000000000)"
proof -
  have "user_subject 1 = ''user:1''"
    by (simp add: user_subject_def Itoa_def nat_str.simps [of "Suc 0"] digit_char_def char_of_def bit_0)
  moreover have "TrimSpace ''sess-1'' = ''sess-1''" by (simp add: trim_visible visible_def)
  ultimately show ?thesis
    using assms by (simp add: MintDesktopAccessToken_def Let_def randomJTI_def rand_Read_def read_entropy_def sign_claims_def
      handoff_jwt_def demo_desktop_claims_def demo_service_def)
qed

theorem desktop_handoff_witness:
  "\<exists>code. token_handed_over handoff_site demo_service 1 ''sess-1'' 1060000000000
     (ExchangeDesktopCode handoff_site (demo_exchange_request code)
        (demo_conn ((wld (StartDesktopExchangeCode handoff_site demo_start_request demo_browser))\<lparr>clock := 1060000000000\<rparr>)))"
proof -
  let ?c' = "StartDesktopExchangeCode handoff_site demo_start_request demo_browser"
  let ?c1 = "demo_conn ((wld ?c')\<lparr>clock := 1060000000000\<rparr>)"
  have t: "TrimSpace ''user:1'' = ''user:1''" "TrimSpace ''sess-1'' = ''sess-1''" by (simp_all add: trim_visible visible_def)
  have uid: "Atoi (TrimPrefix (TrimSpace (auth_subject demo_browser)) ''user:'') = Some 1"
    by (simp add: demo_browser_def t TrimPrefix_def HasPrefix_def ParseInt_def char_digit_def)
  have site: "AuthStore handoff_site = Some demo_store" "TokenSvc handoff_site = Some demo_service" "JWT handoff_site = handoff_jwt"
      "DesktopExchangeCodeTTL (AppConfig handoff_site) = 120000000000" "db_set demo_store"
    by (simp_all add: handoff_site_def demo_site_def demo_config_def demo_store_def)
  have w: "outcomes (wld demo_browser) = []" "distinct (map xc_id (exchanges (db (wld demo_browser))))"
      "clock (wld demo_browser) = 1000000000000"
    by (simp_all add: demo_browser_def demo_conn_def demo_world_def empty_db_def)
  have v: "isValidCodeVerifier demo_verifier"
    by (simp add: isValidCodeVerifier_def demo_verifier_def is_alnum_def char_in_def list_all_iff)
  from start_handoff [OF w(1,2) demo_bodies(1), of handoff_site] demo_handoff_starts(1) obtain code rest where
    body: "resp_body ?c' = Some (JObj [(''data'', JObj ((''exchange_code'', JStr code) # rest)), (''meta'', meta_json ?c')])"
    and ok: "isValidOpaqueCode code"
    unfolding post_def handoff_started_def by blast
  from ok have "code \<noteq> ''''" by (auto simp: isValidOpaqueCode_def)
  note b = demo_bodies(2) [OF this]
  have "exchanged handoff_site demo_service 1 ''sess-1'' 1060000000000 ?c1 (ExchangeDesktopCode handoff_site (demo_exchange_request code) ?c1)"
    using desktop_handoff [OF site(1,5,2) _ w(1,2) demo_bodies(1) _ v demo_handoff_starts(1) body b, of ?c1 1060000000000]
    by (simp add: site w(3) handoff_jwt_law pkce_challenge_solid uid t second_def demo_conn_def)
  moreover have "entropy (wld ?c1) = [Some ''bbbb'', Some ''cccc'']" using demo_handoff_starts(2) by (simp add: demo_conn_def)
  ultimately show ?thesis
    using demo_desktop_mint unfolding exchanged_def site t by fastforce
qed

end
