(* ===== verification/Onboarding.thy ===== *)
theory Onboarding
  imports Round_Trip
begin

text \<open>
  From an invitation to a login: an operator who accepts an invitation with a password can
  sign in with it.
\<close>

section \<open>An account that can sign in\<close>

definition can_sign_in :: "env \<Rightarrow> string \<Rightarrow> string \<Rightarrow> int \<Rightarrow> database \<Rightarrow> bool" where
  "can_sign_in e email password uid d \<longleftrightarrow>
     (\<exists>hash. (\<exists>a. account_joined (\<lambda>a. oa_email a = email) d = Some a \<and> oa_linked_user_id a = uid \<and> oa_password_hash a = hash) \<and>
        VerifyPassword (IDKey e) password hash = Inr True \<and> TrimSpace hash \<noteq> '''')"

lemma open_session_works:
  assumes "db_set s" and "outcomes (wld c) = []" and "entropy (wld c) = Some x # Some y # es"
    and "user_exists (db (wld c)) uid"
    and "HashOpaqueToken (hex_encode (take 32 (x @ replicate 32 (CHR 0x00)))) \<notin> se_token_hash ` set (sessions (db (wld c)))"
  shows "status (open_session e s r uid email c) = 200"
proof -
  have w: "wld (recordLoginSuccessClearThrottle email c) = wld c"
    by (auto simp: recordLoginSuccessClearThrottle_def Let_def redis_call_def)
  show ?thesis
    using assms
    by (simp add: open_session_def call_def w TouchOperatorLoginByEmail_def nil_store_def world_simps NewOpaqueToken_def rand_Read_def
        read_entropy_def CreateSession_def Let_def user_exists_def audit_def InsertAudit_def respond_defs)
qed

lemma login_works:
  assumes "AuthStore e = Some s" and "database_open e" and "db_set s" and "outcomes (wld c) = []"
    and "bind_login_body (rq_body r) = Some (email0, password)" and "normalizeEmail e email0 = Some email"
    and "\<not> fst (fst (loginEmailLocked email c))" and "can_sign_in e email password uid (db (wld c))"
    and "entropy (wld c) = Some x # Some y # es"
    and "HashOpaqueToken (hex_encode (take 32 (x @ replicate 32 (CHR 0x00)))) \<notin> se_token_hash ` set (sessions (db (wld c)))"
  shows "status (LoginUser e r c) = 200 \<and> credentials_verified e r c uid"
proof -
  from assms(8) obtain a where a: "account_joined (\<lambda>a. oa_email a = email) (db (wld c)) = Some a" "oa_linked_user_id a = uid"
    "VerifyPassword (IDKey e) password (oa_password_hash a) = Inr True" "TrimSpace (oa_password_hash a) \<noteq> ''''"
    unfolding can_sign_in_def by blast
  then have mem: "a \<in> set (accounts (db (wld c)))" "oa_email a = email" "oa_status a = ''active''" "live_user (db (wld c)) uid"
    by (auto simp: account_joined_def dest!: find_Some_set)
  obtain retry c1 where l: "loginEmailLocked email c = ((False, retry), c1)" using assms(7) by (metis prod.collapse)
  note c1 = locked_wld [OF l]
  have g: "GetUserAuthByEmail email (wld c) = ((Inr (uid, oa_password_hash a), wld c) :: (unit, int \<times> string) result \<times> world)"
    using assms(4) a(1,2) by (simp add: GetUserAuthByEmail_def world_simps)
  have eq: "c1\<lparr>wld := wld c\<rparr> = c1" unfolding c1 [symmetric] by simp
  from g a assms(1,2,5,6) l have "LoginUser e r c = open_session e s r uid email c1"
    by (simp add: LoginUser_def with_store_def call_def c1 eq)
  moreover have "status (open_session e s r uid email c1) = 200"
    using open_session_works [of s c1] assms(3,4,9,10) mem(4) live_user_exists unfolding c1 by blast
  moreover have "credentials_verified e r c uid"
    unfolding credentials_verified_def using assms(5,6,7) a(2,3) mem by blast
  ultimately show ?thesis by simp
qed

section \<open>What an acceptance leaves\<close>

definition onboarded :: "env \<Rightarrow> accept_body \<Rightarrow> conn \<Rightarrow> bool" where
  "onboarded e b c' \<longleftrightarrow> status c' = 201 \<longrightarrow>
     (\<exists>uid email rest m. resp_body c' = Some (JObj [(''data'', JObj ((''user_id'', JInt uid) # (''email'', JStr email) # rest)), m]) \<and>
        (live_user (db (wld c')) uid \<longrightarrow> can_sign_in e email (ab_Password b) uid (db (wld c'))))"

lemma not_onboarded: "status c' \<noteq> 201 \<Longrightarrow> post (onboarded e b) c'"
  by (simp add: post_def onboarded_def)

lemma hash_not_blank: "HashPassword idkey p w = (Inr h, w') \<Longrightarrow> TrimSpace h \<noteq> ''''"
  by (rule TrimSpace_keeps_visible [of "CHR ''$''"])
    (auto simp: argon2_encode_def visible_def dest!: HashPassword_ok)

lemma accepted_can_sign_in:
  assumes "key_length_law (IDKey e)" and "HashPassword (IDKey e) p w = (Inr h, w1)"
    and "AcceptOperatorInvite st tok em h n w1 = (Inr res, w2)"
    and "accounts d = accounts (db w2)" and "users d = users (db w2)" and "live_user d (ir_LinkedUserID res)"
  shows "can_sign_in e (ir_Email res) p (ir_LinkedUserID res) d"
proof -
  from Accept_ok [OF assms(3)] obtain r a where
    a: "oa_linked_user_id a = ir_LinkedUserID res" "oa_email a = ir_Email res" "oa_password_hash a = h" "oa_status a = ''active''"
    and fresh: "\<forall>b\<in>set (accounts (db w1)). oa_email b \<noteq> ir_Email res"
    and accs: "accounts (db w2) = accounts (db w1) @ [a]"
    unfolding invite_accepted_def by (auto simp: consume_invite_def)
  have "account_joined (\<lambda>a. oa_email a = ir_Email res) d = Some a"
    unfolding account_joined_def assms(4) accs using a fresh assms(6) by (intro find_append_fresh) auto
  moreover have "VerifyPassword (IDKey e) p h = Inr True" using HashPassword_verifies [OF assms(1,2)] by simp
  ultimately show ?thesis
    using a(1,3) hash_not_blank [OF assms(2)] unfolding can_sign_in_def by blast
qed

lemma accept_onboards:
  assumes "key_length_law (IDKey e)" and "bind_accept_body (rq_body r) = Some b"
  shows "post (onboarded e b) (AcceptOperatorInvite_handler e r c)"
proof -
  have "post (onboarded e b) (JSONOK 201 (JObj [(''user_id'', JInt (ir_LinkedUserID res)), (''email'', JStr (ir_Email res)), x]) (c\<lparr>wld := w3\<rparr>))"
    if "HashPassword (IDKey e) (ab_Password b) w = (Inr h, w1)"
      "AcceptOperatorInvite st tok em h n w1 = (Inr res, w2)" "InsertAudit s ev u ip ua hint m w2 = (y, w3)"
    for w h w1 st tok em n res w2 s ev u ip ua hint m y w3 x
  proof -
    from InsertAudit_tables [OF that(3)] have "accounts (db w3) = accounts (db w2)" "users (db w3) = users (db w2)" by auto
    from accepted_can_sign_in [OF assms(1) that(1,2) this] show ?thesis
      by (auto simp: post_def onboarded_def respond_defs)
  qed
  then show ?thesis
    unfolding AcceptOperatorInvite_handler_def with_store_def audit_def assms(2) option.case Let_def accept_error_def
    by (intro post_intro) (simp_all add: not_onboarded split: invite_error.split)
qed

text \<open>
  C10: An invitation leads to a login. Once an acceptance has been answered with 201, and while
  nobody changes the accounts and users, the new operator can sign in with the e-mail of the
  answer and the password of the acceptance: over a database that does not fail, with random
  bytes to draw and no lockout, the login is answered with 200, and its verified credentials
  are those of the user named in the answer (unless that user is a deleted one, which an
  invitation can be linked to).
\<close>

theorem invite_leads_to_login:
  assumes "AuthStore e = Some s" and "db_set s" and "database_open e" and "key_length_law (IDKey e)"
    and "bind_accept_body (rq_body r) = Some b" and "status (AcceptOperatorInvite_handler e r c) = 201"
    and "resp_body (AcceptOperatorInvite_handler e r c) =
      Some (JObj [(''data'', JObj ((''user_id'', JInt uid) # (''email'', JStr email) # rest)), m])"
    and "live_user (db (wld (AcceptOperatorInvite_handler e r c))) uid"
    and "bind_login_body (rq_body r2) = Some (email0, ab_Password b)" and "normalizeEmail e email0 = Some email"
    and "accounts (db (wld c2)) = accounts (db (wld (AcceptOperatorInvite_handler e r c)))"
    and "users (db (wld c2)) = users (db (wld (AcceptOperatorInvite_handler e r c)))"
    and "outcomes (wld c2) = []" and "\<not> fst (fst (loginEmailLocked email c2))" and "entropy (wld c2) = Some x # Some y # es"
    and "HashOpaqueToken (hex_encode (take 32 (x @ replicate 32 (CHR 0x00)))) \<notin> se_token_hash ` set (sessions (db (wld c2)))"
  shows "status (LoginUser e r2 c2) = 200 \<and> credentials_verified e r2 c2 uid"
proof -
  from accept_onboards [OF assms(4,5), of c] assms(6-8)
  have "can_sign_in e email (ab_Password b) uid (db (wld (AcceptOperatorInvite_handler e r c)))"
    by (auto simp: post_def onboarded_def)
  then have "can_sign_in e email (ab_Password b) uid (db (wld c2))"
    by (simp add: can_sign_in_def account_joined_def live_user_def assms(11,12))
  with assms show ?thesis by (intro login_works)
qed

section \<open>An onboarding\<close>

definition demo_lobby_invited :: world where
  "demo_lobby_invited = snd (CreateOperatorInvite (Some demo_store) (HashOpaqueToken ''tok'') ''ann@x.org'' ''Ann'' ''support''
     None (Some 1) 2000000000000 '''' demo_operators)"

definition demo_accept :: request where
  "demo_accept = demo_request ''POST'' ''/api/v1/auth/invite/accept'' (\<lambda>_. '''')
     (Some (JObj [(''invite_token'', JStr ''tok''), (''email'', JStr ''ann@x.org''), (''password'', JStr ''correct horse'')]))"

definition demo_first_login :: request where
  "demo_first_login = demo_request ''POST'' ''/api/v1/auth/login'' (\<lambda>_. '''')
     (Some (JObj [(''email'', JStr ''ann@x.org''), (''password'', JStr ''correct horse'')]))"

lemma demo_onboarding_bodies:
  "bind_accept_body (rq_body demo_accept) =
     Some \<lparr>ab_InviteToken = ''tok'', ab_Email = ''ann@x.org'', ab_Password = ''correct horse'', ab_Name = ''''\<rparr>"
  "bind_login_body (rq_body demo_first_login) = Some (''ann@x.org'', ''correct horse'')"
  by (simp_all add: demo_accept_def demo_first_login_def demo_request_def bind_accept_body_def bind_login_body_def members_def
      str_field_def EqualFold_ascii_def ascii_lower_def lower_char_def valid_def)

lemma demo_ann: "normalizeEmail demo_site ''ann@x.org'' = Some ''ann@x.org''"
  by (simp add: normalizeEmail_def demo_site_def ascii_lower_def lower_char_def demo_strings)

lemma demo_acceptance:
  "\<exists>w. AcceptOperatorInvite (Some demo_store) (HashOpaqueToken ''tok'') ''ann@x.org'' h ''''
       (demo_lobby_invited\<lparr>entropy := [Some ''bbbb'', Some ''cccc'']\<rparr>) =
     (Inr \<lparr>ir_LinkedUserID = 4, ir_Email = ''ann@x.org'', ir_RoleName = ''support''\<rparr>, w) \<and>
     live_user (db w) 4 \<and> outcomes w = [] \<and> entropy w = [Some ''bbbb'', Some ''cccc''] \<and> sessions (db w) = []"
proof -
  have f: "EqualFold_ascii ''ann@x.org'' ''ann@x.org''" by (simp add: EqualFold_ascii_def)
  show ?thesis by (simp add: demo_lobby_invited_def demo_invite_defs f live_user_def)
qed

lemma demo_accept_answer:
  "\<exists>w rest m. AcceptOperatorInvite_handler demo_site demo_accept (demo_conn demo_lobby_invited) =
     (demo_conn w)\<lparr>status := 201, resp_body := Some (JObj [(''data'', JObj ((''user_id'', JInt 4) # (''email'', JStr ''ann@x.org'') # rest)), m])\<rparr> \<and>
     live_user (db w) 4 \<and> outcomes w = [] \<and> entropy w = [Some ''bbbb'', Some ''cccc''] \<and> sessions (db w) = []"
proof -
  have t: "TrimSpace ''tok'' = ''tok''" by (simp add: trim_visible visible_def)
  have s: "AuthStore demo_site = Some demo_store" "IDKey demo_site = demo_argon2" by (simp_all add: demo_site_def)
  obtain h where h: "HashPassword demo_argon2 ''correct horse'' demo_lobby_invited =
      (Inr h, demo_lobby_invited\<lparr>entropy := [Some ''bbbb'', Some ''cccc'']\<rparr>)"
    by (simp add: HashPassword_def argon2_consts rand_Read_def read_entropy_def demo_lobby_invited_def demo_invite_defs)
  obtain w where w: "AcceptOperatorInvite (Some demo_store) (HashOpaqueToken ''tok'') ''ann@x.org'' h ''''
       (demo_lobby_invited\<lparr>entropy := [Some ''bbbb'', Some ''cccc'']\<rparr>) =
     (Inr \<lparr>ir_LinkedUserID = 4, ir_Email = ''ann@x.org'', ir_RoleName = ''support''\<rparr>, w)"
     "live_user (db w) 4" "outcomes w = []" "entropy w = [Some ''bbbb'', Some ''cccc'']" "sessions (db w) = []"
    using demo_acceptance [of h] by blast
  obtain w2 where a: "InsertAudit demo_store ''auth_operator_invite_accepted'' (Some 4) (clientIP demo_accept) (UserAgent demo_accept)
      ''ann@x.org'' '''' w = (Inr (), w2)" "live_user (db w2) 4" "outcomes w2 = []" "entropy w2 = [Some ''bbbb'', Some ''cccc'']"
      "sessions (db w2) = []"
    using w(2-5) by (simp add: InsertAudit_def world_simps demo_store_def live_user_def)
  have "wld (demo_conn demo_lobby_invited) = demo_lobby_invited" by (simp add: demo_conn_def)
  then have "AcceptOperatorInvite_handler demo_site demo_accept (demo_conn demo_lobby_invited) =
      JSONOK 201 (JObj [(''user_id'', JInt 4), (''email'', JStr ''ann@x.org''), (''role'', JStr ''support'')])
        ((demo_conn demo_lobby_invited)\<lparr>wld := w2\<rparr>)"
    by (simp add: AcceptOperatorInvite_handler_def with_store_def s demo_onboarding_bodies(1) ValidatePasswordLength_def
        passwordMinLen_def passwordMaxLen_def t Let_def demo_ann call_def h w(1) audit_def a(1))
  then show ?thesis
    using a(2-) by (intro exI [of _ w2]) (simp add: respond_defs demo_conn_def)
qed

theorem invite_leads_to_login_witness:
  "\<exists>c. status (LoginUser demo_site demo_first_login c) = 200 \<and> credentials_verified demo_site demo_first_login c 4"
proof -
  obtain w rest m where c: "AcceptOperatorInvite_handler demo_site demo_accept (demo_conn demo_lobby_invited) =
     (demo_conn w)\<lparr>status := 201, resp_body := Some (JObj [(''data'', JObj ((''user_id'', JInt 4) # (''email'', JStr ''ann@x.org'') # rest)), m])\<rparr>"
     "live_user (db w) 4" "outcomes w = []" "entropy w = [Some ''bbbb'', Some ''cccc'']" "sessions (db w) = []"
    using demo_accept_answer by blast
  have site: "AuthStore demo_site = Some demo_store" "db_set demo_store" "database_open demo_site" "key_length_law (IDKey demo_site)"
    using demo_argon2_law by (simp_all add: demo_site_def demo_store_def)
  have w: "wld (demo_conn w) = w" by (simp add: demo_conn_def)
  have l: "\<not> fst (fst (loginEmailLocked ''ann@x.org'' (demo_conn w)))" by (simp add: loginEmailLocked_def demo_conn_def)
  have "status (LoginUser demo_site demo_first_login (demo_conn w)) = 200 \<and>
      credentials_verified demo_site demo_first_login (demo_conn w) 4"
    using c(2-)
    by (intro invite_leads_to_login [where c = "demo_conn demo_lobby_invited" and rest = rest and m = m,
          OF site demo_onboarding_bodies(1) _ _ _ _ demo_ann _ _ _ l])
      (simp_all add: c(1) demo_onboarding_bodies(2) w)
  then show ?thesis by blast
qed

end
