(* ===== verification/Guessing.thy ===== *)
theory Guessing
  imports Round_Trip
begin

text \<open>
  Guessing a password: how many wrong passwords for one email \<open>LoginUser\<close> looks at before the
  throttle of login_throttle.go turns the rest away, over any sequence of login requests.
\<close>

section \<open>Guesses\<close>

text \<open>The password a request tries for an email, and the hash the database holds for it.\<close>

definition tried :: "env \<Rightarrow> string \<Rightarrow> request \<Rightarrow> string option" where
  "tried e email r = (case bind_login_body (rq_body r) of
     None \<Rightarrow> None
   | Some (email0, password) \<Rightarrow> if normalizeEmail e email0 = Some email then Some password else None)"

definition stored_hash :: "string \<Rightarrow> world \<Rightarrow> string option" where
  "stored_hash email w =
     (case (fst (GetUserAuthByEmail email w) :: (unit, int \<times> string) result) of
        Inl _ \<Rightarrow> None
      | Inr (uid, hash) \<Rightarrow> if TrimSpace hash = '''' then None else Some hash)"

definition right_guess :: "env \<Rightarrow> string \<Rightarrow> request \<Rightarrow> world \<Rightarrow> bool" where
  "right_guess e email r w \<longleftrightarrow> (case (tried e email r, stored_hash email w) of
     (Some password, Some hash) \<Rightarrow> VerifyPassword (IDKey e) password hash = Inr True
   | _ \<Rightarrow> False)"

definition wrong_guess :: "env \<Rightarrow> string \<Rightarrow> request \<Rightarrow> world \<Rightarrow> bool" where
  "wrong_guess e email r w \<longleftrightarrow> (case (tried e email r, stored_hash email w) of
     (Some password, Some hash) \<Rightarrow> VerifyPassword (IDKey e) password hash \<noteq> Inr True
   | _ \<Rightarrow> False)"

lemmas guess_defs = tried_def stored_hash_def right_guess_def wrong_guess_def

section \<open>What one login does to the throttle\<close>

lemma throttle_responses [simp]:
  "loginEmailThrottle (c_JSON st b c) = loginEmailThrottle c" "loginEmailThrottle (JSONOK st d c) = loginEmailThrottle c"
  "loginEmailThrottle (internal m c) = loginEmailThrottle c" "loginEmailThrottle (respond_Error st code m ds c) = loginEmailThrottle c"
  "loginEmailThrottle (invalid_field m f c) = loginEmailThrottle c" "loginEmailThrottle (login_denied c) = loginEmailThrottle c"
  "loginEmailThrottle (setSessionCookie cfg v c) = loginEmailThrottle c"
  "loginEmailThrottle (setCSRFCookie cfg v c) = loginEmailThrottle c"
  by (simp_all add: respond_defs internal_def invalid_field_def login_denied_def unauthorized_def
      setSessionCookie_def setCSRFCookie_def SetCookie_def Let_def)

lemma open_session_throttle:
  assumes "\<not> rl_client (redis c)"
  shows "post (\<lambda>c'. loginEmailThrottle c' = (loginEmailThrottle c)(email := None)) (open_session e s r uid email c)"
  unfolding open_session_def
  by (intro post_intro audit_post) (use assms in \<open>simp_all add: post_def recordLoginSuccessClearThrottle_def\<close>)

text \<open>
  With the throttle in the process: a locked email is answered 429 and its state stays; a wrong
  guess on an email that is not locked is answered 401 and counted; what other emails do changes
  nothing.
\<close>

definition locked_at :: "int \<Rightarrow> loginEmailState option \<Rightarrow> bool" where
  "locked_at t st \<longleftrightarrow> (case st of None \<Rightarrow> False | Some s \<Rightarrow> t < lockedUntil s)"

definition throttled :: "env \<Rightarrow> string \<Rightarrow> request \<Rightarrow> conn \<Rightarrow> conn \<Rightarrow> bool" where
  "throttled e email r c c' \<longleftrightarrow>
     (let st = loginEmailThrottle c email; st' = loginEmailThrottle c' email in
      if wrong_guess e email r (wld c) \<and> \<not> locked_at (clock (wld c)) st
      then status c' = 401 \<and> (\<exists>t\<ge>clock (wld c). st' = Some (count_failure t st))
      else st' = st \<and> (wrong_guess e email r (wld c) \<longrightarrow> status c' = 429))"

lemma in_process_lock:
  assumes "\<not> rl_client (redis c)" and "loginEmailLocked email c = ((l, retry), c1)"
  shows "c1 = c \<and> l = locked_at (clock (wld c)) (loginEmailThrottle c email)"
  using assms by (auto simp: loginEmailLocked_def locked_at_def Let_def split: option.splits if_splits)

lemma post_mono: "post Q c \<Longrightarrow> (\<And>c. Q c \<Longrightarrow> R c) \<Longrightarrow> post R c"
  by (simp add: post_def)

lemma untried_throttle:
  assumes "\<not> rl_client (redis c)" and "tried e email r = None"
  shows "post (\<lambda>c'. loginEmailThrottle c' email = loginEmailThrottle c email) (LoginUser e r c)"
proof -
  let ?same = "\<lambda>c'. loginEmailThrottle c' email = loginEmailThrottle c email"
  have other: "em \<noteq> email"
    if "bind_login_body (rq_body r) = Some (email0, pw)" "normalizeEmail e email0 = Some em" for email0 pw em
    using assms(2) that by (auto simp: tried_def)
  have opened: "post ?same (open_session e s r uid em (c1\<lparr>wld := w\<rparr>))"
    if "bind_login_body (rq_body r) = Some (email0, pw)" "normalizeEmail e email0 = Some em"
      "loginEmailLocked em c = ((l, retry), c1)" for email0 pw em l retry c1 s uid w
    using other [OF that(1,2)] in_process_lock [OF assms(1) that(3)] assms(1)
    by (intro post_mono [OF open_session_throttle]) auto
  show ?thesis
    unfolding LoginUser_def with_store_def authLoginFail_def Let_def
    by (intro post_intro audit_post; (rule opened; fastforce)?)
      (auto simp: post_def assms(1) recordLoginFailureKnownUser_def dest!: in_process_lock [OF assms(1)] other)
qed

lemma denied_post:
  "(\<And>w. Q (login_denied (c\<lparr>wld := w\<rparr>))) \<Longrightarrow> post Q (authLoginFail s r uid email reason c login_denied)"
  unfolding authLoginFail_def by (intro audit_post) (simp add: post_def)

lemma tried_throttle:
  assumes "database_open e" and "AuthStore e = Some s" and "\<not> rl_client (redis c)" and "\<not> right_guess e email r (wld c)"
    and "tried e email r = Some password"
  shows "post (throttled e email r c) (LoginUser e r c)"
proof -
  from assms(5) obtain email0 where b: "bind_login_body (rq_body r) = Some (email0, password)"
    and n: "normalizeEmail e email0 = Some email"
    by (auto simp: tried_def split: option.splits prod.splits if_splits)
  obtain l retry c1 where l: "loginEmailLocked email c = ((l, retry), c1)" by (metis prod.collapse)
  from in_process_lock [OF assms(3) l] have c1: "c1 = c" "l = locked_at (clock (wld c)) (loginEmailThrottle c email)"
    by simp_all
  note code = LoginUser_def with_store_def assms(1,2) b n l c1(1)
  show ?thesis
  proof (cases l)
    case True
    with c1(2) show ?thesis by (simp add: code post_def throttled_def Let_def)
  next
    case False
    with c1(2) have open_now: "\<not> locked_at (clock (wld c)) (loginEmailThrottle c email)" by simp
    obtain res w where g: "GetUserAuthByEmail email (wld c) = (res :: (unit, int \<times> string) result, w)"
      by (metis prod.collapse)
    then have "clock (wld c) \<le> clock w"
      by (auto simp: GetUserAuthByEmail_def split: option.splits elim!: bind_result_cases query_cases)
    note later = this
    show ?thesis
    proof (cases "stored_hash email (wld c)")
      case None
      then have no: "\<not> wrong_guess e email r (wld c)" by (simp add: wrong_guess_def split: option.splits)
      have same: "throttled e email r c c'" if "loginEmailThrottle c' email = loginEmailThrottle c email" for c'
        using that no by (simp add: throttled_def)
      have denied: "post (throttled e email r c) (authLoginFail s r None email reason (c\<lparr>wld := w\<rparr>) login_denied)" for reason
        by (rule denied_post) (simp add: same)
      show ?thesis
      proof (cases res)
        case (Inl f)
        have "post (throttled e email r c) (internal ''login failed'' (c\<lparr>wld := w\<rparr>))" by (simp add: post_def same)
        with Inl denied show ?thesis by (cases f) (simp_all add: code False call_def g)
      next
        case (Inr x)
        then obtain uid hash where x: "res = Inr (uid, hash)" by (cases x) simp
        with None g have "TrimSpace hash = ''''" by (simp add: stored_hash_def split: if_splits)
        with x denied show ?thesis by (simp add: code False call_def g)
      qed
    next
      case (Some hash)
      with g obtain uid where res: "res = Inr (uid, hash)" "TrimSpace hash \<noteq> ''''"
        by (auto simp: stored_hash_def split: sum.splits prod.splits if_splits)
      from assms(4,5) Some have v: "VerifyPassword (IDKey e) password hash \<noteq> Inr True"
        by (simp add: right_guess_def)
      with assms(5) Some have "wrong_guess e email r (wld c)" by (simp add: wrong_guess_def)
      then have th: "throttled e email r c c'"
        if "status c' = 401" "loginEmailThrottle c' email = Some (count_failure (clock w) (loginEmailThrottle c email))" for c'
        using that open_now later unfolding throttled_def Let_def by auto
      have "post (throttled e email r c) (authLoginFail s r (Some uid) email ''bad_password''
          (recordLoginFailureKnownUser email (c\<lparr>wld := w\<rparr>)) login_denied)"
        by (rule denied_post, rule th) (simp_all add: recordLoginFailureKnownUser_def assms(3))
      with res v show ?thesis by (simp add: code False call_def g)
    qed
  qed
qed

lemma login_throttled:
  assumes "database_open e" and "AuthStore e = Some s" and "\<not> rl_client (redis c)" and "\<not> right_guess e email r (wld c)"
  shows "throttled e email r c (LoginUser e r c)"
proof (cases "tried e email r")
  case None
  from postD [OF untried_throttle [OF assms(3) None]] None show ?thesis
    by (simp add: throttled_def wrong_guess_def)
next
  case (Some password)
  from postD [OF tried_throttle [OF assms Some]] show ?thesis .
qed

section \<open>How many guesses are looked at\<close>

definition throttle_ok :: "loginEmailState option \<Rightarrow> bool" where
  "throttle_ok st \<longleftrightarrow> (case st of None \<Rightarrow> True | Some s \<Rightarrow> 0 \<le> failures s \<and> failures s < loginMaxFailuresPerEmail)"

text \<open>How many failures a state still allows in the fifteen minutes from \<open>a\<close> on.\<close>

definition allowance :: "int \<Rightarrow> loginEmailState option \<Rightarrow> int" where
  "allowance a st = (case st of None \<Rightarrow> loginMaxFailuresPerEmail
     | Some s \<Rightarrow> if a + loginLockoutDuration \<le> lockedUntil s then 0 else loginMaxFailuresPerEmail - failures s)"

lemma allowance_bounds: "throttle_ok st \<Longrightarrow> 0 \<le> allowance a st \<and> allowance a st \<le> loginMaxFailuresPerEmail"
  by (auto simp: throttle_ok_def allowance_def loginMaxFailuresPerEmail_def split: option.splits)

lemma throttle_ok_failure: "throttle_ok st \<Longrightarrow> throttle_ok (Some (count_failure t st))"
  by (auto simp: throttle_ok_def count_failure_def Let_def login_consts split: option.splits)

lemma allowance_step:
  assumes "throttle_ok st" and "\<not> locked_at t st" and "a \<le> t" and "t \<le> t'" and "zero_time \<le> a"
  shows "1 + allowance a (Some (count_failure t' st)) \<le> allowance a st \<or> a + loginLockoutDuration \<le> t"
  using assms
  by (auto simp: throttle_ok_def count_failure_def allowance_def locked_at_def Let_def login_consts split: option.splits)

text \<open>The guesses looked at in the fifteen minutes from \<open>a\<close> on: wrong, and not turned away.\<close>

fun looked_at :: "env \<Rightarrow> string \<Rightarrow> int \<Rightarrow> request \<times> conn \<times> conn \<Rightarrow> bool" where
  "looked_at e email a (r, c, c') \<longleftrightarrow> wrong_guess e email r (wld c) \<and> status c' \<noteq> 429 \<and>
     a \<le> clock (wld c) \<and> clock (wld c) < a + loginLockoutDuration"

text \<open>The requests of a run: the service is up, there is no Redis, and no guess for the email is right.\<close>

definition quiet :: "env \<Rightarrow> string \<Rightarrow> (request \<times> conn) list \<Rightarrow> bool" where
  "quiet e email xs \<longleftrightarrow> database_open e \<and> AuthStore e \<noteq> None \<and>
     (\<forall>(r, c)\<in>set xs. \<not> rl_client (redis c) \<and> \<not> right_guess e email r (wld c))"

lemma first_throttled:
  assumes "quiet e email ((r, c) # xs)"
  shows "throttled e email r (carry p c) (LoginUser e r (carry p c))"
proof -
  from assms obtain s where "AuthStore e = Some s" by (auto simp: quiet_def)
  with assms show ?thesis by (intro login_throttled) (auto simp: quiet_def)
qed

lemma throttle_kept:
  "throttled e email r c c' \<Longrightarrow> throttle_ok (loginEmailThrottle c email) \<Longrightarrow> throttle_ok (loginEmailThrottle c' email)"
  by (auto simp: throttled_def Let_def split: if_splits intro: throttle_ok_failure)

lemma none_late:
  "\<forall>(r, c)\<in>set xs. a + loginLockoutDuration \<le> clock (wld c) \<Longrightarrow>
   filter (looked_at e email a) (serve_all (LoginUser e) p xs) = []"
  unfolding filter_empty_conv by (fastforce dest: serve_each)

text \<open>From \<open>a\<close> on, each guess looked at uses up a part of the allowance.\<close>

lemma looked_at_from:
  assumes "quiet e email xs" and "throttle_ok (loginEmailThrottle p email)" and "sorted (map (\<lambda>(r, c). clock (wld c)) xs)"
    and "\<forall>(r, c)\<in>set xs. a \<le> clock (wld c)" and "zero_time \<le> a"
  shows "int (length (filter (looked_at e email a) (serve_all (LoginUser e) p xs))) \<le> allowance a (loginEmailThrottle p email)"
  using assms(1-4)
proof (induction xs arbitrary: p)
  case Nil
  then show ?case using allowance_bounds by simp
next
  case (Cons x xs)
  obtain r c where x: "x = (r, c)" by (cases x)
  let ?c = "carry p c" and ?c' = "LoginUser e r (carry p c)"
  from Cons.prems(1) x have th: "throttled e email r ?c ?c'" by (simp add: first_throttled)
  have IH: "int (length (filter (looked_at e email a) (serve_all (LoginUser e) ?c' xs))) \<le> allowance a (loginEmailThrottle ?c' email)"
    using Cons.prems throttle_kept [OF th] by (intro Cons.IH) (auto simp: quiet_def x)
  show ?case
  proof (cases "a + loginLockoutDuration \<le> clock (wld c)")
    case True
    then have "\<forall>(r, c)\<in>set (x # xs). a + loginLockoutDuration \<le> clock (wld c)" using Cons.prems(3) x by fastforce
    with none_late [OF this] allowance_bounds [OF Cons.prems(2)] show ?thesis by simp
  next
    case early: False
    show ?thesis
    proof (cases "wrong_guess e email r (wld ?c) \<and> \<not> locked_at (clock (wld ?c)) (loginEmailThrottle ?c email)")
      case False
      with th IH show ?thesis by (auto simp: x throttled_def Let_def)
    next
      case True
      with th obtain t where t: "clock (wld c) \<le> t"
        "loginEmailThrottle ?c' email = Some (count_failure t (loginEmailThrottle p email))"
        by (auto simp: throttled_def Let_def)
      from allowance_step [OF Cons.prems(2) _ _ t(1) assms(5)] True t(2) IH early Cons.prems(4) show ?thesis
        by (fastforce simp: x)
    qed
  qed
qed

lemma looked_at_most:
  assumes "quiet e email xs" and "throttle_ok (loginEmailThrottle p email)" and "sorted (map (\<lambda>(r, c). clock (wld c)) xs)"
    and "zero_time \<le> a"
  shows "int (length (filter (looked_at e email a) (serve_all (LoginUser e) p xs))) \<le> loginMaxFailuresPerEmail"
  using assms(1-3)
proof (induction xs arbitrary: p)
  case (Cons x xs)
  obtain r c where x: "x = (r, c)" by (cases x)
  from Cons.prems(1) x have th: "throttled e email r (carry p c) (LoginUser e r (carry p c))" by (simp add: first_throttled)
  show ?case
  proof (cases "a \<le> clock (wld c)")
    case True
    with Cons.prems(3) have "\<forall>(r, c)\<in>set (x # xs). a \<le> clock (wld c)" by (fastforce simp: x)
    from looked_at_from [OF Cons.prems this assms(4)] allowance_bounds [OF Cons.prems(2)] show ?thesis
      by (meson order_trans)
  next
    case False
    with Cons.prems throttle_kept [OF th] Cons.IH [of "LoginUser e r (carry p c)"] show ?thesis
      by (simp add: x quiet_def)
  qed
qed (simp add: loginMaxFailuresPerEmail_def)

text \<open>Every wrong guess is either looked at and refused, or turned away.\<close>

lemma guess_answers:
  assumes "quiet e email xs" and "(r, c, c') \<in> set (serve_all (LoginUser e) p xs)" and "wrong_guess e email r (wld c)"
  shows "status c' = 401 \<or> status c' = 429"
proof -
  from serve_each [OF assms(2)] assms(1) have "throttled e email r c c'"
    by (auto simp: quiet_def intro!: login_throttled)
  with assms(3) show ?thesis by (auto simp: throttled_def Let_def split: if_splits)
qed

text \<open>
  C18: How often a password can be guessed. Take any sequence of login requests, for any emails,
  that \<open>LoginUser\<close> handles one after another in the order of their times, over a database that
  other requests may change in between, with the throttle kept in the process (no Redis client;
  with one, a failing Redis locks nobody) and no right password for the email among them (a
  successful login clears its count). Then in any stretch of fifteen minutes at most five wrong
  passwords for the email are looked at; each of these is answered 401 and all the others 429.
\<close>

theorem guesses_are_bounded:
  assumes "vs = serve_all (LoginUser e) p xs"
    and "database_open e" and "AuthStore e \<noteq> None"
    and "loginEmailThrottle p email = None" and "sorted (map (\<lambda>(r, c). clock (wld c)) xs)"
    and "\<forall>(r, c)\<in>set xs. \<not> rl_client (redis c) \<and> \<not> right_guess e email r (wld c)"
    and "zero_time \<le> a"
  shows "length (filter (\<lambda>(r, c, c'). wrong_guess e email r (wld c) \<and> status c' \<noteq> 429 \<and>
       a \<le> clock (wld c) \<and> clock (wld c) < a + 15 * 60 * 1000000000) vs) \<le> 5 \<and>
    (\<forall>(r, c, c')\<in>set vs. wrong_guess e email r (wld c) \<longrightarrow> status c' = 401 \<or> status c' = 429)"
proof -
  have q: "quiet e email xs" using assms(2,3,6) by (simp add: quiet_def)
  have "(\<lambda>(r, c, c'). wrong_guess e email r (wld c) \<and> status c' \<noteq> 429 \<and>
       a \<le> clock (wld c) \<and> clock (wld c) < a + 15 * 60 * 1000000000) = looked_at e email a"
    by (auto simp: loginLockoutDuration_def)
  with looked_at_most [OF q _ assms(5,7), of p] assms(4) guess_answers [OF q] show ?thesis
    by (auto simp: assms(1) throttle_ok_def loginMaxFailuresPerEmail_def)
qed

text \<open>Seven guesses within seven minutes: five are looked at.\<close>

definition demo_guess :: request where
  "demo_guess = demo_request ''POST'' ''/api/v1/auth/login'' (\<lambda>_. '''')
     (Some (JObj [(''email'', JStr ''op@x.org''), (''password'', JStr ''open sesame'')]))"

definition demo_guesses :: "(request \<times> conn) list" where
  "demo_guesses = map (\<lambda>t. (demo_guess, demo_conn (demo_password_world\<lparr>clock := t * 60000000000\<rparr>))) [0, 1, 2, 3, 4, 5, 6]"

lemma demo_guess_wrong:
  "wrong_guess demo_site ''op@x.org'' demo_guess (demo_password_world\<lparr>clock := t\<rparr>)"
  "\<not> right_guess demo_site ''op@x.org'' demo_guess (demo_password_world\<lparr>clock := t\<rparr>)"
proof -
  let ?w = "demo_password_world\<lparr>clock := t\<rparr>"
  have "bind_login_body (rq_body demo_guess) = Some (''op@x.org'', ''open sesame'')"
    by (simp add: demo_guess_def demo_request_def bind_login_body_def members_def str_field_def EqualFold_ascii_def
        ascii_lower_def lower_char_def valid_def)
  then have tr: "tried demo_site ''op@x.org'' demo_guess = Some ''open sesame''"
    by (simp add: tried_def demo_normalized)
  have "outcomes ?w = []"
    by (simp add: demo_password_world_def demo_operator_world_def demo_world_def)
  then have "GetUserAuthByEmail ''op@x.org'' ?w = ((Inr (1, demo_hash), ?w) :: (unit, int \<times> string) result \<times> world)"
    by (simp add: GetUserAuthByEmail_def account_joined_def query_no_script)
      (simp add: demo_password_world_def demo_operator_world_def demo_world_def live_user_def demo_user_def)
  moreover have "TrimSpace demo_hash \<noteq> []"
    by (rule TrimSpace_keeps_visible [of "CHR ''$''"]) (simp_all add: demo_hash_def argon2_encode_def visible_def)
  ultimately have st: "stored_hash ''op@x.org'' ?w = Some demo_hash" by (simp add: stored_hash_def)
  have "VerifyPassword (IDKey demo_site) ''open sesame'' demo_hash = Inr False"
    unfolding demo_hash_def using demo_argon2_law
    by (simp add: demo_site_def, subst verify_encoded)
      (simp_all add: demo_salt_def argon2SaltLen_def demo_argon2_def argon2KeyLen_def)
  with tr st show "wrong_guess demo_site ''op@x.org'' demo_guess ?w" "\<not> right_guess demo_site ''op@x.org'' demo_guess ?w"
    by (simp_all add: wrong_guess_def right_guess_def)
qed

definition demo_guessed :: "(request \<times> conn \<times> conn) list" where
  "demo_guessed = serve_all (LoginUser demo_site) demo_lobby demo_guesses"

lemma demo_guessed_wrong:
  "v \<in> set demo_guessed \<Longrightarrow>
   (case v of (r, c, c') \<Rightarrow> wrong_guess demo_site ''op@x.org'' r (wld c) \<and> 0 \<le> clock (wld c) \<and> clock (wld c) \<le> 360000000000)"
  unfolding demo_guessed_def
  by (cases v) (auto simp: demo_guesses_def demo_conn_def demo_guess_wrong dest!: serve_each)

theorem guesses_are_bounded_witness:
  "length demo_guessed = 7 \<and> length (filter (\<lambda>(r, c, c'). status c' \<noteq> 429) demo_guessed) \<le> 5 \<and>
   list_all (\<lambda>(r, c, c'). status c' = 401 \<or> status c' = 429) demo_guessed"
proof -
  have "database_open demo_site" "AuthStore demo_site \<noteq> None" by (simp_all add: demo_site_def)
  moreover have "loginEmailThrottle demo_lobby ''op@x.org'' = None" "sorted (map (\<lambda>(r, c). clock (wld c)) demo_guesses)"
    by (simp_all add: demo_lobby_def demo_conn_def demo_guesses_def)
  moreover have "\<forall>(r, c)\<in>set demo_guesses. \<not> rl_client (redis c) \<and> \<not> right_guess demo_site ''op@x.org'' r (wld c)"
    by (simp add: demo_guesses_def demo_conn_def demo_guess_wrong(2))
  moreover have "zero_time \<le> 0" by (simp add: zero_time_def)
  ultimately have b: "length (filter (\<lambda>(r, c, c'). wrong_guess demo_site ''op@x.org'' r (wld c) \<and> status c' \<noteq> 429 \<and>
       0 \<le> clock (wld c) \<and> clock (wld c) < 0 + 15 * 60 * 1000000000) demo_guessed) \<le> 5 \<and>
    (\<forall>(r, c, c')\<in>set demo_guessed. wrong_guess demo_site ''op@x.org'' r (wld c) \<longrightarrow> status c' = 401 \<or> status c' = 429)"
    by (rule guesses_are_bounded [OF demo_guessed_def])
  moreover have "filter (\<lambda>(r, c, c'). wrong_guess demo_site ''op@x.org'' r (wld c) \<and> status c' \<noteq> 429 \<and>
       0 \<le> clock (wld c) \<and> clock (wld c) < 0 + 15 * 60 * 1000000000) demo_guessed
    = filter (\<lambda>(r, c, c'). status c' \<noteq> 429) demo_guessed"
    by (rule filter_cong) (auto dest: demo_guessed_wrong)
  moreover have "length demo_guessed = 7" by (simp add: demo_guessed_def demo_guesses_def)
  ultimately show ?thesis using demo_guessed_wrong by (fastforce simp: list_all_iff)
qed

end
