(* ===== verification/Startup.thy ===== *)
theory Startup
  imports Access
begin

text \<open>
  Starting the service: redisx/client.go, \<open>NewDatabase\<close> of myhandlers/myhandlers.go and the
  steps of \<open>main\<close> in main.go up to the server, with the exit on every error. What the
  libraries answer is a parameter.
\<close>

section \<open>Redis (redisx/client.go)\<close>

text \<open>
  The client after \<open>Init\<close>: \<open>None\<close> is the nil client, with which rate limits and lockouts stay
  in the process. A client is represented by the options it was made with.
\<close>

definition redisx_Init :: "(string \<Rightarrow> 'opts option) \<Rightarrow> ('opts \<Rightarrow> bool) \<Rightarrow> string \<Rightarrow> 'opts option \<Rightarrow> 'opts option" where
  "redisx_Init ParseURL Ping url0 client =
     (let url = TrimSpace url0 in
      if url = '''' then client
      else (case ParseURL url of
          None \<Rightarrow> client
        | Some opts \<Rightarrow> if \<not> Ping opts then client else Some opts))"

definition redisx_Close :: "'opts option \<Rightarrow> 'opts option" where
  "redisx_Close client = (case client of Some _ \<Rightarrow> None | None \<Rightarrow> client)"

lemma redis_fails_open: "redisx_Init ParseURL Ping url client = client \<or>
    (\<exists>opts. ParseURL (TrimSpace url) = Some opts \<and> Ping opts \<and> redisx_Init ParseURL Ping url client = Some opts)"
  by (auto simp: redisx_Init_def Let_def split: option.split)

section \<open>The database (myhandlers.go)\<close>

datatype database_error = Nil_config | Open_failed | Ping_failed

text \<open>\<open>sql.Open\<close> and the ping, for a data source name; the result stands for the connection.\<close>

definition NewDatabase :: "(string \<Rightarrow> bool) \<Rightarrow> (string \<Rightarrow> bool) \<Rightarrow> config option \<Rightarrow> database_error + string" where
  "NewDatabase Open Ping cfg =
     (case cfg of
        None \<Rightarrow> Inl Nil_config
      | Some c \<Rightarrow>
          let dsn = dsnFromConfig c in
          if \<not> Open dsn then Inl Open_failed
          else if \<not> Ping dsn then Inl Ping_failed
          else Inr dsn)"

section \<open>main\<close>

datatype start_error =
    config_load_failed config_error
  | database_init_failed database_error
  | token_service_init_failed token_error
  | oidc_init_failed oidc_error
  | router_init_failed

record server =
  srv_Addr :: string
  srv_ReadHeaderTimeout :: int
  srv_ReadTimeout :: int
  srv_WriteTimeout :: int
  srv_IdleTimeout :: int
  srv_MaxHeaderBytes :: int

text \<open>
  The libraries: prefix texts, Redis, the database driver, OIDC discovery, gin's check of the
  trusted proxies, and (in an \<open>env\<close>) those the handlers use.
\<close>

record 'opts libs =
  lib_is_prefix :: "string \<Rightarrow> bool"
  lib_redis_ParseURL :: "string \<Rightarrow> 'opts option"
  lib_redis_Ping :: "'opts \<Rightarrow> bool"
  lib_sql_Open :: "string \<Rightarrow> bool"
  lib_sql_Ping :: "string \<Rightarrow> bool"
  lib_discover :: "string \<Rightarrow> string \<Rightarrow> verifier option"
  lib_proxies_ok :: "string list \<Rightarrow> bool"
  lib_handlers :: env

record 'opts service =
  sv_env :: env
  sv_routes :: "route list"
  sv_redis :: "'opts option"
  sv_server :: server

definition at_stage :: "('e \<Rightarrow> start_error) \<Rightarrow> 'e + 'a \<Rightarrow> start_error + 'a" where
  "at_stage f x = (case x of Inl e \<Rightarrow> Inl (f e) | Inr a \<Rightarrow> Inr a)"

definition start_oidc :: "'opts libs \<Rightarrow> config \<Rightarrow> store option \<Rightarrow> start_error + OIDC option" where
  "start_oidc l cfg s =
     (if OIDCIssuerURL cfg \<noteq> ''''
      then at_stage oidc_init_failed (and_then (NewOIDC (lib_discover l) (OIDCIssuerURL cfg) (OIDCAudience cfg) s)
             (\<lambda>o'. Inr (Some o')))
      else Inr None)"

definition server_of :: "config \<Rightarrow> server" where
  "server_of cfg = \<lparr>srv_Addr = '':'' @ APIPort cfg, srv_ReadHeaderTimeout = 10 * 1000000000,
     srv_ReadTimeout = 60 * 1000000000, srv_WriteTimeout = 60 * 1000000000, srv_IdleTimeout = 120 * 1000000000,
     srv_MaxHeaderBytes = 2 ^ 20\<rparr>"

definition start :: "'opts libs \<Rightarrow> (string \<Rightarrow> string) \<Rightarrow> start_error + 'opts service" where
  "start l env =
     and_then (at_stage config_load_failed (Load (lib_is_prefix l) env)) (\<lambda>cfg.
     let client = redisx_Init (lib_redis_ParseURL l) (lib_redis_Ping l) (RedisURL cfg) None in
     and_then (at_stage database_init_failed (NewDatabase (lib_sql_Open l) (lib_sql_Ping l) (Some cfg))) (\<lambda>_.
     let s = Some (New True (SessionIdleTTL cfg) (SessionAbsoluteTTL cfg)) in
     and_then (at_stage token_service_init_failed
         (NewTokenService (JWTSecret cfg) (JWTSecretPrevious cfg) (JWTIssuer cfg) (JWTAudience cfg) (JWTAccessTTL cfg))) (\<lambda>ts.
     and_then (start_oidc l cfg s) (\<lambda>oidcSvc.
     let e = (lib_handlers l)\<lparr>AppConfig := cfg, AuthStore := s, database_open := True, TokenSvc := Some ts, OIDCSvc := oidcSvc\<rparr> in
     and_then (at_stage (\<lambda>_. router_init_failed) (setupRouter (lib_proxies_ok l) e)) (\<lambda>routes.
     Inr \<lparr>sv_env = e, sv_routes = routes, sv_redis = client, sv_server = server_of cfg\<rparr>)))))"

section \<open>What a started service has\<close>

lemma at_stage_Inr [simp]: "at_stage f x = Inr a \<longleftrightarrow> x = Inr a" "at_stage f (Inr a) = Inr a"
  by (cases x; simp add: at_stage_def) (simp add: at_stage_def)

definition fully_configured :: "env \<Rightarrow> bool" where
  "fully_configured e \<longleftrightarrow> database_open e \<and>
     (\<exists>ts. TokenSvc e = Some ts \<and> 32 \<le> length (ts_secret ts) \<and> ts_issuer ts \<noteq> '''' \<and> ts_audience ts \<noteq> '''' \<and>
        (ts_prevSecret ts = '''' \<or> 32 \<le> length (ts_prevSecret ts)) \<and> ts_ttl ts = JWTAccessTTL (AppConfig e)) \<and>
     (\<exists>s. AuthStore e = Some s \<and> db_set s \<and> idleTTL s = SessionIdleTTL (AppConfig e) \<and>
        absTTL s = SessionAbsoluteTTL (AppConfig e)) \<and>
     (case OIDCSvc e of None \<Rightarrow> OIDCIssuerURL (AppConfig e) = '''' | Some oi \<Rightarrow> oi_store oi = AuthStore e)"

lemma New_fields [simp]: "db_set (New d i a) = d" "idleTTL (New d i a) = i" "absTTL (New d i a) = a"
  by (simp_all add: New_def)

lemma token_service_fields:
  "NewTokenService secret prev iss aud ttl = Inr ts \<Longrightarrow> 32 \<le> length (ts_secret ts) \<and> ts_issuer ts \<noteq> '''' \<and>
     ts_audience ts \<noteq> '''' \<and> (ts_prevSecret ts = '''' \<or> 32 \<le> length (ts_prevSecret ts)) \<and> ts_ttl ts = ttl"
  by (auto simp: NewTokenService_def split: if_splits)

lemma start_oidc_store: "start_oidc l cfg s = Inr x \<Longrightarrow> case x of None \<Rightarrow> OIDCIssuerURL cfg = '''' | Some oi \<Rightarrow> oi_store oi = s"
  by (auto simp: start_oidc_def NewOIDC_def Let_def elim!: and_then_InrE split: if_splits option.splits)

lemma started_service:
  assumes "start l env = Inr sv"
  shows "Load (lib_is_prefix l) env = Inr (AppConfig (sv_env sv)) \<and> fully_configured (sv_env sv) \<and>
    setupRouter (lib_proxies_ok l) (sv_env sv) = Inr (sv_routes sv)"
proof -
  from assms obtain cfg ts oi routes where
    cfg: "Load (lib_is_prefix l) env = Inr cfg" and
    ts: "NewTokenService (JWTSecret cfg) (JWTSecretPrevious cfg) (JWTIssuer cfg) (JWTAudience cfg) (JWTAccessTTL cfg) = Inr ts" and
    oi: "start_oidc l cfg (Some (New True (SessionIdleTTL cfg) (SessionAbsoluteTTL cfg))) = Inr oi" and
    r: "setupRouter (lib_proxies_ok l) ((lib_handlers l)\<lparr>AppConfig := cfg,
      AuthStore := Some (New True (SessionIdleTTL cfg) (SessionAbsoluteTTL cfg)), database_open := True,
      TokenSvc := Some ts, OIDCSvc := oi\<rparr>) = Inr routes" and
    sv: "sv_env sv = (lib_handlers l)\<lparr>AppConfig := cfg,
      AuthStore := Some (New True (SessionIdleTTL cfg) (SessionAbsoluteTTL cfg)), database_open := True,
      TokenSvc := Some ts, OIDCSvc := oi\<rparr>" "sv_routes sv = routes"
    unfolding start_def Let_def by (elim and_then_InrE) auto
  with token_service_fields [OF ts] start_oidc_store [OF oi] show ?thesis
    by (auto simp: fully_configured_def split: option.splits)
qed

text \<open>The required variables are enough to start.\<close>

definition demo_libs :: "unit libs" where
  "demo_libs = \<lparr>lib_is_prefix = (\<lambda>_. True), lib_redis_ParseURL = (\<lambda>_. None), lib_redis_Ping = (\<lambda>_. True),
     lib_sql_Open = (\<lambda>_. True), lib_sql_Ping = (\<lambda>_. True), lib_discover = (\<lambda>_ _. None), lib_proxies_ok = (\<lambda>_. True),
     lib_handlers = demo_site\<rparr>"

lemma demo_starts: "\<exists>sv. start demo_libs demo_env = Inr sv \<and> sv_redis sv = None"
proof -
  have "\<exists>ts. NewTokenService (JWTSecret demo_config) (JWTSecretPrevious demo_config) (JWTIssuer demo_config)
      (JWTAudience demo_config) (JWTAccessTTL demo_config) = Inr ts"
    by (simp add: NewTokenService_def demo_config_def)
  moreover have "start_oidc demo_libs demo_config s = Inr None" for s by (simp add: start_oidc_def demo_config_def)
  moreover have "redisx_Init ParseURL Ping (RedisURL demo_config) None = None" for ParseURL Ping
    by (simp add: redisx_Init_def demo_config_def)
  ultimately show ?thesis
    by (auto simp: start_def demo_libs_def demo_loads NewDatabase_def setupRouter_def Let_def)
qed

end
