(* ===== verification/Tools.thy ===== *)
theory Tools
  imports Config Json
begin

text \<open>
  The command line tools: cmd/schemagolden/main.go, which compares a dump of the schema with
  the golden file of the repository, cmd/openapivalidate/main.go, and the host allowlist of the
  smoke test, cmd/smoketest/allowlist.go. The file system, docker and the OpenAPI library are
  parameters; the paths are those of Unix.
\<close>

section \<open>Paths (path/filepath)\<close>

definition path_step :: "bool \<Rightarrow> string \<Rightarrow> string list \<Rightarrow> string list" where
  "path_step rooted c st =
     (if c = '''' \<or> c = ''.'' then st
      else if c = ''..'' then
        (case st of
           [] \<Rightarrow> if rooted then [] else [c]
         | t # ts \<Rightarrow> if t = ''..'' then c # st else ts)
      else c # st)"

definition Clean :: "string \<Rightarrow> string" where
  "Clean p =
     (let rooted = HasPrefix p ''/'';
          st = fold (path_step rooted) (Split (CHR ''/'') p) [];
          out = (if rooted then ''/'' else '''') @ join_with ''/'' (rev st)
      in if out = '''' then ''.'' else out)"

definition Dir :: "string \<Rightarrow> string" where
  "Dir p = Clean (rev (dropWhile (\<lambda>c. c \<noteq> CHR ''/'') (rev p)))"

definition Join :: "string list \<Rightarrow> string" where
  "Join es = (case dropWhile (\<lambda>x. x = '''') es of [] \<Rightarrow> '''' | xs \<Rightarrow> Clean (join_with ''/'' xs))"

text \<open>How much a path can shrink: the components weigh their length and a separator.\<close>

definition weight :: "string list \<Rightarrow> nat" where
  "weight cs = sum_list (map (\<lambda>c. Suc (length c)) cs)"

lemma weight_simps [simp]: "weight [] = 0" "weight (c # cs) = Suc (length c) + weight cs"
    "weight (cs @ ds) = weight cs + weight ds"
  by (simp_all add: weight_def)

lemma weight_Split: "weight (Split sep s) = Suc (length s)"
  by (induction s) (auto split: list.split)

lemma length_join_with: "cs \<noteq> [] \<Longrightarrow> Suc (length (join_with [x] cs)) = weight cs"
  by (induction cs rule: induct_list012) simp_all

lemma weight_rev [simp]: "weight (rev cs) = weight cs"
  by (induction cs) simp_all

lemma path_step_weight: "weight (path_step b c st) \<le> weight st + Suc (length c)"
  by (auto simp: path_step_def split: list.split)

lemma path_fold_weight: "weight (fold (path_step b) cs st) \<le> weight st + weight cs"
proof (induction cs arbitrary: st)
  case (Cons c cs)
  have "weight (fold (path_step b) (c # cs) st) \<le> weight (path_step b c st) + weight cs" using Cons by simp
  then show ?case using path_step_weight [of b c st] by simp
qed simp

lemma path_step_empty [simp]: "path_step b [] st = st"
  by (simp add: path_step_def)

lemma Split_front: "Split sep (sep # s) = [] # Split sep s"
  by simp

lemma Split_back: "Split sep (s @ [sep]) = Split sep s @ [[]]"
  by (induction s) (auto split: list.split simp: Cons_eq_append_conv)

text \<open>A cleaned path is no longer than the path, and shorter if that ends in a slash.\<close>

lemma Clean_stack:
  "weight (fold (path_step (HasPrefix p ''/'')) (Split (CHR ''/'') p) []) + (if HasPrefix p ''/'' then 1 else 0) \<le> Suc (length p)"
proof (cases "HasPrefix p ''/''")
  case True
  then obtain s where p: "p = CHR ''/'' # s" by (cases p) (auto simp: HasPrefix_def)
  show ?thesis using path_fold_weight [of True "Split (CHR ''/'') s" "[]"] True by (simp add: p weight_Split)
next
  case False
  then show ?thesis using path_fold_weight [of False "Split (CHR ''/'') p" "[]"] by (simp add: weight_Split)
qed

lemma Clean_stack_slash:
  assumes "p = q @ ''/''" and "q \<noteq> []"
  shows "weight (fold (path_step (HasPrefix p ''/'')) (Split (CHR ''/'') p) []) + (if HasPrefix p ''/'' then 1 else 0) \<le> length p"
proof -
  have "HasPrefix p ''/'' = HasPrefix q ''/''" using assms by (cases q) (auto simp: HasPrefix_def)
  moreover have "Split (CHR ''/'') p = Split (CHR ''/'') q @ [[]]" using assms(1) Split_back by simp
  ultimately show ?thesis using Clean_stack [of q] assms(1) by simp
qed

lemma length_Clean_stack:
  "length (Clean p) \<le> max 1 (weight (fold (path_step (HasPrefix p ''/'')) (Split (CHR ''/'') p) []) +
     (if HasPrefix p ''/'' then 1 else 0) - 1)"
  (is "_ \<le> max 1 (weight ?st + ?r - 1)")
proof (cases "?st = []")
  case True
  then show ?thesis by (simp add: Clean_def Let_def)
next
  case False
  then have "Suc (length (join_with ''/'' (rev ?st))) = weight ?st" using length_join_with [of "rev ?st"] by simp
  then show ?thesis by (auto simp: Clean_def Let_def)
qed

text \<open>Going to the parent ends: it stops at a fixed point or gets closer to one.\<close>

definition depth :: "string \<Rightarrow> nat" where
  "depth d = (if d = ''.'' then 0 else Suc (length d))"

lemma last_slash:
  obtains (none) "CHR ''/'' \<notin> set d" "rev (dropWhile (\<lambda>c. c \<noteq> CHR ''/'') (rev d)) = ''''"
    | (slash) q s where "d = q @ ''/'' @ s" "rev (dropWhile (\<lambda>c. c \<noteq> CHR ''/'') (rev d)) = q @ ''/''"
proof (cases "CHR ''/'' \<in> set d")
  case False
  then show thesis by (intro none) (auto simp: dropWhile_eq_Nil_conv)
next
  case True
  then obtain q s where d: "d = q @ CHR ''/'' # s" "CHR ''/'' \<notin> set s" by (metis split_list_last)
  then have "dropWhile (\<lambda>c. c \<noteq> CHR ''/'') (rev d) = CHR ''/'' # rev q"
    by (simp add: dropWhile_append2 dropWhile_append)
  with d show thesis by (intro slash [of q s]) simp_all
qed

lemma Dir_closer: "Dir d \<noteq> d \<Longrightarrow> depth (Dir d) < depth d"
proof (cases d rule: last_slash)
  case none
  assume "Dir d \<noteq> d"
  moreover have "Dir d = ''.''" unfolding Dir_def none(2) by (simp add: Clean_def HasPrefix_def)
  ultimately show ?thesis by (simp add: depth_def)
next
  case (slash q s)
  assume differs: "Dir d \<noteq> d"
  show ?thesis
  proof (cases "q = []")
    case True
    have "Dir d = ''/''" unfolding Dir_def slash(2) True by (simp add: Clean_def HasPrefix_def)
    with slash True differs show ?thesis by (cases s) (simp_all add: depth_def)
  next
    case False
    have "length (Dir d) \<le> max 1 (Suc (length q) - 1)"
      using length_Clean_stack [of "q @ ''/''"] Clean_stack_slash [of "q @ ''/''" q] False slash(2)
      unfolding Dir_def by auto
    moreover have "0 < length q" using False by simp
    ultimately have "length (Dir d) < length d" using slash(1) by auto
    moreover have "d \<noteq> ''.''" using slash(1) False by (cases q) auto
    ultimately show ?thesis by (simp add: depth_def)
  qed
qed

section \<open>Finding the repository (cmd/schemagolden)\<close>

text \<open>
  The loop of \<open>findRepoRoot\<close>, from a directory; \<open>Some None\<close> is leaving it by \<open>break\<close>,
  \<open>None\<close> would be running for ever. \<open>is_file\<close> is \<open>os.Stat\<close> followed by \<open>!IsDir\<close>.
\<close>

definition golden_of :: "string \<Rightarrow> string" where
  "golden_of dir = Join [dir, ''migrations'', ''schema_golden.sql'']"

partial_function (option) search_root :: "(string \<Rightarrow> bool) \<Rightarrow> string \<Rightarrow> string option option" where
  "search_root is_file dir =
     (if is_file (golden_of dir) then Some (Some dir)
      else let parent = Dir dir in if parent = dir then Some None else search_root is_file parent)"

text \<open>\<open>wd\<close> and \<open>wd2\<close> are the answers of the two calls of \<open>os.Getwd\<close>.\<close>

definition findRepoRoot :: "(string \<Rightarrow> bool) \<Rightarrow> string option \<Rightarrow> string option \<Rightarrow> string option" where
  "findRepoRoot is_file wd wd2 =
     (case wd of
        None \<Rightarrow> Some ''.''
      | Some dir \<Rightarrow> map_option (\<lambda>res. case res of
            Some d \<Rightarrow> d
          | None \<Rightarrow> (case wd2 of None \<Rightarrow> '''' | Some w \<Rightarrow> w)) (search_root is_file dir))"

lemma search_root_ends:
  "(\<exists>n. search_root is_file d = Some (Some ((Dir ^^ n) d)) \<and> is_file (golden_of ((Dir ^^ n) d)) \<and>
       \<not> (\<exists>m. m < n \<and> is_file (golden_of ((Dir ^^ m) d)))) \<or>
   search_root is_file d = Some None \<and> \<not> (\<exists>n. is_file (golden_of ((Dir ^^ n) d)))"
proof (induction "depth d" arbitrary: d rule: less_induct)
  case less
  show ?case
  proof (cases "is_file (golden_of d)")
    case True
    then show ?thesis by (intro disjI1 exI [of _ 0]) (simp add: search_root.simps)
  next
    case False
    show ?thesis
    proof (cases "Dir d = d")
      case True
      then have "(Dir ^^ n) d = d" for n by (induction n) simp_all
      with False True show ?thesis by (simp add: search_root.simps)
    next
      case moves: False
      have step: "search_root is_file d = search_root is_file (Dir d)"
        by (subst search_root.simps) (simp add: False moves Let_def)
      have shift: "(Dir ^^ Suc n) d = (Dir ^^ n) (Dir d)" for n by (simp add: funpow_swap1)
      from less [OF Dir_closer [OF moves]] show ?thesis
      proof (elim disjE exE conjE)
        fix n assume n: "search_root is_file (Dir d) = Some (Some ((Dir ^^ n) (Dir d)))"
          "is_file (golden_of ((Dir ^^ n) (Dir d)))" "\<not> (\<exists>m. m < n \<and> is_file (golden_of ((Dir ^^ m) (Dir d))))"
        have "\<not> (\<exists>m. m < Suc n \<and> is_file (golden_of ((Dir ^^ m) d)))"
        proof
          assume "\<exists>m. m < Suc n \<and> is_file (golden_of ((Dir ^^ m) d))"
          then obtain m where m: "m < Suc n" "is_file (golden_of ((Dir ^^ m) d))" by blast
          with False n(3) shift show False by (cases m) auto
        qed
        with n step shift show ?thesis by (intro disjI1 exI [of _ "Suc n"]) simp
      next
        assume s: "search_root is_file (Dir d) = Some None" "\<not> (\<exists>n. is_file (golden_of ((Dir ^^ n) (Dir d))))"
        have "\<not> is_file (golden_of ((Dir ^^ n) d))" for n using False s(2) shift by (cases n) auto
        with s step show ?thesis by simp
      qed
    qed
  qed
qed

text \<open>
  C21: Looking for the repository ends. From whatever directory the tool is started and
  whatever the file system holds, the loop over the parent directories returns: the nearest
  directory, from the starting one upwards, that has the golden file, or, when no ancestor has
  it, the working directory.
\<close>

theorem repo_root_found:
  "\<exists>root. findRepoRoot is_file (Some wd) (Some wd) = Some root \<and>
     ((\<exists>n. root = (Dir ^^ n) wd \<and> is_file (golden_of root) \<and> \<not> (\<exists>m. m < n \<and> is_file (golden_of ((Dir ^^ m) wd)))) \<or>
      root = wd \<and> \<not> (\<exists>n. is_file (golden_of ((Dir ^^ n) wd))))"
  using search_root_ends [of is_file wd] unfolding findRepoRoot_def by auto

section \<open>Normalising a dump\<close>

fun ReplaceCRLF :: "string \<Rightarrow> string" where
  "ReplaceCRLF [] = []"
| "ReplaceCRLF [c] = [c]"
| "ReplaceCRLF (c # d # s) =
     (if c = CHR 0x0D \<and> d = CHR 0x0A then CHR 0x0A # ReplaceCRLF s else c # ReplaceCRLF (d # s))"

definition auto_increment :: string where
  "auto_increment = '' AUTO_INCREMENT=''"

definition is_digit :: "char \<Rightarrow> bool" where
  "is_digit c \<longleftrightarrow> char_digit c \<noteq> None"

text \<open>A match of \<open>autoIncRE\<close> at the front of a text, as what follows it; then all of them.\<close>

definition auto_inc_match :: "string \<Rightarrow> string option" where
  "auto_inc_match s =
     (let rest = drop (length auto_increment) s in
      if HasPrefix s auto_increment \<and> rest \<noteq> [] \<and> is_digit (hd rest) then Some (dropWhile is_digit rest) else None)"

lemma auto_inc_match_shorter:
  assumes "auto_inc_match s = Some rest"
  shows "length rest < length s"
proof -
  from assms have "rest = dropWhile is_digit (drop (length auto_increment) s)" and "HasPrefix s auto_increment"
    by (auto simp: auto_inc_match_def Let_def split: if_splits)
  then have "length rest \<le> length s - length auto_increment" "length auto_increment \<le> length s"
    using length_dropWhile_le [of is_digit "drop (length auto_increment) s"] HasPrefixD [of s auto_increment]
    by (auto, metis le_add1 length_append)
  then show ?thesis by (simp add: auto_increment_def)
qed

function remove_counters :: "string \<Rightarrow> string" where
  "remove_counters s = (case auto_inc_match s of
     Some rest \<Rightarrow> remove_counters rest
   | None \<Rightarrow> (case s of [] \<Rightarrow> [] | c # cs \<Rightarrow> c # remove_counters cs))"
  by pat_completeness auto
termination by (relation "measure length") (auto dest: auto_inc_match_shorter)

declare remove_counters.simps [simp del]

definition byte_order_mark :: string where
  "byte_order_mark = [CHR 0xEF, CHR 0xBB, CHR 0xBF]"

definition normalizeDump :: "string \<Rightarrow> string" where
  "normalizeDump b = TrimSpace (remove_counters (TrimPrefix (ReplaceCRLF b) byte_order_mark))"

section \<open>The environment file\<close>

text \<open>\<open>os.Setenv\<close> fails on an empty name, an equals sign in it, and a zero byte.\<close>

definition Setenv :: "string \<Rightarrow> string \<Rightarrow> (string \<Rightarrow> string) \<Rightarrow> string \<Rightarrow> string" where
  "Setenv key val env =
     (if key = '''' \<or> CHR ''='' \<in> set key \<or> CHR 0x00 \<in> set key \<or> CHR 0x00 \<in> set val then env else env(key := val))"

definition unquote :: "string \<Rightarrow> string" where
  "unquote v = (if 2 \<le> length v \<and> hd v = CHR 0x22 \<and> last v = CHR 0x22 then butlast (tl v) else v)"

definition dotenv_line :: "string \<Rightarrow> (string \<Rightarrow> string) \<Rightarrow> string \<Rightarrow> string" where
  "dotenv_line line0 env =
     (let line = TrimSpace line0 in
      if line = '''' \<or> HasPrefix line ''#'' then env
      else if CHR ''='' \<notin> set line \<or> hd line = CHR ''='' then env
      else let i = length (takeWhile (\<lambda>c. c \<noteq> CHR ''='') line);
               key = TrimSpace (take i line);
               val = unquote (TrimSpace (drop (i + 1) line))
           in if env key = '''' then Setenv key val env else env)"

definition loadDotEnv :: "(string \<Rightarrow> string option) \<Rightarrow> string \<Rightarrow> (string \<Rightarrow> string) \<Rightarrow> string \<Rightarrow> string" where
  "loadDotEnv read path env =
     (case read path of None \<Rightarrow> env | Some data \<Rightarrow> fold dotenv_line (Split (CHR 0x0A) data) env)"

text \<open>A variable that is set already keeps its value, whatever the file says.\<close>

lemma dotenv_line_keeps: "env k \<noteq> '''' \<Longrightarrow> dotenv_line line env k = env k"
  by (auto simp: dotenv_line_def Let_def Setenv_def)

lemma loadDotEnv_keeps: "env k \<noteq> '''' \<Longrightarrow> loadDotEnv read path env k = env k"
proof -
  have "fold dotenv_line ls env k = env k" if "env k \<noteq> ''''" for ls and env :: "string \<Rightarrow> string"
    using that by (induction ls arbitrary: env) (simp_all add: dotenv_line_keeps)
  then show "env k \<noteq> '''' \<Longrightarrow> ?thesis" by (simp add: loadDotEnv_def split: option.split)
qed

section \<open>The drift check (cmd/schemagolden, main)\<close>

datatype golden_result = No_DB_PASS | No_DB_NAME | Dump_failed | No_golden_file | Schema_drift | Schema_OK

text \<open>The arguments of the docker command.\<close>

definition dump_args :: "string \<Rightarrow> string \<Rightarrow> string list" where
  "dump_args dbPass dbName =
     [''compose'', ''exec'', ''-T'', ''-e'', ''MYSQL_PWD='' @ dbPass, ''mysql'', ''mysqldump'', ''-uroot'',
      ''--no-data'', ''--skip-comments'', ''--single-transaction'',
      ''--ignore-table='' @ dbName @ ''.schema_migrations'', dbName]"

definition check_golden ::
    "(string \<Rightarrow> string option) \<Rightarrow> (string list \<Rightarrow> string option) \<Rightarrow> (string \<Rightarrow> string) \<Rightarrow> string \<Rightarrow> golden_result" where
  "check_golden read docker env0 repo =
     (let env = loadDotEnv read (Join [repo, ''.env'']) env0;
          dbPass = TrimSpace (env ''DB_PASS'');
          dbName = TrimSpace (env ''DB_NAME'')
      in if dbPass = '''' then No_DB_PASS
         else if dbName = '''' then No_DB_NAME
         else (case docker (dump_args dbPass dbName) of
             None \<Rightarrow> Dump_failed
           | Some out \<Rightarrow>
               let got = normalizeDump out in
               (case read (golden_of repo) of
                  None \<Rightarrow> No_golden_file
                | Some wantRaw \<Rightarrow> if got \<noteq> normalizeDump wantRaw then Schema_drift else Schema_OK)))"

definition schemagolden ::
    "(string \<Rightarrow> bool) \<Rightarrow> (string \<Rightarrow> string option) \<Rightarrow> (string list \<Rightarrow> string option) \<Rightarrow> string option \<Rightarrow> string option \<Rightarrow>
     (string \<Rightarrow> string) \<Rightarrow> golden_result option" where
  "schemagolden is_file read docker wd wd2 env =
     map_option (check_golden read docker env) (findRepoRoot is_file wd wd2)"

text \<open>The exit code is 0 only if the two normal forms are the same.\<close>

lemma check_golden_OK:
  "check_golden read docker env repo = Schema_OK \<Longrightarrow>
   \<exists>args out want. docker args = Some out \<and> read (golden_of repo) = Some want \<and> normalizeDump out = normalizeDump want"
  by (auto simp: check_golden_def Let_def split: if_splits option.splits)

text \<open>A text without the word of a counter is left as it is.\<close>

lemma remove_counters_none:
  assumes "\<not> sublist auto_increment s"
  shows "remove_counters s = s"
  using assms
proof (induction s)
  case Nil
  then show ?case by (simp add: remove_counters.simps auto_inc_match_def HasPrefix_def auto_increment_def)
next
  case (Cons c s)
  have "\<not> HasPrefix (c # s) auto_increment"
    using Cons.prems HasPrefixD [of "c # s" auto_increment] by (metis sublist_append_rightI)
  with Cons show ?case
    by (subst remove_counters.simps) (auto simp: auto_inc_match_def Let_def dest: sublist_Cons_right [THEN iffD2, OF disjI2])
qed

section \<open>The OpenAPI check (cmd/openapivalidate)\<close>

datatype openapi_result = No_spec | Load_failed | Validate_failed | Spec_OK

definition spec_path :: "(string \<Rightarrow> bool) \<Rightarrow> string \<Rightarrow> string" where
  "spec_path is_file spec =
     (if spec = '''' then
        (case List.find is_file [''../docs/openapi.yaml'', ''docs/openapi.yaml''] of None \<Rightarrow> '''' | Some p \<Rightarrow> p)
      else spec)"

definition openapivalidate ::
    "(string \<Rightarrow> bool) \<Rightarrow> (string \<Rightarrow> 'doc option) \<Rightarrow> ('doc \<Rightarrow> bool) \<Rightarrow> string \<Rightarrow> openapi_result" where
  "openapivalidate is_file LoadFromFile Validate spec =
     (let path = spec_path is_file spec in
      if path = '''' then No_spec
      else (case LoadFromFile path of
          None \<Rightarrow> Load_failed
        | Some doc \<Rightarrow> if \<not> Validate doc then Validate_failed else Spec_OK))"

section \<open>Hosts the smoke test may write to (cmd/smoketest/allowlist.go)\<close>

definition loopback_hosts :: "string list" where
  "loopback_hosts = [''localhost'', ''127.0.0.1'', ''::1'']"

text \<open>\<open>None\<close> is the nil slice, which switches the check off.\<close>

definition smoketestAllowedHosts :: "(string \<Rightarrow> string) \<Rightarrow> string list option" where
  "smoketestAllowedHosts env =
     (let raw = TrimSpace (env ''SMOKETEST_ALLOW_HOSTS'') in
      if raw = '''' then Some loopback_hosts
      else if raw = ''*'' then None
      else let out = map ToLower (comma_list raw) in
        if out = [] then Some loopback_hosts else Some out)"

definition hostMatchesAllowlist :: "string \<Rightarrow> string list \<Rightarrow> bool" where
  "hostMatchesAllowlist host allowed =
     (let h = takeWhile (\<lambda>c. c \<noteq> CHR ''%'') (ToLower (TrimSpace host)) in list_ex (\<lambda>a. h = a) allowed)"

text \<open>\<open>False\<close>: the process ends with exit code 1.\<close>

definition mustHostAllowed :: "(string \<Rightarrow> string) \<Rightarrow> string \<Rightarrow> bool" where
  "mustHostAllowed env host0 =
     (let host = TrimSpace host0 in
      if host = '''' then False
      else (case smoketestAllowedHosts env of
          None \<Rightarrow> True
        | Some allowed \<Rightarrow> hostMatchesAllowlist host allowed))"

text \<open>Nothing but an explicit host or the star lets the test leave the machine.\<close>

lemma smoketest_stays_home:
  assumes "mustHostAllowed env host" and "TrimSpace (env ''SMOKETEST_ALLOW_HOSTS'') \<noteq> ''*''"
  shows "\<exists>h. h = takeWhile (\<lambda>c. c \<noteq> CHR ''%'') (ToLower (TrimSpace host)) \<and>
    (h \<in> set loopback_hosts \<or> h \<in> ToLower ` set (comma_list (TrimSpace (env ''SMOKETEST_ALLOW_HOSTS''))))"
  using assms
  by (auto simp: mustHostAllowed_def smoketestAllowedHosts_def hostMatchesAllowlist_def Let_def list_ex_iff
      split: if_splits option.splits)

end
