(* ===== verification/Answers.thy ===== *)
theory Answers
  imports Access
begin

text \<open>
  What a client of the versioned API gets back: one envelope per request, with the request's
  id, data or an error whose code fits its status (api/response.go, docs/openapi.yaml).
\<close>

section \<open>Envelopes\<close>

definition error_codes :: "(int \<times> string) list" where
  "error_codes = [(400, ''VALIDATION_ERROR''), (401, ''UNAUTHORIZED''), (403, ''FORBIDDEN''), (404, ''NOT_FOUND''),
     (409, ''CONFLICT''), (429, ''RATE_LIMITED''), (500, ''INTERNAL_ERROR'')]"

text \<open>
  A connection on which nothing has been answered yet (for a request id, and the body and the
  headers so far), and one that has been answered: with data, with an error, or with 204 and
  no body. The headers stay as they are, apart from the cookies.
\<close>

definition unanswered :: "string \<Rightarrow> json option \<times> (string \<times> string) list \<Rightarrow> conn \<Rightarrow> bool" where
  "unanswered rid b c \<longleftrightarrow> request_id c = rid \<and> resp_body c = fst b \<and> resp_headers c = snd b"

definition data_answer :: "string \<Rightarrow> json \<Rightarrow> json" where
  "data_answer rid d = JObj [(''data'', d), (''meta'', JObj [(''request_id'', JStr rid)])]"

definition error_answer :: "string \<Rightarrow> string \<Rightarrow> string \<Rightarrow> (string \<times> json) list \<Rightarrow> json" where
  "error_answer rid code msg ds =
     JObj [(''error'', JObj ([(''code'', JStr code), (''message'', JStr msg)] @
             (if ds = [] then [] else [(''details'', JObj ds)]))),
           (''meta'', JObj [(''request_id'', JStr rid)])]"

definition answered :: "string \<Rightarrow> json option \<times> (string \<times> string) list \<Rightarrow> conn \<Rightarrow> bool" where
  "answered rid b c \<longleftrightarrow> resp_headers c = snd b \<and>
     (status c \<in> {200, 201} \<and> (\<exists>d. resp_body c = Some (data_answer rid d)) \<or>
      (\<exists>code msg ds. (status c, code) \<in> set error_codes \<and> resp_body c = Some (error_answer rid code msg ds)) \<or>
      status c = 204 \<and> resp_body c = fst b)"

named_theorems answer_intro \<open>the last step of a handler\<close>
named_theorems answer_step \<open>what leaves a connection unanswered\<close>

lemma answer_ok [answer_intro]:
  "unanswered rid b c \<Longrightarrow> st = 200 \<or> st = 201 \<Longrightarrow> post (answered rid b) (JSONOK st d c)"
  "unanswered rid b c \<Longrightarrow> post (answered rid b) (OK d c)"
  "unanswered rid b c \<Longrightarrow> post (answered rid b) (NoContent c)"
  by (auto simp: post_def answered_def unanswered_def respond_defs data_answer_def meta_json_def)

lemma answer_error [answer_intro]:
  assumes "unanswered rid b c" and "(st, code) \<in> set error_codes"
  shows "post (answered rid b) (respond_Error st code msg ds c)"
  using assms by (fastforce simp: post_def answered_def unanswered_def respond_defs error_answer_def
      error_envelope_def meta_json_def)

lemma code_fits [simp]:
  "(400, CodeValidation) \<in> set error_codes" "(401, CodeUnauthorized) \<in> set error_codes"
  "(403, CodeForbidden) \<in> set error_codes" "(404, CodeNotFound) \<in> set error_codes"
  "(409, CodeConflict) \<in> set error_codes" "(429, CodeRateLimited) \<in> set error_codes"
  "(500, CodeInternal) \<in> set error_codes"
  by (simp_all add: error_codes_def CodeValidation_def CodeUnauthorized_def CodeForbidden_def CodeNotFound_def
      CodeConflict_def CodeRateLimited_def CodeInternal_def)

lemma unanswered_steps [simp, answer_step]:
  "unanswered rid b (c\<lparr>wld := w\<rparr>) = unanswered rid b c"
  "unanswered rid b (c\<lparr>auth_subject := s\<rparr>) = unanswered rid b c"
  "unanswered rid b (c\<lparr>platform_roles := rs\<rparr>) = unanswered rid b c"
  "unanswered rid b (c\<lparr>platform_action_reason := x\<rparr>) = unanswered rid b c"
  "unanswered rid b (c\<lparr>limiters := ls\<rparr>) = unanswered rid b c"
  "unanswered rid b (setSessionCookie cfg raw c) = unanswered rid b c"
  "unanswered rid b (clearSessionCookie cfg c) = unanswered rid b c"
  "unanswered rid b (setCSRFCookie cfg raw c) = unanswered rid b c"
  "unanswered rid b (clearCSRFCookie cfg c) = unanswered rid b c"
  by (simp_all add: unanswered_def setSessionCookie_def clearSessionCookie_def setCSRFCookie_def clearCSRFCookie_def
      SetCookie_def Let_def)

lemma redis_unanswered: "redis_call cmd c = (x, c1) \<Longrightarrow> unanswered rid b c1 = unanswered rid b c"
  by (auto simp: redis_call_def Let_def unanswered_def)

lemma redis_unanswered_snd [simp]: "unanswered rid b (snd (redis_call cmd c)) = unanswered rid b c"
  by (simp add: redis_call_def Let_def unanswered_def)

lemma throttle_unanswered [simp, answer_step]:
  "unanswered rid b (recordLoginFailureKnownUser email c) = unanswered rid b c"
  "unanswered rid b (recordLoginSuccessClearThrottle email c) = unanswered rid b c"
proof -
  show "unanswered rid b (recordLoginFailureKnownUser email c) = unanswered rid b c"
    by (auto simp: recordLoginFailureKnownUser_def redisRecordLoginFailure_def Let_def redis_unanswered
        split: option.split prod.split) (auto simp: unanswered_def)
  show "unanswered rid b (recordLoginSuccessClearThrottle email c) = unanswered rid b c"
    by (simp add: recordLoginSuccessClearThrottle_def Let_def) (simp add: unanswered_def)
qed

lemma locked_unanswered: "loginEmailLocked email c = (x, c1) \<Longrightarrow> unanswered rid b c1 = unanswered rid b c"
  by (auto simp: loginEmailLocked_def redisLoginEmailLocked_def Let_def redis_unanswered
      split: if_splits option.splits prod.splits)

section \<open>Handlers answer\<close>

definition replies :: "handler \<Rightarrow> bool" where
  "replies h \<longleftrightarrow> (\<forall>r c rid b. unanswered rid b c \<longrightarrow> post (answered rid b) (h r c))"

lemma repliesI: "(\<And>r c rid b. unanswered rid b c \<Longrightarrow> post (answered rid b) (h r c)) \<Longrightarrow> replies h"
  by (simp add: replies_def)

lemma enum_rules:
  "(v = ErrInvalidCaseStatus \<Longrightarrow> post Q x) \<Longrightarrow> (v = ErrInvalidCasePriority \<Longrightarrow> post Q y) \<Longrightarrow>
     post Q (case v of ErrInvalidCaseStatus \<Rightarrow> x | ErrInvalidCasePriority \<Rightarrow> y)"
  by (cases v) simp_all

text \<open>What the handlers are written in, down to the responses.\<close>

lemmas handler_words = with_user_def parseInt64Param_def with_case_def audit_admin_def record_action_def invalid_json_def
  bad_query_def with_store_def audit_def internal_def invalid_field_def unauthorized_def forbidden_def
  user_of_subject_def bad_id_def user_not_found_def list_users_def login_denied_def authLoginFail_def
  open_session_def exchange_denied_def bad_session_id_def client_token_def issueTokenResponse_def
  issueBootstrapTokenResponse_def desktop_failure_def recordDesktopExchangeStartFailure_def
  recordDesktopExchangeFailure_def desktop_token_def Let_def

lemma case_reads_answer:
  "replies (ListOperatorCases_handler e)" "replies (GetOperatorCase_handler e)"
  "replies (ListOperatorCaseNotes_handler e)" "replies (ListOperatorCaseActions_handler e)"
  by (rule repliesI; unfold ListOperatorCases_handler_def GetOperatorCase_handler_def ListOperatorCaseNotes_handler_def
      ListOperatorCaseActions_handler_def handler_words; intro post_intro answer_intro; simp)+

lemma case_writes_answer:
  "replies (PostOperatorCaseNote e)" "replies (PostOperatorCaseSanction e)"
  "replies (PostOperatorCaseRecoveryRequest e)" "replies (PostOperatorCaseAppealResolve e)"
  by (rule repliesI; unfold PostOperatorCaseNote_def PostOperatorCaseSanction_def PostOperatorCaseRecoveryRequest_def
      PostOperatorCaseAppealResolve_def handler_words; intro post_intro answer_intro; simp)+

lemma case_changes_answer: "replies (PostOperatorCase e)" "replies (PatchOperatorCase e)"
  by (rule repliesI; unfold PostOperatorCase_def PatchOperatorCase_def handler_words;
      intro post_intro enum_rules answer_intro; simp)+

lemma error_tables_answer:
  assumes "unanswered rid b c"
  shows "post (answered rid b) (approve_refusal err c)" "post (answered rid b) (reject_refusal err c)"
    "post (answered rid b) (cancel_refusal err c)" "post (answered rid b) (accept_error err2 c)"
    "post (answered rid b) (delete_answer i err3 c)"
  using assms
  by (auto simp: approve_refusal_def reject_refusal_def cancel_refusal_def accept_error_def delete_answer_def
      handler_words intro!: answer_intro split: fault.split restore_error.split invite_error.split delete_stop.split)

lemma platform_reads_answer:
  "replies ListPlayersStub" "replies ListCharactersStub" "replies GetSecurityMeRoles" "replies (ListAdminAuditEvents e)"
  "replies (GetEconomyLedger e)" "replies (GetBackupsStatus e)" "replies (ListBackupRestoreRequests_handler e)"
  by (rule repliesI; unfold ListPlayersStub_def ListCharactersStub_def GetSecurityMeRoles_def ListAdminAuditEvents_def
      GetEconomyLedger_def GetBackupsStatus_def ListBackupRestoreRequests_handler_def handler_words;
      intro post_intro answer_intro; simp)+

lemma platform_writes_answer:
  "replies (PostSupportAck e)" "replies (PostBackupRestoreRequest e)" "replies (PostBackupRestoreApprove e)"
  "replies (PostBackupRestoreReject e)" "replies (PostBackupRestoreCancel e)"
  by (rule repliesI; unfold PostSupportAck_def PostBackupRestoreRequest_def PostBackupRestoreApprove_def
      PostBackupRestoreReject_def PostBackupRestoreCancel_def handler_words;
      intro post_intro answer_intro error_tables_answer; simp)+

lemma fulfill_answers: "replies (PostBackupRestoreFulfill e)"
proof (rule repliesI)
  fix r :: request and c rid b assume "unanswered rid b c"
  then show "post (answered rid b) (PostBackupRestoreFulfill e r c)"
    unfolding PostBackupRestoreFulfill_def handler_words
    by (intro post_intro answer_intro; auto split: restore_error.split intro!: answer_intro)
qed

section \<open>Sign-in, tokens and users\<close>

lemma sign_in_answers:
  "replies (RegisterUser cfg)" "replies (LogoutUser e)" "replies (RefreshSession_handler e)" "replies (GetAuthCSRF e)"
  "replies (ChangePassword e)"
  by (rule repliesI; unfold RegisterUser_def LogoutUser_def RefreshSession_handler_def GetAuthCSRF_def
      ChangePassword_def handler_words; intro post_intro answer_intro; simp)+

lemma invites_answer: "replies (CreateOperatorInvite_handler e)" "replies (AcceptOperatorInvite_handler e)"
  by (rule repliesI; unfold CreateOperatorInvite_handler_def AcceptOperatorInvite_handler_def handler_words;
      intro post_intro answer_intro error_tables_answer; simp)+

lemma login_answers: "replies (LoginUser e)"
  by (rule repliesI; unfold LoginUser_def handler_words; intro post_intro answer_intro; auto simp: locked_unanswered)

lemma tokens_answer:
  "replies (IssueToken e)" "replies (IssueBootstrapToken e)" "replies (IssueJoinToken e)"
  "replies (StartDesktopExchangeCode e)"
  by (rule repliesI; unfold IssueToken_def IssueBootstrapToken_def IssueJoinToken_def StartDesktopExchangeCode_def
      handler_words; intro post_intro answer_intro; simp)+

lemma redeem_error_answer: "unanswered rid b c \<Longrightarrow> post (answered rid b) (redeem_error s r err c)"
  by (auto simp: redeem_error_def handler_words split: fault.split session_error.split intro!: post_call answer_intro)

lemma exchange_answers: "replies (ExchangeDesktopCode e)"
  by (rule repliesI; unfold ExchangeDesktopCode_def handler_words; intro post_intro answer_intro redeem_error_answer; simp)

lemma users_answer:
  "replies GetUsers" "replies SearchUsers" "replies GetUserByID" "replies CreateUser" "replies UpdateUser"
  "replies (DeleteUser e)"
  by (rule repliesI; unfold GetUsers_def SearchUsers_def GetUserByID_def CreateUser_def UpdateUser_def DeleteUser_def
      handler_words; intro post_intro answer_intro error_tables_answer; simp)+

lemmas all_answer = case_reads_answer case_writes_answer case_changes_answer platform_reads_answer
  platform_writes_answer fulfill_answers sign_in_answers invites_answer login_answers tokens_answer exchange_answers
  users_answer

section \<open>Middleware passes on or replies\<close>

definition passed :: "string \<Rightarrow> json option \<times> (string \<times> string) list \<Rightarrow> conn \<Rightarrow> bool" where
  "passed rid b c \<longleftrightarrow> (if aborted c then answered rid b c else unanswered rid b c)"

definition passes :: "handler \<Rightarrow> bool" where
  "passes h \<longleftrightarrow> (\<forall>r c rid b. unanswered rid b c \<longrightarrow> \<not> aborted c \<longrightarrow> post (passed rid b) (h r c))"

lemma passesI:
  "(\<And>r c rid b. unanswered rid b c \<Longrightarrow> \<not> aborted c \<Longrightarrow> post (passed rid b) (h r c)) \<Longrightarrow> passes h"
  by (simp add: passes_def)

lemma answered_Abort [simp]: "answered rid b (Abort c) = answered rid b c"
  by (simp add: answered_def Abort_def)

lemma passed_on: "unanswered rid b c \<Longrightarrow> \<not> aborted c \<Longrightarrow> post (passed rid b) c"
  by (simp add: post_def passed_def)

lemma passed_stop:
  assumes "unanswered rid b c" and "(st, code) \<in> set error_codes"
  shows "post (passed rid b) (Abort (respond_Error st code msg ds c))" "post (passed rid b) (deny st code msg c)"
  using answer_error [OF assms] assms(2)
  by (simp_all add: post_def passed_def deny_def writeAuthError_def respond_Error_def)

lemma allow_unanswered:
  "fixedWindowRedisAllow scope ip n c = (x, c') \<Longrightarrow> unanswered rid b c' = unanswered rid b c \<and> aborted c' = aborted c"
  by (auto simp: fixedWindowRedisAllow_def redis_call_def Let_def unanswered_def split: prod.splits option.splits if_splits)

lemma limiter_passes: "passes (NewFixedWindowLimiter scope n msg)"
  by (rule passesI; unfold NewFixedWindowLimiter_def too_many_def Let_def;
      intro post_intro passed_stop passed_on; auto dest: allow_unanswered)

lemma guards_pass:
  "passes (BearerOrSession e name)" "passes RequireHumanUser" "passes (RequirePlatformPermission e perm)"
  "passes (RequirePlatformActionReason n)" "passes (CSRFCookieProtect cfg)"
  by (rule passesI; unfold BearerOrSession_def bearer_branch_def session_branch_def RequireHumanUser_def
      RequirePlatformPermission_def RequirePlatformActionReason_def CSRFCookieProtect_def Let_def;
      intro post_intro passed_stop passed_on; simp)+

lemma shared_pass: "passes (authenticate e)" "passes tokenLim" "passes backupRestoreMutLim" "passes caseReadLim"
    "passes caseMutLim"
  by (simp_all add: authenticate_def guards_pass tokenLim_def backupRestoreMutLim_def caseReadLim_def caseMutLim_def
      limiter_passes)

lemma chain_answers:
  assumes "list_all passes ms" and "replies h" and "unanswered rid b c" and "\<not> aborted c"
  shows "answered rid b (run_chain (ms @ [h]) r c)"
  using assms(1,3,4)
proof (induction ms arbitrary: c)
  case Nil
  with assms(2) have "post (answered rid b) (h r c)" unfolding replies_def by blast
  then show ?case by (simp add: post_def Let_def)
next
  case (Cons m ms)
  then have "passes m" by simp
  with Cons.prems have "passed rid b (m r c)" unfolding passes_def post_def by blast
  with Cons show ?case by (simp add: passed_def Let_def)
qed

text \<open>Every route ends in one handler that replies, behind middleware that passes on or replies.\<close>

definition well_routed :: "route \<Rightarrow> bool" where
  "well_routed rt \<longleftrightarrow> rt_handlers rt \<noteq> [] \<and> list_all passes (butlast (rt_handlers rt)) \<and> replies (last (rt_handlers rt))"

lemma well_routed_of: "well_routed (route_of m p (ms @ [h])) \<longleftrightarrow> list_all passes ms \<and> replies h"
  by (simp add: well_routed_def route_of_def)

lemma read_routed: "list_all passes lim \<Longrightarrow> replies h \<Longrightarrow> well_routed (read_route e p lim perm h)"
  using well_routed_of [of "''GET''" p "cp_guards e @ lim @ [RequirePlatformPermission e perm]" h]
  by (simp add: read_route_def cp_guards_def shared_pass guards_pass)

lemma write_routed: "passes lim \<Longrightarrow> replies h \<Longrightarrow> well_routed (write_route e m p lim perm h)"
  using well_routed_of [of m p "cp_guards e @ [lim, RequirePlatformPermission e perm, RequirePlatformActionReason 10]" h]
  by (simp add: write_route_def cp_guards_def shared_pass guards_pass)

lemma reads_routed: "list_all well_routed (cp_reads e)"
  by (simp add: cp_reads_def; intro conjI read_routed; simp add: shared_pass all_answer)

lemma writes_routed: "list_all well_routed (cp_writes e)"
  by (simp add: cp_writes_def; intro conjI write_routed; simp add: shared_pass limiter_passes all_answer)

lemma others_routed: "list_all well_routed (auth_routes e @ user_routes e @ [invite_route e])"
  by (simp add: auth_routes_def user_routes_def invite_route_def cp_guards_def well_routed_def route_of_def shared_pass
      limiter_passes guards_pass all_answer)

lemma routes_routed: "rt \<in> set (v1_routes e) \<Longrightarrow> well_routed rt"
  using reads_routed [of e] writes_routed [of e] others_routed [of e] by (auto simp: v1_routes_def list_all_iff)

lemma v1_answered:
  assumes "rt \<in> set (v1_routes e)" and "\<not> aborted c"
  shows "answered (request_id c) (resp_body c, resp_headers c) (run_chain (v1_middleware e @ rt_handlers rt) r c)"
proof -
  from routes_routed [OF assms(1)] have rt: "rt_handlers rt \<noteq> []" "list_all passes (butlast (rt_handlers rt))"
    "replies (last (rt_handlers rt))" by (simp_all add: well_routed_def)
  have "list_all passes (v1_middleware e @ butlast (rt_handlers rt))"
    using rt(2) guards_pass by (simp add: v1_middleware_def)
  from chain_answers [OF this rt(3) _ assms(2), of "request_id c" "(resp_body c, resp_headers c)" r] rt(1)
  show ?thesis by (simp add: unanswered_def)
qed

section \<open>The service as a whole\<close>

text \<open>
  Every request has an id: its own if that has 1 to 128 bytes, a fresh one otherwise, and
  the answer repeats it in a header.
\<close>

definition tagged :: "request \<Rightarrow> conn \<Rightarrow> bool" where
  "tagged r c \<longleftrightarrow> request_id c \<noteq> '''' \<and> map_of (resp_headers c) ''X-Request-ID'' = Some (request_id c) \<and>
     (rq_header r ''X-Request-ID'' = request_id c \<or> rq_header r ''X-Request-ID'' = '''' \<or>
      128 < length (rq_header r ''X-Request-ID''))"

text \<open>What the middleware of every request may answer itself: CORS without a body, and 410.\<close>

definition stopped_early :: "request \<Rightarrow> conn \<Rightarrow> conn \<Rightarrow> bool" where
  "stopped_early r c c' \<longleftrightarrow>
     status c' = 403 \<and> resp_body c' = resp_body c \<and> rq_header r ''Origin'' \<noteq> '''' \<or>
     status c' = 204 \<and> resp_body c' = resp_body c \<and> rq_method r = ''OPTIONS'' \<or>
     status c' = 410 \<and> isUnversionedLegacyAPIPath (rq_path r) \<and>
       (\<exists>msg. resp_body c' = Some (error_answer (request_id c') ''NOT_FOUND'' msg []))"

definition probe_answered :: "conn \<Rightarrow> bool" where
  "probe_answered c \<longleftrightarrow> (\<exists>st ms. resp_body c = Some (JObj ((''status'', JStr st) # ms)) \<and>
     (status c = 200 \<and> st \<in> {''ok'', ''ready''} \<or> status c = 503 \<and> st = ''not_ready''))"

lemma map_of_set_header [simp]:
  "map_of (resp_headers (set_header k v c)) x = (if x = k then Some v else map_of (resp_headers c) x)"
proof -
  have "map_of (filter (\<lambda>h. fst h \<noteq> k) hs) x = (if x = k then None else map_of hs x)" for hs :: "(string \<times> string) list"
    by (induction hs) auto
  then show ?thesis by (simp add: set_header_def)
qed

lemma set_header_frame [simp]:
  "request_id (set_header k v c) = request_id c" "resp_body (set_header k v c) = resp_body c"
  by (simp_all add: set_header_def)

lemma new_id_ne:
  assumes "newID w = (rid, w')"
  shows "rid \<noteq> ''''"
proof -
  have "length rid = 16"
    using assms by (auto simp: newID_def split: prod.splits option.splits dest: rand_Read_length)
  then show ?thesis by auto
qed

text \<open>Going through the middleware of every request.\<close>

definition on_the_way :: "request \<Rightarrow> conn \<Rightarrow> conn \<Rightarrow> bool" where
  "on_the_way r c c' \<longleftrightarrow> tagged r c' \<and> (if aborted c' then stopped_early r c c' else resp_body c' = resp_body c)"

lemma requestid_on_the_way: "\<not> aborted c \<Longrightarrow> on_the_way r c (requestid_Middleware r c)"
  by (auto simp: requestid_Middleware_def Let_def call_def on_the_way_def tagged_def request_id_header_def
      dest: new_id_ne split: prod.split)

lemma others_on_the_way:
  assumes "on_the_way r c c1" and "\<not> aborted c1"
  shows "on_the_way r c (SecurityHeaders r c1)" "on_the_way r c (DynamicCORS os hs r c1)"
    "on_the_way r c (legacyAPIMiddleware r c1)"
proof -
  from assms have c1: "tagged r c1" "resp_body c1 = resp_body c" by (simp_all add: on_the_way_def)
  show "on_the_way r c (SecurityHeaders r c1)"
    using c1 assms(2) by (simp add: SecurityHeaders_def on_the_way_def tagged_def)
  show "on_the_way r c (DynamicCORS os hs r c1)"
    using c1 assms(2)
    by (auto simp: DynamicCORS_def Let_def on_the_way_def tagged_def stopped_early_def AbortWithStatus_def)
  show "on_the_way r c (legacyAPIMiddleware r c1)"
    using c1 assms(2)
    by (auto simp: legacyAPIMiddleware_def on_the_way_def tagged_def stopped_early_def Abort_def respond_defs
        error_envelope_def error_answer_def meta_json_def CodeNotFound_def)
qed

lemma chain_on_the_way:
  assumes "\<forall>h\<in>set hs. \<forall>c1. on_the_way r c c1 \<longrightarrow> \<not> aborted c1 \<longrightarrow> on_the_way r c (h r c1)"
    and "on_the_way r c c1" and "\<not> aborted c1"
  shows "on_the_way r c (run_chain hs r c1)"
  using assms by (induction hs arbitrary: c1) (auto simp: Let_def)

lemma global_on_the_way:
  assumes "\<not> aborted c"
  shows "on_the_way r c (run_chain (global_middleware e) r c)"
proof (cases "aborted (requestid_Middleware r c)")
  case True
  with requestid_on_the_way [OF assms] show ?thesis by (simp add: global_middleware_def)
next
  case False
  have "on_the_way r c (run_chain ([SecurityHeaders] @
      (if CORSAllowedOrigins (AppConfig e) \<noteq> [] then [DynamicCORS (CORSAllowedOrigins (AppConfig e)) [CSRFHeaderName (AppConfig e)]]
       else []) @ [legacyAPIMiddleware]) r (requestid_Middleware r c))"
    by (rule chain_on_the_way [OF _ requestid_on_the_way [OF assms] False]) (auto simp: others_on_the_way)
  with False show ?thesis by (simp add: global_middleware_def)
qed

lemma probes_answer:
  assumes "rt \<in> set (probe_routes e)" and "\<not> aborted c"
  shows "probe_answered (run_chain (rt_handlers rt) r c) \<and> resp_headers (run_chain (rt_handlers rt) r c) = resp_headers c"
proof -
  let ?Q = "\<lambda>c'. probe_answered c' \<and> resp_headers c' = resp_headers c"
  have "post ?Q (Health r c)" by (simp add: Health_def post_def probe_answered_def c_JSON_def)
  moreover have "post ?Q (Ready e r c)"
    unfolding Ready_def Let_def not_ready_def
    by (intro post_intro; auto simp: post_def probe_answered_def c_JSON_def split: migrations.split)
  ultimately show ?thesis
    using assms by (auto simp: probe_routes_def route_of_def post_def Let_def)
qed

definition service_answered :: "route \<Rightarrow> request \<Rightarrow> conn \<Rightarrow> conn \<Rightarrow> bool" where
  "service_answered rt r c c' \<longleftrightarrow>
     (\<exists>rid. rid \<noteq> '''' \<and> map_of (resp_headers c') ''X-Request-ID'' = Some rid \<and>
        (rq_header r ''X-Request-ID'' = rid \<or> rq_header r ''X-Request-ID'' = '''' \<or>
         128 < length (rq_header r ''X-Request-ID'')) \<and>
        (stopped_early r c c' \<or> probe_answered c' \<and> rt_path rt \<in> {''/healthz'', ''/readyz''} \<or>
         HasPrefix (rt_path rt) ''/api/v1'' \<and> answered rid (resp_body c, resp_headers c') c'))"

lemma service_route:
  assumes "on_the_way r c g" and "\<not> aborted g"
    and "rt \<in> set (probe_routes e) \<and> hs = rt_handlers rt \<and> p = rt_path rt \<or>
      rt \<in> set (v1_routes e) \<and> hs = v1_middleware e @ rt_handlers rt \<and> p = ''/api/v1'' @ rt_path rt"
  shows "service_answered (route_of m p hs') r c (run_chain hs r g)"
  using assms(3)
proof (elim disjE conjE)
  assume rt: "rt \<in> set (probe_routes e)" "hs = rt_handlers rt" "p = rt_path rt"
  from rt(1) have "rt_path rt \<in> {''/healthz'', ''/readyz''}" by (auto simp: probe_routes_def route_of_def)
  with probes_answer [OF rt(1) assms(2), of r] assms(1,2) rt(2,3) show ?thesis
    by (auto simp: service_answered_def on_the_way_def tagged_def route_of_def)
next
  assume rt: "rt \<in> set (v1_routes e)" "hs = v1_middleware e @ rt_handlers rt" "p = ''/api/v1'' @ rt_path rt"
  from v1_answered [OF rt(1) assms(2), of r]
  have "answered (request_id g) (resp_body g, resp_headers g) (run_chain hs r g)" by (simp add: rt(2))
  moreover from this have "resp_headers (run_chain hs r g) = resp_headers g" by (simp add: answered_def)
  moreover have "HasPrefix p ''/api/v1''" unfolding rt(3) by (rule HasPrefix_append)
  ultimately show ?thesis
    using assms(1,2) by (auto simp: service_answered_def on_the_way_def tagged_def route_of_def)
qed

lemma route_updates:
  "rt\<lparr>rt_handlers := hs\<rparr> = route_of (rt_method rt) (rt_path rt) hs"
  "rt\<lparr>rt_path := p, rt_handlers := hs\<rparr> = route_of (rt_method rt) p hs"
  by (cases rt; simp add: route_of_def)+

lemma route_of_fields [simp]: "rt_method (route_of m p hs) = m" "rt_path (route_of m p hs) = p" "rt_handlers (route_of m p hs) = hs"
  by (simp_all add: route_of_def)

lemma router_members:
  assumes "setupRouter proxies_ok e = Inr rts" and "rt \<in> set rts"
  obtains rt0 hs p m where "rt = route_of m p (global_middleware e @ hs)"
    "rt0 \<in> set (probe_routes e) \<and> hs = rt_handlers rt0 \<and> p = rt_path rt0 \<or>
     rt0 \<in> set (v1_routes e) \<and> hs = v1_middleware e @ rt_handlers rt0 \<and> p = ''/api/v1'' @ rt_path rt0"
proof -
  let ?api = "map (\<lambda>rt. route_of (rt_method rt) (''/api/v1'' @ rt_path rt) (v1_middleware e @ rt_handlers rt)) (v1_routes e)"
  from assms have "rt \<in> set (map (\<lambda>rt. route_of (rt_method rt) (rt_path rt) (global_middleware e @ rt_handlers rt))
      (probe_routes e @ ?api))"
    unfolding setupRouter_def route_updates by (simp only: split: if_splits) auto
  then obtain rt1 where rt: "rt = route_of (rt_method rt1) (rt_path rt1) (global_middleware e @ rt_handlers rt1)"
    and mem: "rt1 \<in> set (probe_routes e @ ?api)"
    unfolding set_map by (rule imageE)
  from mem have rt1: "rt1 \<in> set (probe_routes e) \<or> (\<exists>rt0\<in>set (v1_routes e).
      rt1 = route_of (rt_method rt0) (''/api/v1'' @ rt_path rt0) (v1_middleware e @ rt_handlers rt0))"
    unfolding set_append set_map by blast
  from rt1 show thesis
  proof
    assume "rt1 \<in> set (probe_routes e)"
    then show thesis by (intro that [OF rt, of rt1]) simp
  next
    assume "\<exists>rt0\<in>set (v1_routes e).
      rt1 = route_of (rt_method rt0) (''/api/v1'' @ rt_path rt0) (v1_middleware e @ rt_handlers rt0)"
    then obtain rt0 where "rt0 \<in> set (v1_routes e)"
      "rt1 = route_of (rt_method rt0) (''/api/v1'' @ rt_path rt0) (v1_middleware e @ rt_handlers rt0)" by blast
    then show thesis by (intro that [OF rt, of rt0]) simp
  qed
qed

text \<open>
  C13: The type of every answer of the service. Whatever request is given to whatever route
  of the router, the answer carries a request id in the header X-Request-ID, the request's own
  if it has one of at most 128 bytes, and is one of these. Below /api/v1: one envelope with this
  id, holding data with status 200 or 201, or an error whose code is the one of its status, or
  204 without a body. For the probes: their status object, with 503 exactly when not ready. Or
  the request was stopped on the way by CORS, without a body, or by the 410 for an unversioned
  path.
\<close>

theorem answers_are_envelopes:
  assumes "setupRouter proxies_ok e = Inr rts" and "rt \<in> set rts" and "\<not> aborted c"
  shows "service_answered rt r c (serve rt r c)"
proof -
  let ?g = "run_chain (global_middleware e) r c"
  note way = global_on_the_way [OF assms(3), of r e]
  from router_members [OF assms(1,2)] obtain rt0 hs p m where
    rt: "rt = route_of m p (global_middleware e @ hs)" and
    rt0: "rt0 \<in> set (probe_routes e) \<and> hs = rt_handlers rt0 \<and> p = rt_path rt0 \<or>
      rt0 \<in> set (v1_routes e) \<and> hs = v1_middleware e @ rt_handlers rt0 \<and> p = ''/api/v1'' @ rt_path rt0" .
  have serve: "serve rt r c = (if aborted ?g then ?g else run_chain hs r ?g)"
    by (simp add: serve_def rt route_of_def run_chain_append [OF assms(3)] Let_def)
  show ?thesis
  proof (cases "aborted ?g")
    case True
    with way have "service_answered rt r c ?g"
      by (auto simp: service_answered_def on_the_way_def tagged_def)
    with True show ?thesis by (simp add: serve)
  next
    case False
    from service_route [OF way False rt0, of m "global_middleware e @ hs"]
    have "service_answered rt r c (run_chain hs r ?g)" unfolding rt .
    with serve False show ?thesis by simp
  qed
qed

text \<open>A registration: the request brings no id and is answered with 403 and a fresh one.\<close>

theorem answers_are_envelopes_witness:
  "\<exists>rt. rt_path rt = ''/api/v1/auth/register'' \<and>
     service_answered rt demo_forged (demo_conn demo_world) (serve rt demo_forged (demo_conn demo_world))"
proof -
  let ?r0 = "route_of ''POST'' ''/auth/register''
    [NewFixedWindowLimiter ''auth_register'' 15 ''too many registration attempts'', RegisterUser (AppConfig demo_site)]"
  let ?hs = "global_middleware demo_site @ v1_middleware demo_site @ rt_handlers ?r0"
  obtain rts where rts: "setupRouter (\<lambda>_. True) demo_site = Inr rts"
    and mem: "route_of ''POST'' ''/api/v1/auth/register'' ?hs \<in> set rts"
  proof
    show "setupRouter (\<lambda>_. True) demo_site = Inr (map (\<lambda>rt. rt\<lparr>rt_handlers := global_middleware demo_site @ rt_handlers rt\<rparr>)
        (probe_routes demo_site @ map (\<lambda>rt. rt\<lparr>rt_path := ''/api/v1'' @ rt_path rt,
           rt_handlers := v1_middleware demo_site @ rt_handlers rt\<rparr>) (v1_routes demo_site)))"
      by (simp add: setupRouter_def)
    have "?r0 \<in> set (v1_routes demo_site)" by (simp add: v1_routes_def auth_routes_def)
    from imageI [OF this, of "\<lambda>rt. route_of (rt_method rt) (''/api/v1'' @ rt_path rt) (global_middleware demo_site @
        v1_middleware demo_site @ rt_handlers rt)"]
    show "route_of ''POST'' ''/api/v1/auth/register'' ?hs \<in> set (map (\<lambda>rt. rt\<lparr>rt_handlers := global_middleware demo_site @ rt_handlers rt\<rparr>)
        (probe_routes demo_site @ map (\<lambda>rt. rt\<lparr>rt_path := ''/api/v1'' @ rt_path rt,
           rt_handlers := v1_middleware demo_site @ rt_handlers rt\<rparr>) (v1_routes demo_site)))"
      unfolding route_updates by (simp add: image_image)
  qed
  have "\<not> aborted (demo_conn demo_world)" by (simp add: demo_conn_def)
  from answers_are_envelopes [OF rts mem this, of demo_forged] show ?thesis
    by (intro exI [of _ "route_of ''POST'' ''/api/v1/auth/register'' ?hs"]) simp
qed

section \<open>What a user is told of their permissions\<close>

lemma fold_add_new: "distinct acc \<Longrightarrow> distinct (fold add_new ps acc) \<and> set (fold add_new ps acc) = set acc \<union> set ps"
  by (induction ps arbitrary: acc) (auto simp: add_new_def)

lemma effective_permissions_distinct: "distinct (effective_permissions rs)"
  using fold_add_new [of "[]"] by (simp add: effective_permissions_def)

lemma effective_permissions_set: "set (effective_permissions rs) = (\<Union>n\<in>set rs. set (PermissionsForRole n))"
  using fold_add_new [of "[]"] by (simp add: effective_permissions_def)

lemma effective_permissions_iff:
  "HasPermission rs p \<longleftrightarrow> p \<in> set (effective_permissions rs) \<or> ''*'' \<in> set (effective_permissions rs)"
  by (auto simp: HasPermission_def list_ex_iff effective_permissions_set)

text \<open>The roles a guard leaves in the context are the granted ones.\<close>

lemma permission_roles:
  assumes "\<not> aborted (RequirePlatformPermission e perm r c)" and "\<not> aborted c"
  obtains uid rs w' where "AuthUserIDFromContext c = Some uid" "set rs = set (granted_roles uid (db (wld c)))" "RequirePlatformPermission e perm r c = c\<lparr>wld := w', platform_roles := Some rs\<rparr>"
proof -
  from assms(1) obtain uid rs w' where u: "AuthUserIDFromContext c = Some uid"
    and eff: "effectivePlatformRoles e uid (wld c) = (Inr rs, w')" and p: "HasPermission rs perm"
    and c: "RequirePlatformPermission e perm r c = c\<lparr>wld := w', platform_roles := Some rs\<rparr>"
    by (auto simp: RequirePlatformPermission_def call_def split: option.splits prod.splits sum.splits if_splits)
  from eff p have "rs = remdups_adj (sort (granted_roles uid (db (wld c))))"
    by (auto dest!: effective_roles split: if_splits)
  with u c show thesis by (intro that) simp_all
qed

text \<open>
  C19: GET /security/me tells a user exactly what the guards will let them do: once the guard
  has let the request through, the answer lists the user's roles and a list of permissions
  without repetitions, and any permission is granted by the user's roles in the tables if and
  only if it is in that list or the list has the wildcard.
\<close>

theorem own_permissions_reported:
  assumes "\<not> aborted c" and "\<not> aborted (RequirePlatformPermission e PermSecurityRead r c)"
  shows "\<exists>uid rs ps. AuthUserIDFromContext c = Some uid \<and>
     run_chain [RequirePlatformPermission e PermSecurityRead, GetSecurityMeRoles] r c =
       OK (JObj [(''user_id'', JInt uid), (''roles'', slice_json rs), (''effective_permissions'', slice_json ps)])
         (RequirePlatformPermission e PermSecurityRead r c) \<and>
     set rs = set (granted_roles uid (db (wld c))) \<and> distinct ps \<and>
     (\<forall>p. HasPermission (granted_roles uid (db (wld c))) p = (p \<in> set ps \<or> ''*'' \<in> set ps))"
proof -
  from permission_roles [OF assms(2,1)] obtain uid rs w' where u: "AuthUserIDFromContext c = Some uid"
    and rs: "set rs = set (granted_roles uid (db (wld c)))"
    and c: "RequirePlatformPermission e PermSecurityRead r c = c\<lparr>wld := w', platform_roles := Some rs\<rparr>" by metis
  have "HasPermission (granted_roles uid (db (wld c))) p = HasPermission rs p" for p
    using rs HasPermission_mono by (metis order_refl)
  moreover have "run_chain [RequirePlatformPermission e PermSecurityRead, GetSecurityMeRoles] r c =
      OK (JObj [(''user_id'', JInt uid), (''roles'', slice_json rs),
        (''effective_permissions'', slice_json (effective_permissions rs))]) (c\<lparr>wld := w', platform_roles := Some rs\<rparr>)"
    using u assms(1) by (simp add: c GetSecurityMeRoles_def with_user_def AuthUserIDFromContext_def Let_def)
  ultimately show ?thesis using u rs effective_permissions_distinct effective_permissions_iff c by metis
qed

theorem own_permissions_reported_witness:
  "\<exists>rs ps. resp_body (run_chain [RequirePlatformPermission demo_site PermSecurityRead, GetSecurityMeRoles] demo_ack
      ((demo_conn demo_operator_world)\<lparr>wld := demo_operator_world, auth_subject := ''user:1''\<rparr>)) =
      Some (JObj [(''data'', JObj [(''user_id'', JInt 1), (''roles'', slice_json rs), (''effective_permissions'', slice_json ps)]),
        (''meta'', JObj [(''request_id'', JStr ''r1'')])]) \<and> ''operator'' \<in> set rs"
proof -
  let ?c = "(demo_conn demo_operator_world)\<lparr>wld := demo_operator_world, auth_subject := ''user:1''\<rparr>"
  have "\<not> aborted ?c" by (simp add: demo_conn_def)
  moreover have "\<not> aborted (RequirePlatformPermission demo_site PermSecurityRead demo_ack ?c)"
    unfolding demo_permission by (simp add: demo_conn_def)
  moreover have "AuthUserIDFromContext ?c = Some 1"
    by (simp add: AuthUserIDFromContext_def Let_def trim_visible visible_def HasPrefix_def ParseInt_def char_digit_def)
  moreover have "granted_roles 1 (db (wld ?c)) = [''operator'']"
    by (simp add: granted_roles_def demo_operator_world_def demo_world_def account_role_names_def
        live_user_def demo_user_def empty_db_def)
  moreover have "resp_body (OK d (RequirePlatformPermission demo_site PermSecurityRead demo_ack ?c)) =
      Some (JObj [(''data'', d), (''meta'', JObj [(''request_id'', JStr ''r1'')])])" for d
    unfolding demo_permission by (simp add: respond_defs meta_json_def demo_conn_def)
  moreover have "''operator'' \<in> set rs" if "set rs = set [''operator'']" for rs using that by simp
  ultimately show ?thesis
    using own_permissions_reported [of ?c demo_site demo_ack] by (metis option.inject)
qed

end
