(* ===== verification/Smoke.thy ===== *)
theory Smoke
  imports Tools Answers
begin

text \<open>
  cmd/smoketest/main.go and session_extras.go: the smoke test, a client of the service that
  stops with exit code 1 at the first answer it does not expect. The transport with its cookie
  jar (net/http), net/url and the texts of their errors are parameters; what the test prints
  on the way is left out. A body is the value of its JSON text, None where it is not JSON.
\<close>

section \<open>The client\<close>

text \<open>
  The three clients of the test: without cookies, with the jar of the human user, and the
  desktop client. A header is the list of its lines.
\<close>

datatype client = httpClient | humanClient | exClient

type_synonym header = "(string \<times> string) list"

record ask =
  ask_client :: client
  ask_method :: string
  ask_url :: string
  ask_header :: header
  ask_body :: "json option"

text \<open>What is on the other side: the answer to a request, or a failure, and the jar.\<close>

record 's network =
  send :: "ask \<Rightarrow> 's \<Rightarrow> (string + int \<times> json option) \<times> 's"
  jar_cookies :: "'s \<Rightarrow> (string \<times> string) list"

record base_url =
  bu_Scheme :: string
  bu_Host :: string
  bu_Hostname :: string

record smoke_lib =
  ParseBase :: "string \<Rightarrow> base_url option"
  ResolveReference :: "string \<Rightarrow> string \<Rightarrow> string option"
  QueryEscape :: "string \<Rightarrow> string"
  ErrorText :: string

datatype ending = Passed | Failed string | Panicked

record 's smoke_run =
  peer :: 's
  dice :: "string option list"
  trace :: "(ask \<times> int) list"

type_synonym 's script = "'s smoke_run \<Rightarrow> ending \<times> 's smoke_run"

definition exit_with :: "string \<Rightarrow> 's script" where
  "exit_with msg s = (Failed msg, s)"

definition pass :: "'s script" where
  "pass s = (Passed, s)"

definition must :: "bool \<Rightarrow> string \<Rightarrow> 's script \<Rightarrow> 's script" where
  "must cond msg k = (if cond then k else exit_with (''ASSERT FAILED: '' @ msg))"

text \<open>\<open>do\<close>, and \<open>mustOK\<close> on its error, as the test calls them.\<close>

definition do_ok ::
    "'s network \<Rightarrow> client \<Rightarrow> string \<Rightarrow> string \<Rightarrow> json option \<Rightarrow> header \<Rightarrow> (int \<Rightarrow> json option \<Rightarrow> 's script) \<Rightarrow> 's script" where
  "do_ok net cl m url body h k s =
     (let q = \<lparr>ask_client = cl, ask_method = m, ask_url = url, ask_header = h, ask_body = body\<rparr> in
      case send net q (peer s) of
        (Inl err, x) \<Rightarrow> exit_with (''smoketest: '' @ err) (s\<lparr>peer := x\<rparr>)
      | (Inr (code, raw), x) \<Rightarrow> k code raw (s\<lparr>peer := x, trace := trace s @ [(q, code)]\<rparr>))"

text \<open>\<open>join\<close> panics where one of its arguments is not a URL.\<close>

definition join_then :: "smoke_lib \<Rightarrow> string \<Rightarrow> string \<Rightarrow> (string \<Rightarrow> 's script) \<Rightarrow> 's script" where
  "join_then lib base path k s = (case ResolveReference lib base path of None \<Rightarrow> (Panicked, s) | Some url \<Rightarrow> k url s)"

definition at ::
    "smoke_lib \<Rightarrow> 's network \<Rightarrow> string \<Rightarrow> client \<Rightarrow> string \<Rightarrow> string \<Rightarrow> json option \<Rightarrow> header
     \<Rightarrow> (int \<Rightarrow> json option \<Rightarrow> 's script) \<Rightarrow> 's script" where
  "at lib net base cl m path body h k = join_then lib base path (\<lambda>url. do_ok net cl m url body h k)"

definition hdr :: "string \<Rightarrow> string \<Rightarrow> header" where
  "hdr k v = [(k, v)]"

definition mergeHdr :: "header \<Rightarrow> header \<Rightarrow> header" where
  "mergeHdr a b = a @ b"

definition cookieValue :: "'s network \<Rightarrow> 's smoke_run \<Rightarrow> string \<Rightarrow> string" where
  "cookieValue net s name =
     (case List.find (\<lambda>(n, v). n = name) (jar_cookies net (peer s)) of None \<Rightarrow> '''' | Some (n, v) \<Rightarrow> v)"

definition with_cookie :: "'s network \<Rightarrow> string \<Rightarrow> (string \<Rightarrow> 's script) \<Rightarrow> 's script" where
  "with_cookie net name k s = k (cookieValue net s name) s"

section \<open>Reading the answers (json.Unmarshal into structs)\<close>

text \<open>The members that the fields of a nested struct take, in order; a slice; a boolean.\<close>

fun into_struct :: "json \<Rightarrow> (string \<times> json) list \<Rightarrow> (string \<times> json) list option" where
  "into_struct (JObj ms) acc = Some (acc @ ms)"
| "into_struct JNull acc = Some acc"
| "into_struct _ _ = None"

fun into_slice :: "json \<Rightarrow> json list \<Rightarrow> json list option" where
  "into_slice (JArr xs) _ = Some xs"
| "into_slice JNull _ = Some []"
| "into_slice _ _ = None"

fun into_bool :: "json \<Rightarrow> bool \<Rightarrow> bool option" where
  "into_bool (JBool b) _ = Some b"
| "into_bool JNull a = Some a"
| "into_bool _ _ = None"

definition bool_field :: "string \<Rightarrow> (string \<times> json) list \<Rightarrow> bool option" where
  "bool_field k ms = dec_field into_bool k False ms"

definition data_members :: "json option \<Rightarrow> (string \<times> json) list option" where
  "data_members raw = Option.bind (members raw) (dec_field into_struct ''data'' [])"

definition data_slice :: "json option \<Rightarrow> json list option" where
  "data_slice raw = Option.bind (members raw) (dec_field into_slice ''data'' [])"

text \<open>\<open>must(json.Unmarshal(raw, &v) == nil, msg)\<close>, with the value read.\<close>

definition must_read :: "'v option \<Rightarrow> string \<Rightarrow> ('v \<Rightarrow> 's script) \<Rightarrow> 's script" where
  "must_read v msg k = (case v of None \<Rightarrow> must False msg pass | Some x \<Rightarrow> k x)"

definition getJSON ::
    "smoke_lib \<Rightarrow> 's network \<Rightarrow> string \<Rightarrow> string \<Rightarrow> (json option \<Rightarrow> 'v option) \<Rightarrow> ('v \<Rightarrow> 's script) \<Rightarrow> 's script" where
  "getJSON lib net base path dec k = at lib net base httpClient ''GET'' path None [] (\<lambda>code raw.
     if code \<noteq> 200 then exit_with (''smoketest: status '' @ Itoa code)
     else (case dec raw of None \<Rightarrow> exit_with (''smoketest: '' @ ErrorText lib) | Some v \<Rightarrow> k v))"

section \<open>The test\<close>

definition read_status :: "json option \<Rightarrow> string option" where
  "read_status raw = Option.bind (members raw) (str_field ''status'')"

definition smoke_probes :: "smoke_lib \<Rightarrow> 's network \<Rightarrow> string \<Rightarrow> 's script \<Rightarrow> 's script" where
  "smoke_probes lib net base k =
     getJSON lib net base ''/healthz'' read_status (\<lambda>st.
     must (st = ''ok'') ''healthz should return status=ok'' (
     getJSON lib net base ''/readyz'' read_status (\<lambda>st.
     must (st = ''ready'') ''readyz should return status=ready'' (
     at lib net base httpClient ''GET'' ''/api/users'' None [] (\<lambda>code _.
     must (code = 410) ''legacy /api/users should return 410 Gone'' (
     at lib net base httpClient ''GET'' ''/api/v1/users'' None [] (\<lambda>code _.
     must (code = 401) ''GET /api/v1/users without bearer should return 401'' k)))))))"

definition read_token :: "json option \<Rightarrow> (string \<times> string) option" where
  "read_token raw = Option.bind (data_members raw) (\<lambda>ms. Option.bind (str_field ''access_token'' ms) (\<lambda>tok.
     map_option (\<lambda>ty. (tok, ty)) (str_field ''token_type'' ms)))"

definition read_user :: "json option \<Rightarrow> (int \<times> string \<times> int) option" where
  "read_user raw = Option.bind (data_members raw) (\<lambda>ms. Option.bind (int_field ''id'' ms) (\<lambda>i.
     Option.bind (str_field ''name'' ms) (\<lambda>n. map_option (\<lambda>p. (i, n, p)) (int_field ''pennies'' ms))))"

definition read_updated :: "json option \<Rightarrow> (string \<times> int) option" where
  "read_updated raw = Option.bind (data_members raw) (\<lambda>ms.
     Option.bind (str_field ''name'' ms) (\<lambda>n. map_option (\<lambda>p. (n, p)) (int_field ''pennies'' ms)))"

definition user_path :: "int \<Rightarrow> string" where
  "user_path uid = ''/api/v1/users/'' @ Itoa uid"

definition json_header :: header where
  "json_header = hdr ''Content-Type'' ''application/json''"

definition json_utf8 :: header where
  "json_utf8 = hdr ''Content-Type'' ''application/json; charset=utf-8''"

text \<open>
  The part of the machine client: a token, a user created, listed and found, and what the
  client may not do. The rest gets the header with the token and the URL of the user.
\<close>

definition smoke_machine ::
    "smoke_lib \<Rightarrow> 's network \<Rightarrow> string \<Rightarrow> string \<Rightarrow> string \<Rightarrow> string \<Rightarrow> (header \<Rightarrow> string \<Rightarrow> 's script) \<Rightarrow> 's script" where
  "smoke_machine lib net base clientID clientSecret aliceName k =
     at lib net base httpClient ''POST'' ''/api/v1/auth/token''
       (Some (JObj [(''client_id'', JStr clientID), (''client_secret'', JStr clientSecret),
          (''grant_type'', JStr ''client_credentials'')])) json_header (\<lambda>code raw.
     must (code = 200) ''auth/token should return 200'' (
     must_read (read_token raw) ''token response JSON'' (\<lambda>(tok, ty).
     must (length tok > 10) ''access_token should be present'' (
     must (ty = ''Bearer'') ''token_type should be Bearer'' (
     let bearer = hdr ''Authorization'' (''Bearer '' @ tok) in
     at lib net base httpClient ''POST'' ''/api/v1/users'' (Some (JObj [(''name'', JStr aliceName), (''pennies'', JInt 77)]))
       (mergeHdr bearer json_header) (\<lambda>code raw.
     must (code = 201) ''create user should return 201'' (
     must_read (read_user raw) ''create user JSON'' (\<lambda>(uid, name, pennies).
     must (uid > 0) ''created user should include numeric id'' (
     must (name = aliceName) ''created user name mismatch'' (
     join_then lib base (user_path uid) (\<lambda>putURL.
     at lib net base httpClient ''GET'' ''/api/v1/users'' None bearer (\<lambda>code raw.
     must (code = 200) ''list users should return 200'' (
     must_read (data_slice raw) ''list users JSON'' (\<lambda>us.
     must (length us \<ge> 1) ''users list should have at least one user after create'' (
     at lib net base httpClient ''GET'' (''/api/v1/users/search?name='' @ QueryEscape lib aliceName) None bearer (\<lambda>code raw.
     must (code = 200) ''search should return 200'' (
     must_read (data_slice raw) ''search JSON'' (\<lambda>us.
     must (length us \<ge> 1) ''search should return created user'' (
     do_ok net httpClient ''PUT'' putURL (Some (JObj [(''name'', JStr (aliceName @ ''Updated'')), (''pennies'', JInt 99)]))
       (mergeHdr bearer json_header) (\<lambda>code _.
     must (code = 403) ''PUT /users/{id} with client_credentials token should return 403'' (
     do_ok net httpClient ''DELETE'' putURL None bearer (\<lambda>code _.
     must (code = 403) ''DELETE /users/{id} with client_credentials token should return 403'' (
     k bearer putURL)))))))))))))))))))))))"

text \<open>\<open>randomPKCEPair\<close> on the coming random reads, with the text of their error.\<close>

definition randomPKCEPair :: "string \<Rightarrow> string option list \<Rightarrow> (string + string \<times> string) \<times> string option list" where
  "randomPKCEPair err ds =
     (case ds of
        Some bytes # rest \<Rightarrow>
          let b = take 32 (bytes @ replicate 32 (CHR 0x00));
              verifier = b64_encode URLAlphabet b;
              challenge = b64_encode URLAlphabet (sha256 verifier)
          in if length verifier \<noteq> 43 then (Inl (''unexpected verifier length '' @ Itoa (int (length verifier))), rest)
             else if length challenge \<noteq> 43 then (Inl (''unexpected challenge length '' @ Itoa (int (length challenge))), rest)
             else (Inr (verifier, challenge), rest)
      | _ \<Rightarrow> (Inl (''rand: '' @ err), tl ds))"

definition with_PKCE :: "smoke_lib \<Rightarrow> (string \<Rightarrow> string \<Rightarrow> 's script) \<Rightarrow> 's script" where
  "with_PKCE lib k s =
     (case randomPKCEPair (ErrorText lib) (dice s) of
        (Inl err, ds) \<Rightarrow> exit_with (''smoketest: '' @ err) (s\<lparr>dice := ds\<rparr>)
      | (Inr (verifier, challenge), ds) \<Rightarrow> k verifier challenge (s\<lparr>dice := ds\<rparr>))"

definition csrf_header :: "string \<Rightarrow> header" where
  "csrf_header tok = hdr ''X-CSRF-Token'' tok"

definition read_refreshed :: "json option \<Rightarrow> (bool \<times> int) option" where
  "read_refreshed raw = Option.bind (data_members raw) (\<lambda>ms.
     Option.bind (bool_field ''refreshed'' ms) (\<lambda>b. map_option (\<lambda>u. (b, u)) (int_field ''user_id'' ms)))"

definition read_join :: "json option \<Rightarrow> (string \<times> string \<times> int \<times> string) option" where
  "read_join raw = Option.bind (data_members raw) (\<lambda>ms. Option.bind (str_field ''join_token'' ms) (\<lambda>t.
     Option.bind (str_field ''token_type'' ms) (\<lambda>ty. Option.bind (int_field ''expires_in'' ms) (\<lambda>n.
     map_option (\<lambda>s. (t, ty, n, s)) (str_field ''session_id'' ms)))))"

definition read_start :: "json option \<Rightarrow> (string \<times> string) option" where
  "read_start raw = Option.bind (data_members raw) (\<lambda>ms. Option.bind (str_field ''exchange_code'' ms) (\<lambda>c.
     map_option (\<lambda>s. (c, s)) (str_field ''session_id'' ms)))"

definition read_exchange :: "json option \<Rightarrow> (string \<times> string \<times> string) option" where
  "read_exchange raw = Option.bind (data_members raw) (\<lambda>ms. Option.bind (str_field ''access_token'' ms) (\<lambda>t.
     Option.bind (str_field ''token_type'' ms) (\<lambda>ty. map_option (\<lambda>u. (t, ty, u)) (str_field ''token_use'' ms))))"

text \<open>The body of a login.\<close>

definition login_json :: "string \<Rightarrow> string \<Rightarrow> json option" where
  "login_json email password = Some (JObj [(''email'', JStr email), (''password'', JStr password)])"

text \<open>Refresh, join token, desktop exchange and password change, for a user who is logged in.\<close>

definition extras_exchange ::
    "smoke_lib \<Rightarrow> 's network \<Rightarrow> string \<Rightarrow> string \<Rightarrow> 's script \<Rightarrow> 's script" where
  "extras_exchange lib net base csrfTok k =
     with_PKCE lib (\<lambda>verifier challenge.
     at lib net base humanClient ''POST'' ''/api/v1/auth/desktop/start''
       (Some (JObj [(''callback_uri'', JStr ''http://127.0.0.1:8765/callback''), (''code_challenge'', JStr challenge),
          (''session_id'', JStr ''smoke-desktop-sess'')])) (mergeHdr json_header (csrf_header csrfTok)) (\<lambda>code sraw.
     must (code = 200) ''desktop/start should return 200'' (
     must_read (read_start sraw) ''desktop/start JSON'' (\<lambda>(exchangeCode, sessionID).
     must (length exchangeCode \<ge> 64) ''exchange_code should be present'' (
     must (sessionID = ''smoke-desktop-sess'') ''desktop/start should echo session_id'' (
     at lib net base exClient ''POST'' ''/api/v1/auth/desktop/exchange''
       (Some (JObj [(''code_verifier'', JStr verifier), (''exchange_code'', JStr exchangeCode)])) json_header (\<lambda>code eraw.
     must (code = 200) ''desktop/exchange should return 200'' (
     must_read (read_exchange eraw) ''desktop/exchange JSON'' (\<lambda>(tok, ty, use).
     must (tok \<noteq> '''') ''desktop access_token should be present'' (
     must (ty = ''Bearer'') ''desktop token_type should be Bearer'' (
     must (use = ''desktop_access'') ''desktop token_use should be desktop_access'' (
     at lib net base exClient ''GET'' ''/api/v1/users'' None (hdr ''Authorization'' (''Bearer '' @ tok)) (\<lambda>code _.
     must (code = 200) ''GET /users with desktop bearer should succeed'' k)))))))))))))"

definition runAuthSessionExtras ::
    "smoke_lib \<Rightarrow> 's network \<Rightarrow> string \<Rightarrow> string \<Rightarrow> string \<Rightarrow> string \<Rightarrow> 's script \<Rightarrow> 's script" where
  "runAuthSessionExtras lib net base email oldPassword newPassword k =
     with_cookie net ''gl_csrf'' (\<lambda>csrfTok.
     must (csrfTok \<noteq> '''') ''extras: expected gl_csrf after login'' (
     at lib net base humanClient ''POST'' ''/api/v1/auth/refresh'' None (csrf_header csrfTok) (\<lambda>code raw.
     must (code = 200) ''POST /auth/refresh should return 200'' (
     must_read (read_refreshed raw) ''refresh JSON'' (\<lambda>(refreshed, userID).
     must refreshed ''refresh should set refreshed=true'' (
     must (userID > 0) ''refresh should echo user_id'' (
     with_cookie net ''gl_csrf'' (\<lambda>csrfTok.
     must (csrfTok \<noteq> '''') ''extras: gl_csrf after refresh'' (
     at lib net base humanClient ''POST'' ''/api/v1/auth/join-token''
       (Some (JObj [(''session_id'', JStr ''smoke-join-session'')])) (mergeHdr json_header (csrf_header csrfTok)) (\<lambda>code jraw.
     must (code = 200) ''join-token should return 200'' (
     must_read (read_join jraw) ''join-token JSON'' (\<lambda>(joinToken, ty, expiresIn, sessionID).
     must (joinToken \<noteq> '''') ''join_token should be non-empty'' (
     must (ty = ''Bearer'') ''join token_type should be Bearer'' (
     must (sessionID = ''smoke-join-session'') ''join-token should echo session_id'' (
     must (expiresIn \<ge> 0) ''join-token expires_in should be present'' (
     extras_exchange lib net base csrfTok (
     at lib net base humanClient ''POST'' ''/api/v1/auth/change-password''
       (Some (JObj [(''current_password'', JStr oldPassword), (''new_password'', JStr newPassword)]))
       (mergeHdr json_header (csrf_header csrfTok)) (\<lambda>code _.
     must (code = 200) ''change-password should return 200'' (
     at lib net base humanClient ''GET'' ''/api/v1/users'' None [] (\<lambda>code _.
     must (code = 401) ''after change-password, old session cookie should be invalid (401)'' (
     at lib net base humanClient ''POST'' ''/api/v1/auth/login'' (login_json email newPassword) json_utf8 (\<lambda>code _.
     must (code = 200) ''login with new password should return 200'' (
     at lib net base humanClient ''GET'' ''/api/v1/users'' None [] (\<lambda>code _.
     must (code = 200) ''after re-login, GET /users with cookie should succeed'' k))))))))))))))))))))))))"

definition smokePasswordInitial :: string where
  "smokePasswordInitial = ''smoke-pass-8ch''"

definition smokePasswordChanged :: string where
  "smokePasswordChanged = ''smoke-pass-9ch-xx''"

definition read_id :: "json option \<Rightarrow> int option" where
  "read_id raw = Option.bind (data_members raw) (int_field ''id'')"

definition read_csrf_ready :: "json option \<Rightarrow> bool option" where
  "read_csrf_ready raw = Option.bind (data_members raw) (bool_field ''csrf_ready'')"

text \<open>The human user, registered: login, what a session may do, logout, and the clean-up.\<close>

definition smoke_session ::
    "smoke_lib \<Rightarrow> 's network \<Rightarrow> string \<Rightarrow> string \<Rightarrow> string \<Rightarrow> header \<Rightarrow> string \<Rightarrow> string \<Rightarrow> 's script \<Rightarrow> 's script" where
  "smoke_session lib net base smokeEmail aliceUpdatedName bearer putURL humanUserURL k =
     at lib net base humanClient ''POST'' ''/api/v1/auth/login'' (login_json smokeEmail smokePasswordInitial) json_utf8 (\<lambda>code _.
     must (code = 200) ''login should return 200'' (
     with_cookie net ''gl_csrf'' (\<lambda>csrf1.
     must (csrf1 \<noteq> '''') ''login should set gl_csrf'' (
     do_ok net humanClient ''PUT'' putURL (Some (JObj [(''name'', JStr aliceUpdatedName), (''pennies'', JInt 99)]))
       (mergeHdr json_header (csrf_header csrf1)) (\<lambda>code putBody.
     must (code = 200) ''PUT with session should return 200'' (
     must_read (read_updated putBody) ''PUT response JSON'' (\<lambda>(name, pennies).
     must (name = aliceUpdatedName) ''update should change user name'' (
     must (pennies = 99) ''update should change pennies'' (
     do_ok net humanClient ''DELETE'' putURL None (csrf_header csrf1) (\<lambda>code _.
     must (code = 204) ''DELETE should return 204 No Content'' (
     do_ok net httpClient ''GET'' putURL None bearer (\<lambda>code _.
     must (code = 404) ''deleted user should return 404 on fetch'' (
     with_cookie net ''gl_session'' (\<lambda>v. must (v \<noteq> '''') ''session cookie should exist before auth extras'' (
     with_cookie net ''gl_csrf'' (\<lambda>v. must (v \<noteq> '''') ''csrf cookie should exist before auth extras'' (
     at lib net base humanClient ''GET'' ''/api/v1/auth/csrf'' None [] (\<lambda>code raw.
     must (code = 200) ''GET /auth/csrf should return 200'' (
     must_read (read_csrf_ready raw) ''csrf JSON'' (\<lambda>ready.
     must ready ''GET /auth/csrf should report csrf_ready'' (
     at lib net base humanClient ''GET'' ''/api/v1/users'' None [] (\<lambda>code ucRaw.
     must (code = 200) ''GET /users with session cookie should succeed'' (
     must_read (data_slice ucRaw) ''cookie users JSON'' (\<lambda>us.
     must (length us \<ge> 1) ''GET /users with session should return data'' (
     runAuthSessionExtras lib net base smokeEmail smokePasswordInitial smokePasswordChanged (
     with_cookie net ''gl_csrf'' (\<lambda>csrfOut. must (csrfOut \<noteq> '''') ''csrf cookie should exist before logout'' (
     at lib net base humanClient ''POST'' ''/api/v1/auth/logout'' None (csrf_header csrfOut) (\<lambda>code _.
     must (code = 200) ''logout should return 200'' (
     at lib net base humanClient ''GET'' ''/api/v1/users'' None [] (\<lambda>code _.
     must (code = 401) ''after logout, GET /users with cookie should return 401'' (
     at lib net base humanClient ''POST'' ''/api/v1/auth/login'' (login_json smokeEmail smokePasswordChanged) json_utf8 (\<lambda>code _.
     must (code = 200) ''re-login cleanup should return 200'' (
     with_cookie net ''gl_csrf'' (\<lambda>csrfDel. must (csrfDel \<noteq> '''') ''csrf should exist after re-login for cleanup delete'' (
     do_ok net humanClient ''DELETE'' humanUserURL None (csrf_header csrfDel) (\<lambda>code _.
     must (code = 204) ''cleanup DELETE smoke user should return 204'' (
     at lib net base humanClient ''GET'' ''/api/v1/users'' None [] (\<lambda>code _.
     must (code = 401) ''after deleting user, GET /users with cookie should return 401'' k)))))))))))))))))))))))))))))))))))))))"

definition smoke_human ::
    "smoke_lib \<Rightarrow> 's network \<Rightarrow> string \<Rightarrow> string \<Rightarrow> string \<Rightarrow> header \<Rightarrow> string \<Rightarrow> 's script \<Rightarrow> 's script" where
  "smoke_human lib net base smokeEmail aliceUpdatedName bearer putURL k =
     at lib net base humanClient ''POST'' ''/api/v1/auth/register''
       (Some (JObj [(''email'', JStr smokeEmail), (''name'', JStr ''SmokeRun''), (''password'', JStr smokePasswordInitial)]))
       json_utf8 (\<lambda>code regRaw.
     if code = 403 then k
     else
       must (code = 201) ''register should return 201 when self-registration is enabled'' (
       must_read (read_id regRaw) ''register JSON'' (\<lambda>humanUserID.
       must (humanUserID > 0) ''register should return user id'' (
       join_then lib base (user_path humanUserID) (\<lambda>humanUserURL.
       smoke_session lib net base smokeEmail aliceUpdatedName bearer putURL humanUserURL k)))))"

definition read_bootstrap :: "json option \<Rightarrow> bool option option" where
  "read_bootstrap raw = Option.bind (data_members raw) (\<lambda>ms.
     Option.bind (dec_field (into_ptr into_struct []) ''bootstrap'' None ms) (\<lambda>b.
       case b of None \<Rightarrow> Some None | Some fs \<Rightarrow> map_option Some (bool_field ''temporary'' fs)))"

definition smoke_bootstrap :: "smoke_lib \<Rightarrow> 's network \<Rightarrow> string \<Rightarrow> 's script \<Rightarrow> 's script" where
  "smoke_bootstrap lib net base k =
     at lib net base httpClient ''POST'' ''/api/v1/auth/bootstrap'' (Some (JObj []))
       (mergeHdr json_header (hdr ''Origin'' ''http://localhost:4200'')) (\<lambda>code bootRaw.
     must (code = 200 \<or> code = 403) ''bootstrap should return 200 (enabled) or 403 (disabled)'' (
     if code = 200 then
       must_read (read_bootstrap bootRaw) ''bootstrap JSON'' (\<lambda>boot.
       must (boot \<noteq> None) ''bootstrap should include data.bootstrap deprecation object'' (
       must (boot = Some True) ''bootstrap.temporary should be true'' k))
     else k))"

definition TrimRight_slash :: "string \<Rightarrow> string" where
  "TrimRight_slash s = rev (dropWhile (\<lambda>c. c = CHR ''/'') (rev s))"

text \<open>\<open>main\<close>, for the values of its flags and the time of its start in nanoseconds.\<close>

definition smoketest ::
    "smoke_lib \<Rightarrow> (string \<Rightarrow> string) \<Rightarrow> string \<Rightarrow> string \<Rightarrow> string \<Rightarrow> int \<Rightarrow> 's network \<Rightarrow> 's script" where
  "smoketest lib getenv baseFlag clientID clientSecret nano net =
     (let base = TrimRight_slash (TrimSpace baseFlag) in
      case ParseBase lib base of
        None \<Rightarrow> exit_with ''smoketest: invalid -base URL''
      | Some api \<Rightarrow>
          if bu_Scheme api = '''' \<or> bu_Host api = '''' then exit_with ''smoketest: invalid -base URL''
          else if \<not> mustHostAllowed getenv (bu_Hostname api) then exit_with ''smoketest: host not allowed''
          else
            let runSuffix = Itoa nano;
                smokeEmail = ''smoke+'' @ runSuffix @ ''@example.com'';
                aliceName = ''SmokeAlice-'' @ runSuffix
            in smoke_probes lib net base (
               smoke_machine lib net base clientID clientSecret aliceName (\<lambda>bearer putURL.
               smoke_human lib net base smokeEmail (aliceName @ ''Updated'') bearer putURL (
               smoke_bootstrap lib net base pass))))"

section \<open>What a run that passes has seen\<close>

text \<open>
  \<open>upon k tr Q\<close>: where the script passes after the requests \<open>tr\<close>, \<open>Q\<close> holds of all
  the requests of the run.
\<close>

definition upon :: "'s script \<Rightarrow> (ask \<times> int) list \<Rightarrow> ((ask \<times> int) list \<Rightarrow> bool) \<Rightarrow> bool" where
  "upon k tr Q \<longleftrightarrow> (\<forall>s s'. trace s = tr \<longrightarrow> k s = (Passed, s') \<longrightarrow> Q (trace s'))"

named_theorems upon_intro \<open>how a passing script goes on\<close>

lemma upon_ends [upon_intro]: "upon (exit_with msg) tr Q" "Q tr \<Longrightarrow> upon pass tr Q"
  by (simp_all add: upon_def exit_with_def pass_def)

lemma upon_must [upon_intro]: "(b \<Longrightarrow> upon k tr Q) \<Longrightarrow> upon (must b msg k) tr Q"
  by (simp add: upon_def must_def exit_with_def)

lemma upon_answer:
  assumes "\<And>q code raw x y. send net q x = (Inr (code, raw), y) \<Longrightarrow> ask_client q = cl \<Longrightarrow> ask_method q = m \<Longrightarrow> ask_url q = url \<Longrightarrow>
    upon (k code raw) (tr @ [(q, code)]) Q"
  shows "upon (do_ok net cl m url b h k) tr Q"
  unfolding upon_def
proof (intro allI impI)
  fix s s' assume s: "trace s = tr" "do_ok net cl m url b h k s = (Passed, s')"
  let ?q = "\<lparr>ask_client = cl, ask_method = m, ask_url = url, ask_header = h, ask_body = b\<rparr>"
  from s(2) obtain code raw x where a: "send net ?q (peer s) = (Inr (code, raw), x)"
    and k: "k code raw (s\<lparr>peer := x, trace := trace s @ [(?q, code)]\<rparr>) = (Passed, s')"
    by (auto simp: do_ok_def Let_def exit_with_def split: prod.splits sum.splits)
  from assms [OF a] have "upon (k code raw) (tr @ [(?q, code)]) Q" by simp
  from this [unfolded upon_def, rule_format, OF _ k] s(1) show "Q (trace s')" by simp
qed

lemma upon_do [upon_intro]:
  assumes "\<And>q code raw. ask_client q = cl \<Longrightarrow> ask_method q = m \<Longrightarrow> ask_url q = url \<Longrightarrow> upon (k code raw) (tr @ [(q, code)]) Q"
  shows "upon (do_ok net cl m url b h k) tr Q"
  by (rule upon_answer) (rule assms)

lemma upon_join [upon_intro]:
  "(\<And>url. ResolveReference lib base path = Some url \<Longrightarrow> upon (k url) tr Q) \<Longrightarrow> upon (join_then lib base path k) tr Q"
  by (simp add: upon_def join_then_def split: option.split)

lemma upon_at [upon_intro]:
  assumes "\<And>url. ResolveReference lib base path = Some url \<Longrightarrow> upon (do_ok net cl m url b h k) tr Q"
  shows "upon (at lib net base cl m path b h k) tr Q"
  unfolding at_def by (rule upon_join) (rule assms)

lemma upon_cookie [upon_intro]: "(\<And>v. upon (k v) tr Q) \<Longrightarrow> upon (with_cookie net name k) tr Q"
  by (simp add: upon_def with_cookie_def)

lemma upon_read [upon_intro]: "(\<And>x. v = Some x \<Longrightarrow> upon (k x) tr Q) \<Longrightarrow> upon (must_read v msg k) tr Q"
  by (simp add: upon_def must_read_def must_def exit_with_def split: option.split)

lemma upon_if [upon_intro]: "(b \<Longrightarrow> upon k tr Q) \<Longrightarrow> (\<not> b \<Longrightarrow> upon l tr Q) \<Longrightarrow> upon (if b then k else l) tr Q"
  by simp

lemma upon_let [upon_intro]: "upon (k v) tr Q \<Longrightarrow> upon (Let v k) tr Q"
  by simp

lemma upon_prod [upon_intro]: "(\<And>a b. p = (a, b) \<Longrightarrow> upon (k a b) tr Q) \<Longrightarrow> upon (case p of (a, b) \<Rightarrow> k a b) tr Q"
  by (simp split: prod.split)

lemma upon_option [upon_intro]:
  "(v = None \<Longrightarrow> upon k tr Q) \<Longrightarrow> (\<And>x. v = Some x \<Longrightarrow> upon (l x) tr Q) \<Longrightarrow>
    upon (case v of None \<Rightarrow> k | Some x \<Rightarrow> l x) tr Q"
  by (simp split: option.split)

lemma upon_JSON [upon_intro]:
  assumes "\<And>q code v. ask_method q = ''GET'' \<Longrightarrow> upon (k v) (tr @ [(q, code)]) Q"
  shows "upon (getJSON lib net base path dec k) tr Q"
  unfolding getJSON_def by (intro upon_intro) (rule assms; simp)

lemma upon_PKCE [upon_intro]:
  assumes "\<And>v c. upon (k v c) tr Q"
  shows "upon (with_PKCE lib k) tr Q"
  using assms [unfolded upon_def, rule_format, rotated]
  by (fastforce simp: upon_def with_PKCE_def exit_with_def split: prod.splits sum.splits)

text \<open>
  The test's verifier and challenge pass the check of the service, and the errors about their
  lengths cannot happen.
\<close>

lemma randomPKCEPair_works:
  "randomPKCEPair err (Some bytes # ds) = (Inr (v, pkceS256 v), ds) \<and> length v = 43 \<and> length (pkceS256 v) = 43"
  if "v = b64_encode URLAlphabet (take 32 (bytes @ replicate 32 (CHR 0x00)))"
  using that by (simp add: randomPKCEPair_def pkceS256_def Let_def length_b64_encode)

text \<open>A request with this method and URL has been answered with this status.\<close>

definition asked :: "(ask \<times> int) list \<Rightarrow> client \<Rightarrow> string \<Rightarrow> string \<Rightarrow> int \<Rightarrow> bool" where
  "asked tr cl m url code \<longleftrightarrow> (\<exists>q. (q, code) \<in> set tr \<and> ask_client q = cl \<and> ask_method q = m \<and> ask_url q = url)"

lemma asked_simps [simp]:
  "\<not> asked [] cl m url code"
  "asked (tr @ tr') cl m url code \<longleftrightarrow> asked tr cl m url code \<or> asked tr' cl m url code"
  "asked ((q, c) # tr) cl m url code \<longleftrightarrow>
     c = code \<and> ask_client q = cl \<and> ask_method q = m \<and> ask_url q = url \<or> asked tr cl m url code"
  by (auto simp: asked_def)

text \<open>No request to delete something has had success.\<close>

definition no_deletion :: "(ask \<times> int) list \<Rightarrow> bool" where
  "no_deletion tr \<longleftrightarrow> (\<forall>(q, code)\<in>set tr. ask_method q = ''DELETE'' \<longrightarrow> code = 403)"

lemma no_deletion_simps [simp]:
  "no_deletion []"
  "no_deletion (tr @ tr') \<longleftrightarrow> no_deletion tr \<and> no_deletion tr'"
  "no_deletion ((q, code) # tr) \<longleftrightarrow> (ask_method q = ''DELETE'' \<longrightarrow> code = 403) \<and> no_deletion tr"
  by (auto simp: no_deletion_def)

text \<open>The phases of the test, by the requests they add.\<close>

lemma upon_probes:
  assumes "\<And>tr'. no_deletion tr' \<Longrightarrow> upon k (tr @ tr') Q"
  shows "upon (smoke_probes lib net base k) tr Q"
  unfolding smoke_probes_def
  by (intro upon_intro) (simp only: append_assoc append_Cons append_Nil; rule assms; simp)

lemma upon_machine:
  assumes "\<And>bearer uid url users tr'. no_deletion tr' \<Longrightarrow> 0 < uid \<Longrightarrow>
      ResolveReference lib base (user_path uid) = Some url \<Longrightarrow> asked tr' httpClient ''DELETE'' url 403 \<Longrightarrow>
      ResolveReference lib base ''/api/v1/users'' = Some users \<Longrightarrow> asked tr' httpClient ''POST'' users 201 \<Longrightarrow>
      upon (k bearer url) (tr @ tr') Q"
  shows "upon (smoke_machine lib net base cid sec alice k) tr Q"
  unfolding smoke_machine_def
  by (intro upon_intro) (simp only: append_assoc append_Cons append_Nil; rule assms; simp)

lemma upon_exchange:
  assumes "\<And>tr'. upon k (tr @ tr') Q"
  shows "upon (extras_exchange lib net base tok k) tr Q"
  unfolding extras_exchange_def
  by (intro upon_intro) (simp only: append_assoc append_Cons append_Nil; rule assms)

lemma upon_extras:
  assumes "\<And>tr'. upon k (tr @ tr') Q"
  shows "upon (runAuthSessionExtras lib net base email old new k) tr Q"
  unfolding runAuthSessionExtras_def
  by (intro upon_intro upon_exchange) (simp only: append_assoc append_Cons append_Nil; rule assms)

lemma upon_session:
  assumes "\<And>tr'. asked tr' humanClient ''DELETE'' url 204 \<Longrightarrow> asked tr' humanClient ''DELETE'' hurl 204 \<Longrightarrow> upon k (tr @ tr') Q"
  shows "upon (smoke_session lib net base email name bearer url hurl k) tr Q"
  unfolding smoke_session_def
  by (intro upon_intro upon_extras) (simp only: append_assoc append_Cons append_Nil; rule assms; simp)

lemma upon_human:
  assumes "\<And>tr'. no_deletion tr' \<Longrightarrow> upon k (tr @ tr') Q"
    and "\<And>tr' q raw x y uid hurl. send net q x = (Inr (201, raw), y) \<Longrightarrow> ask_method q = ''POST'' \<Longrightarrow>
      ResolveReference lib base ''/api/v1/auth/register'' = Some (ask_url q) \<Longrightarrow>
      ResolveReference lib base (user_path uid) = Some hurl \<Longrightarrow> 0 < uid \<Longrightarrow>
      asked tr' humanClient ''DELETE'' url 204 \<Longrightarrow> asked tr' humanClient ''DELETE'' hurl 204 \<Longrightarrow> upon k (tr @ tr') Q"
  shows "upon (smoke_human lib net base email name bearer url k) tr Q"
  unfolding smoke_human_def
proof (intro upon_at upon_answer upon_if upon_must upon_read upon_join upon_session, goal_cases)
  case (1 reg q code raw x y)
  then show ?case by (intro assms(1)) simp
next
  case (2 reg q code raw x y uid hurl tr')
  from assms(2) [of q x raw y uid hurl "(q, code) # tr'"] 2 show ?case by simp
qed

lemma upon_bootstrap:
  assumes "\<And>tr'. no_deletion tr' \<Longrightarrow> upon k (tr @ tr') Q"
  shows "upon (smoke_bootstrap lib net base k) tr Q"
  unfolding smoke_bootstrap_def by (intro upon_intro; rule assms; simp)


section \<open>The smoke test and the service\<close>

definition smoke_base :: "string \<Rightarrow> string" where
  "smoke_base baseFlag = TrimRight_slash (TrimSpace baseFlag)"

text \<open>Either nothing has been deleted, or a registration had success and both users are gone.\<close>

lemma smoketest_passes:
  fixes lib getenv flag cid sec nano and net :: "'s network"
  defines "base \<equiv> smoke_base flag"
  assumes "smoketest lib getenv flag cid sec nano net s = (Passed, s')" and "trace s = []"
  shows "\<exists>uid url users. 0 < uid \<and> ResolveReference lib base (user_path uid) = Some url \<and>
    ResolveReference lib base ''/api/v1/users'' = Some users \<and> asked (trace s') httpClient ''POST'' users 201 \<and>
    asked (trace s') httpClient ''DELETE'' url 403 \<and>
    (no_deletion (trace s') \<or>
     (\<exists>q raw x y uid' hurl. send net q x = (Inr (201, raw), y) \<and> ask_method q = ''POST'' \<and>
        ResolveReference lib base ''/api/v1/auth/register'' = Some (ask_url q) \<and> 0 < uid' \<and>
        ResolveReference lib base (user_path uid') = Some hurl \<and>
        asked (trace s') humanClient ''DELETE'' url 204 \<and> asked (trace s') humanClient ''DELETE'' hurl 204))"
    (is "?Q (trace s')")
proof -
  have "upon (smoketest lib getenv flag cid sec nano net) [] ?Q"
    unfolding smoketest_def Let_def smoke_base_def [symmetric] base_def [symmetric]
  proof (intro upon_option upon_if upon_ends(1) upon_probes upon_machine upon_human upon_bootstrap upon_ends(2), goal_cases)
    case (1 api t1 bearer uid url users t2 t3 t4)
    then show ?case by (intro exI [of _ uid] exI [of _ url] exI [of _ users]) simp
  next
    case (2 api t1 bearer uid url users t2 t3 q raw x y uid' hurl t4)
    then show ?case
      by (intro exI [of _ uid] exI [of _ url] exI [of _ users] conjI disjI2 exI [of _ q] exI [of _ raw] exI [of _ x] exI [of _ y]
          exI [of _ uid'] exI [of _ hurl]) simp_all
  qed
  with assms(2,3) show ?thesis unfolding upon_def by blast
qed

lemma register_refuses:
  assumes "setupRouter proxies_ok e = Inr rts" and "rt \<in> set rts" and "rt_path rt = ''/api/v1/auth/register''" and "\<not> aborted c"
  shows "status (serve rt r c) \<noteq> 201"
proof -
  let ?g = "run_chain (global_middleware e) r c"
  let ?hs = "v1_middleware e @ [NewFixedWindowLimiter ''auth_register'' 15 ''too many registration attempts'', RegisterUser (AppConfig e)]"
  from router_members [OF assms(1,2)] obtain rt0 hs p m where rt: "rt = route_of m p (global_middleware e @ hs)"
    and rt0: "rt0 \<in> set (probe_routes e) \<and> hs = rt_handlers rt0 \<and> p = rt_path rt0 \<or>
      rt0 \<in> set (v1_routes e) \<and> hs = v1_middleware e @ rt_handlers rt0 \<and> p = ''/api/v1'' @ rt_path rt0" .
  from rt assms(3) have p: "p = ''/api/v1/auth/register''" by simp
  have hs: "hs = ?hs"
    using rt0 by (auto simp: p probe_routes_def v1_routes_def auth_routes_def user_routes_def cp_reads_def cp_writes_def invite_route_def
        read_route_def write_route_def)
  have serve: "serve rt r c = (if aborted ?g then ?g else run_chain ?hs r ?g)"
    by (simp add: serve_def rt hs run_chain_append [OF assms(4)] Let_def)
  have stopped: "status ?g \<noteq> 201" if "aborted ?g"
    using global_on_the_way [OF assms(4), of r e] that by (auto simp: on_the_way_def stopped_early_def)
  have "post (\<lambda>c'. aborted c' \<longrightarrow> status c' \<noteq> 201) (CSRFCookieProtect (AppConfig e) r ?g)" if "\<not> aborted ?g"
    using that unfolding CSRFCookieProtect_def Let_def
    by (intro post_intro) (auto simp: post_def Abort_def respond_defs)
  moreover have "aborted (NewFixedWindowLimiter sc n msg r c1) \<longrightarrow> status (NewFixedWindowLimiter sc n msg r c1) \<noteq> 201"
    if "\<not> aborted c1" for sc n msg c1
  proof -
    have "limiter_mw (NewFixedWindowLimiter sc n msg)" unfolding limiter_mw_def by blast
    from limiter_frame(3) [OF this that, of r] show ?thesis by auto
  qed
  ultimately show ?thesis
    using stopped by (auto simp: serve v1_middleware_def post_def Let_def RegisterUser_def forbidden_def respond_defs)
qed


section \<open>A run that passes\<close>

definition demo_registration :: request where
  "demo_registration = demo_request ''POST'' ''/api/v1/auth/register'' (\<lambda>_. '''') None"

definition register_route :: route where
  "register_route = route_of ''POST'' ''/api/v1/auth/register'' (global_middleware demo_site @ v1_middleware demo_site @
     [NewFixedWindowLimiter ''auth_register'' 15 ''too many registration attempts'', RegisterUser (AppConfig demo_site)])"

lemma register_in_router: "\<exists>rts. setupRouter (\<lambda>_. True) demo_site = Inr rts \<and> register_route \<in> set rts"
proof -
  let ?r0 = "route_of ''POST'' ''/auth/register''
    [NewFixedWindowLimiter ''auth_register'' 15 ''too many registration attempts'', RegisterUser (AppConfig demo_site)]"
  have "?r0 \<in> set (v1_routes demo_site)" by (simp add: v1_routes_def auth_routes_def)
  from imageI [OF this, of "\<lambda>rt. route_of (rt_method rt) (''/api/v1'' @ rt_path rt) (global_middleware demo_site @
      v1_middleware demo_site @ rt_handlers rt)"]
  show ?thesis unfolding setupRouter_def register_route_def route_updates by (simp add: image_image)
qed

definition fresh_conn :: "conn \<Rightarrow> bool" where
  "fresh_conn c \<longleftrightarrow> \<not> aborted c \<and> limiters c = (\<lambda>_. demo_limiter) \<and> \<not> rl_client (redis c)"

lemma fresh_headers: "fresh_conn c \<Longrightarrow> fresh_conn (set_header k v c)" "fresh_conn c \<Longrightarrow> fresh_conn (c\<lparr>wld := w, request_id := i\<rparr>)"
    "fresh_conn c \<Longrightarrow> fresh_conn (c\<lparr>request_id := i\<rparr>)"
  by (simp_all add: fresh_conn_def set_header_def)

lemma fresh_global:
  assumes "fresh_conn c"
  shows "fresh_conn (requestid_Middleware demo_registration c)" "fresh_conn (SecurityHeaders demo_registration c)"
    "DynamicCORS os hs demo_registration c = c" "legacyAPIMiddleware demo_registration c = c"
    "CSRFCookieProtect cfg demo_registration c = c"
proof -
  have d: "rq_header demo_registration k = ''''" "rq_path demo_registration = ''/api/v1/auth/register''" for k
    by (simp_all add: demo_registration_def demo_request_def)
  show "fresh_conn (requestid_Middleware demo_registration c)"
    using assms by (simp add: requestid_Middleware_def d call_def Let_def fresh_headers fresh_conn_def set_header_def split: prod.split)
  show "fresh_conn (SecurityHeaders demo_registration c)" using assms by (simp add: SecurityHeaders_def fresh_headers)
  show "DynamicCORS os hs demo_registration c = c" by (simp add: DynamicCORS_def d Let_def)
  show "legacyAPIMiddleware demo_registration c = c"
    by (simp add: legacyAPIMiddleware_def d isUnversionedLegacyAPIPath_def HasPrefix_def)
  show "CSRFCookieProtect cfg demo_registration c = c"
    by (simp add: CSRFCookieProtect_def d CSRFExemptPathPrefixes_def HasPrefix_def)
qed

lemma register_answer: "status (serve register_route demo_registration (demo_conn demo_world)) = 403"
proof -
  let ?c1 = "SecurityHeaders demo_registration (requestid_Middleware demo_registration (demo_conn demo_world))"
  have "fresh_conn (demo_conn demo_world)" by (simp add: fresh_conn_def demo_conn_def)
  from fresh_global(1) [OF this] have r: "fresh_conn (requestid_Middleware demo_registration (demo_conn demo_world))" .
  from fresh_global(2) [OF this] have c1: "fresh_conn ?c1" .
  have l: "\<exists>L. NewFixedWindowLimiter ''auth_register'' 15 m demo_registration ?c1 = ?c1\<lparr>limiters := L\<rparr>" for m
    using c1 by (simp add: fresh_conn_def NewFixedWindowLimiter_def Let_def local_allow_def sweep_def demo_limiter_def) blast
  then obtain L where "NewFixedWindowLimiter ''auth_register'' 15 ''too many registration attempts'' demo_registration ?c1 =
    ?c1\<lparr>limiters := L\<rparr>" by blast
  moreover have "CORSAllowedOrigins (AppConfig demo_site) \<noteq> []" by (simp add: demo_site_def demo_config_def)
  ultimately show ?thesis
    using r c1 fresh_global(3-5) [OF c1]
    by (simp add: serve_def register_route_def global_middleware_def v1_middleware_def fresh_conn_def RegisterUser_def forbidden_def
        Let_def respond_defs)
qed

text \<open>A network that answers as the service does.\<close>

definition demo_reply :: "ask \<Rightarrow> int \<times> json option" where
  "demo_reply q =
     (if ask_method q = ''PUT'' \<or> ask_method q = ''DELETE'' then (403, None)
      else if ask_method q = ''POST'' then
        (if ask_url q = ''/api/v1/auth/token'' then
           (200, Some (JObj [(''data'', JObj [(''access_token'', JStr ''0123456789ab''), (''token_type'', JStr ''Bearer'')])]))
         else if ask_url q = ''/api/v1/users'' then
           (201, Some (JObj [(''data'', JObj [(''id'', JInt 5), (''name'', JStr (''SmokeAlice-'' @ Itoa 7)), (''pennies'', JInt 77)])]))
         else if ask_url q = ''/api/v1/auth/register'' then
           (status (serve register_route demo_registration (demo_conn demo_world)), None)
         else (403, None))
      else if ask_url q = ''/healthz'' then (200, Some (JObj [(''status'', JStr ''ok'')]))
      else if ask_url q = ''/readyz'' then (200, Some (JObj [(''status'', JStr ''ready'')]))
      else if ask_url q = ''/api/users'' then (410, None)
      else if ask_header q = [] then (401, None)
      else (200, Some (JObj [(''data'', JArr [JNull])])))"

definition demo_network :: "unit network" where
  "demo_network = \<lparr>send = (\<lambda>q x. (Inr (demo_reply q), x)), jar_cookies = (\<lambda>_. [])\<rparr>"

definition demo_lib :: smoke_lib where
  "demo_lib = \<lparr>ParseBase = (\<lambda>_. Some \<lparr>bu_Scheme = ''http'', bu_Host = ''localhost:5000'', bu_Hostname = ''localhost''\<rparr>),
     ResolveReference = (\<lambda>b p. Some p), QueryEscape = (\<lambda>s. s), ErrorText = ''''\<rparr>"

definition demo_start :: "unit smoke_run" where
  "demo_start = \<lparr>peer = (), dice = [], trace = []\<rparr>"

lemma demo_decoders:
  "read_status (Some (JObj [(''status'', JStr v)])) = Some v"
  "read_token (Some (JObj [(''data'', JObj [(''access_token'', JStr a), (''token_type'', JStr t)])])) = Some (a, t)"
  "read_user (Some (JObj [(''data'', JObj [(''id'', JInt 5), (''name'', JStr n), (''pennies'', JInt 77)])])) = Some (5, n, 77)"
  "data_slice (Some (JObj [(''data'', JArr xs)])) = Some xs"
  by (simp_all add: read_status_def read_token_def read_user_def data_slice_def data_members_def members_def str_field_def
      int_field_def EqualFold_ascii_def ascii_lower_def lower_char_def)

lemma demo_host: "mustHostAllowed (\<lambda>_. '''') ''localhost''"
  by (simp add: mustHostAllowed_def smoketestAllowedHosts_def loopback_hosts_def hostMatchesAllowlist_def Let_def
      trim_visible visible_def ascii_lower_def lower_char_def)

lemma demo_passes: "\<exists>s'. smoketest demo_lib (\<lambda>_. '''') ''http://localhost:5000'' ''id'' ''secret'' 7 demo_network demo_start = (Passed, s')"
proof -
  have "\<exists>s'. smoke_bootstrap demo_lib demo_network base pass s = (Passed, s')" for base s
    by (simp add: smoke_bootstrap_def at_def join_then_def demo_lib_def do_ok_def demo_network_def demo_reply_def Let_def must_def
        pass_def)
  then have "\<exists>s'. smoke_human demo_lib demo_network base e n b u (smoke_bootstrap demo_lib demo_network base pass) s = (Passed, s')"
    for base e n b u s
    by (simp add: smoke_human_def at_def join_then_def demo_lib_def do_ok_def demo_network_def demo_reply_def Let_def
        register_answer)
  then have "\<exists>s'. smoke_machine demo_lib demo_network base i c (''SmokeAlice-'' @ Itoa 7) (\<lambda>bearer putURL.
      smoke_human demo_lib demo_network base e n bearer putURL (smoke_bootstrap demo_lib demo_network base pass)) s = (Passed, s')"
    for base i c e n s
    by (simp add: smoke_machine_def at_def join_then_def demo_lib_def do_ok_def demo_network_def demo_reply_def Let_def must_def
        must_read_def demo_decoders hdr_def mergeHdr_def)
  then show ?thesis
    by (simp add: smoketest_def Let_def demo_lib_def demo_host smoke_probes_def getJSON_def at_def join_then_def do_ok_def
        demo_network_def demo_reply_def must_def demo_decoders)
qed


end
